(* ===== verification/Py_Prelude.thy ===== *)
theory Py_Prelude
  imports Main "HOL-Library.Word"
begin

unbundle bit_operations_syntax

text \<open>
  Shared ground of the development: the Python exceptions the modelled code can raise as
  values of a sum type, sequencing of fallible computations, Python slicing, indexing and
  \<^verbatim>\<open>range\<close>, and the generic list and word lemmas that the components use.

  Python integers are \<^typ>\<open>int\<close>, \<^verbatim>\<open>str\<close> is \<^typ>\<open>string\<close> (code points below 256),
  \<^verbatim>\<open>bytes\<close> is a list of \<^typ>\<open>8 word\<close>.
\<close>

named_theorems res_simps \<open>equations of the result type\<close>
named_theorems slice_simps \<open>Python slices as take and drop\<close>


section \<open>Exceptions as values\<close>

datatype py_error =
    ValueError | StructError | KeyError | IndexError | TypeError | AttributeError
  | NameError | UnboundLocalError | OverflowError | UnicodeDecodeError
  | ZeroDivisionError | SerialException | KeyboardInterrupt | SysExit | OtherException

type_synonym 'a res = "py_error + 'a"
type_synonym byte = "8 word"
type_synonym bytes = "byte list"

abbreviation ok :: "'a \<Rightarrow> 'e + 'a" where
  "ok \<equiv> Inr"

abbreviation raise :: "'e \<Rightarrow> 'e + 'a" where
  "raise \<equiv> Inl"

definition bind_res :: "'e + 'a \<Rightarrow> ('a \<Rightarrow> 'e + 'b) \<Rightarrow> 'e + 'b" where
  "bind_res m f = (case m of Inl e \<Rightarrow> Inl e | Inr x \<Rightarrow> f x)"

lemma bind_res_Inl [simp, res_simps]: "bind_res (Inl e) f = Inl e"
  by (simp add: bind_res_def)

lemma bind_res_Inr [simp, res_simps]: "bind_res (Inr x) f = f x"
  by (simp add: bind_res_def)

lemma bind_res_eq_Inr: "bind_res m f = Inr y \<longleftrightarrow> (\<exists>x. m = Inr x \<and> f x = Inr y)"
  by (cases m) auto

lemma bind_res_eq_Inl: "bind_res m f = Inl e \<longleftrightarrow> m = Inl e \<or> (\<exists>x. m = Inr x \<and> f x = Inl e)"
  by (cases m) auto

lemma bind_res_assoc: "bind_res (bind_res m f) g = bind_res m (\<lambda>x. bind_res (f x) g)"
  by (cases m) auto

text \<open>A comprehension or generator whose element expression may raise.\<close>

fun map_res :: "('a \<Rightarrow> 'e + 'b) \<Rightarrow> 'a list \<Rightarrow> 'e + 'b list" where
  "map_res f [] = Inr []"
| "map_res f (x # xs) = bind_res (f x) (\<lambda>y. bind_res (map_res f xs) (\<lambda>ys. Inr (y # ys)))"

lemma map_res_ok: "(\<And>x. x \<in> set xs \<Longrightarrow> f x = Inr (g x)) \<Longrightarrow> map_res f xs = Inr (map g xs)"
  by (induction xs) auto

lemma map_res_append:
  "map_res f (xs @ ys) = bind_res (map_res f xs) (\<lambda>us. bind_res (map_res f ys) (\<lambda>vs. Inr (us @ vs)))"
  by (induction xs) (auto simp: bind_res_def split: sum.splits)

lemma map_res_length: "map_res f xs = Inr ys \<Longrightarrow> length ys = length xs"
  by (induction xs arbitrary: ys) (auto simp: bind_res_eq_Inr)

lemma map_res_map: "map_res f (map g xs) = map_res (\<lambda>x. f (g x)) xs"
  by (induction xs) auto


section \<open>Sequences: length, slices, indexing, range\<close>

abbreviation len :: "'a list \<Rightarrow> int" where
  "len xs \<equiv> int (length xs)"

text \<open>A slice bound: negative bounds count from the end, and both ends are clipped.\<close>

definition py_clip :: "int \<Rightarrow> int \<Rightarrow> nat" where
  "py_clip n i = nat (let j = (if i < 0 then i + n else i) in max 0 (min n j))"

definition py_slice :: "'a list \<Rightarrow> int option \<Rightarrow> int option \<Rightarrow> 'a list" where
  "py_slice xs lo hi =
     (let a = (case lo of None \<Rightarrow> 0 | Some i \<Rightarrow> py_clip (len xs) i);
          b = (case hi of None \<Rightarrow> length xs | Some i \<Rightarrow> py_clip (len xs) i)
      in take (b - a) (drop a xs))"

definition py_index :: "'a list \<Rightarrow> int \<Rightarrow> 'a res" where
  "py_index xs i =
     (let j = (if i < 0 then i + len xs else i)
      in if 0 \<le> j \<and> j < len xs then Inr (xs ! nat j) else Inl IndexError)"

definition py_range :: "int \<Rightarrow> int \<Rightarrow> int \<Rightarrow> int list res" where
  "py_range a b s =
     (if s = 0 then Inl ValueError
      else if 0 < s then Inr (map (\<lambda>k. a + s * int k) [0 ..< nat ((b - a + s - 1) div s)])
      else Inr (map (\<lambda>k. a + s * int k) [0 ..< nat ((a - b - s - 1) div (- s))]))"

lemma py_clip_nonneg [simp]: "0 \<le> i \<Longrightarrow> py_clip (int n) i = min n (nat i)"
  by (simp add: py_clip_def)

lemma py_clip_neg [simp]: "i < 0 \<Longrightarrow> py_clip (int n) i = n - nat (- i)"
  by (auto simp: py_clip_def nat_eq_iff)

lemma slice_from_to [slice_simps]:
  "0 \<le> i \<Longrightarrow> 0 \<le> j \<Longrightarrow> py_slice xs (Some i) (Some j) = take (nat j - nat i) (drop (nat i) xs)"
proof -
  assume "0 \<le> i" "0 \<le> j"
  then have "py_slice xs (Some i) (Some j)
      = take (min (length xs) (nat j) - min (length xs) (nat i)) (drop (min (length xs) (nat i)) xs)"
    by (simp add: py_slice_def Let_def)
  also have "\<dots> = take (nat j - nat i) (drop (nat i) xs)"
    by (cases "nat i \<le> length xs") (auto simp: min_def take_all)
  finally show ?thesis .
qed

lemma slice_from [slice_simps]: "0 \<le> i \<Longrightarrow> py_slice xs (Some i) None = drop (nat i) xs"
  by (cases "nat i \<le> length xs") (auto simp: py_slice_def Let_def min_def)

lemma slice_to [slice_simps]: "0 \<le> j \<Longrightarrow> py_slice xs None (Some j) = take (nat j) xs"
  by (cases "nat j \<le> length xs") (auto simp: py_slice_def Let_def min_def)

lemma slice_last [slice_simps]:
  "i < 0 \<Longrightarrow> py_slice xs (Some i) None = drop (length xs - nat (- i)) xs"
  by (simp add: py_slice_def)

lemma slice_but_last [slice_simps]:
  "0 \<le> i \<Longrightarrow> j < 0 \<Longrightarrow>
     py_slice xs (Some i) (Some j) = take (length xs - nat (- j) - nat i) (drop (nat i) xs)"
  by (cases "nat i \<le> length xs") (auto simp: py_slice_def Let_def min_def)

lemma slice_init [slice_simps]:
  "j < 0 \<Longrightarrow> py_slice xs None (Some j) = take (length xs - nat (- j)) xs"
  by (simp add: py_slice_def)

lemma py_range_pos: "0 < s \<Longrightarrow>
    py_range 0 b s = Inr (map (\<lambda>k. s * int k) [0 ..< nat ((b + s - 1) div s)])"
  by (simp add: py_range_def)


section \<open>Splitting into blocks\<close>

text \<open>
  The reference notion behind every \<^verbatim>\<open>for i in range(0, len(s), n): s[i:i+n]\<close> of the code.
\<close>

function blocks :: "nat \<Rightarrow> 'a list \<Rightarrow> 'a list list" where
  "blocks n xs = (if n = 0 \<or> xs = [] then [] else take n xs # blocks n (drop n xs))"
  by pat_completeness auto
termination
  by (relation "measure (\<lambda>(n, xs). length xs)") (auto simp: diff_less)

declare blocks.simps [simp del]

lemma blocks_Nil [simp]: "blocks n [] = []"
  by (simp add: blocks.simps)

lemma blocks_unfold: "0 < n \<Longrightarrow> xs \<noteq> [] \<Longrightarrow> blocks n xs = take n xs # blocks n (drop n xs)"
  by (subst blocks.simps) simp

lemma blocks_Cons_block:
  "length x = n \<Longrightarrow> 0 < n \<Longrightarrow> blocks n (x @ ys) = x # blocks n ys"
  by (cases x) (auto simp: blocks_unfold)

lemma blocks_concat:
  "0 < n \<Longrightarrow> (\<And>x. x \<in> set xss \<Longrightarrow> length x = n) \<Longrightarrow> blocks n (concat xss) = xss"
  by (induction xss) (auto simp: blocks_Cons_block)

lemma concat_blocks: "0 < n \<Longrightarrow> concat (blocks n xs) = xs"
proof (induction n xs rule: blocks.induct)
  case (1 n xs)
  then show ?case
    by (cases "xs = []") (auto simp: blocks_unfold)
qed

lemma blocks_append:
  "0 < n \<Longrightarrow> n dvd length xs \<Longrightarrow> blocks n (xs @ ys) = blocks n xs @ blocks n ys"
proof (induction n xs rule: blocks.induct)
  case (1 n xs)
  show ?case
  proof (cases "xs = []")
    case False
    with "1.prems" have "n \<le> length xs"
      by (simp add: dvd_imp_le)
    moreover from this "1.prems" have "n dvd length (drop n xs)"
      by (simp add: dvd_diff_nat)
    ultimately show ?thesis
      using "1.IH" "1.prems" False by (simp add: blocks_unfold)
  qed simp
qed

lemma blocks_length: "0 < n \<Longrightarrow> length (blocks n xs) = (length xs + n - 1) div n"
proof (induction n xs rule: blocks.induct)
  case (1 n xs)
  show ?case
  proof (cases "xs = []")
    case False
    show ?thesis
    proof (cases "n \<le> length xs")
      case True
      with False "1.IH" "1.prems" have "length (blocks n xs) = Suc ((length xs - 1) div n)"
        by (simp add: blocks_unfold)
      also have "\<dots> = (length xs - 1 + n) div n"
        using "1.prems" by (simp add: div_add_self2)
      finally show ?thesis
        using False by (cases xs) auto
    next
      case small: False
      with False "1.prems" have "length (blocks n xs) = 1"
        by (simp add: blocks_unfold)
      moreover have "(length xs + n - 1) div n = 1"
        using small False "1.prems" by (cases xs) (auto intro!: div_nat_eqI)
      ultimately show ?thesis by simp
    qed
  qed (use "1.prems" in simp)
qed

lemma blocks_nth:
  "0 < n \<Longrightarrow> k < length (blocks n xs) \<Longrightarrow> blocks n xs ! k = take n (drop (k * n) xs)"
proof (induction n xs arbitrary: k rule: blocks.induct)
  case (1 n xs)
  show ?case
  proof (cases "xs = []")
    case False
    with 1 show ?thesis
      by (cases k) (auto simp: blocks_unfold add.commute)
  qed (use "1.prems" in simp)
qed

text \<open>The loop shape of the code computes the blocks.\<close>

lemma concat_take_blocks:
  "0 < n \<Longrightarrow> k \<le> length (blocks n xs) \<Longrightarrow> concat (take k (blocks n xs)) = take (n * k) xs"
proof (induction n xs arbitrary: k rule: blocks.induct)
  case (1 n xs)
  show ?case
  proof (cases "xs = [] \<or> k = 0")
    case False
    then obtain j where k: "k = Suc j" by (cases k) auto
    have "blocks n xs = take n xs # blocks n (drop n xs)" using False 1 by (simp add: blocks_unfold)
    then show ?thesis using False 1 by (simp add: k take_add)
  qed auto
qed

lemma range_slices_eq_blocks:
  assumes "0 < n"
  shows "bind_res (py_range 0 (len xs) n)
           (\<lambda>is. Inr (map (\<lambda>i. py_slice xs (Some i) (Some (i + n))) is)) = Inr (blocks (nat n) xs)"
proof -
  let ?m = "nat ((len xs + n - 1) div n)"
  have m: "?m = length (blocks (nat n) xs)"
    using assms by (simp add: blocks_length nat_div_distrib' nat_diff_distrib' nat_add_distrib zdiv_int nat_eq_iff of_nat_diff)
  have "map (\<lambda>k. py_slice xs (Some (n * int k)) (Some (n * int k + n))) [0 ..< ?m] = blocks (nat n) xs"
  proof (rule nth_equalityI)
    fix k assume "k < length (map (\<lambda>k. py_slice xs (Some (n * int k)) (Some (n * int k + n))) [0 ..< ?m])"
    then have "k < length (blocks (nat n) xs)"
      using m by simp
    then show "map (\<lambda>k. py_slice xs (Some (n * int k)) (Some (n * int k + n))) [0 ..< ?m] ! k
        = blocks (nat n) xs ! k"
      using assms m by (simp add: blocks_nth slice_from_to nat_mult_distrib nat_add_distrib mult.commute)
  qed (simp add: m)
  then show ?thesis
    using assms by (simp add: py_range_pos comp_def)
qed

end
