(* ===== verification/Py_Struct.thy ===== *)
theory Py_Struct
  imports Py_Prelude
begin

text \<open>
  The \<^verbatim>\<open>struct\<close> formats of the code and \<^verbatim>\<open>int.from_bytes(_, byteorder='big')\<close>: packing checks
  the range of its argument and raises \<^verbatim>\<open>struct.error\<close> outside it; packing and reading back
  is the identity.
\<close>

definition byte_of :: "int \<Rightarrow> byte" where
  "byte_of n = word_of_int n"

definition pack_B :: "int \<Rightarrow> bytes res" where
  "pack_B n = (if 0 \<le> n \<and> n < 256 then Inr [byte_of n] else Inl StructError)"

definition pack_be_H :: "int \<Rightarrow> bytes res" where
  "pack_be_H n = (if 0 \<le> n \<and> n < 65536 then Inr [byte_of (n div 256), byte_of n] else Inl StructError)"

definition pack_le_H :: "int \<Rightarrow> bytes res" where
  "pack_le_H n = (if 0 \<le> n \<and> n < 65536 then Inr [byte_of n, byte_of (n div 256)] else Inl StructError)"

definition pack_le_I :: "int \<Rightarrow> bytes res" where
  "pack_le_I n =
     (if 0 \<le> n \<and> n < 4294967296
      then Inr [byte_of n, byte_of (n div 256), byte_of (n div 65536), byte_of (n div 16777216)]
      else Inl StructError)"

definition pack_be_I :: "int \<Rightarrow> bytes res" where
  "pack_be_I n =
     (if 0 \<le> n \<and> n < 4294967296
      then Inr [byte_of (n div 16777216), byte_of (n div 65536), byte_of (n div 256), byte_of n]
      else Inl StructError)"

definition from_bytes_big :: "bytes \<Rightarrow> int" where
  "from_bytes_big bs = foldl (\<lambda>a b. a * 256 + uint b) 0 bs"

definition from_bytes_little :: "bytes \<Rightarrow> int" where
  "from_bytes_little bs = from_bytes_big (rev bs)"

lemma uint_byte_of: "uint (byte_of n) = n mod 256"
  by (simp add: byte_of_def uint_word_of_int)

lemma uint_byte_of_range [simp]: "0 \<le> n \<Longrightarrow> n < 256 \<Longrightarrow> uint (byte_of n) = n"
  by (simp add: uint_byte_of)

lemma byte_of_uint [simp]: "byte_of (uint b) = b"
  by (simp add: byte_of_def)

lemma uint_byte_bounds: "0 \<le> uint (b :: byte)" "uint (b :: byte) < 256"
  using uint_lt2p [of b] by auto

lemma pack_B_uint [simp]: "pack_B (uint (b :: byte)) = Inr [b]"
  using uint_byte_bounds [of b] by (simp add: pack_B_def)

lemma four_byte_digits:
  "16777216 * (n div 16777216) + 65536 * (n div 65536 mod 256) + n div 256 mod 256 * 256 + n mod 256 = (n::int)"
proof -
  have d: "n div 65536 = n div 256 div 256" "n div 16777216 = n div 256 div 256 div 256"
    by (simp_all add: zdiv_zmult2_eq [symmetric])
  have "n = 256 * a + r0 \<Longrightarrow> a = 256 * b + r1 \<Longrightarrow> b = 256 * c + r2 \<Longrightarrow>
      16777216 * c + 65536 * r2 + r1 * 256 + r0 = n" for a b c r0 r1 r2 :: int
    by simp
  then show ?thesis
    unfolding d by rule (rule mult_div_mod_eq [symmetric] refl)+
qed

lemma pack_be_H_round_trip: "pack_be_H n = Inr bs \<Longrightarrow> from_bytes_big bs = n"
  by (auto simp: pack_be_H_def from_bytes_big_def uint_byte_of split: if_splits)

lemma pack_le_H_round_trip: "pack_le_H n = Inr bs \<Longrightarrow> from_bytes_little bs = n"
  by (auto simp: pack_le_H_def from_bytes_little_def from_bytes_big_def uint_byte_of split: if_splits)

lemma pack_le_I_round_trip: "pack_le_I n = Inr bs \<Longrightarrow> from_bytes_little bs = n"
  by (auto simp: pack_le_I_def from_bytes_little_def from_bytes_big_def uint_byte_of four_byte_digits split: if_splits)

lemma pack_be_I_round_trip: "pack_be_I n = Inr bs \<Longrightarrow> from_bytes_big bs = n"
  by (auto simp: pack_be_I_def from_bytes_big_def uint_byte_of four_byte_digits split: if_splits)

lemma pack_lengths:
  "pack_be_H n = Inr bs \<Longrightarrow> length bs = 2"
  "pack_le_H n = Inr bs \<Longrightarrow> length bs = 2"
  "pack_le_I n = Inr bs \<Longrightarrow> length bs = 4"
  "pack_be_I n = Inr bs \<Longrightarrow> length bs = 4"
  by (auto simp: pack_be_H_def pack_le_H_def pack_le_I_def pack_be_I_def split: if_splits)

end
