(* ===== verification/Checksum.thy ===== *)
theory Checksum
  imports Py_Struct
begin

text \<open>
  The contract of an eight-bit cancelling checksum. Three routines of the repository
  compute one, each with its own expression: the longitudinal redundancy check of the Modbus
  gateway, the message checksum and the Intel HEX record checksum of the flash programmer.
  What their users rely on is stated and proved once, here, from the two laws of the
  interface.
\<close>

definition byte_sum :: "bytes \<Rightarrow> int" where
  "byte_sum bs = sum_list (map uint bs)"

lemma byte_sum_simps [simp]:
  "byte_sum [] = 0" "byte_sum (b # bs) = uint b + byte_sum bs"
  "byte_sum (bs @ cs) = byte_sum bs + byte_sum cs"
  by (simp_all add: byte_sum_def)

lemma byte_sum_nonneg: "0 \<le> byte_sum bs"
  by (induction bs) (auto simp: uint_byte_bounds)

lemma dvd_256_diff:
  "0 \<le> x \<Longrightarrow> x < 256 \<Longrightarrow> 0 \<le> y \<Longrightarrow> y < 256 \<Longrightarrow> 256 dvd x - y \<Longrightarrow> x = (y :: int)"
  by (simp add: mod_eq_dvd_iff [symmetric])

locale cancelling_checksum =
  fixes ck :: "int \<Rightarrow> int"
  assumes ck_range: "0 \<le> ck s \<and> ck s < 256"
    and ck_cancels: "(s + ck s) mod 256 = 0"
begin

lemma ck_unique:
  assumes "0 \<le> c" "c < 256"
  shows "(s + c) mod 256 = 0 \<longleftrightarrow> c = ck s"
proof
  assume "(s + c) mod 256 = 0"
  with ck_cancels [of s] have "256 dvd (s + c) - (s + ck s)"
    by (intro dvd_diff) (simp_all only: mod_eq_0_iff_dvd)
  then have "256 dvd c - ck s" by simp
  then show "c = ck s"
    using assms ck_range [of s] by (intro dvd_256_diff) auto
qed (use ck_cancels in simp)

lemma ck_eq_iff: "ck s = ck t \<longleftrightarrow> s mod 256 = t mod 256"
proof -
  have "ck s = ck t \<longleftrightarrow> (t + ck s) mod 256 = 0"
    using ck_unique [of "ck s" t] ck_range [of s] by simp
  also have "\<dots> \<longleftrightarrow> (t + ck s) mod 256 = (s + ck s) mod 256"
    by (simp add: ck_cancels)
  also have "\<dots> \<longleftrightarrow> t mod 256 = s mod 256"
    using mod_add_cong [of t 256 s "ck s" "ck s"] mod_diff_cong [of "t + ck s" 256 "s + ck s" "ck s" "ck s"]
    by auto
  finally show ?thesis by auto
qed

lemma ck_mod: "ck s = (- s) mod 256"
proof -
  have "(s + (- s) mod 256) mod 256 = 0"
    by (simp add: mod_simps)
  then show ?thesis
    using ck_unique [of "(- s) mod 256" s] by simp
qed

text \<open>Replacing one byte of the covered data by another always changes the checksum.\<close>

lemma ck_detects_byte: "ck (s + uint (b :: byte)) = ck (s + uint c) \<longleftrightarrow> b = c"
proof
  assume "ck (s + uint b) = ck (s + uint c)"
  then have "256 dvd (s + uint b) - (s + uint c)"
    by (simp add: ck_eq_iff mod_eq_dvd_iff)
  then have "uint b = uint c"
    by (intro dvd_256_diff) (simp_all add: uint_byte_bounds)
  then show "b = c" by (simp only: word_uint_eq_iff)
qed simp

text \<open>A sequence of bytes sealed by its checksum sums to zero modulo 256.\<close>

lemma sealed_sum: "byte_sum (bs @ [byte_of (ck (byte_sum bs))]) mod 256 = 0"
  using ck_cancels [of "byte_sum bs"] ck_range [of "byte_sum bs"] by simp

lemma sealed_detects:
  assumes "b \<noteq> c"
  shows "byte_sum (xs @ c # ys @ [byte_of (ck (byte_sum (xs @ b # ys)))]) mod 256 \<noteq> 0"
proof
  let ?k = "ck (byte_sum (xs @ b # ys))"
  assume "byte_sum (xs @ c # ys @ [byte_of ?k]) mod 256 = 0"
  moreover have "byte_sum (xs @ c # ys @ [byte_of ?k]) = byte_sum (xs @ c # ys) + uint (byte_of ?k)"
    by simp
  moreover have "uint (byte_of ?k) = ?k"
    using ck_range by simp
  ultimately have "(byte_sum (xs @ c # ys) + ?k) mod 256 = 0"
    by (simp only:)
  then have "?k = ck (byte_sum (xs @ c # ys))"
    using ck_unique [of ?k "byte_sum (xs @ c # ys)"] ck_range [of "byte_sum (xs @ b # ys)"]
    by (simp only:)
  then have "ck (byte_sum xs + byte_sum ys + uint b) = ck (byte_sum xs + byte_sum ys + uint c)"
    by (simp add: ac_simps)
  with assms show False by (simp add: ck_detects_byte)
qed

end

text \<open>
  The expression \<^verbatim>\<open>((s ^ 0xFF) + 1) & 0xFF\<close> of the gateway and of the programmer is the two's
  complement of the low byte.
\<close>

lemma xor_low_byte_neg: "((s XOR 255) + 1) AND 255 = (- s) mod (256 :: int)"
proof -
  have m: "a AND 255 = a mod 256" for a :: int
    using take_bit_eq_mask [of 8 a] by (simp add: take_bit_eq_mod) (simp add: mask_eq_exp_minus_1)
  have "(s XOR 255) mod 256 = (NOT s) mod 256"
  proof -
    have "take_bit 8 (255 :: int) = take_bit 8 (- 1)"
      by (simp add: mask_eq_exp_minus_1)
    then have "take_bit 8 (s XOR 255) = take_bit 8 (s XOR - 1)"
      by (simp only: take_bit_xor)
    then show ?thesis
      by (simp add: take_bit_eq_mod)
  qed
  then have "((s XOR 255) + 1) mod 256 = (NOT s + 1) mod 256"
    by (metis mod_add_left_eq)
  then show ?thesis
    by (simp add: m not_eq_complement)
qed

end
