(* ===== verification/Py_Text.thy ===== *)
theory Py_Text
  imports Py_Prelude
begin

text \<open>
  The text layer of Python that the code uses: \<^verbatim>\<open>int(s, base)\<close>, \<^verbatim>\<open>str(n)\<close>,
  \<^verbatim>\<open>'{:02x}'.format(n)\<close>, \<^verbatim>\<open>str.upper\<close>, \<^verbatim>\<open>str.split\<close>, and the \<^verbatim>\<open>struct\<close> formats
  \<^verbatim>\<open>B\<close>, \<^verbatim>\<open>H\<close> and \<^verbatim>\<open>I\<close> with \<^verbatim>\<open>int.from_bytes\<close>. The main facts are the round trips between
  numbers and their texts.
\<close>

named_theorems digit_simps \<open>digits of the text of a number\<close>


section \<open>Reading integers\<close>

definition is_space :: "char \<Rightarrow> bool" where
  "is_space c = (let n = (of_char c :: int) in 9 \<le> n \<and> n \<le> 13 \<or> n = 32 \<or> n = 133 \<or> n = 160)"

definition py_strip :: "string \<Rightarrow> string" where
  "py_strip s = rev (dropWhile is_space (rev (dropWhile is_space s)))"

definition digit_val :: "int \<Rightarrow> char \<Rightarrow> int option" where
  "digit_val b c =
     (let n = (of_char c :: int);
          d = (if 48 \<le> n \<and> n \<le> 57 then n - 48
               else if 97 \<le> n \<and> n \<le> 122 then n - 87
               else if 65 \<le> n \<and> n \<le> 90 then n - 55
               else b)
      in if d < b then Some d else None)"

text \<open>
  The digits of a literal: single underscores may stand between digits. The flag says
  whether the character before was a digit.
\<close>

fun int_digits :: "int \<Rightarrow> int \<Rightarrow> bool \<Rightarrow> string \<Rightarrow> int option" where
  "int_digits b acc after [] = (if after then Some acc else None)"
| "int_digits b acc after (c # cs) =
     (if c = CHR ''_'' then (if after then int_digits b acc False cs else None)
      else (case digit_val b c of None \<Rightarrow> None | Some d \<Rightarrow> int_digits b (acc * b + d) True cs))"

definition drop_sign :: "string \<Rightarrow> int \<times> string" where
  "drop_sign s = (case s of
      [] \<Rightarrow> (1, s)
    | c # cs \<Rightarrow> if c = CHR ''-'' then (-1, cs) else if c = CHR ''+'' then (1, cs) else (1, s))"

definition drop_hex_prefix :: "string \<Rightarrow> string" where
  "drop_hex_prefix s =
     (if take 2 s = ''0x'' \<or> take 2 s = ''0X''
      then (if take 1 (drop 2 s) = ''_'' then drop 3 s else drop 2 s) else s)"

definition py_int :: "int \<Rightarrow> string \<Rightarrow> int res" where
  "py_int b s =
     (let (sg, t) = drop_sign (py_strip s);
          u = (if b = 16 then drop_hex_prefix t else t)
      in case int_digits b 0 False u of None \<Rightarrow> Inl ValueError | Some n \<Rightarrow> Inr (sg * n))"

lemma py_int_error: "py_int b s = Inl e \<Longrightarrow> e = ValueError"
  by (auto simp: py_int_def Let_def split: prod.splits option.splits)

lemma digit_val_bounds: "digit_val b c = Some d \<Longrightarrow> 0 \<le> d \<and> d < b"
  by (auto simp: digit_val_def Let_def split: if_splits)

lemma digit_val_not_special:
  assumes "digit_val b c = Some d" "b \<le> 16"
  shows "c \<noteq> CHR ''_''" and "c \<noteq> CHR ''-''" and "c \<noteq> CHR ''+''"
    and "c \<noteq> CHR ''x''" and "c \<noteq> CHR ''X''" and "\<not> is_space c"
  using assms by (auto simp: digit_val_def is_space_def Let_def split: if_splits)

lemma int_digits_all:
  assumes "\<forall>c \<in> set s. digit_val b c = Some (f c)" "b \<le> 16" "s \<noteq> [] \<or> after"
  shows "int_digits b acc after s = Some (foldl (\<lambda>a c. a * b + f c) acc s)"
  using assms
proof (induction s arbitrary: acc after)
  case (Cons c cs)
  then have "digit_val b c = Some (f c)" by simp
  moreover from this Cons.prems(2) have "c \<noteq> CHR ''_''"
    by (rule digit_val_not_special)
  ultimately show ?case
    using Cons by simp
qed simp

lemma py_strip_id: "(\<And>c. c \<in> set s \<Longrightarrow> \<not> is_space c) \<Longrightarrow> py_strip s = s"
proof -
  assume "\<And>c. c \<in> set s \<Longrightarrow> \<not> is_space c"
  then have "dropWhile is_space s = s" "dropWhile is_space (rev s) = rev s"
    by (auto simp: dropWhile_eq_self_iff hd_rev)
  then show ?thesis by (simp add: py_strip_def)
qed

lemma py_int_digits:
  assumes dig: "\<forall>c \<in> set s. digit_val b c = Some (f c)" and b: "b \<le> 16" and ne: "s \<noteq> []"
  shows "py_int b s = Inr (foldl (\<lambda>a c. a * b + f c) 0 s)"
proof -
  have strip: "py_strip s = s"
    using dig b by (intro py_strip_id) (auto dest: digit_val_not_special)
  have sign: "drop_sign s = (1, s)"
    using dig b ne by (cases s) (auto simp: drop_sign_def dest: digit_val_not_special)
  have pre: "drop_hex_prefix s = s"
  proof (cases s)
    case (Cons c cs)
    then show ?thesis
      using dig b by (cases cs) (auto simp: drop_hex_prefix_def dest: digit_val_not_special)
  qed (simp add: drop_hex_prefix_def)
  show ?thesis
    using int_digits_all [OF dig b, of False 0] ne by (auto simp: py_int_def strip sign pre)
qed


section \<open>Printing integers\<close>

definition digit_char :: "nat \<Rightarrow> char" where
  "digit_char d = (if d < 10 then char_of (48 + d) else char_of (87 + d))"

fun to_base :: "nat \<Rightarrow> nat \<Rightarrow> string" where
  "to_base b n = (if b < 2 \<or> n < b then [digit_char n] else to_base b (n div b) @ [digit_char (n mod b)])"

declare to_base.simps [simp del]

definition py_str :: "int \<Rightarrow> string" where
  "py_str n = (if n < 0 then ''-'' @ to_base 10 (nat (- n)) else to_base 10 (nat n))"

definition py_hex :: "int \<Rightarrow> string" where
  "py_hex n = (if n < 0 then ''-0x'' @ to_base 16 (nat (- n)) else ''0x'' @ to_base 16 (nat n))"

definition fmt_02x :: "int \<Rightarrow> string" where
  "fmt_02x n =
     (if n < 0 then ''-'' @ to_base 16 (nat (- n))
      else let h = to_base 16 (nat n) in replicate (2 - length h) (CHR ''0'') @ h)"

definition upper_char :: "char \<Rightarrow> char" where
  "upper_char c = (if (97::nat) \<le> of_char c \<and> of_char c \<le> (122::nat) then char_of (of_char c - (32::nat)) else c)"

definition py_upper :: "string \<Rightarrow> string" where
  "py_upper s = map upper_char s"

lemma of_char_digit:
  "d < 16 \<Longrightarrow> (of_char (digit_char d) :: nat) = (if d < 10 then 48 + d else 87 + d)"
  by (simp add: digit_char_def)

lemma of_char_upper_digit:
  "d < 16 \<Longrightarrow> (of_char (upper_char (digit_char d)) :: nat) = (if d < 10 then 48 + d else 55 + d)"
  by (simp add: upper_char_def of_char_digit)

lemma digit_val_code:
  "digit_val b c = (let n = int (of_char c) in
     let d = (if 48 \<le> n \<and> n \<le> 57 then n - 48 else if 97 \<le> n \<and> n \<le> 122 then n - 87
              else if 65 \<le> n \<and> n \<le> 90 then n - 55 else b)
     in if d < b then Some d else None)"
  unfolding digit_val_def of_nat_of_char by (rule refl)

lemma digit_val_digit_char [digit_simps]:
  "d < b \<Longrightarrow> b \<le> 16 \<Longrightarrow> digit_val (int b) (digit_char d) = Some (int d)"
  by (simp add: digit_val_code of_char_digit Let_def del: of_nat_of_char)

lemma digit_val_upper_digit [digit_simps]:
  "d < b \<Longrightarrow> b \<le> 16 \<Longrightarrow> digit_val (int b) (upper_char (digit_char d)) = Some (int d)"
  by (simp add: digit_val_code of_char_upper_digit Let_def del: of_nat_of_char)

lemma to_base_ne [simp]: "to_base b n \<noteq> []"
  by (subst to_base.simps) simp

lemma to_base_digits: "2 \<le> b \<Longrightarrow> c \<in> set (to_base b n) \<Longrightarrow> \<exists>d<b. c = digit_char d"
proof (induction b n rule: to_base.induct)
  case (1 b n)
  show ?case
  proof (cases "n < b")
    case True
    with "1.prems" show ?thesis by (auto simp: to_base.simps [of b n])
  next
    case False
    with "1.prems" consider "c \<in> set (to_base b (n div b))" | "c = digit_char (n mod b)"
      by (auto simp: to_base.simps [of b n])
    then show ?thesis
    proof cases
      case 1
      with "1.IH" "1.prems" False show ?thesis by simp
    next
      case 2
      moreover have "n mod b < b" using "1.prems" by simp
      ultimately show ?thesis by auto
    qed
  qed
qed

lemma foldl_to_base:
  assumes "2 \<le> b" "\<And>d. d < b \<Longrightarrow> f (digit_char d) = int d"
  shows "foldl (\<lambda>a c. a * int b + f c) 0 (to_base b n) = int n"
  using assms
proof (induction b n rule: to_base.induct)
  case (1 b n)
  show ?case
  proof (cases "n < b")
    case True
    with "1.prems" show ?thesis by (simp add: to_base.simps [of b n])
  next
    case False
    then have "foldl (\<lambda>a c. a * int b + f c) 0 (to_base b (n div b)) = int (n div b)"
      using 1 by simp
    with False "1.prems" show ?thesis
      by (simp add: to_base.simps [of b n] flip: of_nat_mult of_nat_add)
  qed
qed

text \<open>Reading back what \<^verbatim>\<open>str\<close> printed, for the decimal texts of the tools.\<close>

lemma py_int_to_base:
  assumes "2 \<le> b" "b \<le> 16"
  shows "py_int (int b) (to_base b n) = Inr (int n)"
proof -
  let ?f = "\<lambda>c. the (digit_val (int b) c)"
  have "\<forall>c \<in> set (to_base b n). digit_val (int b) c = Some (?f c)"
    using assms by (auto dest!: to_base_digits simp: digit_simps)
  then have "py_int (int b) (to_base b n) = Inr (foldl (\<lambda>a c. a * int b + ?f c) 0 (to_base b n))"
    using assms by (intro py_int_digits) auto
  then show ?thesis
    using assms foldl_to_base [of b ?f n] by (simp add: digit_simps)
qed

lemma py_int_str: "0 \<le> n \<Longrightarrow> py_int 10 (py_str n) = Inr n"
  using py_int_to_base [of 10 "nat n"] by (simp add: py_str_def)


section \<open>Two-digit hexadecimal bytes\<close>

lemma to_base_small: "n < b \<Longrightarrow> to_base b n = [digit_char n]"
  by (simp add: to_base.simps)

lemma to_base_two: "b \<le> n \<Longrightarrow> n < b * b \<Longrightarrow> 2 \<le> b \<Longrightarrow>
    to_base b n = [digit_char (n div b), digit_char (n mod b)]"
  by (simp add: to_base.simps [of b n] to_base_small less_mult_imp_div_less)

lemma fmt_02x_byte:
  assumes "0 \<le> n" "n < 256"
  shows "fmt_02x n = [digit_char (nat n div 16), digit_char (nat n mod 16)]"
proof (cases "n < 16")
  case True
  with assms have "nat n < 16" by simp
  moreover have "CHR ''0'' = digit_char 0" by (simp add: digit_char_def) code_simp
  ultimately show ?thesis
    using assms by (simp add: fmt_02x_def to_base_small)
next
  case False
  then show ?thesis
    using assms by (simp add: fmt_02x_def to_base_two)
qed

lemma length_fmt_02x: "0 \<le> n \<Longrightarrow> n < 256 \<Longrightarrow> length (fmt_02x n) = 2"
  by (simp add: fmt_02x_byte)

lemma py_int_upper_byte:
  assumes "0 \<le> n" "n < 256"
  shows "py_int 16 (py_upper (fmt_02x n)) = Inr n"
proof -
  let ?f = "\<lambda>c. the (digit_val 16 c)"
  have d: "digit_val 16 (upper_char (digit_char (nat n div 16))) = Some (int (nat n div 16))"
    "digit_val 16 (upper_char (digit_char (nat n mod 16))) = Some (int (nat n mod 16))"
    using assms digit_val_upper_digit [of "nat n div 16" 16] digit_val_upper_digit [of "nat n mod 16" 16]
    by auto
  then have "py_int 16 (py_upper (fmt_02x n)) = Inr (foldl (\<lambda>a c. a * 16 + ?f c) 0 (py_upper (fmt_02x n)))"
    using assms by (intro py_int_digits) (auto simp: py_upper_def fmt_02x_byte)
  also have "foldl (\<lambda>a c. a * 16 + ?f c) 0 (py_upper (fmt_02x n)) = n"
    using assms d by (simp add: py_upper_def fmt_02x_byte zdiv_int zmod_int)
  finally show ?thesis .
qed


section \<open>Splitting and searching\<close>

text \<open>\<^verbatim>\<open>s.split(c)\<close> for a one-character separator: never empty, keeps empty fields.\<close>

fun py_split :: "char \<Rightarrow> string \<Rightarrow> string list" where
  "py_split c [] = [[]]"
| "py_split c (x # xs) =
     (if x = c then [] # py_split c xs
      else (case py_split c xs of [] \<Rightarrow> [[x]] | f # fs \<Rightarrow> (x # f) # fs))"

text \<open>\<^verbatim>\<open>c.join(fields)\<close>.\<close>

fun py_join :: "string \<Rightarrow> string list \<Rightarrow> string" where
  "py_join sep [] = []"
| "py_join sep [f] = f"
| "py_join sep (f # g # fs) = f @ sep @ py_join sep (g # fs)"

lemma py_split_ne [simp]: "py_split c s \<noteq> []"
  by (cases s) (auto split: list.splits)

lemma py_split_no_sep: "c \<notin> set s \<Longrightarrow> py_split c s = [s]"
  by (induction s) auto

lemma py_split_append:
  "c \<notin> set f \<Longrightarrow> py_split c (f @ c # s) = f # py_split c s"
  by (induction f) auto

lemma py_split_join:
  "fs \<noteq> [] \<Longrightarrow> (\<And>f. f \<in> set fs \<Longrightarrow> c \<notin> set f) \<Longrightarrow> py_split c (py_join [c] fs) = fs"
proof (induction fs rule: induct_list012)
  case (3 f g fs)
  then show ?case by (simp add: py_split_append)
qed (auto simp: py_split_no_sep)

lemma py_join_Cons: "fs \<noteq> [] \<Longrightarrow> py_join sep (f # fs) = f @ sep @ py_join sep fs"
  by (cases fs) auto

lemma py_join_push: "py_join sep ((x # f) # fs) = x # py_join sep (f # fs)"
  by (cases fs) auto

lemma py_join_split: "py_join [c] (py_split c s) = s"
  by (induction s) (auto simp: py_join_Cons py_join_push split: list.splits)

lemma py_split_fields: "f \<in> set (py_split c s) \<Longrightarrow> c \<notin> set f"
proof (induction s arbitrary: f)
  case (Cons x s)
  then show ?case
    by (cases "py_split c s") (auto split: if_splits)
qed simp

text \<open>\<^verbatim>\<open>s.find(sub)\<close>: the first position of \<^verbatim>\<open>sub\<close>, or -1.\<close>

fun py_find :: "string \<Rightarrow> string \<Rightarrow> int" where
  "py_find sub [] = (if sub = [] then 0 else - 1)"
| "py_find sub (c # cs) =
     (if take (length sub) (c # cs) = sub then 0
      else let r = py_find sub cs in if r = - 1 then - 1 else r + 1)"

lemma py_find_char: "c \<notin> set p \<Longrightarrow> py_find [c] (p @ c # s) = len p"
  by (induction p) (auto simp: Let_def)

text \<open>\<^verbatim>\<open>s.rstrip()\<close>, whose notion of white space includes the separators 28 to 31.\<close>

definition is_strip_space :: "char \<Rightarrow> bool" where
  "is_strip_space c = (is_space c \<or> (let n = (of_char c :: nat) in 28 \<le> n \<and> n \<le> 31))"

definition py_rstrip :: "string \<Rightarrow> string" where
  "py_rstrip s = rev (dropWhile is_strip_space (rev s))"

definition drop_blanks :: "string \<Rightarrow> string" where
  "drop_blanks s = filter (\<lambda>c. c \<noteq> CHR '' '') s"

end
