(* ===== verification/Hex_Text.thy ===== *)
theory Hex_Text
  imports Py_Text Py_Struct
begin

text \<open>
  Bytes written as pairs of upper-case hexadecimal digits, the text that Modbus ASCII frames
  and Intel HEX records are made of, and how Python's \<^verbatim>\<open>int(_, 16)\<close> reads such texts back.
\<close>

definition byte_range :: "int \<Rightarrow> bool" where
  "byte_range n \<longleftrightarrow> 0 \<le> n \<and> n < 256"

lemma uint_byte_range [simp]: "byte_range (uint (b :: byte))"
  by (simp add: byte_range_def uint_byte_bounds)

text \<open>One byte as two upper-case hexadecimal digits.\<close>

definition hex2 :: "int \<Rightarrow> string" where
  "hex2 n = py_upper (fmt_02x n)"

lemma py_upper_append [simp]: "py_upper (s @ t) = py_upper s @ py_upper t"
  by (simp add: py_upper_def)

lemma py_upper_concat: "py_upper (concat ss) = concat (map py_upper ss)"
  by (induction ss) (simp_all add: py_upper_def)

lemma py_upper_colon [simp]: "py_upper (CHR '':'' # s) = CHR '':'' # py_upper s"
  by (simp add: py_upper_def upper_char_def)

lemma length_hex2 [simp]: "0 \<le> n \<Longrightarrow> n < 256 \<Longrightarrow> length (hex2 n) = 2"
  by (simp add: hex2_def py_upper_def length_fmt_02x)

lemma length_hex2_byte [simp]: "length (hex2 (uint (b :: byte))) = 2"
  by (rule length_hex2) (rule uint_byte_bounds)+

lemma py_int_hex2 [simp]: "0 \<le> n \<Longrightarrow> n < 256 \<Longrightarrow> py_int 16 (hex2 n) = ok n"
  by (simp add: hex2_def py_int_upper_byte)

lemma py_int_hex2_byte [simp]: "py_int 16 (hex2 (uint (b :: byte))) = ok (uint b)"
  by (rule py_int_hex2) (rule uint_byte_bounds)+

definition hex_bytes :: "bytes \<Rightarrow> string" where
  "hex_bytes bs = concat (map (\<lambda>b. hex2 (uint b)) bs)"

lemma length_hex_bytes [simp]: "length (hex_bytes bs) = 2 * length bs"
  by (induction bs) (auto simp: hex_bytes_def)

lemma hex_bytes_simps [simp]:
  "hex_bytes [] = []" "hex_bytes (b # bs) = hex2 (uint b) @ hex_bytes bs"
  "hex_bytes (bs @ cs) = hex_bytes bs @ hex_bytes cs"
  by (simp_all add: hex_bytes_def)

lemma blocks_hex_bytes: "blocks 2 (hex_bytes bs) = map (\<lambda>b. hex2 (uint b)) bs"
  unfolding hex_bytes_def by (rule blocks_concat) auto

lemma map_res_hex_bytes: "map_res (py_int 16) (blocks 2 (hex_bytes bs)) = ok (map uint bs)"
  by (simp add: blocks_hex_bytes map_res_map map_res_ok)

lemma map_res_pack_B: "map_res pack_B (map uint bs) = ok (map (\<lambda>b. [b]) bs)"
  by (simp add: map_res_map map_res_ok)

lemma hex2_two:
  assumes "byte_range n"
  obtains x y where "hex2 n = [x, y]"
proof -
  from assms have "length (hex2 n) = Suc (Suc 0)"
    by (simp add: byte_range_def)
  then show ?thesis
    by (auto simp only: length_Suc_conv length_0_conv intro: that)
qed

definition is_upper_hex :: "char \<Rightarrow> bool" where
  "is_upper_hex c = (let n = (of_char c :: nat) in 48 \<le> n \<and> n \<le> 57 \<or> 65 \<le> n \<and> n \<le> 70)"

lemma upper_digit_hex: "d < 16 \<Longrightarrow> is_upper_hex (upper_char (digit_char d))"
  by (simp add: is_upper_hex_def of_char_upper_digit Let_def)

lemma hex2_upper_hex: "byte_range n \<Longrightarrow> \<forall>c \<in> set (hex2 n). is_upper_hex c"
  by (auto simp: byte_range_def hex2_def fmt_02x_byte py_upper_def intro!: upper_digit_hex)

lemma hex_bytes_upper_hex: "\<forall>c \<in> set (hex_bytes bs). is_upper_hex c"
  by (induction bs) (auto dest: hex2_upper_hex [rule_format, rotated])


section \<open>Longer numbers\<close>

lemma hex_bytes_ne: "bs \<noteq> [] \<Longrightarrow> hex_bytes bs \<noteq> []"
  by (metis length_0_conv length_hex_bytes mult_eq_0_iff zero_neq_numeral)

lemma hex2_digits:
  assumes "byte_range n"
  shows "\<forall>c \<in> set (hex2 n). digit_val 16 c = Some (the (digit_val 16 c))"
    and "foldl (\<lambda>a c. a * 16 + the (digit_val 16 c)) acc (hex2 n) = acc * 256 + n"
proof -
  have d: "digit_val 16 (upper_char (digit_char (nat n div 16))) = Some (int (nat n div 16))"
    "digit_val 16 (upper_char (digit_char (nat n mod 16))) = Some (int (nat n mod 16))"
    using assms digit_val_upper_digit [of "nat n div 16" 16] digit_val_upper_digit [of "nat n mod 16" 16]
    by (auto simp: byte_range_def)
  then show "\<forall>c \<in> set (hex2 n). digit_val 16 c = Some (the (digit_val 16 c))"
    using assms by (auto simp: byte_range_def hex2_def fmt_02x_byte py_upper_def)
  show "foldl (\<lambda>a c. a * 16 + the (digit_val 16 c)) acc (hex2 n) = acc * 256 + n"
    using assms d by (simp add: byte_range_def hex2_def fmt_02x_byte py_upper_def zdiv_int zmod_int)
qed

lemma foldl_hex_bytes:
  "foldl (\<lambda>a c. a * 16 + the (digit_val 16 c)) acc (hex_bytes bs) = foldl (\<lambda>a b. a * 256 + uint b) acc bs"
  by (induction bs arbitrary: acc) (simp_all add: hex2_digits)

lemma py_int_hex_bytes:
  assumes "bs \<noteq> []"
  shows "py_int 16 (hex_bytes bs) = ok (from_bytes_big bs)"
proof -
  have "\<forall>c \<in> set (hex_bytes bs). digit_val 16 c = Some (the (digit_val 16 c))"
    by (induction bs) (use hex2_digits(1) [OF uint_byte_range] in auto)
  then show ?thesis
    using py_int_digits [of "hex_bytes bs" 16 "\<lambda>c. the (digit_val 16 c)"] assms hex_bytes_ne
    by (simp add: foldl_hex_bytes from_bytes_big_def)
qed

lemma from_bytes_big_pair: "from_bytes_big [x, y] = uint x * 256 + uint y"
  by (simp add: from_bytes_big_def)

end
