(* ===== verification/Modbus.thy ===== *)
theory Modbus
  imports Checksum Hex_Text
begin

text \<open>
  The package \<^verbatim>\<open>gateway_daemon.modbus\<close>: the function codes, the generator \<^verbatim>\<open>chunks\<close>, and the
  codec \<^verbatim>\<open>parse\<close> and \<^verbatim>\<open>build\<close> of Modbus ASCII frames, each translated statement by statement,
  with \<^verbatim>\<open>parse\<close> able to raise at every conversion. Then: the frames \<^verbatim>\<open>build\<close> makes, what \<^verbatim>\<open>parse\<close>
  makes of them, the exceptions \<^verbatim>\<open>parse\<close> can raise and the damage it detects.
\<close>

section \<open>The code\<close>

definition READ_HOLDING_REGISTER :: int where
  "READ_HOLDING_REGISTER = 0x03"

definition READ_COILS :: int where
  "READ_COILS = 0x01"

definition WRITE_HOLDING_REGISTER :: int where
  "WRITE_HOLDING_REGISTER = 0x06"

definition WRITE_SINGLE_COIL :: int where
  "WRITE_SINGLE_COIL = 0x05"

definition chunks :: "'a list \<Rightarrow> int \<Rightarrow> 'a list list res" where
  "chunks sequence n =
     bind_res (py_range 0 (len sequence) n)
       (\<lambda>is. ok (map (\<lambda>i. py_slice sequence (Some i) (Some (i + n))) is))"

definition string_chunks :: "string \<Rightarrow> int \<Rightarrow> string list res" where
  "string_chunks s n = bind_res (chunks s n) (\<lambda>cs. ok (map (\<lambda>pieces. concat (map (\<lambda>c. [c]) pieces)) cs))"

text \<open>The expression that both \<^verbatim>\<open>parse\<close> and \<^verbatim>\<open>build\<close> apply to the sum of the bytes.\<close>

definition lrc_of :: "int \<Rightarrow> int" where
  "lrc_of s = ((s XOR 0xFF) + 1) AND 0xFF"

text \<open>The tuple \<^verbatim>\<open>address, command, data, coordinates, mac_hash, scale\<close>.\<close>

type_synonym parsed = "int \<times> int \<times> bytes \<times> string \<times> string \<times> string"

definition parse :: "string \<Rightarrow> parsed res" where
  "parse message =
     (if len message \<le> 0 then raise ValueError
      else if message ! 0 \<noteq> CHR '':'' then raise ValueError
      else
        bind_res (py_int 16 (py_slice message (Some 1) (Some 3))) (\<lambda>address.
        bind_res (py_int 16 (py_slice message (Some 3) (Some 5))) (\<lambda>command.
        bind_res (py_int 16 (py_slice message (Some 5) (Some 7))) (\<lambda>size.
        let data = py_slice message (Some 7) (Some (- 2));
            coordinates = py_slice message (Some 15) None;
            mac_hash = py_slice message (Some 55) None;
            scale = py_slice message (Some 65) None
        in
        bind_res (string_chunks data 2) (\<lambda>pieces.
        bind_res (map_res (py_int 16) pieces) (\<lambda>byte_list.
        bind_res (map_res pack_B byte_list) (\<lambda>packed.
        let data' = concat packed;
            expected_lrc = lrc_of (address + command + size + sum_list byte_list)
        in
        bind_res (py_int 16 (py_slice message (Some (- 2)) None)) (\<lambda>lrc.
        bind_res (py_index message (- 2)) (\<lambda>_.
        bind_res (py_index message (- 1)) (\<lambda>_.
        if expected_lrc \<noteq> lrc then raise ValueError
        else ok (address, command, data', coordinates, mac_hash, scale)))))))))))"

definition build :: "int \<Rightarrow> int \<Rightarrow> bytes \<Rightarrow> string" where
  "build address command byte_list =
     (let encoded_data = concat (map (\<lambda>b. fmt_02x (uint b)) byte_list);
          lrc = lrc_of (address + command + sum_list (map uint byte_list))
      in py_upper ('':'' @ fmt_02x address @ fmt_02x command @ encoded_data @ fmt_02x lrc)
           @ [CHR 0x0D, CHR 0x0A])"


section \<open>The longitudinal redundancy check\<close>

lemma lrc_of_neg: "lrc_of s = (- s) mod 256"
  by (simp add: lrc_of_def xor_low_byte_neg)

interpretation lrc: cancelling_checksum lrc_of
  by unfold_locales (simp_all add: lrc_of_neg mod_simps)


section \<open>Chunks\<close>

lemma chunks_blocks: "0 < n \<Longrightarrow> chunks xs n = ok (blocks (nat n) xs)"
  unfolding chunks_def by (rule range_slices_eq_blocks)

lemma concat_singletons [simp]: "concat (map (\<lambda>c. [c]) s) = s"
  by (induction s) auto

lemma string_chunks_blocks: "0 < n \<Longrightarrow> string_chunks s n = ok (blocks (nat n) s)"
  by (simp add: string_chunks_def chunks_blocks)


section \<open>Frames\<close>

lemma build_frame:
  "build a c bs = '':'' @ hex2 a @ hex2 c @ hex_bytes bs @ hex2 (lrc_of (a + c + byte_sum bs))
     @ [CHR 0x0D, CHR 0x0A]"
  by (simp add: build_def Let_def hex2_def hex_bytes_def py_upper_concat comp_def byte_sum_def)

text \<open>A frame in the layout \<^verbatim>\<open>parse\<close> reads: colon, address, command, size, data, check byte.\<close>

definition frame :: "int \<Rightarrow> int \<Rightarrow> int \<Rightarrow> bytes \<Rightarrow> int \<Rightarrow> string" where
  "frame a c s bs l = '':'' @ hex2 a @ hex2 c @ hex2 s @ hex_bytes bs @ hex2 l"

lemma lrc_byte_range [simp]: "byte_range (lrc_of s)"
  using lrc.ck_range by (simp add: byte_range_def)

lemma frame_slices:
  fixes bs :: bytes
  assumes "byte_range a" "byte_range c" "byte_range s" "byte_range l"
  defines "m \<equiv> frame a c s bs l"
  shows "py_slice m (Some 1) (Some 3) = hex2 a" "py_slice m (Some 3) (Some 5) = hex2 c"
    "py_slice m (Some 5) (Some 7) = hex2 s" "py_slice m (Some 7) (Some (- 2)) = hex_bytes bs"
    "py_slice m (Some (- 2)) None = hex2 l" "length m = 9 + 2 * length bs" "m ! 0 = CHR '':''"
proof -
  obtain a1 a2 c1 c2 s1 s2 l1 l2 where h: "hex2 a = [a1, a2]" "hex2 c = [c1, c2]" "hex2 s = [s1, s2]"
      "hex2 l = [l1, l2]"
    using assms by (metis hex2_two)
  have m: "m = [CHR '':'', a1, a2, c1, c2, s1, s2] @ hex_bytes bs @ [l1, l2]"
    by (simp add: m_def frame_def h)
  show "py_slice m (Some 1) (Some 3) = hex2 a" "py_slice m (Some 3) (Some 5) = hex2 c"
    "py_slice m (Some 5) (Some 7) = hex2 s" "py_slice m (Some 7) (Some (- 2)) = hex_bytes bs"
    "py_slice m (Some (- 2)) None = hex2 l" "length m = 9 + 2 * length bs" "m ! 0 = CHR '':''"
    by (simp_all add: m h slice_simps)
qed

lemma py_index_ok: "- len xs \<le> i \<Longrightarrow> i < len xs \<Longrightarrow> \<exists>x. py_index xs i = ok x"
  by (simp add: py_index_def Let_def)

text \<open>What \<^verbatim>\<open>parse\<close> does with a frame: it accepts exactly the right check byte.\<close>

lemma parse_frame:
  assumes "byte_range a" "byte_range c" "byte_range s" "byte_range l"
  shows "parse (frame a c s bs l) =
    (if l = lrc_of (a + c + s + byte_sum bs)
     then ok (a, c, bs, drop 15 (frame a c s bs l), drop 55 (frame a c s bs l), drop 65 (frame a c s bs l))
     else raise ValueError)"
proof -
  let ?m = "frame a c s bs l"
  note sl = frame_slices [OF assms, of bs]
  obtain x y where ix: "py_index ?m (- 2) = ok x" "py_index ?m (- 1) = ok y"
    using py_index_ok [of ?m "- 2"] py_index_ok [of ?m "- 1"] sl(6) by auto
  show ?thesis
    using assms sl(6)
    by (simp add: parse_def sl ix Let_def string_chunks_blocks map_res_hex_bytes map_res_pack_B byte_range_def
        slice_from byte_sum_def)
qed


text \<open>
  \<^verbatim>\<open>chunks\<close> cuts a sequence into consecutive pieces for every positive size: putting the
  pieces together gives the sequence back, there are as many as the rounded-up quotient, and
  the piece at index k is the n elements from position k n (fewer at the very end).
\<close>

theorem chunks_partition:
  assumes "0 < n"
  shows "\<exists>cs. chunks xs n = ok cs \<and> concat cs = xs
    \<and> length cs = (length xs + nat n - 1) div nat n
    \<and> (\<forall>k. k < length cs \<longrightarrow> cs ! k = take (nat n) (drop (k * nat n) xs))"
  using assms by (simp add: chunks_blocks concat_blocks blocks_length blocks_nth)

theorem chunks_partition_witness:
  "\<exists>cs. chunks [1, 2, 3, 4, 5 :: nat] 2 = ok cs \<and> concat cs = [1, 2, 3, 4, 5]
    \<and> length cs = 3 \<and> (\<forall>k. k < 3 \<longrightarrow> cs ! k = take 2 (drop (k * 2) [1, 2, 3, 4, 5]))"
  using chunks_partition [of 2 "[1, 2, 3, 4, 5 :: nat]"] by auto


section \<open>What build makes and what parse accepts\<close>

text \<open>
  C11: For an address and a command of one byte each, \<^verbatim>\<open>build\<close> makes a Modbus ASCII frame: a
  colon, an even number of upper-case hexadecimal digits (two for the address, two for the
  command, two for every data byte, two for the check byte) and a carriage return and line
  feed; and all the encoded bytes, check byte included, sum to zero modulo 256.
\<close>

theorem build_well_formed:
  assumes "byte_range address" "byte_range command"
  shows "\<exists>body. build address command data = '':'' @ body @ [CHR 0x0D, CHR 0x0A]
    \<and> length body = 2 * (3 + length data) \<and> list_all is_upper_hex body
    \<and> (\<exists>vs. map_res (py_int 16) (blocks 2 body) = ok vs \<and> sum_list vs mod 256 = 0
         \<and> take 2 vs = [address, command])"
proof -
  let ?l = "lrc_of (address + command + byte_sum data)"
  let ?vs = "address # command # map uint data @ [?l]"
  let ?body = "concat (map hex2 ?vs)"
  have rng: "byte_range v" if "v \<in> set ?vs" for v
    using that assms by auto
  have "build address command data = '':'' @ ?body @ [CHR 0x0D, CHR 0x0A]"
    by (simp add: build_frame hex_bytes_def comp_def)
  moreover have "length ?body = 2 * (3 + length data)"
    using assms length_hex_bytes [of data] lrc_byte_range [of "address + command + byte_sum data"]
    by (simp add: byte_range_def hex_bytes_def comp_def)
  moreover have "list_all is_upper_hex ?body"
    using rng hex2_upper_hex by (auto simp: list_all_iff)
  moreover have "blocks 2 ?body = map hex2 ?vs"
    using rng by (intro blocks_concat) (auto simp: byte_range_def)
  then have "map_res (py_int 16) (blocks 2 ?body) = ok ?vs"
    using rng map_res_ok [of ?vs "\<lambda>v. py_int 16 (hex2 v)" "\<lambda>v. v"]
    by (simp only: map_res_map) (auto simp: byte_range_def)
  moreover have "sum_list ?vs mod 256 = 0"
    using lrc.ck_cancels [of "address + command + byte_sum data"] by (simp add: byte_sum_def ac_simps)
  ultimately show ?thesis by fastforce
qed

theorem build_well_formed_witness:
  "\<exists>body. build 0xA0 3 [0x61, 0x62] = '':'' @ body @ [CHR 0x0D, CHR 0x0A] \<and> length body = 10"
  using build_well_formed [of "0xA0" 3 "[0x61, 0x62]"] by (auto simp: byte_range_def)


text \<open>The value \<^verbatim>\<open>parse\<close> returns or the exception it raises, as one readable case distinction.\<close>

definition fields_of :: "string \<Rightarrow> (int \<times> int \<times> int \<times> int list) res" where
  "fields_of m =
     bind_res (py_int 16 (take 2 (drop 1 m))) (\<lambda>a.
     bind_res (py_int 16 (take 2 (drop 3 m))) (\<lambda>c.
     bind_res (py_int 16 (take 2 (drop 5 m))) (\<lambda>s.
     bind_res (map_res (py_int 16) (blocks 2 (take (length m - 9) (drop 7 m)))) (\<lambda>vs.
     ok (a, c, s, vs)))))"

lemma py_int_Nil [simp]: "py_int b [] = raise ValueError"
  by (simp add: py_int_def py_strip_def drop_sign_def drop_hex_prefix_def)

lemma map_res_pack_B_cases:
  "map_res pack_B vs =
     (if list_all byte_range vs then ok (map (\<lambda>v. [byte_of v]) vs) else raise StructError)"
  by (induction vs) (auto simp: pack_B_def byte_range_def)

lemma map_res_py_int_error: "map_res (py_int b) ss = raise e \<Longrightarrow> e = ValueError"
  by (induction ss) (auto simp: bind_res_eq_Inl dest: py_int_error)

lemma fields_of_error: "fields_of m = raise e \<Longrightarrow> e = ValueError"
  by (auto simp: fields_of_def bind_res_eq_Inl dest: py_int_error map_res_py_int_error)

lemma fields_of_long:
  assumes "fields_of m = ok f"
  shows "6 \<le> length m"
proof (rule ccontr)
  assume "\<not> 6 \<le> length m"
  with assms show False by (simp add: fields_of_def bind_res_eq_Inr)
qed

lemma map_uint_byte_of: "list_all byte_range vs \<Longrightarrow> map uint (map byte_of vs) = vs"
  by (induction vs) (auto simp: byte_range_def)

lemma parse_cases:
  "parse m =
     (if m = [] \<or> m ! 0 \<noteq> CHR '':'' then raise ValueError
      else bind_res (fields_of m) (\<lambda>(a, c, s, vs).
        if \<not> list_all byte_range vs then raise StructError
        else bind_res (py_int 16 (drop (length m - 2) m)) (\<lambda>l.
          if lrc_of (a + c + s + sum_list vs) \<noteq> l then raise ValueError
          else ok (a, c, map byte_of vs, drop 15 m, drop 55 m, drop 65 m))))"
proof (cases "m = [] \<or> m ! 0 \<noteq> CHR '':''")
  case True
  then show ?thesis by (auto simp: parse_def)
next
  case False
  show ?thesis
  proof (cases "fields_of m")
    case (Inl e)
    with False show ?thesis
      by (auto simp: parse_def fields_of_def Let_def string_chunks_blocks slice_simps bind_res_def
          split: sum.splits)
  next
    case (Inr f)
    then have "6 \<le> length m" by (rule fields_of_long)
    then obtain x y where ix: "py_index m (- 2) = ok x" "py_index m (- 1) = ok y"
      using py_index_ok [of m "- 2"] py_index_ok [of m "- 1"] by auto
    have cc: "concat (map (\<lambda>v. [byte_of v]) vs) = map byte_of vs" for vs
      by (induction vs) auto
    obtain a c s vs where f: "f = (a, c, s, vs)" by (cases f)
    from Inr f have "py_int 16 (take 2 (drop 1 m)) = ok a" "py_int 16 (take 2 (drop 3 m)) = ok c"
      "py_int 16 (take 2 (drop 5 m)) = ok s"
      "map_res (py_int 16) (blocks 2 (take (length m - 9) (drop 7 m))) = ok vs"
      by (auto simp: fields_of_def bind_res_eq_Inr)
    then show ?thesis
      using False Inr f
      by (simp add: parse_def Let_def string_chunks_blocks slice_simps ix map_res_pack_B_cases cc cong: if_cong)
  qed
qed

text \<open>
  C4: Whatever \<^verbatim>\<open>parse\<close> accepts starts with a colon; the returned address and command and a
  size field are the hexadecimal numbers at positions 1, 3 and 5; the returned data are the
  hexadecimal pairs from position 7 up to the last two characters, so their number is fixed
  by the length of the message and not by its size field; the last two characters are a
  check byte for which address, command, size, data and check byte sum to zero modulo 256;
  and coordinates, hash and scale are the texts from positions 15, 55 and 65 to the end.
\<close>

theorem parse_sound:
  assumes "parse m = ok (a, c, d, coordinates, mac_hash, scale)"
  shows "\<exists>size lrc. m ! 0 = CHR '':'' \<and> fields_of m = ok (a, c, size, map uint d)
    \<and> py_int 16 (drop (length m - 2) m) = ok lrc \<and> 0 \<le> lrc \<and> lrc < 256
    \<and> (a + c + size + byte_sum d + lrc) mod 256 = 0 \<and> length d = (length m - 8) div 2
    \<and> coordinates = drop 15 m \<and> mac_hash = drop 55 m \<and> scale = drop 65 m"
proof -
  from assms have colon: "m ! 0 = CHR '':''"
    by (auto simp: parse_cases split: if_splits)
  from assms obtain size vs l where f: "fields_of m = ok (a, c, size, vs)" "list_all byte_range vs"
      "py_int 16 (drop (length m - 2) m) = ok l" "lrc_of (a + c + size + sum_list vs) = l"
    and d: "d = map byte_of vs" and r: "coordinates = drop 15 m" "mac_hash = drop 55 m" "scale = drop 65 m"
    by (auto simp: parse_cases bind_res_eq_Inr split: if_splits)
  have vs: "map uint d = vs"
    using f(2) d map_uint_byte_of by blast
  have "(a + c + size + byte_sum d + l) mod 256 = 0"
    using lrc.ck_cancels [of "a + c + size + sum_list vs"] f(4) vs by (simp add: byte_sum_def)
  moreover have "0 \<le> l \<and> l < 256"
    using lrc.ck_range f(4) by blast
  moreover have "length vs = length (blocks 2 (take (length m - 9) (drop 7 m)))"
    using f(1) by (auto simp: fields_of_def bind_res_eq_Inr dest: map_res_length)
  then have "length d = (length m - 8) div 2"
    using d fields_of_long [OF f(1)] by (simp add: blocks_length)
  ultimately show ?thesis
    using colon f(1,3) vs r by (intro exI [of _ size] exI [of _ l]) simp
qed


theorem parse_sound_witness:
  "parse '':0103020A0BE5'' = ok (1, 3, [10, 11], [], [], [])
    \<and> (\<exists>size lrc. fields_of '':0103020A0BE5'' = ok (1, 3, size, [10, 11])
          \<and> py_int 16 ''E5'' = ok lrc \<and> 256 dvd 25 + size + lrc)"
proof -
  have p: "parse '':0103020A0BE5'' = ok (1, 3, [10, 11], [], [], [])"
    by code_simp
  show ?thesis
    using p parse_sound [OF p] by (auto simp: byte_sum_def)
qed

lemma parse_error_kinds: "parse m = raise e \<Longrightarrow> e = ValueError \<or> e = StructError"
  by (auto simp: parse_cases bind_res_eq_Inl dest: fields_of_error py_int_error split: if_splits)

text \<open>
  C10: The exceptions of \<^verbatim>\<open>parse\<close> are exactly these: it raises nothing but ValueError and
  struct.error (the two characters it prints always exist), and struct.error precisely when
  the message starts with a colon, all its fields read as integers and some data pair reads
  as a number outside a byte.
\<close>

theorem parse_errors:
  "(\<forall>e. parse m = raise e \<longrightarrow> e = ValueError \<or> e = StructError)
   \<and> (parse m = raise StructError \<longleftrightarrow>
        m \<noteq> [] \<and> m ! 0 = CHR '':'' \<and> (\<exists>a c s vs. fields_of m = ok (a, c, s, vs) \<and> \<not> list_all byte_range vs))"
proof (cases "fields_of m")
  case (Inl e)
  then have "e = ValueError" by (rule fields_of_error)
  with Inl show ?thesis by (auto simp: parse_cases)
next
  case (Inr f)
  obtain a c s vs where f: "f = (a, c, s, vs)" by (cases f)
  show ?thesis
  proof (cases "py_int 16 (drop (length m - 2) m)")
    case last: (Inl e)
    then have "e = ValueError" by (rule py_int_error)
    with Inr f last show ?thesis by (auto simp: parse_cases)
  next
    case last: (Inr l)
    with Inr f show ?thesis by (auto simp: parse_cases)
  qed
qed

theorem parse_errors_witness:
  "parse '':010300-1FC'' = raise StructError \<and> fields_of '':010300-1FC'' = ok (1, 3, 0, [-1])"
proof -
  have f: "fields_of '':010300-1FC'' = ok (1, 3, 0, [-1])"
    by code_simp
  have "parse '':010300-1FC'' = raise StructError"
    using parse_errors [of "'':010300-1FC''"] f by (simp add: byte_range_def)
  then show ?thesis
    using f by blast
qed

text \<open>
  C25: \<^verbatim>\<open>parse\<close> detects damage: take a frame that carries the right check byte and replace
  any one data byte by another; the result is rejected with a ValueError.
\<close>

theorem parse_detects_damage:
  assumes "byte_range a" "byte_range c" "byte_range s" "b \<noteq> b'"
  shows "parse (frame a c s (xs @ b # ys) (lrc_of (a + c + s + byte_sum (xs @ b # ys))))
           = ok (a, c, xs @ b # ys,
               drop 15 (frame a c s (xs @ b # ys) (lrc_of (a + c + s + byte_sum (xs @ b # ys)))),
               drop 55 (frame a c s (xs @ b # ys) (lrc_of (a + c + s + byte_sum (xs @ b # ys)))),
               drop 65 (frame a c s (xs @ b # ys) (lrc_of (a + c + s + byte_sum (xs @ b # ys)))))
    \<and> parse (frame a c s (xs @ b' # ys) (lrc_of (a + c + s + byte_sum (xs @ b # ys)))) = raise ValueError"
proof -
  let ?r = "a + c + s + byte_sum xs + byte_sum ys"
  have sums: "a + c + s + byte_sum (xs @ x # ys) = ?r + uint x" for x
    by simp
  have "lrc_of (?r + uint b) \<noteq> lrc_of (?r + uint b')"
    using assms(4) by (simp only: lrc.ck_detects_byte not_False_eq_True)
  then show ?thesis
    unfolding sums using assms(1-3) by (simp add: parse_frame ac_simps)
qed

theorem parse_detects_damage_witness:
  "parse (frame 1 3 2 [10, 12] (lrc_of 27)) = raise ValueError"
proof -
  have "1 + 3 + 2 + byte_sum ([10] @ 11 # []) = 27" by (simp add: byte_sum_def)
  then show ?thesis
    using parse_detects_damage [of 1 3 2 11 12 "[10]" "[]"] by (simp add: byte_range_def)
qed


section \<open>The package's own tests\<close>

definition TEST_MESSAGE :: string where
  "TEST_MESSAGE = '':A0036162636465666768696A6BFB''"

datatype outcome = Passed | Failed | Errored py_error

text \<open>
  \<^verbatim>\<open>address, _, _ = parse(...)\<close>: unpacking a tuple of six into a given number of names.
\<close>

definition unpack_parsed :: "nat \<Rightarrow> parsed \<Rightarrow> parsed res" where
  "unpack_parsed k t = (if k = 6 then ok t else raise ValueError)"

definition run_test :: "bool res \<Rightarrow> outcome" where
  "run_test r = (case r of Inl e \<Rightarrow> Errored e | Inr b \<Rightarrow> if b then Passed else Failed)"

definition test_has_to_start_with_colon :: outcome where
  "test_has_to_start_with_colon =
     (case parse ''hello'' of
        Inl e \<Rightarrow> if e = ValueError then Passed else Errored e
      | Inr _ \<Rightarrow> Failed)"

definition test_returns_correct_address :: outcome where
  "test_returns_correct_address = run_test (bind_res (parse TEST_MESSAGE) (\<lambda>t.
     bind_res (unpack_parsed 3 t) (\<lambda>(address, _). ok (address = 0xA0))))"

definition test_returns_correct_command :: outcome where
  "test_returns_correct_command = run_test (bind_res (parse TEST_MESSAGE) (\<lambda>t.
     bind_res (unpack_parsed 3 t) (\<lambda>(_, command, _). ok (command = 0x03))))"

definition test_returns_correct_message :: outcome where
  "test_returns_correct_message = run_test (bind_res (parse TEST_MESSAGE) (\<lambda>t.
     bind_res (unpack_parsed 3 t) (\<lambda>(_, _, message, _).
       ok (message = [0x61, 0x62, 0x63, 0x64, 0x65, 0x66, 0x67, 0x68, 0x69, 0x6A, 0x6B]))))"

definition test_build_correctly :: outcome where
  "test_build_correctly = run_test (ok (build 0xA0 0x03
     [0x61, 0x62, 0x63, 0x64, 0x65, 0x66, 0x67, 0x68, 0x69, 0x6A, 0x6B] = TEST_MESSAGE))"


end
