(* ===== verification/Py_Float.thy ===== *)
theory Py_Float
  imports Py_Text
begin

text \<open>
  \<^verbatim>\<open>float(s)\<close> and \<^verbatim>\<open>int(f)\<close>: the decimal grammar of Python's float constructor, correct
  rounding of the decimal to a double (53 significant bits, ties to even, overflow to
  infinity) and truncation to an integer. A finite double is a pair of a significand and a
  binary exponent.
\<close>

section \<open>Doubles\<close>

datatype pyfloat = Nan | Inf int | Dyadic int int

function bitlen :: "int \<Rightarrow> nat" where
  "bitlen n = (if n \<le> 0 then 0 else Suc (bitlen (n div 2)))"
  by pat_completeness auto
termination
  by (relation "measure nat") auto

declare bitlen.simps [simp del]

definition round_half_even :: "int \<Rightarrow> int \<Rightarrow> int" where
  "round_half_even n d =
     (let q = n div d; r = n mod d
      in if 2 * r < d \<or> 2 * r = d \<and> even q then q else q + 1)"

text \<open>The exponent of the leading bit of \<open>n / d\<close>.\<close>

definition lead_exp :: "int \<Rightarrow> int \<Rightarrow> int" where
  "lead_exp n d =
     (let k = int (bitlen n) - int (bitlen d)
      in if d * 2 ^ nat k \<le> n * 2 ^ nat (- k) then k else k - 1)"

text \<open>The double nearest to \<open>sg * n / d\<close>, for positive \<open>d\<close> and non-negative \<open>n\<close>.\<close>

definition round_double :: "int \<Rightarrow> int \<Rightarrow> int \<Rightarrow> pyfloat" where
  "round_double sg n d =
     (if n = 0 then Dyadic 0 0
      else let e = max (lead_exp n d - 52) (- 1074);
               m = round_half_even (n * 2 ^ nat (- e)) (d * 2 ^ nat e)
           in if 2 ^ (1024 + nat (- e)) \<le> m * 2 ^ nat e then Inf sg else Dyadic (sg * m) e)"

definition int_of_float :: "pyfloat \<Rightarrow> int res" where
  "int_of_float f = (case f of
      Nan \<Rightarrow> raise ValueError
    | Inf sg \<Rightarrow> raise OverflowError
    | Dyadic m e \<Rightarrow> ok (sgn m * (\<bar>m\<bar> * 2 ^ nat e div 2 ^ nat (- e))))"


section \<open>Reading decimals\<close>

definition is_digit :: "char \<Rightarrow> bool" where
  "is_digit c = (let n = (of_char c :: nat) in 48 \<le> n \<and> n \<le> 57)"

definition digits_value :: "string \<Rightarrow> int" where
  "digits_value s = foldl (\<lambda>a c. 10 * a + (of_char c - 48)) 0 s"

text \<open>Underscores may stand between two digits only.\<close>

fun drop_underscores :: "bool \<Rightarrow> string \<Rightarrow> string option" where
  "drop_underscores p [] = Some []"
| "drop_underscores p (c # cs) =
     (if c = CHR ''_''
      then (if p \<and> cs \<noteq> [] \<and> is_digit (hd cs) then drop_underscores False cs else None)
      else map_option (Cons c) (drop_underscores (is_digit c) cs))"

definition read_exponent :: "string \<Rightarrow> int option" where
  "read_exponent s = (case s of
      [] \<Rightarrow> Some 0
    | c # cs \<Rightarrow>
        if c = CHR ''e'' \<or> c = CHR ''E''
        then (let (sg, ds) = drop_sign cs
              in if ds \<noteq> [] \<and> list_all is_digit ds then Some (sg * digits_value ds) else None)
        else None)"

definition read_decimal :: "int \<Rightarrow> string \<Rightarrow> pyfloat res" where
  "read_decimal sg v =
     (let ip = takeWhile is_digit v; r = dropWhile is_digit v;
          fp = (if take 1 r = ''.'' then takeWhile is_digit (drop 1 r) else []);
          r' = (if take 1 r = ''.'' then dropWhile is_digit (drop 1 r) else r)
      in if ip = [] \<and> fp = [] then raise ValueError
         else (case read_exponent r' of
             None \<Rightarrow> raise ValueError
           | Some x \<Rightarrow>
               let e = x - len fp; m = digits_value (ip @ fp)
               in ok (round_double sg (m * 10 ^ nat e) (10 ^ nat (- e)))))"

definition lower_char :: "char \<Rightarrow> char" where
  "lower_char c = (if (65::nat) \<le> of_char c \<and> of_char c \<le> (90::nat) then char_of (of_char c + (32::nat)) else c)"

definition py_float :: "string \<Rightarrow> pyfloat res" where
  "py_float s = (case drop_underscores False (py_strip s) of
      None \<Rightarrow> raise ValueError
    | Some u \<Rightarrow>
        let (sg, v) = drop_sign u; w = map lower_char v
        in if w = ''inf'' \<or> w = ''infinity'' then ok (Inf sg)
           else if w = ''nan'' then ok Nan
           else read_decimal sg v)"


section \<open>Integers survive the trip through a double\<close>

lemma bitlen_0 [simp]: "bitlen 0 = 0"
  by (simp add: bitlen.simps)

lemma bitlen_pos: "0 < n \<Longrightarrow> bitlen n = Suc (bitlen (n div 2))"
  by (subst bitlen.simps) simp

lemma bitlen_1 [simp]: "bitlen 1 = 1"
  by (simp add: bitlen_pos)

lemma bitlen_bounds: "0 < n \<Longrightarrow> 2 ^ (bitlen n - 1) \<le> n \<and> n < 2 ^ bitlen n"
proof (induction n rule: bitlen.induct)
  case (1 n)
  show ?case
  proof (cases "n div 2 = 0")
    case True
    with "1.prems" have "n = 1" by linarith
    then show ?thesis by simp
  next
    case False
    with "1.prems" have pos: "0 < n div 2" by linarith
    with 1 have IH: "2 ^ (bitlen (n div 2) - 1) \<le> n div 2" "n div 2 < 2 ^ bitlen (n div 2)"
      by auto
    have "bitlen (n div 2) = Suc (bitlen (n div 2) - 1)"
      using bitlen_pos [OF pos] by simp
    then have "2 ^ bitlen (n div 2) = 2 * (2 :: int) ^ (bitlen (n div 2) - 1)"
      by (metis power_Suc)
    with IH have "2 ^ bitlen (n div 2) \<le> n" "n < 2 * 2 ^ bitlen (n div 2)"
      by linarith+
    then show ?thesis
      using "1.prems" by (simp add: bitlen_pos)
  qed
qed

lemma lead_exp_int: "0 < n \<Longrightarrow> lead_exp n 1 = int (bitlen n) - 1"
proof -
  assume n: "0 < n"
  then have b: "bitlen n = Suc (bitlen (n div 2))" by (rule bitlen_pos)
  then have "nat (int (bitlen n) - 1) = bitlen n - 1" by simp
  with bitlen_bounds [OF n] b show ?thesis
    by (simp add: lead_exp_def Let_def)
qed

lemma bitlen_le: "0 < n \<Longrightarrow> n < 2 ^ k \<Longrightarrow> bitlen n \<le> k"
proof (rule ccontr)
  assume n: "0 < n" "n < 2 ^ k" and "\<not> bitlen n \<le> k"
  then have "(2 :: int) ^ k \<le> 2 ^ (bitlen n - 1)"
    by (intro power_increasing) auto
  with bitlen_bounds [OF n(1)] n(2) show False by linarith
qed

lemma round_half_even_exact [simp]: "round_half_even n 1 = n"
  by (simp add: round_half_even_def Let_def)

lemma round_double_int:
  assumes "0 \<le> n" "n < 2 ^ 53"
  shows "int_of_float (round_double 1 n 1) = ok n"
proof (cases "n = 0")
  case False
  then have n: "0 < n" using assms by simp
  then have b: "bitlen n \<le> 53"
    using assms by (intro bitlen_le) auto
  define e where "e = max (lead_exp n 1 - 52) (- 1074)"
  have e: "e = int (bitlen n) - 53"
    using lead_exp_int [OF n] by (simp add: e_def)
  then have neg: "nat e = 0" "nat (- e) = 53 - bitlen n"
    using b by auto
  have small: "\<not> 2 ^ (1024 + (53 - bitlen n)) \<le> n * 2 ^ (53 - bitlen n)"
  proof -
    have "n * 2 ^ (53 - bitlen n) < 2 ^ 53 * (2 :: int) ^ (53 - bitlen n)"
      using assms by simp
    also have "\<dots> \<le> 2 ^ (1024 + (53 - bitlen n))"
      by (simp only: power_add [symmetric]) (intro power_increasing, auto)
    finally show ?thesis by simp
  qed
  have "round_double 1 n 1 = Dyadic (n * 2 ^ (53 - bitlen n)) e"
    using False small neg e_def [symmetric] by (simp add: round_double_def Let_def)
  then show ?thesis
    using n neg by (simp add: int_of_float_def sgn_if zero_less_mult_iff abs_mult)
qed (simp add: round_double_def int_of_float_def)

lemma is_digit_not_special:
  assumes "is_digit c"
  shows "c \<noteq> CHR ''_''" "c \<noteq> CHR ''-''" "c \<noteq> CHR ''+''" "c \<noteq> CHR ''.''" "\<not> is_space c"
    "lower_char c = c" "c \<noteq> CHR ''i''" "c \<noteq> CHR ''n''"
proof -
  have n: "48 \<le> (of_char c :: nat)" "(of_char c :: nat) \<le> 57"
    using assms by (simp_all add: is_digit_def Let_def)
  have i: "(of_char c :: int) = int (of_char c)"
    by (rule of_nat_of_char [symmetric])
  show "\<not> is_space c"
    unfolding is_space_def i Let_def using n by auto
  show "lower_char c = c"
    unfolding lower_char_def using n by auto
  show "c \<noteq> CHR ''_''" "c \<noteq> CHR ''-''" "c \<noteq> CHR ''+''" "c \<noteq> CHR ''.''" "c \<noteq> CHR ''i''" "c \<noteq> CHR ''n''"
    using n by auto
qed

lemma drop_underscores_digits: "list_all is_digit s \<Longrightarrow> drop_underscores p s = Some s"
  by (induction s arbitrary: p) (auto simp: is_digit_not_special)

lemma py_float_digits:
  assumes "list_all is_digit s" "s \<noteq> []"
  shows "py_float s = ok (round_double 1 (digits_value s) 1)"
proof -
  have strip: "py_strip s = s"
    using assms by (intro py_strip_id) (auto simp: list_all_iff is_digit_not_special)
  obtain c cs where s: "s = c # cs" and c: "is_digit c"
    using assms by (cases s) auto
  have sign: "drop_sign s = (1, s)"
    using c by (simp add: s drop_sign_def is_digit_not_special)
  have low: "map lower_char s = c # map lower_char cs"
    using c by (simp add: s is_digit_not_special)
  have tw: "takeWhile is_digit s = s" and dw: "dropWhile is_digit s = []"
    using assms by (simp_all add: list_all_iff)
  have "read_decimal 1 s = ok (round_double 1 (digits_value s) 1)"
    using assms(2) by (simp add: read_decimal_def tw dw read_exponent_def Let_def)
  moreover have "map lower_char s \<noteq> ''inf''" "map lower_char s \<noteq> ''infinity''" "map lower_char s \<noteq> ''nan''"
    using c by (simp_all add: low is_digit_not_special)
  ultimately show ?thesis
    using assms(1) by (simp add: py_float_def strip sign drop_underscores_digits Let_def)
qed

lemma is_digit_digit_char: "d < 10 \<Longrightarrow> is_digit (digit_char d)"
  by (simp add: is_digit_def of_char_digit Let_def)

lemma list_all_to_base_10: "list_all is_digit (to_base 10 n)"
  by (auto simp: list_all_iff dest!: to_base_digits [rotated] intro: is_digit_digit_char)

lemma digits_value_to_base: "digits_value (to_base 10 n) = int n"
proof -
  have i: "(of_char c :: int) = int (of_char c)" for c
    by (rule of_nat_of_char [symmetric])
  have "foldl (\<lambda>a c. a * int 10 + (of_char c - 48)) 0 (to_base 10 n) = int n"
    unfolding i by (rule foldl_to_base) (simp_all add: of_char_digit)
  then show ?thesis
    by (simp add: digits_value_def mult.commute)
qed

text \<open>The text of a natural number below two to the 53 reads back exactly.\<close>

lemma int_float_str:
  assumes "0 \<le> n" "n < 2 ^ 53"
  shows "bind_res (py_float (py_str n)) int_of_float = ok n"
  using assms round_double_int [of n]
  by (simp add: py_str_def py_float_digits list_all_to_base_10 digits_value_to_base)

text \<open>Rounding of the decimal to a double can cross an integer.\<close>

lemma int_float_rounding:
  "bind_res (py_float ''65535.99999999999'') int_of_float = ok 65535"
  "bind_res (py_float ''65535.9999999999999'') int_of_float = ok 65536"
  by code_simp+

end
