(* ===== verification/Py_Json.thy ===== *)
theory Py_Json
  imports Py_Float
begin

text \<open>
  \<^verbatim>\<open>json.loads\<close> on a text: the scanner of Python's \<^verbatim>\<open>json\<close> module as a recursive-descent parser.
  String contents are kept as written between the quotes. The parser is fuelled; the last
  lemma shows that twice the length of the text is always enough, so the fuel never decides
  the result.
\<close>

datatype json =
    JNull | JBool bool | JInt int | JFloat pyfloat | JStr string
  | JArr "json list" | JObj "(string \<times> json) list"

definition json_ws :: "char \<Rightarrow> bool" where
  "json_ws c \<longleftrightarrow> c = CHR '' '' \<or> c = CHR 0x09 \<or> c = CHR 0x0A \<or> c = CHR 0x0D"

abbreviation skip_ws :: "string \<Rightarrow> string" where
  "skip_ws \<equiv> dropWhile json_ws"

definition hex_digit :: "char \<Rightarrow> bool" where
  "hex_digit c \<longleftrightarrow> digit_val 16 c \<noteq> None"

text \<open>The rest of a string literal after its opening quote.\<close>

fun json_string :: "string \<Rightarrow> (string \<times> string) option" where
  "json_string [] = None"
| "json_string (c # cs) =
     (if c = CHR 0x22 then Some ([], cs)
      else if (of_char c :: nat) < 32 then None
      else if c = CHR 0x5C then
        (case cs of
           [] \<Rightarrow> None
         | e # es \<Rightarrow>
             if e = CHR ''u'' then
               (case es of
                  h1 # h2 # h3 # h4 # rest \<Rightarrow>
                    if list_all hex_digit [h1, h2, h3, h4]
                    then map_option (\<lambda>(t, r). (c # e # h1 # h2 # h3 # h4 # t, r)) (json_string rest)
                    else None
                | _ \<Rightarrow> None)
             else if e \<in> set [CHR 0x22, CHR 0x5C, CHR ''/'', CHR ''b'', CHR ''f'', CHR ''n'', CHR ''r'', CHR ''t'']
             then map_option (\<lambda>(t, r). (c # e # t, r)) (json_string es)
             else None)
      else map_option (\<lambda>(t, r). (c # t, r)) (json_string cs))"

text \<open>A number: the integer part, then a fraction and an exponent where they are complete.\<close>

definition json_int_part :: "string \<Rightarrow> string \<times> string" where
  "json_int_part s =
     (let (m, t) = (if take 1 s = ''-'' then (''-'', drop 1 s) else ([], s))
      in if take 1 t = ''0'' then (m @ ''0'', drop 1 t)
         else if takeWhile is_digit t = [] then ([], s)
         else (m @ takeWhile is_digit t, dropWhile is_digit t))"

definition json_frac :: "string \<Rightarrow> string \<times> string" where
  "json_frac s =
     (if take 1 s = ''.'' \<and> takeWhile is_digit (drop 1 s) \<noteq> []
      then (''.'' @ takeWhile is_digit (drop 1 s), dropWhile is_digit (drop 1 s)) else ([], s))"

definition json_exp :: "string \<Rightarrow> string \<times> string" where
  "json_exp s =
     (if take 1 s = ''e'' \<or> take 1 s = ''E''
      then let t = drop 1 s;
               (sg, u) = (if take 1 t = ''-'' \<or> take 1 t = ''+'' then (take 1 t, drop 1 t) else ([], t))
           in if takeWhile is_digit u = [] then ([], s)
              else (take 1 s @ sg @ takeWhile is_digit u, dropWhile is_digit u)
      else ([], s))"

definition json_number :: "string \<Rightarrow> (json \<times> string) option" where
  "json_number s =
     (let (i, r) = json_int_part s; (f, r') = json_frac r; (x, r'') = json_exp r'
      in if i = [] then None
         else if f = [] \<and> x = []
              then (case py_int 10 i of Inl _ \<Rightarrow> None | Inr n \<Rightarrow> Some (JInt n, r''))
              else (case py_float (i @ f @ x) of Inl _ \<Rightarrow> None | Inr v \<Rightarrow> Some (JFloat v, r'')))"

definition json_word :: "string \<Rightarrow> (json \<times> string) option" where
  "json_word s =
     (if take 4 s = ''null'' then Some (JNull, drop 4 s)
      else if take 4 s = ''true'' then Some (JBool True, drop 4 s)
      else if take 5 s = ''false'' then Some (JBool False, drop 5 s)
      else if take 3 s = ''NaN'' then Some (JFloat Nan, drop 3 s)
      else if take 8 s = ''Infinity'' then Some (JFloat (Inf 1), drop 8 s)
      else if take 9 s = ''-Infinity'' then Some (JFloat (Inf (- 1)), drop 9 s)
      else json_number s)"

text \<open>A value; the elements of an array; the members of an object.\<close>

fun json_value :: "nat \<Rightarrow> string \<Rightarrow> (json \<times> string) option"
  and json_elems :: "nat \<Rightarrow> string \<Rightarrow> (json list \<times> string) option"
  and json_members :: "nat \<Rightarrow> string \<Rightarrow> ((string \<times> json) list \<times> string) option"
where
  "json_value 0 s = None"
| "json_value (Suc f) s =
     (if take 1 s = [CHR 0x22] then map_option (\<lambda>(t, r). (JStr t, r)) (json_string (drop 1 s))
      else if take 1 s = ''['' then
        (let t = skip_ws (drop 1 s)
         in if take 1 t = '']'' then Some (JArr [], drop 1 t)
            else map_option (\<lambda>(vs, r). (JArr vs, r)) (json_elems f t))
      else if take 1 s = ''{'' then
        (let t = skip_ws (drop 1 s)
         in if take 1 t = ''}'' then Some (JObj [], drop 1 t)
            else map_option (\<lambda>(ms, r). (JObj ms, r)) (json_members f t))
      else json_word s)"
| "json_elems 0 s = None"
| "json_elems (Suc f) s =
     (case json_value f s of
        None \<Rightarrow> None
      | Some (v, r) \<Rightarrow>
          let t = skip_ws r
          in if take 1 t = '']'' then Some ([v], drop 1 t)
             else if take 1 t = '','' then map_option (\<lambda>(vs, r). (v # vs, r)) (json_elems f (skip_ws (drop 1 t)))
             else None)"
| "json_members 0 s = None"
| "json_members (Suc f) s =
     (if take 1 s \<noteq> [CHR 0x22] then None
      else case json_string (drop 1 s) of
        None \<Rightarrow> None
      | Some (k, r) \<Rightarrow>
          let t = skip_ws r
          in if take 1 t \<noteq> '':'' then None
             else case json_value f (skip_ws (drop 1 t)) of
               None \<Rightarrow> None
             | Some (v, r') \<Rightarrow>
                 let u = skip_ws r'
                 in if take 1 u = ''}'' then Some ([(k, v)], drop 1 u)
                    else if take 1 u = '',''
                         then map_option (\<lambda>(ms, r). ((k, v) # ms, r)) (json_members f (skip_ws (drop 1 u)))
                         else None)"

definition json_loads :: "string \<Rightarrow> json res" where
  "json_loads s = (case json_value (2 * length s + 2) (skip_ws s) of
      None \<Rightarrow> raise ValueError
    | Some (v, r) \<Rightarrow> if skip_ws r = [] then ok v else raise ValueError)"

lemma json_loads_error: "json_loads s = raise e \<Longrightarrow> e = ValueError"
  by (auto simp: json_loads_def split: option.splits if_splits)



section \<open>The fuel is enough\<close>

lemma length_skip_ws: "length (skip_ws s) \<le> length s"
  by (rule length_dropWhile_le)

lemma take_1_drop: "take 1 s = [c] \<Longrightarrow> length (drop 1 s) < length s"
  by (cases s) auto

lemma json_string_shorter: "json_string s = Some (t, r) \<Longrightarrow> length r < length s"
proof (induction s arbitrary: t r rule: json_string.induct)
  case (2 c cs)
  then show ?case
    by (fastforce split: if_splits list.splits)
qed simp

lemma json_int_part_shorter: "json_int_part s = (i, r) \<Longrightarrow> i \<noteq> [] \<Longrightarrow> length r < length s"
proof (cases s)
  case (Cons c cs)
  assume a: "json_int_part s = (i, r)" "i \<noteq> []"
  have le: "length (dropWhile is_digit cs) \<le> length cs" "length (dropWhile is_digit (drop (Suc 0) cs)) \<le> length cs"
    using length_dropWhile_le [of is_digit cs] length_dropWhile_le [of is_digit "drop (Suc 0) cs"] by auto
  show ?thesis
    using a le Cons by (auto simp: json_int_part_def Let_def split: if_splits)
qed (auto simp: json_int_part_def)

lemma json_frac_shorter: "json_frac s = (f, r) \<Longrightarrow> length r \<le> length s"
  using length_dropWhile_le [of is_digit "drop 1 s"]
  by (auto simp: json_frac_def split: if_splits)

lemma json_exp_shorter: "json_exp s = (x, r) \<Longrightarrow> length r \<le> length s"
  using length_dropWhile_le [of is_digit "drop 1 s"] length_dropWhile_le [of is_digit "drop 1 (drop 1 s)"]
  by (auto simp: json_exp_def Let_def split: if_splits)

lemma json_number_shorter:
  assumes "json_number s = Some (v, r)"
  shows "length r < length s"
proof -
  obtain i r1 f r2 x r3 where p: "json_int_part s = (i, r1)" "json_frac r1 = (f, r2)" "json_exp r2 = (x, r3)"
    by (metis surj_pair)
  with assms have "i \<noteq> []" "r = r3"
    by (auto simp: json_number_def Let_def split: if_splits sum.splits)
  with p show ?thesis
    by (fastforce dest: json_int_part_shorter json_frac_shorter json_exp_shorter)
qed

lemma take_drop_shorter: "take n s = w \<Longrightarrow> w \<noteq> [] \<Longrightarrow> length (drop n s) < length s"
  by (cases s; cases n) auto

lemma json_word_shorter: "json_word s = Some (v, r) \<Longrightarrow> length r < length s"
  by (cases s) (auto simp: json_word_def dest: json_number_shorter split: if_splits)

lemma json_shorter:
  "json_value f s = Some (v, r) \<Longrightarrow> length r < length s"
  "json_elems f s = Some (vs, r) \<Longrightarrow> length r < length s"
  "json_members f s = Some (ms, r) \<Longrightarrow> length r < length s"
proof (induction f s and f s and f s arbitrary: v r and vs r and ms r
    rule: json_value_json_elems_json_members.induct)
  case (2 f s)
  let ?t = "skip_ws (drop 1 s)"
  have l: "length ?t \<le> length (drop 1 s)" by (rule length_skip_ws)
  from "2.prems" consider
      (str) t where "take 1 s = [CHR 0x22]" "json_string (drop 1 s) = Some (t, r)"
    | (empty) c where "take 1 s = [c]" "r = drop 1 ?t"
    | (arr) vs where "take 1 s = ''[''" "take 1 ?t \<noteq> '']''" "json_elems f ?t = Some (vs, r)"
    | (obj) ms where "take 1 s = ''{''" "take 1 ?t \<noteq> ''}''" "json_members f ?t = Some (ms, r)"
    | (word) "json_word s = Some (v, r)"
    by (auto simp: Let_def split: if_splits)
  then show ?case
  proof cases
    case str
    then show ?thesis using json_string_shorter [OF str(2)] take_1_drop [OF str(1)] by linarith
  next
    case empty
    then show ?thesis using take_1_drop [OF empty(1)] l by simp
  next
    case arr
    then have "length r < length ?t" using "2.IH"(1) by simp
    then show ?thesis using take_1_drop [OF arr(1)] l by linarith
  next
    case obj
    then have "length r < length ?t" using "2.IH"(2) by simp
    then show ?thesis using take_1_drop [OF obj(1)] l by linarith
  next
    case word
    then show ?thesis by (rule json_word_shorter)
  qed
next
  case (4 f s)
  from "4.prems" obtain v r1 where v: "json_value f s = Some (v, r1)"
    by (auto split: option.splits)
  with "4.IH"(1) have r1: "length r1 < length s" by blast
  have l: "length (skip_ws r1) \<le> length r1" "length (skip_ws (drop 1 (skip_ws r1))) \<le> length (drop 1 (skip_ws r1))"
    by (rule length_skip_ws)+
  show ?case
    using "4.prems" v r1 l "4.IH"(2) [OF v] by (fastforce simp: Let_def split: if_splits)
next
  case (6 f s)
  from "6.prems" obtain k r1 v r2 where k: "json_string (drop 1 s) = Some (k, r1)"
    and v: "json_value f (skip_ws (drop 1 (skip_ws r1))) = Some (v, r2)"
    and q: "take 1 s = [CHR 0x22]" "take 1 (skip_ws r1) = '':''"
    by (auto simp: Let_def split: option.splits if_splits)
  have r: "length r2 < length s"
    using json_string_shorter [OF k] "6.IH"(1) [OF _ k refl _ _ v] q
      length_skip_ws [of r1] length_skip_ws [of "drop 1 (skip_ws r1)"] by fastforce
  have l: "length (skip_ws r2) \<le> length r2" "length (skip_ws (drop 1 (skip_ws r2))) \<le> length (drop 1 (skip_ws r2))"
    by (rule length_skip_ws)+
  show ?case
    using "6.prems" k v q r l "6.IH"(2) [OF _ k refl _ _ v refl] by (fastforce simp: Let_def split: if_splits)
qed simp_all


lemma json_fuel_step:
  "(\<forall>s. 2 * length s + 1 \<le> f \<longrightarrow> json_value (Suc f) s = json_value f s)
   \<and> (\<forall>s. 2 * length s + 2 \<le> f \<longrightarrow> json_elems (Suc f) s = json_elems f s)
   \<and> (\<forall>s. 2 * length s + 2 \<le> f \<longrightarrow> json_members (Suc f) s = json_members f s)"
proof (induction f)
  case (Suc f)
  have t: "2 * length (skip_ws (drop 1 s)) + 2 \<le> f" if "take 1 s = [c]" "2 * length s + 1 \<le> Suc f" for s c
    using that length_skip_ws [of "drop 1 s"] take_1_drop [of s c] by linarith
  have "json_value (Suc (Suc f)) s = json_value (Suc f) s" if s: "2 * length s + 1 \<le> Suc f" for s
    using t [OF _ s] Suc.IH by (simp add: Let_def)
  moreover have "json_elems (Suc (Suc f)) s = json_elems (Suc f) s" if s: "2 * length s + 2 \<le> Suc f" for s
  proof -
    have v: "json_value (Suc f) s = json_value f s" using Suc.IH s by simp
    have "json_elems (Suc f) (skip_ws (drop 1 (skip_ws r))) = json_elems f (skip_ws (drop 1 (skip_ws r)))"
      if "json_value f s = Some (x, r)" for x r
    proof -
      have "length (skip_ws (drop 1 (skip_ws r))) < length s"
        using json_shorter(1) [OF that] length_skip_ws [of r] length_skip_ws [of "drop 1 (skip_ws r)"] by simp
      with s Suc.IH show ?thesis by simp
    qed
    then show ?thesis
      using v by (simp only: json_elems.simps) (simp add: Let_def split: option.splits)
  qed
  moreover have "json_members (Suc (Suc f)) s = json_members (Suc f) s" if s: "2 * length s + 2 \<le> Suc f" for s
  proof -
    have v: "json_value (Suc f) (skip_ws (drop 1 (skip_ws r))) = json_value f (skip_ws (drop 1 (skip_ws r)))"
      if "json_string (drop 1 s) = Some (k, r)" for k r
    proof -
      have "length (skip_ws (drop 1 (skip_ws r))) < length s"
        using json_string_shorter [OF that] length_skip_ws [of r] length_skip_ws [of "drop 1 (skip_ws r)"] by simp
      with s Suc.IH show ?thesis by simp
    qed
    have m: "json_members (Suc f) (skip_ws (drop 1 (skip_ws r'))) = json_members f (skip_ws (drop 1 (skip_ws r')))"
      if "json_string (drop 1 s) = Some (k, r)" "json_value f (skip_ws (drop 1 (skip_ws r))) = Some (x, r')" for k r x r'
    proof -
      have "length (skip_ws (drop 1 (skip_ws r'))) < length s"
        using json_string_shorter [OF that(1)] json_shorter(1) [OF that(2)] length_skip_ws [of r]
          length_skip_ws [of "drop 1 (skip_ws r)"] length_skip_ws [of r'] length_skip_ws [of "drop 1 (skip_ws r')"]
        by simp
      with s Suc.IH show ?thesis by simp
    qed
    show ?thesis
      using v m by (simp only: json_members.simps) (simp add: Let_def split: option.splits)
  qed
  ultimately show ?case by blast
qed simp

lemma json_value_fuel:
  assumes "2 * length s + 1 \<le> f"
  shows "json_value (f + k) s = json_value f s"
proof (induction k)
  case (Suc k)
  have "2 * length s + 1 \<le> f + k" using assms by simp
  then have "json_value (Suc (f + k)) s = json_value (f + k) s"
    using json_fuel_step by blast
  with Suc show ?case by simp
qed simp

lemma json_loads_fuel:
  assumes "2 * length s + 2 \<le> f"
  shows "json_loads s = (case json_value f (skip_ws s) of
      None \<Rightarrow> raise ValueError
    | Some (v, r) \<Rightarrow> if skip_ws r = [] then ok v else raise ValueError)"
proof -
  obtain k where f: "f = 2 * length s + 2 + k"
    using assms le_Suc_ex by blast
  have "2 * length (skip_ws s) + 1 \<le> 2 * length s + 2"
    using length_skip_ws [of s] by linarith
  then have "json_value f (skip_ws s) = json_value (2 * length s + 2) (skip_ws s)"
    unfolding f by (rule json_value_fuel)
  then show ?thesis by (simp add: json_loads_def)
qed

end
