(* ===== verification/Http_Server.thy ===== *)
theory Http_Server
  imports Modbus Py_Json
begin

text \<open>
  The module \<^verbatim>\<open>gateway_daemon.http\<close>: from the parameters of a request to the Modbus frames
  written to the mote. A parameter is a name \<^verbatim>\<open>W_A_D_N\<close> and a text; the handler \<^verbatim>\<open>network\<close> is
  modelled as the list of messages it put on the port and how it ends, since an exception
  does not undo the messages already sent.
\<close>

section \<open>The code\<close>

text \<open>\<^verbatim>\<open>struct.pack('!HH', a, b)\<close>.\<close>

definition pack_HH :: "int \<Rightarrow> int \<Rightarrow> bytes res" where
  "pack_HH a b = bind_res (pack_be_H a) (\<lambda>x. bind_res (pack_be_H b) (\<lambda>y. ok (x @ y)))"

text \<open>What \<^verbatim>\<open>struct\<close> makes of a decoded JSON value: only integers and booleans are integers.\<close>

definition struct_int :: "json \<Rightarrow> int res" where
  "struct_int v = (case v of JBool b \<Rightarrow> ok (of_bool b) | JInt n \<Rightarrow> ok n | _ \<Rightarrow> raise StructError)"

definition write_single_coil :: "int \<Rightarrow> string \<Rightarrow> (int \<times> bytes) res" where
  "write_single_coil number data =
     bind_res (json_loads data) (\<lambda>v.
     bind_res (bind_res (struct_int v) (pack_HH number)) (\<lambda>packed.
     ok (WRITE_SINGLE_COIL, packed)))"

definition write_holding_register :: "int \<Rightarrow> string \<Rightarrow> (int \<times> bytes) res" where
  "write_holding_register number data =
     bind_res (py_float data) (\<lambda>f.
     bind_res (int_of_float f) (\<lambda>v.
     bind_res (pack_HH number v) (\<lambda>packed.
     ok (WRITE_HOLDING_REGISTER, packed))))"

definition WRITE_FUNCTIONS :: "string \<rightharpoonup> (int \<Rightarrow> string \<Rightarrow> (int \<times> bytes) res)" where
  "WRITE_FUNCTIONS = (\<lambda>t. if t = ''numeric'' then Some write_holding_register
      else if t = ''binary'' then Some write_single_coil else None)"

definition decompose :: "string \<Rightarrow> (int list \<times> string \<times> int) res" where
  "decompose name = (case py_split (CHR ''_'') name of
      [_, address, data_type, number] \<Rightarrow>
        (let addresses = py_split (CHR ''-'') address in
         bind_res (map_res (py_int 16) addresses) (\<lambda>as.
         bind_res (py_int 16 number) (\<lambda>n.
         ok (as, data_type, n))))
    | _ \<Rightarrow> raise ValueError)"

definition modbus_data :: "string \<Rightarrow> int \<Rightarrow> string \<Rightarrow> (int \<times> bytes) res" where
  "modbus_data data_type number data = (case WRITE_FUNCTIONS data_type of
      None \<Rightarrow> raise KeyError
    | Some f \<Rightarrow> f number data)"

text \<open>\<^verbatim>\<open>modbus.encode('ascii')\<close>; the exception of a non-ASCII character is a ValueError.\<close>

definition encode_ascii :: "string \<Rightarrow> bytes res" where
  "encode_ascii s =
     (if list_all (\<lambda>c. (of_char c :: nat) < 128) s then ok (map (\<lambda>c. of_char c) s) else raise ValueError)"

text \<open>
  The port as the handler sees it: whether \<^verbatim>\<open>serial.Serial(...)\<close> and \<^verbatim>\<open>Mote(...)\<close> succeed, and what
  \<^verbatim>\<open>mote.put\<close> does with a message after the ones already put.
\<close>

record port =
  connect :: "unit res"
  put :: "bytes list \<Rightarrow> bytes \<Rightarrow> unit res"

text \<open>The inner loop over the addresses of one parameter; \<open>sent\<close> are the messages put so far.\<close>

fun put_all :: "port \<Rightarrow> bytes list \<Rightarrow> int \<Rightarrow> bytes \<Rightarrow> int list \<Rightarrow> bytes list \<times> unit res" where
  "put_all p sent function data [] = (sent, ok ())"
| "put_all p sent function data (address # addresses) =
     (case encode_ascii (build address function data) of
        Inl e \<Rightarrow> (sent, raise e)
      | Inr message \<Rightarrow>
          (case put p sent message of
             Inl e \<Rightarrow> (sent, raise e)
           | Inr _ \<Rightarrow> put_all p (sent @ [message]) function data addresses))"

fun network_loop :: "port \<Rightarrow> bytes list \<Rightarrow> (string \<times> string) list \<Rightarrow> bytes list \<times> string res" where
  "network_loop p sent [] = (sent, ok '''')"
| "network_loop p sent ((key, data) # values) =
     (case decompose key of
        Inl e \<Rightarrow> (sent, raise e)
      | Inr (addresses, data_type, number) \<Rightarrow>
          (case modbus_data data_type number data of
             Inl e \<Rightarrow> (sent, raise e)
           | Inr (function, data') \<Rightarrow>
               (case put_all p sent function data' addresses of
                  (sent', Inl e) \<Rightarrow> (sent', raise e)
                | (sent', Inr _) \<Rightarrow> network_loop p sent' values)))"

definition network :: "port \<Rightarrow> (string \<times> string) list \<Rightarrow> bytes list \<times> string res" where
  "network p values = (case connect p of Inl e \<Rightarrow> ([], raise e) | Inr _ \<Rightarrow> network_loop p [] values)"

text \<open>
  The server thread: it ends if it cannot listen, and otherwise answers the requests that arrive, each by a call
  of the handler with a port of its own; an exception of the handler ends that request only. The value is the
  record of the requests so far.
\<close>

definition run_server :: "(int \<Rightarrow> unit res) \<Rightarrow> (port \<times> (string \<times> string) list) list \<Rightarrow> (bytes list \<times> string res) list res" where
  "run_server listen requests = bind_res (listen 5000) (\<lambda>_. ok (map (\<lambda>(p, values). network p values) requests))"


section \<open>Parameter names\<close>

text \<open>The name that stands for the given intentions.\<close>

definition compose_name :: "string \<Rightarrow> nat list \<Rightarrow> string \<Rightarrow> nat \<Rightarrow> string" where
  "compose_name w as t n =
     py_join ''_'' [w, py_join ''-'' (map (to_base 16) as), t, to_base 16 n]"

lemma to_base_16_no:
  assumes "digit_val 16 c = None"
  shows "c \<notin> set (to_base 16 n)"
proof
  assume "c \<in> set (to_base 16 n)"
  then obtain d where "d < 16" "c = digit_char d"
    using to_base_digits [of 16 c n] by auto
  then show False
    using assms digit_val_digit_char [of d 16] by simp
qed

lemma not_hex_digits:
  "digit_val 16 (CHR ''_'') = None" "digit_val 16 (CHR ''-'') = None"
  by (simp_all add: digit_val_def)

lemma set_py_join: "set (py_join sep fs) \<subseteq> set sep \<union> \<Union> (set ` set fs)"
  by (induction sep fs rule: py_join.induct) auto

lemma decompose_composed:
  assumes "CHR ''_'' \<notin> set w" "CHR ''_'' \<notin> set t" "as \<noteq> []"
  shows "decompose (compose_name w as t n) = ok (map int as, t, int n)"
proof -
  let ?A = "py_join ''-'' (map (to_base 16) as)"
  have A: "CHR ''_'' \<notin> set ?A"
    using set_py_join [of "''-''" "map (to_base 16) as"] to_base_16_no [OF not_hex_digits(1)] by fastforce
  then have "py_split (CHR ''_'') (compose_name w as t n) = [w, ?A, t, to_base 16 n]"
    unfolding compose_name_def using assms to_base_16_no [OF not_hex_digits(1)]
    by (intro py_split_join) auto
  moreover have "py_split (CHR ''-'') ?A = map (to_base 16) as"
    using assms(3) to_base_16_no [OF not_hex_digits(2)] by (intro py_split_join) auto
  moreover have "map_res (py_int 16) (map (to_base 16) as) = ok (map int as)"
    using py_int_to_base [of 16] by (simp add: map_res_map map_res_ok)
  ultimately show ?thesis
    using py_int_to_base [of 16 n] by (simp add: decompose_def)
qed




lemma int_digits_nonneg: "int_digits b acc after s = Some v \<Longrightarrow> 0 \<le> acc \<Longrightarrow> 0 \<le> b \<Longrightarrow> 0 \<le> v"
proof (induction b acc after s rule: int_digits.induct)
  case (2 b acc after c cs)
  then show ?case
    by (auto split: if_splits option.splits dest: digit_val_bounds)
qed (auto split: if_splits)

lemma drop_sign_no_minus:
  "CHR ''-'' \<notin> set s \<Longrightarrow> fst (drop_sign s) = 1"
  by (auto simp: drop_sign_def split: list.splits)

lemma set_py_strip: "set (py_strip s) \<subseteq> set s"
proof
  fix c assume "c \<in> set (py_strip s)"
  then have "c \<in> set (dropWhile is_space (rev (dropWhile is_space s)))"
    by (simp add: py_strip_def)
  then have "c \<in> set (dropWhile is_space s)"
    by (auto dest: set_dropWhileD)
  then show "c \<in> set s"
    by (rule set_dropWhileD)
qed

lemma py_int_nonneg:
  assumes "CHR ''-'' \<notin> set s" "py_int b s = ok v" "0 \<le> b"
  shows "0 \<le> v"
proof -
  have "CHR ''-'' \<notin> set (py_strip s)"
    using assms(1) set_py_strip [of s] by blast
  then have "fst (drop_sign (py_strip s)) = 1"
    by (rule drop_sign_no_minus)
  then show ?thesis
    using assms(2,3) by (auto simp: py_int_def Let_def split: prod.splits option.splits dest: int_digits_nonneg)
qed

lemma map_res_all:
  "map_res f xs = ok ys \<Longrightarrow> (\<And>x y. x \<in> set xs \<Longrightarrow> f x = ok y \<Longrightarrow> P y) \<Longrightarrow> \<forall>y \<in> set ys. P y"
  by (induction xs arbitrary: ys) (auto simp: bind_res_eq_Inr, blast+)

lemma decompose_ok_fields:
  assumes "decompose name = ok (as, t, n)"
  obtains w a m where "py_split (CHR ''_'') name = [w, a, t, m]"
    "map_res (py_int 16) (py_split (CHR ''-'') a) = ok as" "py_int 16 m = ok n"
  using assms by (auto simp: decompose_def bind_res_eq_Inr split: list.splits)

text \<open>
  Addresses are never negative, since the sign character separates them: whatever
  \<^verbatim>\<open>decompose\<close> returns, there is at least one address and all of them are at least 0. The
  only exception it raises is ValueError.
\<close>

theorem decompose_addresses:
  "(\<forall>as t n. decompose name = ok (as, t, n) \<longrightarrow> as \<noteq> [] \<and> (\<forall>a \<in> set as. 0 \<le> a))
   \<and> (\<forall>e. decompose name = raise e \<longrightarrow> e = ValueError)"
proof (intro conjI allI impI)
  fix as t n assume d: "decompose name = ok (as, t, n)"
  then obtain w a m where f: "map_res (py_int 16) (py_split (CHR ''-'') a) = ok as"
    by (rule decompose_ok_fields)
  show "\<forall>x \<in> set as. 0 \<le> x"
    by (rule map_res_all [OF f]) (auto intro: py_int_nonneg dest: py_split_fields)
  have "length as = length (py_split (CHR ''-'') a)"
    using f by (rule map_res_length)
  then show "as \<noteq> []"
    using py_split_ne [of "CHR ''-''" a] by (metis length_0_conv)
next
  fix e assume "decompose name = raise e"
  then show "e = ValueError"
    by (auto simp: decompose_def bind_res_eq_Inl split: list.splits
        dest: py_int_error map_res_py_int_error)
qed

theorem decompose_addresses_witness:
  "decompose ''lamp_12-ff_binary_7'' = ok ([18, 255], ''binary'', 7)
   \<and> list_all (\<lambda>a. 0 \<le> a) [18, 255 :: int] \<and> decompose ''lamp_12'' = raise ValueError"
proof -
  have d: "decompose ''lamp_12-ff_binary_7'' = ok ([18, 255], ''binary'', 7)"
    and e: "decompose ''lamp_12'' = raise ValueError"
    by code_simp+
  show ?thesis
    unfolding list_all_iff using d e decompose_addresses [of "''lamp_12-ff_binary_7''"] by blast
qed


section \<open>Values\<close>

lemma write_register_str:
  assumes "0 \<le> v" "v < 2 ^ 53"
  shows "write_holding_register number (py_str v)
    = bind_res (pack_HH number v) (\<lambda>packed. ok (WRITE_HOLDING_REGISTER, packed))"
proof -
  have "write_holding_register number data =
      bind_res (bind_res (py_float data) int_of_float) (\<lambda>v.
        bind_res (pack_HH number v) (\<lambda>packed. ok (WRITE_HOLDING_REGISTER, packed)))" for data
    by (simp add: write_holding_register_def bind_res_assoc)
  then show ?thesis
    using int_float_str [OF assms] by simp
qed

text \<open>
  C28: Writing a register: the decimal text of a value that fits a register gives function
  code 6 and four bytes, the register number and the value, each big-endian; a value from
  65536 up to two to the 53 raises struct.error, and so does a register number that does not
  fit two bytes.
\<close>

theorem write_holding_register_value:
  assumes "0 \<le> v" "v < 2 ^ 53"
  shows "write_holding_register number (py_str v) =
    (if 0 \<le> number \<and> number < 65536 \<and> v < 65536
     then ok (6, [byte_of (number div 256), byte_of number, byte_of (v div 256), byte_of v])
     else raise StructError)"
  using assms by (simp add: write_register_str pack_HH_def pack_be_H_def WRITE_HOLDING_REGISTER_def)

theorem write_holding_register_value_witness:
  "write_holding_register 16 (py_str 1000) = ok (6, [0, 16, 3, 232])
   \<and> write_holding_register 16 (py_str 65536) = raise StructError"
proof -
  have b: "byte_of 16 = 16" "byte_of 3 = 3" "byte_of 1000 = 232" "byte_of 0 = 0"
    by (simp_all add: byte_of_def)
  show ?thesis
    using write_holding_register_value [of 1000 16] write_holding_register_value [of 65536 16] b by simp
qed

text \<open>
  C29: Writing a coil succeeds exactly when the number fits two bytes and the text is JSON for
  a boolean or for an integer of 16 bits; the payload is then the number and the value, where
  true is sent as 1 and false as 0. Every other text is a ValueError or a struct.error.
\<close>

theorem write_single_coil_value:
  "write_single_coil number data = ok r \<longleftrightarrow>
     (\<exists>v. (json_loads data = ok (JInt v) \<or> (\<exists>b. json_loads data = ok (JBool b) \<and> v = of_bool b))
       \<and> 0 \<le> v \<and> v < 65536 \<and> 0 \<le> number \<and> number < 65536
       \<and> r = (5, [byte_of (number div 256), byte_of number, byte_of (v div 256), byte_of v]))"
proof (cases "json_loads data")
  case (Inr j)
  then show ?thesis
    by (cases j) (auto simp: write_single_coil_def struct_int_def bind_res_eq_Inr pack_HH_def pack_be_H_def
        WRITE_SINGLE_COIL_def split: if_splits)
qed (simp add: write_single_coil_def)

section \<open>The handler\<close>

definition is_ascii :: "char \<Rightarrow> bool" where
  "is_ascii c \<longleftrightarrow> (of_char c :: nat) < 128"

definition wire :: "string \<Rightarrow> bytes" where
  "wire s = map (\<lambda>c. of_char c) s"

lemma list_all_ascii_to_base: "2 \<le> b \<Longrightarrow> b \<le> 16 \<Longrightarrow> list_all is_ascii (to_base b n)"
  by (auto simp: list_all_iff is_ascii_def dest!: to_base_digits simp: of_char_digit)

lemma is_ascii_upper: "is_ascii c \<Longrightarrow> is_ascii (upper_char c)"
  by (auto simp: is_ascii_def upper_char_def)

lemma list_all_ascii_fmt: "list_all is_ascii (fmt_02x n)"
  using list_all_ascii_to_base [of 16]
  by (auto simp: fmt_02x_def Let_def list_all_append is_ascii_def list_all_iff)

lemma list_all_ascii_build: "list_all is_ascii (build a f d)"
proof -
  have "list_all is_ascii (py_upper s)" if "list_all is_ascii s" for s
    using that by (auto simp: py_upper_def list_all_iff is_ascii_upper)
  moreover have "list_all is_ascii (concat (map (\<lambda>b. fmt_02x (uint b)) d))"
    using list_all_ascii_fmt by (induction d) auto
  ultimately show ?thesis
    using list_all_ascii_fmt by (simp add: build_def Let_def) (simp add: is_ascii_def)
qed

lemma encode_build: "encode_ascii (build a f d) = ok (wire (build a f d))"
  using list_all_ascii_build [of a f d] by (simp add: encode_ascii_def wire_def list_all_iff is_ascii_def)

text \<open>Putting a list of messages, one after the other, up to the first exception.\<close>

fun put_frames :: "port \<Rightarrow> bytes list \<Rightarrow> bytes list \<Rightarrow> bytes list \<times> unit res" where
  "put_frames p sent [] = (sent, ok ())"
| "put_frames p sent (m # ms) =
     (case put p sent m of Inl e \<Rightarrow> (sent, raise e) | Inr _ \<Rightarrow> put_frames p (sent @ [m]) ms)"

lemma put_all_frames: "put_all p sent f d as = put_frames p sent (map (\<lambda>a. wire (build a f d)) as)"
  by (induction as arbitrary: sent) (simp_all add: encode_build split: sum.split)

lemma put_frames_append:
  "put_frames p sent (ms @ ms') = (case put_frames p sent ms of
      (sent', Inl e) \<Rightarrow> (sent', raise e)
    | (sent', Inr _) \<Rightarrow> put_frames p sent' ms')"
  by (induction ms arbitrary: sent) (simp_all split: sum.split)

text \<open>The port takes the first \<open>k\<close> messages.\<close>

definition takes :: "port \<Rightarrow> nat \<Rightarrow> bytes list \<Rightarrow> bool" where
  "takes p k ms \<longleftrightarrow> (\<forall>j < k. put p (take j ms) (ms ! j) = ok ())"

lemma put_frames_split:
  assumes "\<forall>j < k. put p (sent @ take j ms) (ms ! j) = ok ()" "k \<le> length ms"
  shows "put_frames p sent ms = put_frames p (sent @ take k ms) (drop k ms)"
  using assms
proof (induction k arbitrary: sent ms)
  case (Suc k)
  then obtain m ms' where ms: "ms = m # ms'" by (cases ms) auto
  have "put p sent m = ok ()" using Suc.prems(1) by (force simp: ms)
  moreover have "\<forall>j < k. put p ((sent @ [m]) @ take j ms') (ms' ! j) = ok ()"
    using Suc.prems(1) by (force simp: ms)
  ultimately show ?case
    using Suc.IH [of "sent @ [m]" ms'] Suc.prems(2) by (simp add: ms)
qed simp

lemma put_frames_all: "takes p (length ms) ms \<Longrightarrow> put_frames p [] ms = (ms, ok ())"
  using put_frames_split [of "length ms" p "[]" ms] by (simp add: takes_def)

lemma put_frames_fails:
  assumes "takes p k ms" "k < length ms" "put p (take k ms) (ms ! k) = raise e"
  shows "put_frames p [] ms = (take k ms, raise e)"
proof -
  have "drop k ms = ms ! k # drop (Suc k) ms" using assms(2) by (simp add: Cons_nth_drop_Suc)
  then show ?thesis
    using put_frames_split [of k p "[]" ms] assms by (simp add: takes_def)
qed

text \<open>The messages that one parameter asks for, or the exception it causes.\<close>

definition param_frames :: "string \<times> string \<Rightarrow> bytes list res" where
  "param_frames p =
     bind_res (decompose (fst p)) (\<lambda>(as, t, n).
     bind_res (modbus_data t n (snd p)) (\<lambda>(f, d).
     ok (map (\<lambda>a. wire (build a f d)) as)))"

lemma network_loop_Cons:
  "network_loop p sent (v # values) = (case param_frames v of
      Inl e \<Rightarrow> (sent, raise e)
    | Inr fs \<Rightarrow> (case put_frames p sent fs of
          (sent', Inl e) \<Rightarrow> (sent', raise e)
        | (sent', Inr _) \<Rightarrow> network_loop p sent' values))"
  by (cases v) (auto simp: param_frames_def put_all_frames split: sum.splits prod.splits)

lemma network_loop_append:
  "map_res param_frames pre = ok fs \<Longrightarrow>
     network_loop p sent (pre @ rest) = (case put_frames p sent (concat fs) of
         (sent', Inl e) \<Rightarrow> (sent', raise e)
       | (sent', Inr _) \<Rightarrow> network_loop p sent' rest)"
proof (induction pre arbitrary: fs sent)
  case (Cons v pre)
  then obtain f fs' where "param_frames v = ok f" "map_res param_frames pre = ok fs'" "fs = f # fs'"
    by (auto simp: bind_res_eq_Inr)
  then show ?case
    using Cons.IH [of fs'] by (auto simp: network_loop_Cons put_frames_append split: sum.split prod.split)
qed simp

text \<open>
  C15: The handler sends the frames of every parameter in order, one per address, and returns
  the empty text when all parameters are well-formed and the port takes all the frames; at the first parameter
  that is not well-formed it stops with that parameter's exception, after the frames of all parameters before
  it and before any later one; and at the first frame that the port refuses it stops with the exception of the
  port, after the frames before that one. Without a connection nothing is sent.
\<close>

theorem network_sends_in_order:
  assumes "map_res param_frames pre = ok fs"
  shows "(connect p = ok () \<longrightarrow> takes p (length (concat fs)) (concat fs) \<longrightarrow>
           network p pre = (concat fs, ok '''') \<and>
           (\<forall>v e post. param_frames v = raise e \<longrightarrow> network p (pre @ v # post) = (concat fs, raise e)))
    \<and> (\<forall>k e post. connect p = ok () \<longrightarrow> k < length (concat fs) \<longrightarrow> takes p k (concat fs) \<longrightarrow>
           put p (take k (concat fs)) (concat fs ! k) = raise e \<longrightarrow>
           network p (pre @ post) = (take k (concat fs), raise e))
    \<and> (\<forall>e. connect p = raise e \<longrightarrow> network p pre = ([], raise e))"
proof -
  note net = network_def network_loop_append [OF assms, of p "[]"]
  show ?thesis
    using network_loop_append [OF assms, of p "[]" "[]"]
    by (auto simp: net put_frames_all put_frames_fails network_loop_Cons)
qed

definition free_port :: port where
  "free_port = \<lparr>connect = ok (), put = (\<lambda>_ _. ok ())\<rparr>"

definition one_shot_port :: port where
  "one_shot_port = \<lparr>connect = ok (), put = (\<lambda>sent _. if sent = [] then ok () else raise SerialException)\<rparr>"

theorem network_sends_in_order_witness:
  "network free_port [(''lamp_01-02_numeric_A'', ''5''), (''bad'', ''1''), (''lamp_03_numeric_A'', ''5'')]
     = ([wire (build 1 6 [0, 10, 0, 5]), wire (build 2 6 [0, 10, 0, 5])], raise ValueError) \<and>
   network one_shot_port [(''lamp_01-02_numeric_A'', ''5'')] = ([wire (build 1 6 [0, 10, 0, 5])], raise SerialException)"
proof
  have g: "map_res param_frames [(''lamp_01-02_numeric_A'', ''5'')]
      = ok [[wire (build 1 6 [0, 10, 0, 5]), wire (build 2 6 [0, 10, 0, 5])]]"
    by code_simp
  have b: "param_frames (''bad'', ''1'') = raise ValueError"
    by code_simp
  show "network free_port [(''lamp_01-02_numeric_A'', ''5''), (''bad'', ''1''), (''lamp_03_numeric_A'', ''5'')]
     = ([wire (build 1 6 [0, 10, 0, 5]), wire (build 2 6 [0, 10, 0, 5])], raise ValueError)"
    using network_sends_in_order [OF g, of free_port] b by (simp add: free_port_def takes_def)
  show "network one_shot_port [(''lamp_01-02_numeric_A'', ''5'')] = ([wire (build 1 6 [0, 10, 0, 5])], raise SerialException)"
    using network_sends_in_order [OF g, of one_shot_port, THEN conjunct2, THEN conjunct1, rule_format, of 1 SerialException "[]"]
    by (simp add: one_shot_port_def takes_def)
qed

end
