(* ===== verification/Serial_Client.thy ===== *)
theory Serial_Client
  imports Modbus Py_Float
begin

text \<open>
  The module \<^verbatim>\<open>gateway_daemon.serial\<close>: from a line of the serial port to a data point for the
  time-series database. The attributes of the type \<^verbatim>\<open>int\<close> that the module calls are looked up
  by name in a table (\<^verbatim>\<open>int_attr\<close>), so that a misspelt name raises AttributeError as in Python;
  \<open>int_methods\<close> is the table the language provides. Posting over HTTP is a parameter.
\<close>

section \<open>The code\<close>

definition MODBUS_FUNCTIONS :: "int \<rightharpoonup> string" where
  "MODBUS_FUNCTIONS = (\<lambda>c. if c = 3 then Some ''numeric'' else if c = 1 then Some ''binary'' else None)"

function clean_data :: "string \<Rightarrow> string" where
  "clean_data data =
     (if 0 < len data \<and> (last data = CHR 0x0D \<or> last data = CHR 0x0A)
      then clean_data (py_slice data None (Some (- 1))) else data)"
  by pat_completeness auto
termination
  by (relation "measure length") (auto simp: slice_simps)

declare clean_data.simps [simp del]

type_synonym int_attr = "string \<Rightarrow> (bytes \<Rightarrow> int) option"

definition int_methods :: int_attr where
  "int_methods name = (if name = ''from_bytes'' then Some from_bytes_big else None)"

definition call_int :: "int_attr \<Rightarrow> string \<Rightarrow> bytes \<Rightarrow> int res" where
  "call_int attr name bs = (case attr name of None \<Rightarrow> raise AttributeError | Some f \<Rightarrow> ok (f bs))"

text \<open>
  The tuple \<^verbatim>\<open>register, command, offset, value, timestamp, coordinates, tstp_si, mac_hash,
  scale\<close>. The variable \<^verbatim>\<open>command\<close> is unbound when the dictionary has no entry for the code.
\<close>

type_synonym freed = "string \<times> string \<times> string \<times> string \<times> int \<times> string \<times> int \<times> string \<times> string"

definition free_data :: "int_attr \<Rightarrow> string \<Rightarrow> freed res" where
  "free_data attr data = (case parse data of
      Inl e \<Rightarrow> if e = KeyError then raise UnboundLocalError else raise e
    | Inr (register, cmd, bs, coordinates, mac_hash, scale) \<Rightarrow>
        let command = MODBUS_FUNCTIONS cmd in
        bind_res (call_int attr ''from_bytes'' (py_slice bs None (Some 2))) (\<lambda>offset.
        bind_res (call_int attr ''from_bytes'' (py_slice bs (Some 2) None)) (\<lambda>value.
        bind_res (call_int attr ''from_bytes'' (py_slice bs (Some 5) None)) (\<lambda>timestamp.
        bind_res (call_int attr ''frombytes'' (py_slice bs (Some 15) None)) (\<lambda>tstp_si.
        bind_res (py_index (py_split (CHR ''x'') (py_hex register)) 1) (\<lambda>digits.
        case command of
          None \<Rightarrow> raise UnboundLocalError
        | Some command \<Rightarrow>
            ok (py_upper digits, command, py_str offset, py_str value, timestamp, coordinates,
                tstp_si, mac_hash, scale)))))))"

record tags =
  coordinate_x :: char
  coordinate_y :: char
  coordinate_z :: char
  coordinate_t :: char
  tag_tstp_si :: int
  tag_mac_hash :: string
  spatial_scale :: char
  temporal_scale :: char

record post =
  post_name :: string
  post_value :: pyfloat
  post_timestamp :: int
  post_tags :: tags

definition mount_request :: "int_attr \<Rightarrow> string \<Rightarrow> post res" where
  "mount_request attr data =
     bind_res (free_data attr data)
       (\<lambda>(register, command, offset, value, timestamp, coordinates, tstp_si, mac_hash, scale).
     bind_res (py_float value) (\<lambda>v.
     bind_res (py_index coordinates 0) (\<lambda>x.
     bind_res (py_index coordinates 1) (\<lambda>y.
     bind_res (py_index coordinates 2) (\<lambda>z.
     bind_res (py_index coordinates 3) (\<lambda>t.
     bind_res (py_index scale 0) (\<lambda>s0.
     bind_res (py_index scale 1) (\<lambda>s1.
     ok \<lparr>post_name = register @ command @ offset, post_value = v, post_timestamp = timestamp,
         post_tags = \<lparr>coordinate_x = x, coordinate_y = y, coordinate_z = z, coordinate_t = t,
           tag_tstp_si = tstp_si, tag_mac_hash = mac_hash, spatial_scale = s0, temporal_scale = s1\<rparr>\<rparr>))))))))"

text \<open>What the module does to the outside: a request sent, or an error report on stderr.\<close>

datatype effect = Sent post | Reported string py_error

text \<open>\<^verbatim>\<open>except (KeyboardInterrupt, SystemExit): raise\<close>, in front of the bare \<^verbatim>\<open>except\<close>.\<close>

definition passes_through :: "py_error \<Rightarrow> bool" where
  "passes_through e \<longleftrightarrow> e = KeyboardInterrupt \<or> e = SysExit"

definition make_request :: "int_attr \<Rightarrow> (post \<Rightarrow> unit res) \<Rightarrow> string \<Rightarrow> effect list \<times> unit res" where
  "make_request attr http_post data =
     (let data = clean_data data;
          handle = (\<lambda>e. if passes_through e then ([], raise e) else ([Reported data e], ok ()))
      in case mount_request attr data of
        Inl e \<Rightarrow> handle e
      | Inr p \<Rightarrow> (case http_post p of
            Inl e \<Rightarrow> (let (t, r) = handle e in (Sent p # t, r))
          | Inr _ \<Rightarrow> ([Sent p], ok ())))"

text \<open>
  The loop of \<^verbatim>\<open>run_serial\<close> over the outcomes of \<^verbatim>\<open>readline\<close> so far: its effects and the exception that
  ended it, or None while it goes on.
\<close>

fun serial_loop :: "int_attr \<Rightarrow> (post \<Rightarrow> unit res) \<Rightarrow> string res list \<Rightarrow> effect list \<times> py_error option" where
  "serial_loop attr http_post [] = ([], None)"
| "serial_loop attr http_post (Inl e # reads) = ([], Some e)"
| "serial_loop attr http_post (Inr data # reads) =
     (case make_request attr http_post data of
        (t, Inl e) \<Rightarrow> (t, Some e)
      | (t, Inr _) \<Rightarrow> (let (t', r) = serial_loop attr http_post reads in (t @ t', r)))"

text \<open>The whole thread: opening the port and constructing the \<^verbatim>\<open>Mote\<close> (\<open>connect\<close>) may raise.\<close>

definition run_serial :: "int_attr \<Rightarrow> (post \<Rightarrow> unit res) \<Rightarrow> unit res \<Rightarrow> string res list \<Rightarrow> effect list \<times> py_error option" where
  "run_serial attr http_post connect reads =
     (case connect of Inl e \<Rightarrow> ([], Some e) | Inr _ \<Rightarrow> serial_loop attr http_post reads)"


section \<open>Cleaning a line\<close>

lemma clean_data_unfold:
  "clean_data s = (if s \<noteq> [] \<and> (last s = CHR 0x0D \<or> last s = CHR 0x0A) then clean_data (butlast s) else s)"
  by (subst clean_data.simps) (simp add: slice_simps butlast_conv_take)

lemma clean_data_snoc:
  "clean_data (s @ [c]) = (if c = CHR 0x0D \<or> c = CHR 0x0A then clean_data s else s @ [c])"
  by (subst clean_data_unfold) simp

lemma clean_data_Nil [simp]: "clean_data [] = []"
  by (subst clean_data_unfold) simp

lemma clean_data_rev_dropWhile:
  "clean_data s = rev (dropWhile (\<lambda>c. c = CHR 0x0D \<or> c = CHR 0x0A) (rev s))"
  by (induction s rule: rev_induct) (simp_all add: clean_data_snoc)


text \<open>
  C32: \<^verbatim>\<open>clean_data\<close> returns for every line, and what it returns is the line without its longest
  tail of carriage returns and line feeds; nothing else is removed.
\<close>

theorem clean_data_strips_line_ends:
  "\<exists>tail. s = clean_data s @ tail \<and> set tail \<subseteq> {CHR 0x0D, CHR 0x0A}
     \<and> (clean_data s = [] \<or> last (clean_data s) \<notin> {CHR 0x0D, CHR 0x0A})"
proof (induction s rule: rev_induct)
  case (snoc c s)
  show ?case
  proof (cases "c = CHR 0x0D \<or> c = CHR 0x0A")
    case True
    from snoc obtain tail where "s = clean_data s @ tail" "set tail \<subseteq> {CHR 0x0D, CHR 0x0A}"
      "clean_data s = [] \<or> last (clean_data s) \<notin> {CHR 0x0D, CHR 0x0A}"
      by blast
    with True show ?thesis
      by (intro exI [of _ "tail @ [c]"]) (auto simp: clean_data_snoc)
  qed (simp add: clean_data_snoc)
qed simp

theorem clean_data_strips_line_ends_witness:
  "\<exists>tail. ''ab'' @ [CHR 0x0D, CHR 0x0A] = clean_data (''ab'' @ [CHR 0x0D, CHR 0x0A]) @ tail \<and> set tail \<subseteq> {CHR 0x0D, CHR 0x0A}
     \<and> (clean_data (''ab'' @ [CHR 0x0D, CHR 0x0A]) = [] \<or> last (clean_data (''ab'' @ [CHR 0x0D, CHR 0x0A])) \<notin> {CHR 0x0D, CHR 0x0A})"
  by (rule clean_data_strips_line_ends)

lemma clean_data_append_CRLF:
  "last s \<noteq> CHR 0x0D \<Longrightarrow> last s \<noteq> CHR 0x0A \<Longrightarrow> s \<noteq> [] \<Longrightarrow> clean_data (s @ [CHR 0x0D, CHR 0x0A]) = s"
proof -
  assume a: "last s \<noteq> CHR 0x0D" "last s \<noteq> CHR 0x0A" "s \<noteq> []"
  have "clean_data ((s @ [CHR 0x0D]) @ [CHR 0x0A]) = clean_data s"
    by (simp only: clean_data_snoc simp_thms if_True)
  then show ?thesis
    using a by (simp add: clean_data_unfold [of s])
qed


section \<open>No message ever reaches the database\<close>

lemma call_from_bytes [simp]: "call_int int_methods ''from_bytes'' bs = ok (from_bytes_big bs)"
  by (simp add: call_int_def int_methods_def)

lemma call_frombytes [simp]: "call_int int_methods ''frombytes'' bs = raise AttributeError"
  by (simp add: call_int_def int_methods_def)

lemma free_data_raises:
  "free_data int_methods data = raise (case parse data of Inl e \<Rightarrow> e | Inr _ \<Rightarrow> AttributeError)"
proof (cases "parse data")
  case (Inl e)
  then have "e \<noteq> KeyError"
    using parse_error_kinds by blast
  with Inl show ?thesis by (simp add: free_data_def)
qed (auto simp: free_data_def)

lemma make_request_reports:
  "make_request int_methods http_post data
     = ([Reported (clean_data data) (case parse (clean_data data) of Inl e \<Rightarrow> e | Inr _ \<Rightarrow> AttributeError)], ok ())"
proof -
  have "\<not> passes_through (case parse (clean_data data) of Inl e \<Rightarrow> e | Inr _ \<Rightarrow> AttributeError)"
    using parse_error_kinds by (auto simp: passes_through_def split: sum.split)
  then show ?thesis
    by (simp add: make_request_def mount_request_def free_data_raises Let_def)
qed

text \<open>
  C12: With the attributes that Python's \<^verbatim>\<open>int\<close> really has, \<^verbatim>\<open>make_request\<close> never sends a request,
  whatever the line and whatever the network does: it reports exactly one error on stderr and
  returns. The error is the one of \<^verbatim>\<open>parse\<close> when the line is malformed, and AttributeError for
  every well-formed message, because \<^verbatim>\<open>int.frombytes\<close> does not exist.
\<close>

theorem make_request_never_sends:
  "make_request int_methods http_post data
     = ([Reported (clean_data data) (case parse (clean_data data) of Inl e \<Rightarrow> e | Inr _ \<Rightarrow> AttributeError)], ok ())"
  by (rule make_request_reports)

text \<open>The lines before the first exception of \<^verbatim>\<open>readline\<close>, and that exception.\<close>

fun lines_before :: "string res list \<Rightarrow> string list \<times> py_error option" where
  "lines_before [] = ([], None)"
| "lines_before (Inl e # reads) = ([], Some e)"
| "lines_before (Inr l # reads) = (let (ls, r) = lines_before reads in (l # ls, r))"

lemma serial_loop_reports:
  "\<exists>es. length es = length (fst (lines_before reads)) \<and>
     serial_loop int_methods http_post reads =
       (map2 Reported (map clean_data (fst (lines_before reads))) es, snd (lines_before reads))"
proof (induction reads rule: lines_before.induct)
  case (3 l reads)
  then obtain es where es: "length es = length (fst (lines_before reads))"
      "serial_loop int_methods http_post reads =
         (map2 Reported (map clean_data (fst (lines_before reads))) es, snd (lines_before reads))"
    by blast
  let ?e = "case parse (clean_data l) of Inl e \<Rightarrow> e | Inr _ \<Rightarrow> AttributeError"
  show ?case
    using es by (intro exI [of _ "?e # es"]) (simp add: make_request_reports split: prod.splits)
qed simp_all

text \<open>
  C30: The serial thread survives every line and forwards none of it: it ends only by an exception of opening
  the port or of \<^verbatim>\<open>readline\<close>, and up to then it has reported one error per line, in order, and has
  sent nothing.
\<close>

theorem run_serial_forwards_nothing:
  "\<exists>es. length es = length (fst (lines_before reads)) \<and>
     run_serial int_methods http_post (ok ()) reads =
       (map2 Reported (map clean_data (fst (lines_before reads))) es, snd (lines_before reads)) \<and>
     (\<forall>p. Sent p \<notin> set (fst (run_serial int_methods http_post (ok ()) reads)))"
proof -
  obtain es where es: "length es = length (fst (lines_before reads))"
      "serial_loop int_methods http_post reads =
         (map2 Reported (map clean_data (fst (lines_before reads))) es, snd (lines_before reads))"
    using serial_loop_reports by blast
  then show ?thesis by (intro exI [of _ es]) (auto simp: run_serial_def)
qed


section \<open>What the decoder would deliver\<close>

lemma x_not_digit: "CHR ''x'' \<notin> set (to_base 16 n)"
proof
  assume "CHR ''x'' \<in> set (to_base 16 n)"
  then obtain d where "d < 16" "CHR ''x'' = digit_char d"
    using to_base_digits [of 16 "CHR ''x''" n] by auto
  then have "(of_char (CHR ''x'') :: nat) = (if d < 10 then 48 + d else 87 + d)"
    by (simp only: of_char_digit)
  with \<open>d < 16\<close> show False by (auto split: if_splits)
qed

lemma register_digits:
  "py_index (py_split (CHR ''x'') (py_hex r)) 1 = ok (to_base 16 (nat \<bar>r\<bar>))"
  using py_split_append [of "CHR ''x''" "''-0''" "to_base 16 (nat (- r))"]
    py_split_append [of "CHR ''x''" "''0''" "to_base 16 (nat r)"]
  by (simp add: py_hex_def py_split_no_sep x_not_digit py_index_def)

text \<open>
  The decoding itself, for any table of \<^verbatim>\<open>int\<close> attributes that has both names the code
  uses: a function code other than 1 and 3 ends in an UnboundLocalError.
\<close>

lemma free_data_decodes:
  assumes "attr ''from_bytes'' = Some from_bytes_big" "attr ''frombytes'' = Some from_bytes_big"
    and "parse data = ok (register, cmd, d, coordinates, mac_hash, scale)"
  shows "free_data attr data = (case MODBUS_FUNCTIONS cmd of
      None \<Rightarrow> raise UnboundLocalError
    | Some command \<Rightarrow> ok (py_upper (to_base 16 (nat \<bar>register\<bar>)), command,
        py_str (from_bytes_big (take 2 d)), py_str (from_bytes_big (drop 2 d)),
        from_bytes_big (drop 5 d), coordinates, from_bytes_big (drop 15 d), mac_hash, scale))"
  using assms by (simp add: free_data_def call_int_def register_digits slice_simps split: option.split)

lemma from_bytes_big_nonneg: "0 \<le> from_bytes_big bs"
proof -
  have "0 \<le> a \<Longrightarrow> 0 \<le> foldl (\<lambda>a b. a * 256 + uint b) a bs" for a :: int
    by (induction bs arbitrary: a) (auto simp: uint_byte_bounds)
  then show ?thesis by (simp add: from_bytes_big_def)
qed

lemma py_float_str: "0 \<le> n \<Longrightarrow> py_float (py_str n) = ok (round_double 1 n 1)"
  by (simp add: py_str_def py_float_digits list_all_to_base_10 digits_value_to_base)

text \<open>The data point for a message and its parsed fields.\<close>

definition data_point :: "string \<Rightarrow> int \<Rightarrow> string \<Rightarrow> bytes \<Rightarrow> post" where
  "data_point m register command d =
     \<lparr>post_name = py_upper (to_base 16 (nat \<bar>register\<bar>)) @ command @ py_str (from_bytes_big (take 2 d)),
      post_value = round_double 1 (from_bytes_big (drop 2 d)) 1,
      post_timestamp = from_bytes_big (drop 5 d),
      post_tags = \<lparr>coordinate_x = m ! 15, coordinate_y = m ! 16, coordinate_z = m ! 17, coordinate_t = m ! 18,
        tag_tstp_si = from_bytes_big (drop 15 d), tag_mac_hash = drop 55 m,
        spatial_scale = m ! 65, temporal_scale = m ! 66\<rparr>\<rparr>"

lemma py_index_error: "py_index xs i = raise e \<Longrightarrow> e = IndexError"
  by (auto simp: py_index_def Let_def split: if_splits)

lemma py_index_drop: "0 \<le> i \<Longrightarrow> n + nat i < length m \<Longrightarrow> py_index (drop n m) i = ok (m ! (n + nat i))"
  by (simp add: py_index_def)

lemma mount_request_point:
  assumes "attr ''from_bytes'' = Some from_bytes_big" "attr ''frombytes'' = Some from_bytes_big"
    and "parse m = ok (register, cmd, d, coordinates, mac_hash, scale)" "MODBUS_FUNCTIONS cmd = Some command"
  shows "mount_request attr m = (if length m < 67 then raise IndexError else ok (data_point m register command d))"
proof -
  have r: "coordinates = drop 15 m" "mac_hash = drop 55 m" "scale = drop 65 m"
    using assms(3) by (auto simp: parse_cases bind_res_eq_Inr split: if_splits)
  have f: "free_data attr m = ok (py_upper (to_base 16 (nat \<bar>register\<bar>)), command,
        py_str (from_bytes_big (take 2 d)), py_str (from_bytes_big (drop 2 d)),
        from_bytes_big (drop 5 d), coordinates, from_bytes_big (drop 15 d), mac_hash, scale)"
    using free_data_decodes [OF assms(1,2,3)] assms(4) by simp
  show ?thesis
  proof (cases "length m < 67")
    case True
    then have "py_index (drop 65 m) 1 = raise IndexError" by (simp add: py_index_def)
    then show ?thesis
      using True
      by (cases "py_index (drop 15 m) 0"; cases "py_index (drop 15 m) 1"; cases "py_index (drop 15 m) 2";
          cases "py_index (drop 15 m) 3"; cases "py_index (drop 65 m) 0")
        (auto simp: mount_request_def f r py_float_str from_bytes_big_nonneg py_index_error)
  next
    case False
    then show ?thesis
      by (simp add: mount_request_def f r py_float_str from_bytes_big_nonneg py_index_drop data_point_def)
  qed
qed


definition sample_line :: string where
  "sample_line = '':0103'' @ ''1E'' @ concat (replicate 30 ''10'') @ ''FE'' @ [CHR 0x0D, CHR 0x0A]"


end
