(* ===== verification/Py_Utf8.thy ===== *)
theory Py_Utf8
  imports Py_Prelude
begin

text \<open>
  UTF-8 as Python's codec has it: \<^verbatim>\<open>str(b, 'utf8')\<close>, which rejects overlong forms, surrogates and
  truncated sequences, and \<^verbatim>\<open>bytes(s, 'utf-8')\<close> for texts of code points below 256.
\<close>

text \<open>\<^verbatim>\<open>str(b, 'utf8')\<close>: the code points, or None for a UnicodeDecodeError.\<close>

definition cont :: "byte \<Rightarrow> nat option" where
  "cont b = (if 0x80 \<le> unat b \<and> unat b \<le> 0xBF then Some (unat b - 0x80) else None)"

fun utf8_decode :: "bytes \<Rightarrow> nat list option" where
  "utf8_decode [] = Some []"
| "utf8_decode (b # bs) =
     (let n = unat b in
      if n < 0x80 then map_option (Cons n) (utf8_decode bs)
      else if 0xC2 \<le> n \<and> n \<le> 0xDF then
        (case bs of
           b1 # r \<Rightarrow> (case cont b1 of
               Some x \<Rightarrow> map_option (Cons ((n - 0xC0) * 64 + x)) (utf8_decode r)
             | None \<Rightarrow> None)
         | [] \<Rightarrow> None)
      else if 0xE0 \<le> n \<and> n \<le> 0xEF then
        (case bs of
           b1 # b2 # r \<Rightarrow> (case (cont b1, cont b2) of
               (Some x, Some y) \<Rightarrow>
                 let c = (n - 0xE0) * 4096 + x * 64 + y
                 in if c < 0x800 \<or> 0xD800 \<le> c \<and> c \<le> 0xDFFF then None
                    else map_option (Cons c) (utf8_decode r)
             | _ \<Rightarrow> None)
         | _ \<Rightarrow> None)
      else if 0xF0 \<le> n \<and> n \<le> 0xF4 then
        (case bs of
           b1 # b2 # b3 # r \<Rightarrow> (case (cont b1, cont b2, cont b3) of
               (Some x, Some y, Some z) \<Rightarrow>
                 let c = (n - 0xF0) * 262144 + x * 4096 + y * 64 + z
                 in if c < 0x10000 \<or> 0x10FFFF < c then None
                    else map_option (Cons c) (utf8_decode r)
             | _ \<Rightarrow> None)
         | _ \<Rightarrow> None)
      else None)"

lemma utf8_decode_ascii:
  "(\<And>b. b \<in> set bs \<Longrightarrow> unat b < 128) \<Longrightarrow> utf8_decode bs = Some (map unat bs)"
  by (induction bs) auto

definition utf8_char :: "char \<Rightarrow> bytes" where
  "utf8_char c = (let n = (of_char c :: nat) in
     if n < 0x80 then [of_nat n] else [of_nat (0xC0 + n div 64), of_nat (0x80 + n mod 64)])"

definition utf8_encode :: "string \<Rightarrow> bytes" where
  "utf8_encode s = concat (map utf8_char s)"

lemma unat_of_nat_byte: "n < 256 \<Longrightarrow> unat (of_nat n :: byte) = n"
  by (simp add: unat_of_nat take_bit_nat_eq_self)

lemma utf8_decode_two:
  assumes "unat b1 = 0xC0 + h" "2 \<le> h" "h < 4" "cont b2 = Some x"
  shows "utf8_decode (b1 # b2 # bs) = map_option (Cons (h * 64 + x)) (utf8_decode bs)"
  using assms by (simp add: Let_def)

lemma utf8_decode_char: "utf8_decode (utf8_char c @ bs) = map_option (Cons (of_char c)) (utf8_decode bs)"
proof -
  have n: "(of_char c :: nat) < 256" by simp
  show ?thesis
  proof (cases "(of_char c :: nat) < 0x80")
    case True
    then show ?thesis by (simp add: utf8_char_def unat_of_nat_byte)
  next
    case False
    define n where "n = (of_char c :: nat)"
    have lo: "\<not> n < 128" using False by (simp add: n_def)
    have hi: "n < 256" unfolding n_def by (rule n)
    have b: "2 \<le> n div 64" "n div 64 < 4" "n mod 64 < 64" "n div 64 * 64 + n mod 64 = n"
      using lo hi by simp_all
    have u: "unat (of_nat (0xC0 + n div 64) :: byte) = 0xC0 + n div 64"
      "unat (of_nat (0x80 + n mod 64) :: byte) = 0x80 + n mod 64"
      using b by (simp_all only: unat_of_nat_byte)
    have c: "cont (of_nat (0x80 + n mod 64)) = Some (n mod 64)"
      unfolding cont_def u using b by simp
    have e: "utf8_char c = [of_nat (0xC0 + n div 64), of_nat (0x80 + n mod 64)]"
      using lo unfolding utf8_char_def n_def [symmetric] Let_def by (simp only: if_False)
    show ?thesis
      using utf8_decode_two [OF u(1) b(1,2) c] b(4) unfolding e by (simp only: append_Cons append_Nil n_def)
  qed
qed

text \<open>What is encoded decodes to the same characters.\<close>

lemma utf8_decode_encode: "utf8_decode (utf8_encode s) = Some (map of_char s)"
  by (induction s) (simp_all add: utf8_encode_def utf8_decode_char)

end
