(* ===== verification/Guarded_System.thy ===== *)
theory Guarded_System
  imports Main
begin

text \<open>
  The contract of a system whose threads enter a critical region only through a lock that,
  like Python's \<^verbatim>\<open>threading.Lock\<close>, is a mere flag: it does not know its owner and is not
  released when an exception leaves the region. From two laws about single steps follow
  mutual exclusion and that an abandoned lock stays taken for ever.
\<close>

locale guarded_system =
  fixes step :: "'s \<Rightarrow> 's \<Rightarrow> bool"
    and held :: "'s \<Rightarrow> bool"
    and inside :: "'s \<Rightarrow> 't \<Rightarrow> bool"
  assumes enter: "step s s' \<Longrightarrow> inside s' t \<Longrightarrow> \<not> inside s t \<Longrightarrow>
      \<not> held s \<and> held s' \<and> (\<forall>u. inside s' u \<longrightarrow> u = t \<or> inside s u)"
    and release: "step s s' \<Longrightarrow> held s \<Longrightarrow> \<not> held s' \<Longrightarrow>
      \<exists>t. inside s t \<and> (\<forall>u. inside s' u \<longrightarrow> inside s u \<and> u \<noteq> t)"
begin

definition excl :: "'s \<Rightarrow> bool" where
  "excl s \<longleftrightarrow> (\<forall>t. inside s t \<longrightarrow> held s) \<and> (\<forall>t u. inside s t \<longrightarrow> inside s u \<longrightarrow> t = u)"

definition abandoned :: "'s \<Rightarrow> bool" where
  "abandoned s \<longleftrightarrow> held s \<and> (\<forall>t. \<not> inside s t)"

lemma excl_step:
  assumes "excl s" "step s s'"
  shows "excl s'"
proof (cases "\<exists>t. inside s' t \<and> \<not> inside s t")
  case True
  then obtain t where t: "inside s' t" "\<not> inside s t" by blast
  from enter [OF assms(2) t] have "\<not> held s" "held s'" "\<forall>u. inside s' u \<longrightarrow> u = t \<or> inside s u"
    by auto
  with assms(1) show ?thesis unfolding excl_def by metis
next
  case False
  then have sub: "\<forall>t. inside s' t \<longrightarrow> inside s t" by blast
  have "held s'" if "inside s' t" for t
  proof (rule ccontr)
    assume "\<not> held s'"
    moreover from that sub assms(1) have "held s" "inside s t" by (auto simp: excl_def)
    ultimately obtain u where "inside s u" "\<forall>v. inside s' v \<longrightarrow> inside s v \<and> v \<noteq> u"
      using release [OF assms(2)] by blast
    with that sub assms(1) show False by (auto simp: excl_def)
  qed
  with sub assms(1) show ?thesis by (auto simp: excl_def)
qed

lemma excl_steps: "step\<^sup>*\<^sup>* s s' \<Longrightarrow> excl s \<Longrightarrow> excl s'"
  by (induction rule: rtranclp_induct) (auto intro: excl_step)

lemma abandoned_step: "abandoned s \<Longrightarrow> step s s' \<Longrightarrow> abandoned s'"
  using enter release unfolding abandoned_def by metis

lemma abandoned_steps: "step\<^sup>*\<^sup>* s s' \<Longrightarrow> abandoned s \<Longrightarrow> abandoned s'"
  by (induction rule: rtranclp_induct) (auto intro: abandoned_step)

text \<open>
  An observation that only changes while some thread is inside is frozen once the lock is
  abandoned.
\<close>

lemma abandoned_frozen:
  assumes "step\<^sup>*\<^sup>* s s'" "abandoned s"
    and obs: "\<And>u v. step u v \<Longrightarrow> (\<forall>t. \<not> inside u t) \<Longrightarrow> obs v = obs u"
  shows "obs s' = obs s"
  using assms(1)
proof (induction rule: rtranclp_induct)
  case (step u v)
  have "abandoned u" using abandoned_steps [OF step.hyps(1) assms(2)] .
  with obs [OF step.hyps(2)] step.IH show ?case by (simp add: abandoned_def)
qed simp

end

end
