(* ===== verification/Mote.thy ===== *)
theory Mote
  imports Complex_Main Py_Utf8 Guarded_System
begin

text \<open>
  The class \<^verbatim>\<open>gateway_daemon.mote.Mote\<close>: one serial port, shared by the threads of the gateway
  through a class-wide lock, with a minimum time between writes. Every statement that touches
  the lock, the port, the clock or \<^verbatim>\<open>last_write\<close> is one step; the scheduler, the clock and the
  port choose the events. \<^verbatim>\<open>time.time()\<close> is a rational number of seconds that does not run
  backwards.
\<close>

section \<open>The state and the steps\<close>

type_synonym thread = nat

text \<open>Where a thread is: before each statement of \<^verbatim>\<open>__init__\<close>, \<^verbatim>\<open>put\<close> and \<^verbatim>\<open>readline\<close>.\<close>

datatype pc =
    Idle
  | InitAcquire | InitClose | InitOpen | InitRelease
  | PutAcquire bytes | PutSpin bytes | PutWrite bytes | PutFlush | PutStamp | PutRelease
  | ReadAcquire | ReadLine | ReadReturn "nat list" | ReadRetry

text \<open>
  The class attributes \<^verbatim>\<open>lock\<close> and \<^verbatim>\<open>last_write\<close>, the clock, the threads, and two records of the
  traffic: what was written to the port and when (newest first), and what \<^verbatim>\<open>readline\<close> returned.
\<close>

record mote =
  lock :: bool
  last_write :: rat
  now :: rat
  pcs :: "thread \<Rightarrow> pc"
  written :: "(rat \<times> bytes) list"
  delivered :: "(thread \<times> nat list) list"

definition inter_write_time :: rat where
  "inter_write_time = 2 / 5"

datatype event =
    Tick rat
  | CallInit thread | CallPut thread bytes | CallRead thread
  | Run thread
  | Recv thread bytes
  | Fail thread py_error

abbreviation goto :: "thread \<Rightarrow> pc \<Rightarrow> mote \<Rightarrow> mote" where
  "goto t p s \<equiv> s\<lparr>pcs := (pcs s)(t := p)\<rparr>"

definition acquire :: "thread \<Rightarrow> pc \<Rightarrow> mote \<Rightarrow> mote option" where
  "acquire t p s = (if lock s then None else Some (goto t p (s\<lparr>lock := True\<rparr>)))"

definition run :: "thread \<Rightarrow> mote \<Rightarrow> mote option" where
  "run t s = (case pcs s t of
      Idle \<Rightarrow> None
    | InitAcquire \<Rightarrow> acquire t InitClose s
    | InitClose \<Rightarrow> Some (goto t InitOpen s)
    | InitOpen \<Rightarrow> Some (goto t InitRelease s)
    | InitRelease \<Rightarrow> Some (goto t Idle (s\<lparr>lock := False\<rparr>))
    | PutAcquire b \<Rightarrow> acquire t (PutSpin b) s
    | PutSpin b \<Rightarrow> if now s - last_write s \<le> inter_write_time then Some s else Some (goto t (PutWrite b) s)
    | PutWrite b \<Rightarrow> Some (goto t PutFlush (s\<lparr>written := (now s, b) # written s\<rparr>))
    | PutFlush \<Rightarrow> Some (goto t PutStamp s)
    | PutStamp \<Rightarrow> Some (goto t PutRelease (s\<lparr>last_write := now s\<rparr>))
    | PutRelease \<Rightarrow> Some (goto t Idle (s\<lparr>lock := False\<rparr>))
    | ReadAcquire \<Rightarrow> acquire t ReadLine s
    | ReadLine \<Rightarrow> None
    | ReadReturn l \<Rightarrow> Some (goto t Idle (s\<lparr>lock := False, delivered := delivered s @ [(t, l)]\<rparr>))
    | ReadRetry \<Rightarrow> Some (goto t ReadAcquire (s\<lparr>lock := False\<rparr>)))"

text \<open>
  A line arrives in \<^verbatim>\<open>self.serial.readline()\<close> and is decoded; a line that is not UTF-8 raises
  UnicodeDecodeError, whose handler releases the lock and loops.
\<close>

definition recv :: "thread \<Rightarrow> bytes \<Rightarrow> mote \<Rightarrow> mote option" where
  "recv t bs s =
     (if pcs s t = ReadLine
      then Some (goto t (case utf8_decode bs of Some l \<Rightarrow> ReadReturn l | None \<Rightarrow> ReadRetry) s)
      else None)"

text \<open>
  A call of the port raises. \<^verbatim>\<open>readline\<close> catches SerialException and UnicodeDecodeError; every
  other exception leaves the method, past the release of the lock.
\<close>

definition fail :: "thread \<Rightarrow> py_error \<Rightarrow> mote \<Rightarrow> mote option" where
  "fail t e s = (case pcs s t of
      InitClose \<Rightarrow> Some (goto t Idle s)
    | InitOpen \<Rightarrow> Some (goto t Idle s)
    | PutWrite _ \<Rightarrow> Some (goto t Idle s)
    | PutFlush \<Rightarrow> Some (goto t Idle s)
    | ReadLine \<Rightarrow> Some (goto t (if e = SerialException \<or> e = UnicodeDecodeError then ReadRetry else Idle) s)
    | _ \<Rightarrow> None)"

fun exec :: "event \<Rightarrow> mote \<Rightarrow> mote option" where
  "exec (Tick d) s = (if 0 \<le> d then Some (s\<lparr>now := now s + d\<rparr>) else None)"
| "exec (CallInit t) s = (if pcs s t = Idle then Some (goto t InitAcquire s) else None)"
| "exec (CallPut t b) s = (if pcs s t = Idle then Some (goto t (PutAcquire b) s) else None)"
| "exec (CallRead t) s = (if pcs s t = Idle then Some (goto t ReadAcquire s) else None)"
| "exec (Run t) s = run t s"
| "exec (Recv t bs) s = recv t bs s"
| "exec (Fail t e) s = fail t e s"

definition mote_step :: "mote \<Rightarrow> mote \<Rightarrow> bool" where
  "mote_step s s' \<longleftrightarrow> (\<exists>ev. exec ev s = Some s')"

fun exec_all :: "event list \<Rightarrow> mote \<Rightarrow> mote option" where
  "exec_all [] s = Some s"
| "exec_all (ev # evs) s = Option.bind (exec ev s) (exec_all evs)"

text \<open>The state when the daemon starts at time \<open>t0\<close>.\<close>

definition mote_init :: "rat \<Rightarrow> mote" where
  "mote_init t0 = \<lparr>lock = False, last_write = 0, now = t0, pcs = (\<lambda>_. Idle), written = [], delivered = []\<rparr>"

inductive reachable :: "mote \<Rightarrow> bool" where
  start: "0 \<le> t0 \<Longrightarrow> reachable (mote_init t0)"
| step: "reachable s \<Longrightarrow> exec ev s = Some s' \<Longrightarrow> reachable s'"

section \<open>The lock protects the port\<close>

text \<open>The program points between acquiring and releasing the lock.\<close>

definition in_region :: "pc \<Rightarrow> bool" where
  "in_region p = (case p of
      Idle \<Rightarrow> False | InitAcquire \<Rightarrow> False | PutAcquire _ \<Rightarrow> False | ReadAcquire \<Rightarrow> False | _ \<Rightarrow> True)"

definition inside :: "mote \<Rightarrow> thread \<Rightarrow> bool" where
  "inside s t = in_region (pcs s t)"

lemma in_region_simps [simp]:
  "\<not> in_region Idle" "\<not> in_region InitAcquire" "\<not> in_region (PutAcquire b)" "\<not> in_region ReadAcquire"
  "in_region InitClose" "in_region InitOpen" "in_region InitRelease" "in_region (PutSpin b)"
  "in_region (PutWrite b)" "in_region PutFlush" "in_region PutStamp" "in_region PutRelease"
  "in_region ReadLine" "in_region (ReadReturn l)" "in_region ReadRetry"
  by (simp_all add: in_region_def)

text \<open>Only one thread moves in a step, and the clock moves none.\<close>

lemma exec_enters:
  assumes "exec ev s = Some s'" "inside s' t" "\<not> inside s t"
  shows "\<not> lock s \<and> lock s' \<and> (\<forall>u. inside s' u \<longrightarrow> u = t \<or> inside s u)"
  using assms
  by (cases ev) (auto simp: inside_def run_def acquire_def recv_def fail_def
      split: if_splits pc.splits option.splits)

lemma exec_releases:
  assumes "exec ev s = Some s'" "lock s" "\<not> lock s'"
  shows "\<exists>t. inside s t \<and> (\<forall>u. inside s' u \<longrightarrow> inside s u \<and> u \<noteq> t)"
proof (cases ev)
  case (Run t)
  have "inside s t \<and> (\<forall>u. inside s' u \<longrightarrow> inside s u \<and> u \<noteq> t)"
    using assms Run
    by (auto simp: inside_def run_def acquire_def split: if_splits pc.splits)
  then show ?thesis by blast
qed (use assms in \<open>auto simp: recv_def fail_def split: if_splits pc.splits\<close>)

interpretation port: guarded_system mote_step lock inside
proof unfold_locales
  fix s s' t assume "mote_step s s'" "inside s' t" "\<not> inside s t"
  then show "\<not> lock s \<and> lock s' \<and> (\<forall>u. inside s' u \<longrightarrow> u = t \<or> inside s u)"
    unfolding mote_step_def using exec_enters by blast
next
  fix s s' assume "mote_step s s'" "lock s" "\<not> lock s'"
  then show "\<exists>t. inside s t \<and> (\<forall>u. inside s' u \<longrightarrow> inside s u \<and> u \<noteq> t)"
    unfolding mote_step_def using exec_releases by blast
qed

lemma reachable_excl: "reachable s \<Longrightarrow> port.excl s"
proof (induction rule: reachable.induct)
  case (start t0)
  show ?case unfolding port.excl_def by (simp add: mote_init_def inside_def)
next
  case (step s ev s')
  then show ?case
    using port.excl_step unfolding mote_step_def by blast
qed

text \<open>
  C1: Mutual exclusion: in every reachable state of the gateway, with any number of threads
  and whatever the port, the clock and the scheduler do, at most one thread is between
  acquiring and releasing the lock (in particular in a call of the port), and the lock is
  taken while one is.
\<close>

theorem port_mutual_exclusion:
  assumes "reachable s" "inside s t" "inside s u"
  shows "t = u \<and> lock s"
  using reachable_excl [OF assms(1)] assms(2,3) by (auto simp: port.excl_def)

text \<open>A run that brings thread 7 to the write of its message.\<close>

definition put_demo :: "event list" where
  "put_demo = [Tick 1, CallPut 7 [0x3A], Run 7, Run 7]"

lemma exec_all_reachable: "exec_all evs s = Some s' \<Longrightarrow> reachable s \<Longrightarrow> reachable s'"
  by (induction evs arbitrary: s) (auto simp: bind_eq_Some_conv intro: reachable.step)

lemma put_demo_run:
  "exec_all put_demo (mote_init 0) = Some \<lparr>lock = True, last_write = 0, now = 1,
     pcs = (\<lambda>_. Idle)(7 := PutWrite [0x3A]), written = [], delivered = []\<rparr>"
  by (simp add: put_demo_def mote_init_def run_def acquire_def inter_write_time_def)

theorem port_mutual_exclusion_witness:
  "\<exists>s. exec_all put_demo (mote_init 0) = Some s \<and> inside s 7 \<and> (\<forall>u. inside s u \<longrightarrow> 7 = u) \<and> lock s"
proof -
  obtain s where s: "exec_all put_demo (mote_init 0) = Some s" "pcs s 7 = PutWrite [0x3A]"
    using put_demo_run by force
  have r: "reachable s"
    using exec_all_reachable [OF s(1)] reachable.start [of 0] by simp
  have "inside s 7"
    using s(2) by (simp add: inside_def)
  then show ?thesis
    using s(1) port_mutual_exclusion [OF r] by blast
qed


section \<open>Writes keep their distance\<close>

text \<open>Newest first: every write comes more than the minimum time after the one before it.\<close>

fun spaced :: "(rat \<times> bytes) list \<Rightarrow> bool" where
  "spaced ((t1, b1) # (t0, b0) # ws) \<longleftrightarrow> inter_write_time < t1 - t0 \<and> spaced ((t0, b0) # ws)"
| "spaced _ \<longleftrightarrow> True"

text \<open>
  The invariant: a thread at its write has seen the clock far enough past \<^verbatim>\<open>last_write\<close>, and
  \<^verbatim>\<open>last_write\<close> is not before the latest write, except between that write and the assignment
  of \<^verbatim>\<open>last_write\<close>, or after an exception in between, which leaves the lock abandoned.
\<close>

definition spacing_inv :: "mote \<Rightarrow> bool" where
  "spacing_inv s \<longleftrightarrow> spaced (written s)
     \<and> (\<forall>t b. pcs s t = PutWrite b \<longrightarrow> inter_write_time < now s - last_write s)
     \<and> (\<forall>w b ws. written s = (w, b) # ws \<longrightarrow> w \<le> now s)
     \<and> (\<forall>w b ws. written s = (w, b) # ws \<longrightarrow>
          w \<le> last_write s \<or> (\<exists>t. pcs s t = PutFlush \<or> pcs s t = PutStamp) \<or> port.abandoned s)"

lemma spaced_Cons: "spaced ((t, b) # ws) \<longleftrightarrow> spaced ws \<and> (\<forall>w b' ws'. ws = (w, b') # ws' \<longrightarrow> inter_write_time < t - w)"
  by (cases "(t, b) # ws" rule: spaced.cases) auto

lemma spacing_frame:
  assumes "spacing_inv s" "exec ev s = Some s'" "port.excl s"
    and "written s' = written s" "last_write s' = last_write s" "now s \<le> now s'"
    and "\<And>t b. pcs s' t = PutWrite b \<Longrightarrow> pcs s t = PutWrite b \<or> inter_write_time < now s' - last_write s'"
    and "\<And>t. pcs s t = PutFlush \<or> pcs s t = PutStamp \<Longrightarrow>
           (\<exists>u. pcs s' u = PutFlush \<or> pcs s' u = PutStamp) \<or> port.abandoned s'"
  shows "spacing_inv s'"
proof -
  have ab: "port.abandoned s \<Longrightarrow> port.abandoned s'"
    using port.abandoned_step assms(2) unfolding mote_step_def by blast
  show ?thesis
    unfolding spacing_inv_def
  proof (intro conjI allI impI)
    show "spaced (written s')"
      using assms(1,4) by (simp add: spacing_inv_def)
  next
    fix t b assume "pcs s' t = PutWrite b"
    then show "inter_write_time < now s' - last_write s'"
      using assms(1,5,6) assms(7) [of t b] by (fastforce simp: spacing_inv_def)
  next
    fix w b ws assume "written s' = (w, b) # ws"
    then show "w \<le> now s'"
      using assms(1,4,6) by (fastforce simp: spacing_inv_def)
  next
    fix w b ws assume "written s' = (w, b) # ws"
    then have "w \<le> last_write s \<or> (\<exists>t. pcs s t = PutFlush \<or> pcs s t = PutStamp) \<or> port.abandoned s"
      using assms(1,4) by (auto simp: spacing_inv_def)
    then show "w \<le> last_write s' \<or> (\<exists>t. pcs s' t = PutFlush \<or> pcs s' t = PutStamp) \<or> port.abandoned s'"
      using ab assms(5,8) by auto
  qed
qed

lemma excl_only:
  assumes "port.excl s" "inside s t"
  shows "inside s u \<longleftrightarrow> u = t" "lock s"
  using assms unfolding port.excl_def by blast+

lemma not_inside_pcs:
  "\<not> inside s t \<Longrightarrow> pcs s t \<noteq> PutWrite b \<and> pcs s t \<noteq> PutFlush \<and> pcs s t \<noteq> PutStamp"
  by (auto simp: inside_def)

lemma spacing_write:
  assumes inv: "spacing_inv s" and ex: "port.excl s" and p: "pcs s t = PutWrite b"
  shows "spacing_inv (goto t PutFlush (s\<lparr>written := (now s, b) # written s\<rparr>))"
proof -
  have t: "inside s t" using p by (simp add: inside_def)
  have others: "pcs s u \<noteq> PutWrite c \<and> pcs s u \<noteq> PutFlush \<and> pcs s u \<noteq> PutStamp" if "u \<noteq> t" for u c
    using excl_only(1) [OF ex t, of u] that not_inside_pcs by blast
  have gap: "inter_write_time < now s - last_write s"
    using inv p by (auto simp: spacing_inv_def)
  have "w \<le> last_write s" if "written s = (w, c) # ws" for w c ws
  proof -
    have "\<not> port.abandoned s" using t unfolding port.abandoned_def by blast
    moreover have "\<not> (\<exists>u. pcs s u = PutFlush \<or> pcs s u = PutStamp)" using others p by (metis pc.distinct)
    ultimately show ?thesis using inv that unfolding spacing_inv_def by blast
  qed
  then have "spaced ((now s, b) # written s)"
    using inv gap by (fastforce simp: spaced_Cons spacing_inv_def)
  then show ?thesis
    using others p unfolding spacing_inv_def by auto
qed

lemma spacing_stamp:
  assumes inv: "spacing_inv s" and ex: "port.excl s" and p: "pcs s t = PutStamp"
  shows "spacing_inv (goto t PutRelease (s\<lparr>last_write := now s\<rparr>))"
proof -
  have "pcs s u \<noteq> PutWrite c" if "u \<noteq> t" for u c
    using excl_only(1) [OF ex, of t u] p that not_inside_pcs by (fastforce simp: inside_def)
  with inv p show ?thesis unfolding spacing_inv_def by auto
qed

lemma abandoned_goto_Idle:
  assumes "port.excl s" "inside s t"
  shows "port.abandoned (goto t Idle s)"
  using excl_only [OF assms] unfolding port.abandoned_def by (auto simp: inside_def)

lemma spacing_step:
  assumes inv: "spacing_inv s" and ex: "port.excl s" and st: "exec ev s = Some s'"
  shows "spacing_inv s'"
proof (cases "\<exists>t b. ev = Run t \<and> (pcs s t = PutWrite b \<or> pcs s t = PutStamp)")
  case True
  then show ?thesis
    using st spacing_write [OF inv ex] spacing_stamp [OF inv ex] by (auto simp: run_def)
next
  case False
  have ab: "port.abandoned (goto t Idle s)" if "pcs s t = PutFlush" for t
    using abandoned_goto_Idle [OF ex] that by (simp add: inside_def)
  have same: "written s' = written s" "last_write s' = last_write s" "now s \<le> now s'"
    using st False
    by (cases ev; auto simp: run_def acquire_def recv_def fail_def split: if_splits pc.splits)+
  have w: "pcs s t = PutWrite b \<or> inter_write_time < now s' - last_write s'" if "pcs s' t = PutWrite b" for t b
    using st that
    by (cases ev) (auto simp: run_def acquire_def recv_def fail_def split: if_splits pc.splits option.splits)
  have f: "(\<exists>u. pcs s' u = PutFlush \<or> pcs s' u = PutStamp) \<or> port.abandoned s'"
    if "pcs s t = PutFlush \<or> pcs s t = PutStamp" for t
  proof (cases "pcs s' t = PutFlush \<or> pcs s' t = PutStamp")
    case moved: False
    have "s' = goto t Idle s \<and> pcs s t = PutFlush"
      using st that moved False
      by (cases ev) (auto simp: run_def acquire_def recv_def fail_def split: if_splits pc.splits)
    then show ?thesis using ab by blast
  qed blast
  show ?thesis
    by (rule spacing_frame [OF inv st ex same w f])
qed

lemma reachable_spacing: "reachable s \<Longrightarrow> spacing_inv s"
proof (induction rule: reachable.induct)
  case (start t0)
  then show ?case by (simp add: spacing_inv_def mote_init_def)
next
  case (step s ev s')
  then show ?case using spacing_step reachable_excl by blast
qed

text \<open>
  C5: Rate limit: in every reachable state any two consecutive writes to the port, by
  whichever threads, are more than 0.40 seconds apart, although \<^verbatim>\<open>last_write\<close> is only set some
  time after the write it belongs to.
\<close>

theorem port_writes_spaced:
  assumes "reachable s"
  shows "spaced (written s)"
  using reachable_spacing [OF assms] by (simp add: spacing_inv_def)

text \<open>Two messages of two threads, the second one half a second after the first.\<close>

definition two_puts :: "event list" where
  "two_puts = [Tick 1, CallPut 7 [0x3A], CallPut 8 [0x3B], Run 7, Run 7, Run 7, Run 7, Run 7, Run 7,
     Run 8, Run 8, Tick (1 / 2), Run 8, Run 8]"

lemma two_puts_run:
  "map_option written (exec_all two_puts (mote_init 0)) = Some [(3 / 2, [0x3B]), (1, [0x3A])]"
  by (simp add: two_puts_def mote_init_def run_def acquire_def inter_write_time_def)

theorem port_writes_spaced_witness:
  "\<exists>s. exec_all two_puts (mote_init 0) = Some s \<and> written s = [(3 / 2, [0x3B]), (1, [0x3A])] \<and> spaced (written s)"
proof -
  obtain s where s: "exec_all two_puts (mote_init 0) = Some s" "written s = [(3 / 2, [0x3B]), (1, [0x3A])]"
    using two_puts_run by auto
  have "reachable s"
    using exec_all_reachable [OF s(1)] reachable.start [of 0] by simp
  then have "spaced (written s)"
    by (rule port_writes_spaced)
  with s show ?thesis by blast
qed


section \<open>An exception in the region\<close>

lemma exec_outside:
  assumes "exec ev s = Some s'" "\<forall>t. \<not> inside s t"
  shows "(written s', delivered s') = (written s, delivered s)"
proof (cases ev)
  case (Run t)
  have "\<not> inside s t" using assms(2) by blast
  with assms(1) Run show ?thesis
    by (auto simp: inside_def run_def acquire_def split: if_splits pc.splits)
qed (use assms in \<open>auto simp: recv_def fail_def split: if_splits pc.splits\<close>)

text \<open>
  C16: No method but \<^verbatim>\<open>readline\<close> releases the lock when the port raises, and this is fatal: once
  a write, a flush, a close or an open of the port has raised in \<^verbatim>\<open>put\<close> or in the constructor
  (or \<^verbatim>\<open>readline\<close> met an exception that it does not catch), then in every later state the lock
  is taken, no thread is in a call of the port, nothing more is ever written and no line is
  ever delivered.
\<close>

theorem port_failure_is_fatal:
  assumes "reachable s" "pcs s t \<noteq> ReadLine \<or> e \<noteq> SerialException \<and> e \<noteq> UnicodeDecodeError"
    and "exec (Fail t e) s = Some s'" "mote_step\<^sup>*\<^sup>* s' s''"
  shows "lock s'' \<and> (\<forall>u. \<not> inside s'' u) \<and> written s'' = written s \<and> delivered s'' = delivered s"
proof -
  have s': "s' = goto t Idle s" and t: "inside s t"
    using assms(2,3) by (auto simp: fail_def inside_def split: pc.splits)
  have ab: "port.abandoned s'"
    unfolding s' by (rule abandoned_goto_Idle [OF reachable_excl [OF assms(1)] t])
  have "(written s'', delivered s'') = (written s', delivered s')"
    by (rule port.abandoned_frozen [OF assms(4) ab]) (auto simp: mote_step_def dest: exec_outside)
  moreover have "port.abandoned s''"
    using port.abandoned_steps [OF assms(4) ab] .
  ultimately show ?thesis
    by (simp add: s' port.abandoned_def)
qed

theorem port_failure_is_fatal_witness:
  "\<exists>s. exec_all put_demo (mote_init 0) = Some s \<and>
     (\<forall>s''. mote_step\<^sup>*\<^sup>* (goto 7 Idle s) s'' \<longrightarrow> lock s'' \<and> written s'' = [])"
proof -
  obtain s where s: "exec_all put_demo (mote_init 0) = Some s" "pcs s 7 = PutWrite [0x3A]" "written s = []"
    using put_demo_run by force
  have r: "reachable s"
    using exec_all_reachable [OF s(1)] reachable.start [of 0] by simp
  have f: "exec (Fail 7 SerialException) s = Some (goto 7 Idle s)"
    using s(2) by (simp add: fail_def)
  show ?thesis
    using s port_failure_is_fatal [OF r _ f] by auto
qed

text \<open>
  \<^verbatim>\<open>readline\<close> recovers from the two exceptions it names and only returns decoded text: from
  the blocking read, a SerialException or a line that is not UTF-8 leads back to acquiring the
  lock, with the lock released and nothing delivered; a line that is UTF-8 is delivered as its
  code points, and the lock is released.
\<close>

theorem readline_recovers:
  assumes "pcs s t = ReadLine"
  shows "exec_all [Fail t SerialException, Run t] s = Some (goto t ReadAcquire (s\<lparr>lock := False\<rparr>))
    \<and> exec_all [Recv t bs, Run t] s = (case utf8_decode bs of
          None \<Rightarrow> Some (goto t ReadAcquire (s\<lparr>lock := False\<rparr>))
        | Some l \<Rightarrow> Some (goto t Idle (s\<lparr>lock := False, delivered := delivered s @ [(t, l)]\<rparr>)))"
  using assms by (simp add: fail_def recv_def run_def split: option.split)

theorem readline_recovers_witness:
  "map_option delivered (exec_all [CallRead 3, Run 3, Recv 3 [0xC3], Run 3, Run 3, Recv 3 [0x3A, 0xC3, 0xA9], Run 3] (mote_init 0))
     = Some [(3, [0x3A, 0xE9])]"
proof -
  define s where "s = (mote_init 0)\<lparr>lock := True, pcs := (\<lambda>_. Idle)(3 := ReadLine)\<rparr>"
  have s: "exec_all [CallRead 3, Run 3] (mote_init 0) = Some s" "pcs s 3 = ReadLine"
    by (simp_all add: s_def run_def acquire_def mote_init_def)
  have u: "utf8_decode [0xC3] = None" "utf8_decode [0x3A, 0xC3, 0xA9] = Some [0x3A, 0xE9]"
    by (simp_all add: cont_def)
  have again: "run 3 (goto 3 ReadAcquire (s\<lparr>lock := False\<rparr>)) = Some s"
    by (simp add: s_def run_def acquire_def)
  show ?thesis
    using s readline_recovers [OF s(2), of "[0xC3]"] readline_recovers [OF s(2), of "[0x3A, 0xC3, 0xA9]"] u again
    by (auto simp: bind_eq_Some_conv s_def mote_init_def)
qed

section \<open>Progress\<close>

text \<open>The events with which a thread at the spin loop finishes its \<^verbatim>\<open>put\<close>.\<close>

definition finish_put :: "thread \<Rightarrow> rat \<Rightarrow> event list" where
  "finish_put t d = [Tick d, Run t, Run t, Run t, Run t, Run t]"

definition wait_time :: "mote \<Rightarrow> rat" where
  "wait_time s = max 0 (last_write s + 1 - now s)"

lemma finish_put_run:
  assumes "pcs s t = PutSpin b"
  shows "exec_all (finish_put t (wait_time s)) s =
    Some (goto t Idle (s\<lparr>now := now s + wait_time s, last_write := now s + wait_time s, lock := False,
      written := (now s + wait_time s, b) # written s\<rparr>))"
proof -
  have "\<not> now s + wait_time s - last_write s \<le> inter_write_time"
    by (auto simp: wait_time_def inter_write_time_def max_def)
  then show ?thesis
    using assms by (simp add: finish_put_def run_def wait_time_def [symmetric]) (simp add: wait_time_def)
qed

text \<open>
  C24: \<^verbatim>\<open>put\<close> does its work once it gets the lock: a thread that waits for the lock while it is
  free, and that is then scheduled while the clock moves on and the port does not fail, leaves
  \<^verbatim>\<open>put\<close> with its bytes as the newest write, \<^verbatim>\<open>last_write\<close> set to the time of that write or
  later, the lock released and no other thread disturbed.
\<close>

theorem put_completes:
  assumes "pcs s t = PutAcquire b" "\<not> lock s"
  shows "\<exists>s'. exec_all (Run t # finish_put t (wait_time s)) s = Some s'
    \<and> (\<exists>w. now s \<le> w \<and> w \<le> last_write s' \<and> written s' = (w, b) # written s)
    \<and> \<not> lock s' \<and> pcs s' t = Idle \<and> (\<forall>u. u \<noteq> t \<longrightarrow> pcs s' u = pcs s u)"
proof -
  let ?s = "goto t (PutSpin b) (s\<lparr>lock := True\<rparr>)"
  have "exec (Run t) s = Some ?s"
    using assms by (simp add: run_def acquire_def)
  moreover have "wait_time ?s = wait_time s" "0 \<le> wait_time s"
    by (simp_all add: wait_time_def)
  ultimately show ?thesis
    using finish_put_run [of ?s t b] by simp
qed

theorem put_completes_witness:
  "\<exists>s'. exec_all (Run 7 # finish_put 7 (wait_time (goto 7 (PutAcquire [0x3A]) (mote_init 0)))) (goto 7 (PutAcquire [0x3A]) (mote_init 0)) = Some s'
     \<and> map snd (written s') = [[0x3A]] \<and> \<not> lock s'"
  using put_completes [of "goto 7 (PutAcquire [0x3A]) (mote_init 0)" 7 "[0x3A]"]
  by (auto simp: mote_init_def)

text \<open>The events with which the holder of the lock gives it back.\<close>

definition finish :: "thread \<Rightarrow> mote \<Rightarrow> event list" where
  "finish t s = (case pcs s t of
      InitClose \<Rightarrow> [Run t, Run t, Run t]
    | InitOpen \<Rightarrow> [Run t, Run t]
    | PutSpin _ \<Rightarrow> finish_put t (wait_time s)
    | PutWrite _ \<Rightarrow> [Run t, Run t, Run t, Run t]
    | PutFlush \<Rightarrow> [Run t, Run t, Run t]
    | PutStamp \<Rightarrow> [Run t, Run t]
    | ReadLine \<Rightarrow> [Recv t [], Run t]
    | _ \<Rightarrow> [Run t])"

lemma finish_releases: "inside s t \<Longrightarrow> \<exists>s'. exec_all (finish t s) s = Some s' \<and> \<not> lock s'"
  by (cases "pcs s t") (auto simp: finish_def inside_def run_def recv_def finish_put_run)

text \<open>
  C23: As long as no exception has left the region, the gateway can always go on: from every
  reachable state in which the lock is free or its holder is still in the region there is a
  continuation of steps after which the lock is free.
\<close>

theorem port_can_always_be_released:
  assumes "reachable s" "lock s \<longrightarrow> (\<exists>t. inside s t)"
  shows "\<exists>evs s'. exec_all evs s = Some s' \<and> reachable s' \<and> \<not> lock s'"
proof (cases "lock s")
  case True
  then obtain t where "inside s t" using assms(2) by blast
  then obtain s' where "exec_all (finish t s) s = Some s'" "\<not> lock s'"
    using finish_releases by blast
  then show ?thesis
    using exec_all_reachable [OF _ assms(1)] by blast
next
  case False
  then show ?thesis
    using assms(1) by (intro exI [of _ "[]"] exI [of _ s]) simp
qed

theorem port_can_always_be_released_witness:
  "\<exists>s. exec_all put_demo (mote_init 0) = Some s \<and> lock s
     \<and> (\<exists>evs s'. exec_all evs s = Some s' \<and> reachable s' \<and> \<not> lock s')"
proof -
  obtain s where s: "exec_all put_demo (mote_init 0) = Some s" "pcs s 7 = PutWrite [0x3A]" "lock s"
    using put_demo_run by force
  have "reachable s"
    using exec_all_reachable [OF s(1)] reachable.start [of 0] by simp
  moreover have "inside s 7" using s(2) by (simp add: inside_def)
  ultimately show ?thesis
    using s(1,3) port_can_always_be_released [of s] by blast
qed

end
