(* ===== verification/Gateway.thy ===== *)
theory Gateway
  imports Http_Server Serial_Client Mote
begin

text \<open>
  The gateway put together: the thread structure of \<^verbatim>\<open>gateway_daemon/__main__.py\<close>, the HTTP
  handler on the shared port, and what the serial side of the gateway makes of the frames that
  the HTTP side writes.
\<close>

section \<open>The daemon\<close>

text \<open>The life of a thread, and the statement \<^verbatim>\<open>run\<close> is at.\<close>

datatype life = Unstarted | Alive | Ended

datatype run_at = Start_a | Start_b | Join_a | Join_b | Returned

record daemon =
  run_pc :: run_at
  server :: life
  serial_loop :: life

definition daemon_init :: daemon where
  "daemon_init = \<lparr>run_pc = Start_a, server = Unstarted, serial_loop = Unstarted\<rparr>"

fun run_step :: "daemon \<Rightarrow> daemon option" where
  "run_step s = (case run_pc s of
      Start_a \<Rightarrow> Some (s\<lparr>run_pc := Start_b, server := Alive\<rparr>)
    | Start_b \<Rightarrow> Some (s\<lparr>run_pc := Join_a, serial_loop := Alive\<rparr>)
    | Join_a \<Rightarrow> if server s = Ended then Some (s\<lparr>run_pc := Join_b\<rparr>) else None
    | Join_b \<Rightarrow> if serial_loop s = Ended then Some (s\<lparr>run_pc := Returned\<rparr>) else None
    | Returned \<Rightarrow> None)"

text \<open>A thread ends when its target leaves by an exception; neither target returns otherwise.\<close>

inductive daemon_step :: "daemon \<Rightarrow> daemon \<Rightarrow> bool" where
  run: "run_step s = Some s' \<Longrightarrow> daemon_step s s'"
| server_dies: "server s = Alive \<Longrightarrow> daemon_step s (s\<lparr>server := Ended\<rparr>)"
| serial_dies: "serial_loop s = Alive \<Longrightarrow> daemon_step s (s\<lparr>serial_loop := Ended\<rparr>)"

inductive_cases daemon_stepE: "daemon_step s s'"

abbreviation daemon_reachable :: "daemon \<Rightarrow> bool" where
  "daemon_reachable \<equiv> daemon_step\<^sup>*\<^sup>* daemon_init"

definition daemon_inv :: "daemon \<Rightarrow> bool" where
  "daemon_inv s \<longleftrightarrow> (case run_pc s of
      Start_a \<Rightarrow> server s = Unstarted \<and> serial_loop s = Unstarted
    | Start_b \<Rightarrow> server s \<noteq> Unstarted \<and> serial_loop s = Unstarted
    | Join_a \<Rightarrow> server s \<noteq> Unstarted \<and> serial_loop s \<noteq> Unstarted
    | Join_b \<Rightarrow> server s = Ended \<and> serial_loop s \<noteq> Unstarted
    | Returned \<Rightarrow> server s = Ended \<and> serial_loop s = Ended)"

lemma daemon_inv_step: "daemon_step s s' \<Longrightarrow> daemon_inv s \<Longrightarrow> daemon_inv s'"
  by (elim daemon_stepE) (auto simp: daemon_inv_def split: run_at.splits if_splits)

lemma daemon_inv_reachable: "daemon_reachable s \<Longrightarrow> daemon_inv s"
proof (induction rule: rtranclp_induct)
  case base
  show ?case by (simp add: daemon_inv_def daemon_init_def)
qed (rule daemon_inv_step)

text \<open>
  C38: \<^verbatim>\<open>run\<close> returns only after both threads have ended, and it never gets stuck for another
  reason: in every reachable state it has returned, can take its next step, or waits in a join for a
  thread that is alive. In particular the death of the serial thread alone is not noticed
  while the server lives.
\<close>

theorem run_joins_both:
  assumes "daemon_reachable s"
  shows "(run_pc s = Returned \<longrightarrow> server s = Ended \<and> serial_loop s = Ended) \<and>
    (run_pc s = Returned \<or> (\<exists>s'. run_step s = Some s') \<or>
      (run_pc s = Join_a \<and> server s = Alive) \<or> (run_pc s = Join_b \<and> serial_loop s = Alive))"
  using daemon_inv_reachable [OF assms]
  by (cases "server s"; cases "serial_loop s") (auto simp: daemon_inv_def split: run_at.splits)

lemma serial_dead_reachable: "daemon_reachable \<lparr>run_pc = Join_a, server = Alive, serial_loop = Ended\<rparr>"
proof -
  have a: "daemon_step daemon_init \<lparr>run_pc = Start_b, server = Alive, serial_loop = Unstarted\<rparr>"
    by (rule daemon_step.run) (simp add: daemon_init_def)
  have b: "daemon_step \<lparr>run_pc = Start_b, server = Alive, serial_loop = Unstarted\<rparr> \<lparr>run_pc = Join_a, server = Alive, serial_loop = Alive\<rparr>"
    by (rule daemon_step.run) simp
  have c: "daemon_step \<lparr>run_pc = Join_a, server = Alive, serial_loop = Alive\<rparr> \<lparr>run_pc = Join_a, server = Alive, serial_loop = Ended\<rparr>"
    using daemon_step.serial_dies [of "\<lparr>run_pc = Join_a, server = Alive, serial_loop = Alive\<rparr>"] by simp
  show ?thesis
    by (rule converse_rtranclp_into_rtranclp [of daemon_step, OF a converse_rtranclp_into_rtranclp [of daemon_step, OF b r_into_rtranclp [of daemon_step, OF c]]])
qed

theorem run_joins_both_witness:
  "run_step \<lparr>run_pc = Join_a, server = Alive, serial_loop = Ended\<rparr> = None \<and>
   (Join_a = Returned \<or> (\<exists>s'. run_step \<lparr>run_pc = Join_a, server = Alive, serial_loop = Ended\<rparr> = Some s') \<or>
     (Join_a = Join_a \<and> Alive = Alive) \<or> (Join_a = Join_b \<and> Ended = Alive))"
  using run_joins_both [OF serial_dead_reachable] by simp


section \<open>The handler on the port\<close>

text \<open>Events of one thread that calls the mote, and of the clock.\<close>

fun of_thread :: "thread \<Rightarrow> event \<Rightarrow> bool" where
  "of_thread t (Tick d) = True"
| "of_thread t (CallInit u) = (u = t)"
| "of_thread t (CallPut u b) = (u = t)"
| "of_thread t (Run u) = (u = t)"
| "of_thread t _ = False"

lemma exec_all_append: "exec_all (evs @ evs') s = Option.bind (exec_all evs s) (exec_all evs')"
proof (induction evs arbitrary: s)
  case (Cons ev evs)
  then show ?case by (cases "exec ev s") simp_all
qed simp

text \<open>A quiet state for a thread: it is at none of the methods and the lock is free.\<close>

definition quiet :: "thread \<Rightarrow> mote \<Rightarrow> bool" where
  "quiet t s \<longleftrightarrow> pcs s t = Idle \<and> \<not> lock s"

lemma init_run:
  assumes "quiet t s"
  shows "exec_all [CallInit t, Run t, Run t, Run t, Run t] s = Some s"
proof -
  have "s\<lparr>lock := False, pcs := (pcs s)(t := Idle)\<rparr> = s"
    using assms by (cases s) (auto simp: quiet_def)
  then show ?thesis
    using assms by (simp add: quiet_def run_def acquire_def)
qed

lemma put_run:
  assumes "quiet t s"
  shows "\<exists>evs s' w. exec_all evs s = Some s' \<and> list_all (of_thread t) evs \<and> quiet t s' \<and> pcs s' = pcs s \<and>
           written s' = (w, b) # written s"
proof -
  let ?s1 = "goto t (PutAcquire b) s"
  let ?s2 = "goto t (PutSpin b) (?s1\<lparr>lock := True\<rparr>)"
  have a: "exec_all [CallPut t b, Run t] s = Some ?s2"
    using assms by (simp add: quiet_def run_def acquire_def)
  have f: "exec_all (finish_put t (wait_time ?s2)) ?s2 =
      Some (goto t Idle (?s2\<lparr>now := now ?s2 + wait_time ?s2, last_write := now ?s2 + wait_time ?s2, lock := False,
        written := (now ?s2 + wait_time ?s2, b) # written ?s2\<rparr>))"
    by (rule finish_put_run) simp
  have "exec_all ([CallPut t b, Run t] @ finish_put t (wait_time ?s2)) s =
      Some (goto t Idle (?s2\<lparr>now := now ?s2 + wait_time ?s2, last_write := now ?s2 + wait_time ?s2, lock := False,
        written := (now ?s2 + wait_time ?s2, b) # written ?s2\<rparr>))"
    unfolding exec_all_append a using f by simp
  moreover have "list_all (of_thread t) ([CallPut t b, Run t] @ finish_put t (wait_time ?s2))"
    by (simp add: finish_put_def)
  moreover have "(pcs s)(t := Idle) = pcs s" using assms by (auto simp: quiet_def)
  ultimately show ?thesis
    using assms by (intro exI conjI) (assumption+, auto simp: quiet_def)
qed

lemma puts_run:
  "quiet t s \<Longrightarrow> \<exists>evs s'. exec_all evs s = Some s' \<and> list_all (of_thread t) evs \<and> quiet t s' \<and> pcs s' = pcs s \<and>
     map snd (written s') = rev bs @ map snd (written s)"
proof (induction bs arbitrary: s)
  case Nil
  then show ?case by (intro exI [of _ "[]"] exI [of _ s]) simp
next
  case (Cons b bs)
  obtain e1 s1 w where 1: "exec_all e1 s = Some s1" "list_all (of_thread t) e1" "quiet t s1" "pcs s1 = pcs s"
      "written s1 = (w, b) # written s"
    using put_run [OF Cons.prems] by blast
  obtain e2 s2 where "exec_all e2 s1 = Some s2" "list_all (of_thread t) e2" "quiet t s2" "pcs s2 = pcs s1"
      "map snd (written s2) = rev bs @ map snd (written s1)"
    using Cons.IH [OF 1(3)] by blast
  with 1 show ?case
    by (intro exI [of _ "e1 @ e2"] exI [of _ s2]) (simp add: exec_all_append)
qed

lemma handler_run:
  assumes "quiet t s"
  shows "\<exists>evs s'. exec_all evs s = Some s' \<and> list_all (of_thread t) evs \<and> quiet t s' \<and> pcs s' = pcs s \<and>
           map snd (written s') = rev frames @ map snd (written s)"
proof -
  obtain evs s' where e: "exec_all evs s = Some s'" "list_all (of_thread t) evs" "quiet t s'" "pcs s' = pcs s"
      "map snd (written s') = rev frames @ map snd (written s)"
    using puts_run [OF assms] by blast
  have "exec_all ([CallInit t, Run t, Run t, Run t, Run t] @ evs) s = Some s'"
    unfolding exec_all_append init_run [OF assms] using e(1) by simp
  with e show ?thesis
    by (intro exI [of _ "[CallInit t, Run t, Run t, Run t, Run t] @ evs"] exI [of _ s']) simp
qed

lemma handlers_run:
  "quiet t s \<Longrightarrow> \<exists>evs s'. exec_all evs s = Some s' \<and> list_all (of_thread t) evs \<and> quiet t s' \<and> pcs s' = pcs s \<and>
     rev (map snd (written s')) = rev (map snd (written s)) @ concat fss"
proof (induction fss arbitrary: s)
  case Nil
  then show ?case by (intro exI [of _ "[]"] exI [of _ s]) simp
next
  case (Cons fs fss)
  obtain e1 s1 where 1: "exec_all e1 s = Some s1" "list_all (of_thread t) e1" "quiet t s1" "pcs s1 = pcs s"
      "map snd (written s1) = rev fs @ map snd (written s)"
    using handler_run [OF Cons.prems] by blast
  obtain e2 s2 where "exec_all e2 s1 = Some s2" "list_all (of_thread t) e2" "quiet t s2" "pcs s2 = pcs s1"
      "rev (map snd (written s2)) = rev (map snd (written s1)) @ concat fss"
    using Cons.IH [OF 1(3)] by blast
  with 1 show ?case
    by (intro exI [of _ "e1 @ e2"] exI [of _ s2]) (simp add: exec_all_append)
qed


definition sample_answers :: "(bytes list \<times> string res) list" where
  "sample_answers = [([], raise ValueError), ([wire (build 1 6 [0, 10, 0, 5])], ok '''')]"


text \<open>The reading side: a thread outside the methods reads one line.\<close>

lemma read_run:
  assumes "quiet t s" "utf8_decode bs = Some l"
  shows "map_option delivered (exec_all [CallRead t, Run t, Recv t bs, Run t] s) = Some (delivered s @ [(t, l)])"
  using assms by (simp add: quiet_def run_def acquire_def recv_def)

lemma unat_of_char: "unat (of_char c :: byte) = of_char c"
proof -
  have "(of_char c :: byte) = of_nat (of_char c)" by (rule of_nat_of_char [symmetric])
  then show ?thesis by (simp add: unat_of_nat take_bit_nat_eq_self)
qed

lemma utf8_wire: "list_all is_ascii s \<Longrightarrow> utf8_decode (wire s) = Some (map of_char s)"
proof -
  assume a: "list_all is_ascii s"
  have c: "unat (of_char c :: byte) = of_char c" for c by (rule unat_of_char)
  then have "utf8_decode (wire s) = Some (map unat (wire s))"
    using a by (intro utf8_decode_ascii) (auto simp: wire_def list_all_iff is_ascii_def)
  then show ?thesis by (simp add: wire_def c comp_def)
qed


section \<open>Reading back what was written\<close>

lemma clean_build:
  assumes "byte_range a" "byte_range c"
  shows "clean_data (build a c (b # bs)) = frame a c (uint b) bs (lrc_of (a + c + uint b + byte_sum bs))"
proof -
  have "build a c (b # bs) = frame a c (uint b) bs (lrc_of (a + c + uint b + byte_sum bs)) @ [CHR 0x0D, CHR 0x0A]"
    by (simp add: build_frame frame_def ac_simps)
  moreover have "last (frame a c (uint b) bs l) \<notin> {CHR 0x0D, CHR 0x0A}" if "byte_range l" for l
  proof -
    have "hex2 l \<noteq> []" using that by (metis hex2_two list.distinct(1))
    then have "last (frame a c (uint b) bs l) \<in> set (hex2 l)" by (simp add: frame_def)
    then have "is_upper_hex (last (frame a c (uint b) bs l))" using hex2_upper_hex [OF that] by blast
    then show ?thesis by (auto simp: is_upper_hex_def)
  qed
  moreover have "frame a c (uint b) bs l \<noteq> []" for l by (simp add: frame_def)
  ultimately show ?thesis
    using clean_data_append_CRLF lrc_byte_range by simp
qed

text \<open>
  C21: the two halves of the codec disagree about the layout. A frame that \<^verbatim>\<open>build\<close> makes from a
  payload is accepted by \<^verbatim>\<open>parse\<close>, once its line end is removed, with the address and the command, but
  \<^verbatim>\<open>parse\<close> takes the first payload byte for a size field and returns only the rest as data.
\<close>

theorem parse_of_build:
  assumes "byte_range a" "byte_range c"
  shows "\<exists>coordinates mac_hash scale.
    parse (clean_data (build a c (b # bs))) = ok (a, c, bs, coordinates, mac_hash, scale)"
  by (simp add: clean_build assms parse_frame)

theorem parse_of_build_witness:
  "\<exists>coordinates mac_hash scale.
    parse (clean_data (build 0xA0 3 (0x61 # [0x62, 0x63]))) = ok (0xA0, 3, [0x62, 0x63], coordinates, mac_hash, scale)"
  by (rule parse_of_build) (simp_all add: byte_range_def)

lemma param_frames_numeric:
  assumes "CHR ''_'' \<notin> set w" "as \<noteq> []" "n < 65536" "py_float data = ok f" "int_of_float f = ok v" "0 \<le> v" "v < 65536"
  shows "param_frames (compose_name w as ''numeric'' n, data) =
    ok (map (\<lambda>a. wire (build (int a) 6 [byte_of (int n div 256), byte_of (int n), byte_of (v div 256), byte_of v])) as)"
proof -
  have d: "decompose (compose_name w as ''numeric'' n) = ok (map int as, ''numeric'', int n)"
    by (rule decompose_composed) (use assms in simp_all)
  show ?thesis
    using assms by (simp add: param_frames_def d modbus_data_def WRITE_FUNCTIONS_def write_holding_register_def pack_HH_def
        pack_be_H_def WRITE_HOLDING_REGISTER_def)
qed

text \<open>
  C22: from a request to the other end of the line. A numeric parameter for a list of addresses
  in one byte each makes the handler send one frame per address; the receiving side of the gateway
  software reads each of them from its port as the same characters and parses it into the address, the write command and, of the packed register
  number and value, all but the first byte.
\<close>

theorem request_to_reader:
  assumes "CHR ''_'' \<notin> set w" "as \<noteq> []" "\<forall>a \<in> set as. a < 256" "n < 65536"
    and "py_float data = ok f" "int_of_float f = ok v" "0 \<le> v" "v < 65536"
  shows "\<exists>frames. network free_port [(compose_name w as ''numeric'' n, data)] = (map wire frames, ok '''') \<and> length frames = length as \<and>
    (\<forall>i < length as. \<forall>t s. quiet t s \<longrightarrow> map_option delivered (exec_all [CallRead t, Run t, Recv t (wire (frames ! i)), Run t] s) =
       Some (delivered s @ [(t, map of_char (frames ! i))])) \<and>
    (\<forall>i < length as. \<exists>x y z. parse (clean_data (frames ! i)) =
       ok (int (as ! i), 6, [byte_of (int n), byte_of (v div 256), byte_of v], x, y, z))"
proof -
  define d where "d = [byte_of (int n div 256), byte_of (int n), byte_of (v div 256), byte_of v]"
  define frames where "frames = map (\<lambda>a. build (int a) 6 d) as"
  have "param_frames (compose_name w as ''numeric'' n, data) = ok (map wire frames)"
    using param_frames_numeric [OF assms(1,2,4-)] by (simp add: frames_def d_def)
  then have m: "map_res param_frames [(compose_name w as ''numeric'' n, data)] = ok [map wire frames]"
    by simp
  have "network free_port [(compose_name w as ''numeric'' n, data)] = (map wire frames, ok '''')"
    using network_loop_append [OF m, of free_port "[]" "[]"]
    by (simp add: network_def free_port_def put_frames_all takes_def)
  moreover have "utf8_decode (wire (frames ! i)) = Some (map of_char (frames ! i))" if "i < length as" for i
    using that list_all_ascii_build by (intro utf8_wire) (simp add: frames_def)
  moreover have "\<exists>x y z. parse (clean_data (frames ! i)) =
       ok (int (as ! i), 6, [byte_of (int n), byte_of (v div 256), byte_of v], x, y, z)" if "i < length as" for i
  proof -
    have "byte_range (int (as ! i))" "byte_range 6" using assms(3) that by (simp_all add: byte_range_def)
    then show ?thesis using that by (simp add: frames_def d_def clean_build parse_frame)
  qed
  ultimately show ?thesis
    by (intro exI [of _ frames] conjI) (simp_all add: read_run del: exec_all.simps, simp add: frames_def)
qed

theorem request_to_reader_witness:
  "\<exists>frames. network free_port [(compose_name ''lamp'' [1, 0xA0] ''numeric'' 10, ''513'')] = (map wire frames, ok '''') \<and> length frames = 2 \<and>
    (\<forall>i < 2. \<exists>x y z. parse (clean_data (frames ! i)) = ok (int ([1, 0xA0] ! i), 6, [10, 2, 1], x, y, z))"
proof -
  have "bind_res (py_float ''513'') int_of_float = ok 513" by code_simp
  then obtain f where f: "py_float ''513'' = ok f" "int_of_float f = ok 513"
    by (auto simp: bind_res_eq_Inr)
  have b: "byte_of 513 = 1" "byte_of 2 = 2" "byte_of 10 = 10"
    by (simp_all add: word_uint_eq_iff uint_byte_of)
  show ?thesis
    using request_to_reader [of "''lamp''" "[1, 0xA0]" 10, OF _ _ _ _ f] b
    by (simp add: numeral_2_eq_2 del: exec_all.simps) blast
qed

end
