(* ===== verification/Bignum_Check.thy ===== *)
theory Bignum_Check
  imports Py_Text
begin

text \<open>
  The script \<^verbatim>\<open>tools/epossectst/eposbignumtst.py\<close>, which checks the output of the EPOS big-number
  test. The file is a list of lines (each with its line feed); the script's end is a value:
  finished with a number of errors, left by a bare \<^verbatim>\<open>exit()\<close>, ended by an exception, or caught
  in the endless loop that a digit size of zero causes.
\<close>

section \<open>The code\<close>

fun bignum_fold :: "int \<Rightarrow> int \<Rightarrow> string list \<Rightarrow> int res" where
  "bignum_fold digit_size ret [] = ok ret"
| "bignum_fold digit_size ret (i # is) =
     (if digit_size * 8 < 0 then raise ValueError
      else bind_res (py_int 10 i) (\<lambda>d. bignum_fold digit_size (ret * 2 ^ nat (digit_size * 8) + d) is))"

definition find_bignum :: "int \<Rightarrow> string \<Rightarrow> int res" where
  "find_bignum digit_size line =
     (let line = drop_blanks line;
          line = py_slice line (Some (py_find ''['' line + 1)) (Some (py_find '']'' line));
          fields = rev (py_split (CHR '','') line)
      in bignum_fold digit_size 0 fields)"

text \<open>\<^verbatim>\<open>read_line\<close>: None when it prints the verdict and exits (end of file, blank line, Done!).\<close>

definition read_line :: "string list \<Rightarrow> (string \<times> string list) option" where
  "read_line f =
     (let line = py_rstrip (case f of [] \<Rightarrow> [] | l # _ \<Rightarrow> l); rest = drop 1 f
      in if line = ''Done!'' \<or> line = [] then None else Some (line, rest))"

datatype verdict = Finished int | Quit | Crashed py_error | Endless

text \<open>\<^verbatim>\<open>pow(b, e, m)\<close>.\<close>

definition py_pow :: "int \<Rightarrow> int \<Rightarrow> int \<Rightarrow> int res" where
  "py_pow b e m = (if m = 0 \<or> e < 0 then raise ValueError else ok (b ^ nat e mod m))"

definition py_mod :: "int \<Rightarrow> int \<Rightarrow> int res" where
  "py_mod a m = (if m = 0 then raise ZeroDivisionError else ok (a mod m))"

text \<open>The variable \<^verbatim>\<open>expected\<close> after the chain of operators: unchanged when none matches.\<close>

definition compute_expected :: "char \<Rightarrow> int \<Rightarrow> int \<Rightarrow> int \<Rightarrow> int option \<Rightarrow> int option res" where
  "compute_expected op a b m expected =
     (if op = CHR ''+'' then bind_res (py_mod (a + b) m) (\<lambda>x. ok (Some x))
      else if op = CHR ''-'' then bind_res (py_mod (a - b) m) (\<lambda>x. ok (Some x))
      else if op = CHR ''*'' then bind_res (py_mod (a * b) m) (\<lambda>x. ok (Some x))
      else if op = CHR ''/'' then
        bind_res (py_pow b (m - 2) m) (\<lambda>inv. bind_res (py_mod (a * inv) m) (\<lambda>x. ok (Some x)))
      else ok expected)"

text \<open>The digits of the failure report: the text built and what is left of \<^verbatim>\<open>expected\<close>.\<close>

function array_loop :: "nat \<Rightarrow> int \<Rightarrow> string \<Rightarrow> string \<times> int" where
  "array_loop k x raw =
     (if 0 < x \<and> 0 < k
      then array_loop k (drop_bit k x) (raw @ '', '' @ py_str (x AND 0xffffffff))
      else (raw, x))"
  by pat_completeness auto
termination
proof (relation "measure (\<lambda>(k, x, raw). nat x)")
  fix k x and raw :: string
  assume "0 < (x :: int) \<and> 0 < (k :: nat)"
  moreover then have "2 ^ 1 \<le> (2 :: int) ^ k" by (intro power_increasing) auto
  ultimately have "x div 2 ^ k < x" by (intro int_div_less_self) auto
  then show "((k, drop_bit k x, raw @ '', '' @ py_str (x AND 0xffffffff)), k, x, raw) \<in> measure (\<lambda>(k, x, raw). nat x)"
    using \<open>0 < x \<and> 0 < k\<close> by (simp add: drop_bit_eq_div)
qed simp

declare array_loop.simps [simp del]

definition array_form :: "nat \<Rightarrow> int \<Rightarrow> string \<times> int" where
  "array_form k x =
     (let (raw, x') = array_loop k (drop_bit k x) (''['' @ py_str (x AND 0xffffffff)) in (raw @ '']'', x'))"

text \<open>The comparison and the report: the new \<^verbatim>\<open>expected\<close> and the new number of errors.\<close>

definition compare :: "int \<Rightarrow> int option \<Rightarrow> int \<Rightarrow> int \<Rightarrow> (int option \<times> int) option res" where
  "compare digit_size expected c errors = (case expected of
      None \<Rightarrow> raise NameError
    | Some x \<Rightarrow>
        if x = c then ok (Some (Some x, errors))
        else if digit_size * 8 < 0 then raise ValueError
        else if digit_size = 0 \<and> 0 < x then ok None
        else ok (Some (Some (snd (array_form (nat (digit_size * 8)) x)), errors + 1)))"

lemma read_line_shorter: "read_line f = Some (l, r) \<Longrightarrow> length r < length f"
  by (cases f) (auto simp: read_line_def py_rstrip_def Let_def split: if_splits)

function check_ops :: "int \<Rightarrow> int \<Rightarrow> int option \<Rightarrow> int \<Rightarrow> string list \<Rightarrow> verdict" where
  "check_ops digit_size m expected errors f =
     (case read_line f of None \<Rightarrow> Finished errors | Some (a_raw, f1) \<Rightarrow>
     (case find_bignum digit_size a_raw of Inl e \<Rightarrow> Crashed e | Inr a \<Rightarrow>
     (case read_line f1 of None \<Rightarrow> Finished errors | Some (b_raw, f2) \<Rightarrow>
     (case find_bignum digit_size b_raw of Inl e \<Rightarrow> Crashed e | Inr b \<Rightarrow>
     (case read_line f2 of None \<Rightarrow> Finished errors | Some (c_raw, f3) \<Rightarrow>
     (case find_bignum digit_size c_raw of Inl e \<Rightarrow> Crashed e | Inr c \<Rightarrow>
     (case bind_res (py_index c_raw 2) (\<lambda>op. bind_res (compute_expected op a b m expected)
         (\<lambda>x. compare digit_size x c errors)) of
        Inl e \<Rightarrow> Crashed e
      | Inr None \<Rightarrow> Endless
      | Inr (Some (expected', errors')) \<Rightarrow> check_ops digit_size m expected' errors' f3)))))))"
  by pat_completeness auto
termination
  by (relation "measure (\<lambda>(ds, m, x, e, f). length f)") (auto dest!: read_line_shorter)

declare check_ops.simps [simp del]

text \<open>The search for the digit size, for the modulo, and the whole script.\<close>

definition is_size :: "string \<Rightarrow> bool" where
  "is_size line \<longleftrightarrow>
     py_find ''sizeof(Bignum<'' line \<noteq> - 1 \<and> py_find ''::Digit'' line \<noteq> - 1 \<and> py_find ''bytes'' line \<noteq> - 1"

definition stated_size :: "string \<Rightarrow> int res" where
  "stated_size line =
     (let line = drop_blanks line;
          line = py_slice line (Some (py_find ''='' line + 1)) (Some (py_find ''bytes'' line))
      in py_int 10 line)"

function find_size :: "string list \<Rightarrow> (string \<times> string list) option" where
  "find_size f = (case read_line f of
      None \<Rightarrow> None
    | Some (line, f1) \<Rightarrow> if is_size line then Some (line, f1) else find_size f1)"
  by pat_completeness auto
termination
  by (relation "measure length") (auto dest: read_line_shorter)

function find_modulo :: "string \<Rightarrow> string list \<Rightarrow> (string \<times> string list) option" where
  "find_modulo line f =
     (if py_slice line (Some 0) (Some 6) = ''Modulo'' then Some (line, f)
      else (case read_line f of None \<Rightarrow> None | Some (line', f') \<Rightarrow> find_modulo line' f'))"
  by pat_completeness auto
termination
  by (relation "measure (\<lambda>(l, f). length f)") (auto dest: read_line_shorter)

declare find_size.simps [simp del] find_modulo.simps [simp del]

definition script :: "string list \<Rightarrow> verdict" where
  "script f = (case find_size f of
      None \<Rightarrow> Finished 0
    | Some (size_line, f1) \<Rightarrow>
        (case stated_size size_line of
           Inl e \<Rightarrow> Crashed e
         | Inr digit_size \<Rightarrow>
             (case f1 of
                [] \<Rightarrow> Quit
              | line # f2 \<Rightarrow>
                  (case find_modulo line f2 of
                     None \<Rightarrow> Finished 0
                   | Some (mod_raw, f3) \<Rightarrow>
                       (case find_bignum digit_size mod_raw of
                          Inl e \<Rightarrow> Crashed e
                        | Inr x \<Rightarrow> check_ops digit_size (x + 1) None 0 f3)))))"

section \<open>Reading numbers\<close>

text \<open>The number with the given digits, least significant first, in base \<open>B\<close>.\<close>

fun digits_val :: "int \<Rightarrow> nat list \<Rightarrow> int" where
  "digits_val B [] = 0"
| "digits_val B (d # ds) = int d + B * digits_val B ds"

text \<open>A big number in the format of the EPOS output stream.\<close>

definition show_bignum :: "nat list \<Rightarrow> string" where
  "show_bignum ds = ''['' @ py_join '', '' (map (to_base 10) ds) @ '']''"

lemma bignum_fold_digits:
  "0 \<le> sz \<Longrightarrow> bignum_fold sz ret (map (to_base 10) es)
     = ok (foldl (\<lambda>r d. r * 2 ^ nat (sz * 8) + int d) ret es)"
proof (induction es arbitrary: ret)
  case (Cons e es)
  then show ?case using py_int_to_base [of 10 e] by simp
qed simp

lemma foldl_rev_digits: "foldl (\<lambda>r d. r * B + int d) 0 (rev ds) = digits_val B ds"
  by (induction ds) (auto simp: algebra_simps)

lemma drop_blanks_append [simp]: "drop_blanks (s @ t) = drop_blanks s @ drop_blanks t"
  by (simp add: drop_blanks_def)

lemma to_base_10_no:
  assumes "digit_val 10 c = None"
  shows "c \<notin> set (to_base 10 n)"
proof
  assume "c \<in> set (to_base 10 n)"
  then obtain d where "d < 10" "c = digit_char d"
    using to_base_digits [of 10 c n] by auto
  then show False
    using assms digit_val_digit_char [of d 10] by simp
qed

lemma not_digits:
  "digit_val 10 (CHR '' '') = None" "digit_val 10 (CHR '','') = None" "digit_val 10 (CHR '']'') = None"
  by (simp_all add: digit_val_def)

lemma drop_blanks_id: "CHR '' '' \<notin> set s \<Longrightarrow> drop_blanks s = s"
  by (auto simp: drop_blanks_def filter_id_conv)

lemma drop_blanks_join:
  "(\<And>f. f \<in> set fs \<Longrightarrow> CHR '' '' \<notin> set f) \<Longrightarrow> drop_blanks (py_join '', '' fs) = py_join '','' fs"
proof (induction fs rule: induct_list012)
  case (3 f g fs)
  then show ?case by (simp add: drop_blanks_id) (simp add: drop_blanks_def)
next
  case (2 f)
  then show ?case by (simp add: drop_blanks_id)
qed (simp add: drop_blanks_def)

lemma drop_blanks_show:
  "drop_blanks (show_bignum ds) = ''['' @ py_join '','' (map (to_base 10) ds) @ '']''"
  using drop_blanks_join [of "map (to_base 10) ds"] to_base_10_no [OF not_digits(1)]
  by (auto simp: show_bignum_def drop_blanks_def)

lemma join_no_bracket: "CHR '']'' \<notin> set (py_join '','' (map (to_base 10) ds))"
proof -
  have "set (py_join '','' fs) \<subseteq> {CHR '',''} \<union> \<Union> (set ` set fs)" for fs
    by (induction "'',''" fs rule: py_join.induct) auto
  then show ?thesis
    using to_base_10_no [OF not_digits(3)] by fastforce
qed

text \<open>
  A printed big number reads back: in a line with any text around it in which no bracket
  precedes the number, \<^verbatim>\<open>find_bignum\<close> returns the value of its digits, least significant first,
  in the base given by the digit size.
\<close>

lemma find_bignum_show:
  assumes "ds \<noteq> []" "0 \<le> sz" "CHR ''['' \<notin> set p" "CHR '']'' \<notin> set p"
  shows "find_bignum sz (p @ show_bignum ds @ q) = ok (digits_val (2 ^ nat (sz * 8)) ds)"
proof -
  let ?j = "py_join '','' (map (to_base 10) ds)" and ?p = "drop_blanks p"
  let ?l = "?p @ ''['' @ ?j @ '']'' @ drop_blanks q"
  have p: "CHR ''['' \<notin> set ?p" "CHR '']'' \<notin> set ?p"
    using assms(3,4) by (auto simp: drop_blanks_def)
  have line: "drop_blanks (p @ show_bignum ds @ q) = ?l"
    by (simp add: drop_blanks_show)
  have open_at: "py_find ''['' ?l = len ?p"
    using py_find_char [of "CHR ''[''" ?p] p(1) by simp
  have close_at: "py_find '']'' ?l = len ?p + 1 + len ?j"
    using py_find_char [of "CHR '']''" "?p @ ''['' @ ?j" "drop_blanks q"] p(2) join_no_bracket [of ds] by simp
  have "py_slice ?l (Some (len ?p + 1)) (Some (len ?p + 1 + len ?j)) = ?j"
    by (simp add: slice_from_to nat_add_distrib)
  moreover have "py_split (CHR '','') ?j = map (to_base 10) ds"
    using assms(1) to_base_10_no [OF not_digits(2)] by (intro py_split_join) auto
  ultimately show ?thesis
    using bignum_fold_digits [OF assms(2), of 0 "rev ds"]
    unfolding find_bignum_def Let_def line open_at close_at by (simp add: rev_map foldl_rev_digits)
qed

lemma find_bignum_sample: "find_bignum 4 (''a + b = '' @ show_bignum [7, 1] @ [CHR 0x0A]) = ok 4294967303"
  using find_bignum_show [of "[7, 1]" 4 "''a + b = ''" "[CHR 0x0A]"] by simp


section \<open>The failure report\<close>

function word_digits :: "int \<Rightarrow> nat list" where
  "word_digits x = (if 0 < x then nat (x mod 2 ^ 32) # word_digits (x div 2 ^ 32) else [])"
  by pat_completeness auto
termination
  by (relation "measure nat") (auto intro: int_div_less_self)

declare word_digits.simps [simp del]

lemma and_word_mask: "x AND 0xffffffff = x mod (2 ^ 32 :: int)"
  using take_bit_eq_mask [of 32 x] by (simp add: take_bit_eq_mod) (simp add: mask_eq_exp_minus_1)

lemma digits_val_word_digits: "0 \<le> x \<Longrightarrow> digits_val (2 ^ 32) (word_digits x) = x"
proof (induction x rule: word_digits.induct)
  case (1 x)
  then show ?case
    by (cases "0 < x") (simp_all add: word_digits.simps [of x] word_digits.simps [of 0])
qed

lemma array_loop_32:
  "fst (array_loop 32 x raw) = raw @ concat (map (\<lambda>d. '', '' @ to_base 10 d) (word_digits x))"
proof (induction x arbitrary: raw rule: word_digits.induct)
  case (1 x)
  then show ?case
    by (cases "0 < x")
      (simp_all add: array_loop.simps [of 32 x] word_digits.simps [of x] and_word_mask drop_bit_eq_div py_str_def)
qed

lemma array_loop_rest: "0 < k \<Longrightarrow> 0 \<le> x \<Longrightarrow> snd (array_loop k x raw) = 0"
proof (induction k x raw rule: array_loop.induct)
  case (1 k x raw)
  then show ?case
    by (cases "0 < x") (simp_all add: array_loop.simps [of k x raw] array_loop.simps [of k 0 raw])
qed

lemma join_concat: "py_join sep (f # fs) = f @ concat (map (\<lambda>g. sep @ g) fs)"
  by (induction fs arbitrary: f) auto



section \<open>The verification loop\<close>

text \<open>The result that an operation should have modulo \<open>m\<close>, as the script understands it.\<close>

definition op_result :: "char \<Rightarrow> int \<Rightarrow> int \<Rightarrow> int \<Rightarrow> int" where
  "op_result op a b m =
     (if op = CHR ''+'' then (a + b) mod m
      else if op = CHR ''-'' then (a - b) mod m
      else if op = CHR ''*'' then (a * b) mod m
      else (a * (b ^ nat (m - 2) mod m)) mod m)"

text \<open>Three lines of the output that state \<open>a op b = c\<close>.\<close>

definition reads_as :: "int \<Rightarrow> string \<Rightarrow> int \<Rightarrow> bool" where
  "reads_as sz l a \<longleftrightarrow> py_rstrip l \<noteq> [] \<and> py_rstrip l \<noteq> ''Done!'' \<and> find_bignum sz (py_rstrip l) = ok a"

type_synonym operation = "(string \<times> string \<times> string) \<times> int \<times> int \<times> char \<times> int"

fun valid_op :: "int \<Rightarrow> operation \<Rightarrow> bool" where
  "valid_op sz ((la, lb, lc), a, b, op, c) \<longleftrightarrow> reads_as sz la a \<and> reads_as sz lb b \<and> reads_as sz lc c
     \<and> py_index (py_rstrip lc) 2 = ok op \<and> op \<in> set ''+-*/''"

fun op_lines :: "operation \<Rightarrow> string list" where
  "op_lines ((la, lb, lc), _) = [la, lb, lc]"

fun wrong_op :: "int \<Rightarrow> operation \<Rightarrow> bool" where
  "wrong_op m (_, a, b, op, c) \<longleftrightarrow> c \<noteq> op_result op a b m"

lemma read_line_reads:
  "reads_as sz l a \<Longrightarrow> read_line (l # f) = Some (py_rstrip l, f)"
  by (simp add: read_line_def reads_as_def Let_def)

lemma compute_expected_result:
  "2 \<le> m \<Longrightarrow> op \<in> set ''+-*/'' \<Longrightarrow> compute_expected op a b m x = ok (Some (op_result op a b m))"
  by (auto simp: compute_expected_def op_result_def py_mod_def py_pow_def)

lemma check_ops_step:
  assumes "valid_op sz oper" "0 < sz" "2 \<le> m"
  shows "\<exists>x'. check_ops sz m x errors (op_lines oper @ f) = check_ops sz m x' (errors + of_bool (wrong_op m oper)) f"
proof -
  obtain la lb lc a b op c where o: "oper = ((la, lb, lc), a, b, op, c)"
    by (metis surj_pair)
  then have v: "reads_as sz la a" "reads_as sz lb b" "reads_as sz lc c" "py_index (py_rstrip lc) 2 = ok op"
      "op \<in> set ''+-*/''"
    using assms(1) by auto
  have n: "find_bignum sz (py_rstrip la) = ok a" "find_bignum sz (py_rstrip lb) = ok b"
      "find_bignum sz (py_rstrip lc) = ok c"
    using v by (auto simp: reads_as_def)
  have "compare sz (Some (op_result op a b m)) c errors
      = ok (Some (if op_result op a b m = c then Some c else Some (snd (array_form (nat (sz * 8)) (op_result op a b m))),
          errors + of_bool (wrong_op m oper)))"
    using assms(2) by (auto simp: compare_def o)
  then show ?thesis
    using v assms(3)
    by (subst check_ops.simps) (auto simp: o read_line_reads n compute_expected_result)
qed

lemma check_ops_counts:
  assumes "0 < sz" "2 \<le> m" "list_all (valid_op sz) ops" "read_line tail = None"
  shows "check_ops sz m x errors (concat (map op_lines ops) @ tail)
    = Finished (errors + len (filter (wrong_op m) ops))"
  using assms(3)
proof (induction ops arbitrary: x errors)
  case Nil
  then show ?case using assms(4) by (subst check_ops.simps) simp
next
  case (Cons oper ops)
  then obtain x' where "check_ops sz m x errors (op_lines oper @ concat (map op_lines ops) @ tail)
      = check_ops sz m x' (errors + of_bool (wrong_op m oper)) (concat (map op_lines ops) @ tail)"
    using check_ops_step [OF _ assms(1,2)] by fastforce
  with Cons show ?case by simp
qed

text \<open>A line that does not end the run, and the two searches over such lines.\<close>

definition goes_on :: "string \<Rightarrow> bool" where
  "goes_on l \<longleftrightarrow> py_rstrip l \<noteq> [] \<and> py_rstrip l \<noteq> ''Done!''"

lemma read_line_goes_on: "goes_on l \<Longrightarrow> read_line (l # f) = Some (py_rstrip l, f)"
  by (simp add: read_line_def goes_on_def Let_def)

lemma find_size_skips:
  assumes "list_all (\<lambda>l. goes_on l \<and> \<not> is_size (py_rstrip l)) pre" "goes_on l" "is_size (py_rstrip l)"
  shows "find_size (pre @ l # f) = Some (py_rstrip l, f)"
  using assms(1)
proof (induction pre)
  case Nil
  then show ?case using assms(2,3) by (subst find_size.simps) (simp add: read_line_goes_on)
next
  case (Cons k pre)
  then show ?case by (subst find_size.simps) (simp add: read_line_goes_on)
qed

lemma rstrip_prefix: "\<exists>q. l = py_rstrip l @ q"
  unfolding py_rstrip_def by (metis rev_append rev_rev_ident takeWhile_dropWhile_id)

lemma rstrip_keeps: "\<not> is_strip_space c \<Longrightarrow> py_rstrip (p @ c # q) = p @ c # py_rstrip q"
  by (simp add: py_rstrip_def dropWhile_append)

lemma slice_6: "py_slice l (Some 0) (Some 6) = take 6 l"
  using slice_from_to [of 0 6 l] by simp

lemma find_modulo_skips:
  assumes "list_all (\<lambda>l. goes_on l \<and> take 6 l \<noteq> ''Modulo'') mid" "take 6 l \<noteq> ''Modulo''"
    and "goes_on k" "take 6 (py_rstrip k) = ''Modulo''"
  shows "find_modulo l (mid @ k # f) = Some (py_rstrip k, f)"
  using assms(1,2)
proof (induction mid arbitrary: l)
  case Nil
  have "find_modulo (py_rstrip k) f = Some (py_rstrip k, f)"
    using assms(4) by (subst find_modulo.simps) (simp add: slice_6)
  then show ?case
    using Nil assms(3) by (subst find_modulo.simps) (simp add: slice_6 read_line_goes_on)
next
  case (Cons j mid)
  obtain q where q: "j = py_rstrip j @ q" using rstrip_prefix by blast
  have "take 6 (py_rstrip j) \<noteq> ''Modulo''"
  proof
    assume m: "take 6 (py_rstrip j) = ''Modulo''"
    then have "6 \<le> length (py_rstrip j)" by (auto dest: arg_cong [where f = length])
    then have "take 6 (py_rstrip j @ q) = ''Modulo''" using m by simp
    then have "take 6 j = ''Modulo''" by (simp flip: q)
    with Cons.prems(1) show False by simp
  qed
  then show ?case using Cons by (subst find_modulo.simps) (simp add: slice_6 read_line_goes_on)
qed

lemma show_bignum_bracket: "\<exists>b. show_bignum ds = b @ '']''"
  by (auto simp: show_bignum_def)

lemma script_modulo:
  assumes "list_all (\<lambda>l. goes_on l \<and> \<not> is_size (py_rstrip l)) pre" "goes_on l" "is_size (py_rstrip l)"
    and "stated_size (py_rstrip l) = ok sz" "0 \<le> sz" "list_all (\<lambda>l. goes_on l \<and> take 6 l \<noteq> ''Modulo'') mid"
    and "ds \<noteq> []" "CHR ''['' \<notin> set p" "CHR '']'' \<notin> set p"
  shows "script (pre @ l # mid @ (''Modulo'' @ p @ show_bignum ds @ q) # f) =
           check_ops sz (digits_val (2 ^ nat (sz * 8)) ds + 1) None 0 f"
proof -
  let ?k = "''Modulo'' @ p @ show_bignum ds @ q"
  obtain b where b: "show_bignum ds = b @ '']''" using show_bignum_bracket by blast
  have strip: "py_rstrip ?k = ''Modulo'' @ p @ show_bignum ds @ py_rstrip q"
    using rstrip_keeps [of "CHR '']''" "''Modulo'' @ p @ b" q] by (simp add: b is_strip_space_def is_space_def)
  have k: "goes_on ?k" "take 6 (py_rstrip ?k) = ''Modulo''" unfolding goes_on_def strip by simp_all
  have n: "find_bignum sz (''Modulo'' @ p @ show_bignum ds @ r) = ok (digits_val (2 ^ nat (sz * 8)) ds)" for r
    using find_bignum_show [OF assms(7,5), of "''Modulo'' @ p" r] assms(8,9) by simp
  show ?thesis
  proof (cases mid)
    case Nil
    have "find_modulo ?k f = Some (?k, f)" by (subst find_modulo.simps) (simp add: slice_6)
    then show ?thesis
      using find_size_skips [OF assms(1-3), of "?k # f"] assms(4) n [of q] by (simp add: script_def Nil)
  next
    case (Cons j mid')
    have "find_modulo j (mid' @ ?k # f) = Some (py_rstrip ?k, f)"
      using assms(6) k by (intro find_modulo_skips) (simp_all add: Cons)
    then show ?thesis
      using find_size_skips [OF assms(1-3), of "mid @ ?k # f"] assms(4) n [of "py_rstrip q"] by (simp add: script_def Cons strip [simplified])
  qed
qed

text \<open>
  C13: The script counts exactly the wrong operations of a whole output file: after any lines, one that states a positive
  digit size, any lines, the modulo (one more than the big number printed, and at least 2) and any sequence of
  well-formed operations on the four operators, up to the line that ends the run (Done!, a blank line or
  the end of the file), it finishes and reports as many errors as there are operations whose
  stated result differs from the expected one.
\<close>

theorem script_counts:
  assumes "list_all (\<lambda>l. goes_on l \<and> \<not> is_size (py_rstrip l)) pre" "goes_on l" "is_size (py_rstrip l)"
    and "stated_size (py_rstrip l) = ok sz" "0 < sz" "list_all (\<lambda>l. goes_on l \<and> take 6 l \<noteq> ''Modulo'') mid"
    and "ds \<noteq> []" "CHR ''['' \<notin> set p" "CHR '']'' \<notin> set p"
    and "m = digits_val (2 ^ nat (sz * 8)) ds + 1" "2 \<le> m"
    and "list_all (valid_op sz) ops" "read_line tail = None"
  shows "script (pre @ l # mid @ (''Modulo'' @ p @ show_bignum ds @ q) # concat (map op_lines ops) @ tail) =
           Finished (len (filter (wrong_op m) ops))"
  using script_modulo [OF assms(1-4) _ assms(6-9)] check_ops_counts [OF assms(5,11-13), of None 0] assms(5,10)
  by simp

definition newline :: string where
  "newline = [CHR 0x0A]"

theorem script_counts_witness:
  "script [''Bignum Utility Test'' @ newline, ''sizeof(Bignum<16>::Digit) = 4 bytes.'' @ newline, ''Random seed = 3'' @ newline,
      ''Modulo = [9] + 1'' @ newline, ''a = [7]'' @ newline, ''b = [5]'' @ newline, ''a + b = [2]'' @ newline,
      ''a = [7]'' @ newline, ''b = [5]'' @ newline, ''a * b = [4]'' @ newline, ''Done!'' @ newline]
     = Finished 1"
proof -
  let ?pre = "[''Bignum Utility Test'' @ newline]" and ?l = "''sizeof(Bignum<16>::Digit) = 4 bytes.'' @ newline"
  let ?mid = "[''Random seed = 3'' @ newline]"
  let ?ops = "[((''a = [7]'' @ newline, ''b = [5]'' @ newline, ''a + b = [2]'' @ newline), 7, 5, CHR ''+'', 2),
      ((''a = [7]'' @ newline, ''b = [5]'' @ newline, ''a * b = [4]'' @ newline), 7, 5, CHR ''*'', 4)]"
  have pre: "list_all (\<lambda>l. goes_on l \<and> \<not> is_size (py_rstrip l)) ?pre" by code_simp
  have l: "goes_on ?l" "is_size (py_rstrip ?l)" "stated_size (py_rstrip ?l) = ok 4" by code_simp+
  have mid: "list_all (\<lambda>l. goes_on l \<and> take 6 l \<noteq> ''Modulo'') ?mid" by code_simp
  have v: "list_all (valid_op 4) ?ops" by code_simp
  have t: "read_line [''Done!'' @ newline] = None" by code_simp
  have m: "10 = digits_val (2 ^ nat (4 * 8)) [9] + 1" by simp
  have s: "show_bignum [9] = ''[9]''" by code_simp
  show ?thesis
    using script_counts [OF pre l _ mid _ _ _ m _ v t, of "'' = ''" "'' + 1'' @ newline"] by (simp add: s op_result_def)
qed

text \<open>
  A blank line (or Done!) ends the run at once, in the middle of the operations too: the
  verdict is the number of errors so far, whatever comes after it in the file.
\<close>

theorem blank_line_ends_run:
  assumes "py_rstrip l = [] \<or> py_rstrip l = ''Done!''"
  shows "check_ops sz m x errors (l # f) = Finished errors"
  using assms by (subst check_ops.simps) (auto simp: read_line_def)

theorem blank_line_ends_run_witness:
  "check_ops 4 10 None 3 [[CHR 0x0A], ''a = [7]'', ''b = [5]'', ''a + b = [3]''] = Finished 3"
proof -
  have "py_rstrip [CHR 0x0A] = []" by code_simp
  then show ?thesis by (intro blank_line_ends_run) simp
qed


section \<open>Division by Fermat's little theorem\<close>

definition is_prime :: "int \<Rightarrow> bool" where
  "is_prime p \<longleftrightarrow> 1 < p \<and> (\<forall>d. 1 < d \<longrightarrow> d dvd p \<longrightarrow> d = p)"

lemma is_prime_coprime:
  assumes "is_prime p" "\<not> p dvd b"
  shows "coprime p b"
proof (rule ccontr)
  assume "\<not> coprime p b"
  then have "gcd p b \<noteq> 1" by (simp add: coprime_iff_gcd_eq_1)
  moreover have "0 < gcd p b" using assms(1) by (simp add: is_prime_def)
  ultimately have "1 < gcd p b" by linarith
  then have "gcd p b = p" using assms(1) unfolding is_prime_def by blast
  with assms(2) show False by (metis gcd_dvd2)
qed

lemma fermat:
  assumes p: "is_prime p" and nd: "\<not> p dvd b"
  shows "b ^ nat (p - 1) mod p = 1"
proof -
  let ?S = "{1 ..< p}" and ?f = "\<lambda>i. (b * i) mod p"
  have p1: "1 < p" using p by (simp add: is_prime_def)
  have cop: "coprime p b" by (rule is_prime_coprime [OF p nd])
  have copi: "coprime p i" if "i \<in> ?S" for i
    using that by (intro is_prime_coprime [OF p]) (auto dest: zdvd_imp_le)
  have inj: "inj_on ?f ?S"
  proof
    fix i j assume ij: "i \<in> ?S" "j \<in> ?S" "?f i = ?f j"
    then have "p dvd b * (i - j)" by (simp add: mod_eq_dvd_iff right_diff_distrib)
    then have "p dvd i - j" using cop by (simp add: coprime_dvd_mult_right_iff)
    then show "i = j" using ij(1,2) by (simp add: mod_eq_dvd_iff [symmetric])
  qed
  have "?f ` ?S \<subseteq> ?S"
  proof
    fix y assume "y \<in> ?f ` ?S"
    then obtain i where i: "i \<in> ?S" "y = ?f i" by blast
    have "coprime p (b * i)" using cop copi [OF i(1)] by simp
    then have "\<not> p dvd b * i" using p1 coprime_common_divisor_int [of p "b * i" p] by auto
    then have "y \<noteq> 0" using i(2) by (simp add: dvd_eq_mod_eq_0)
    moreover have "0 \<le> y" "y < p" using p1 i(2) by simp_all
    ultimately show "y \<in> ?S" by simp
  qed
  then have img: "?f ` ?S = ?S" using inj by (intro endo_inj_surj) auto
  have "prod (\<lambda>i. i) ?S = prod ?f ?S"
    using prod.reindex [OF inj, of "\<lambda>i. i"] by (simp add: img)
  then have "prod (\<lambda>i. i) ?S mod p = prod (\<lambda>i. b * i) ?S mod p"
    using mod_prod_eq [of "\<lambda>i. b * i" p ?S] by simp
  also have "prod (\<lambda>i. b * i) ?S = b ^ nat (p - 1) * prod (\<lambda>i. i) ?S"
    by (simp add: prod.distrib prod_constant)
  finally have "p dvd (b ^ nat (p - 1) - 1) * prod (\<lambda>i. i) ?S"
    by (simp add: mod_eq_dvd_iff dvd_diff_commute left_diff_distrib)
  moreover have "coprime p (prod (\<lambda>i. i) ?S)"
    using copi by (intro prod_coprime_right) simp
  ultimately have "p dvd b ^ nat (p - 1) - 1"
    by (simp add: coprime_dvd_mult_left_iff)
  then show ?thesis
    using p1 mod_eq_dvd_iff [of "b ^ nat (p - 1)" p 1] by simp
qed

text \<open>
  C14: For a prime modulo the expected quotient is right: it is a residue, and multiplying it
  by the divisor gives the dividend again, whenever the modulo does not divide the divisor.
\<close>

theorem division_expected:
  assumes "is_prime m" "\<not> m dvd b"
  shows "\<exists>q. compute_expected (CHR ''/'') a b m x = ok (Some q) \<and> 0 \<le> q \<and> q < m \<and> (q * b) mod m = a mod m"
proof -
  have m: "2 \<le> m" using assms(1) by (simp add: is_prime_def)
  let ?q = "op_result (CHR ''/'') a b m"
  have q: "compute_expected (CHR ''/'') a b m x = ok (Some ?q)"
    using m by (intro compute_expected_result) auto
  have "nat (m - 1) = Suc (nat (m - 2))" using m by simp
  then have e: "b ^ nat (m - 2) * b = b ^ nat (m - 1)" by (simp add: mult.commute)
  have "(?q * b) mod m = (a * (b ^ nat (m - 2) * b)) mod m"
    by (simp add: op_result_def mod_simps ac_simps)
  also have "\<dots> = (a * (b ^ nat (m - 1) mod m)) mod m"
    unfolding e by (simp add: mod_simps)
  finally have "(?q * b) mod m = a mod m"
    by (simp add: fermat [OF assms])
  moreover have "0 \<le> ?q" "?q < m" using m by (simp_all add: op_result_def)
  ultimately show ?thesis using q by blast
qed

lemma is_prime_7: "is_prime 7"
proof -
  have "d = 7" if "1 < d" "d dvd 7" for d :: int
  proof -
    have "d \<le> 7" using that zdvd_imp_le by simp
    then have "d \<in> {2, 3, 4, 5, 6, 7}" using that(1) by auto
    then show ?thesis using that(2) by auto
  qed
  then show ?thesis by (auto simp: is_prime_def)
qed

theorem division_expected_witness:
  "\<exists>q. compute_expected (CHR ''/'') 5 3 7 None = ok (Some q) \<and> (q * 3) mod 7 = 5"
  using division_expected [of 7 3 5 None] is_prime_7 by auto

section \<open>Termination\<close>

lemma compare_ends: "sz \<noteq> 0 \<Longrightarrow> compare sz x c errors \<noteq> ok None"
  by (auto simp: compare_def split: option.splits if_splits)

lemma check_ops_ends: "sz \<noteq> 0 \<Longrightarrow> check_ops sz m x errors f \<noteq> Endless"
proof (induction sz m x errors f rule: check_ops.induct)
  case (1 sz m x errors f)
  note ne = compare_ends [OF "1.prems"]
  show ?case
    by (subst check_ops.simps)
      (auto simp: bind_res_eq_Inr ne "1.prems" dest!: "1.IH" split: option.splits sum.splits prod.splits)
qed

text \<open>
  C39: the script ends on every file, with a verdict or an exception, unless the file states a digit size of
  zero bytes; only then can the loop that writes the failure report run for ever.
\<close>

theorem script_ends:
  assumes "script f = Endless"
  shows "\<exists>line f1. find_size f = Some (line, f1) \<and> stated_size line = ok 0"
proof -
  obtain line f1 d where f: "find_size f = Some (line, f1)"
    and d: "stated_size line = ok d"
    and "\<exists>m f3. check_ops d m None 0 f3 = Endless"
    using assms by (auto simp: script_def split: option.splits sum.splits prod.splits list.splits)
  then have "d = 0" using check_ops_ends by blast
  with f d show ?thesis by auto
qed

definition endless_file :: "string list" where
  "endless_file = [''sizeof(Bignum<16>::Digit) = 0 bytes'', ''Modulo: [9]'', ''a = [7]'', ''b = [5]'', ''a + b = [3]'']"

theorem script_ends_witness:
  "\<exists>line f1. find_size endless_file = Some (line, f1) \<and> stated_size line = ok 0"
proof (rule script_ends)
  show "script endless_file = Endless" by code_simp
qed

end
