(* ===== verification/Emote3_Records.thy ===== *)
theory Emote3_Records
  imports Checksum Hex_Text
begin

text \<open>
  The translation of Intel HEX records into boot-loader messages in \<^verbatim>\<open>tools/eposflash/eposflash-emote3\<close>:
  the checksums and \<^verbatim>\<open>hex_to_msg\<close>, with the three global variables as a record, and the contract of
  every step of it: the numbers, the form and the addresses of the messages.
\<close>

section \<open>The code\<close>

definition msg_ck :: "int \<Rightarrow> int" where
  "msg_ck lrc = ((lrc XOR 0xff) + 1) AND 0xff"

definition msg_checksum :: "bytes \<Rightarrow> bytes res" where
  "msg_checksum msg = pack_B (msg_ck (byte_sum msg))"

definition handshake1_message :: bytes where
  "handshake1_message = 0x68 # replicate 8 0"

definition handshake2_message :: bytes where
  "handshake2_message = 0x48 # replicate 8 0"

definition end_message :: bytes where
  "end_message = 0x65 # replicate 8 0"

record flash =
  hex_offset :: int
  sequence_number :: int
  last_address :: int

definition flash_init :: flash where
  "flash_init = \<lparr>hex_offset = 0, sequence_number = 0, last_address = 0\<rparr>"

definition hex_ck :: "int \<Rightarrow> int" where
  "hex_ck acc = \<bar>(acc AND 0xff) - 2 ^ 8\<bar> AND 0xff"

definition hex_checksum :: "string \<Rightarrow> int res" where
  "hex_checksum line =
     bind_res (py_range 0 (len line - 1) 2) (\<lambda>is.
     bind_res (map_res (\<lambda>i. py_int 16 (py_slice line (Some i) (Some (i + 2)))) is) (\<lambda>vs.
     ok (hex_ck (sum_list vs))))"

text \<open>
  One write message: the sequence number, \<^verbatim>\<open>w\<close>, the address, two half words, the checksum. The
  half words are given by the computations that produce them.
\<close>

definition write_msg :: "int \<Rightarrow> int \<Rightarrow> int res \<Rightarrow> int res \<Rightarrow> bytes res" where
  "write_msg seq address hi lo =
     bind_res (pack_le_H seq) (\<lambda>s.
     bind_res (bind_res hi pack_be_H) (\<lambda>d1.
     bind_res (bind_res lo pack_be_H) (\<lambda>d2.
     bind_res (pack_le_I address) (\<lambda>a.
     let msg = s @ [0x77] @ a @ d1 @ d2 in
     bind_res (msg_checksum msg) (\<lambda>ck. ok (msg @ ck))))))"

text \<open>The guarded block that the code has three times: send one word unless it is out of order.\<close>

definition send_word :: "flash \<Rightarrow> int \<Rightarrow> int res \<Rightarrow> int res \<Rightarrow> (bytes list \<times> flash) res" where
  "send_word s address hi lo =
     (if address > last_address s
      then bind_res (write_msg (sequence_number s) address hi lo) (\<lambda>msg.
             ok ([msg], s\<lparr>sequence_number := sequence_number s + 1, last_address := address\<rparr>))
      else ok ([], s))"

fun word_loop :: "flash \<Rightarrow> int \<Rightarrow> string \<Rightarrow> int list \<Rightarrow> (bytes list \<times> flash \<times> int) res" where
  "word_loop s address data [] = ok ([], s, address)"
| "word_loop s address data (i # is) =
     bind_res (send_word s address (py_int 16 (py_slice data (Some i) (Some (i + 4))))
         (py_int 16 (py_slice data (Some (i + 4)) (Some (i + 8))))) (\<lambda>(msgs, s').
     bind_res (word_loop s' (address + 4) data is) (\<lambda>(msgs', s'', address').
     ok (msgs @ msgs', s'', address')))"

definition data_record :: "flash \<Rightarrow> int \<Rightarrow> int \<Rightarrow> string \<Rightarrow> (bytes list \<times> flash) res" where
  "data_record s byte_count address data =
     (let n = byte_count * 2 in
      bind_res
        (if n - 7 \<ge> 8
         then bind_res (py_range 0 (n - 7) 8) (\<lambda>is.
              bind_res (word_loop s address data is) (\<lambda>(msgs, s', address').
              ok (msgs, s', address', last is + 8)))
         else ok ([], s, address, 0)) (\<lambda>(msgs, s', address', i).
      bind_res
        (if i < n \<and> n - i \<le> 4
         then send_word s' address' (py_int 16 (py_slice data (Some i) None)) (ok 0)
         else if i < n
         then send_word s' address' (py_int 16 (py_slice data (Some i) (Some (i + 4))))
                (py_int 16 (py_slice data (Some (i + 4)) (Some (i + 8))))
         else ok ([], s')) (\<lambda>(msgs', s'').
      ok (msgs @ msgs', s''))))"

definition end_record :: "flash \<Rightarrow> (bytes list \<times> flash) res" where
  "end_record s =
     bind_res (pack_le_H (sequence_number s)) (\<lambda>q.
     let msg = q @ end_message in
     bind_res (msg_checksum msg) (\<lambda>ck.
     ok ([msg @ ck], s\<lparr>sequence_number := sequence_number s + 1\<rparr>)))"

definition hex_to_msg :: "flash \<Rightarrow> string \<Rightarrow> (bytes list \<times> flash) res" where
  "hex_to_msg s line0 =
     (let line = (if py_slice line0 (Some (- 1)) None = [CHR 0x0A] then py_slice line0 None (Some (- 1)) else line0) in
      bind_res (py_index line 0) (\<lambda>start_code.
      if start_code \<noteq> CHR '':'' then raise OtherException else
      bind_res (hex_checksum (py_slice line (Some 1) (Some (- 2)))) (\<lambda>c.
      bind_res (py_int 16 (py_slice line (Some (- 2)) None)) (\<lambda>c0.
      if c \<noteq> c0 then raise OtherException else
      bind_res (py_int 16 (py_slice line (Some 1) (Some 3))) (\<lambda>byte_count.
      bind_res (py_int 16 (py_slice line (Some 3) (Some 7))) (\<lambda>addr.
      bind_res (py_int 16 (py_slice line (Some 7) (Some 9))) (\<lambda>record_type.
      let address = addr + hex_offset s;
          data = py_slice line (Some 9) (Some (9 + 2 * byte_count))
      in
      if record_type = 0x00 then data_record s byte_count address data
      else if record_type = 0x01 then end_record s
      else if record_type = 0x04
           then bind_res (py_int 16 data) (\<lambda>off. ok ([], s\<lparr>hex_offset := off * 2 ^ 16\<rparr>))
      else ok ([], s))))))))"

section \<open>Checksums\<close>

lemma msg_ck_neg: "msg_ck s = (- s) mod 256"
  by (simp add: msg_ck_def xor_low_byte_neg)

lemma hex_ck_neg: "hex_ck s = (- s) mod 256"
proof -
  have m: "a AND 255 = a mod 256" for a :: int
    using take_bit_eq_mask [of 8 a] by (simp add: take_bit_eq_mod) (simp add: mask_eq_exp_minus_1)
  have "\<bar>s mod 256 - 256\<bar> = 256 - s mod 256" by simp
  then have "hex_ck s = (256 - s mod 256) mod 256"
    by (simp add: hex_ck_def m)
  also have "\<dots> = (- s) mod 256"
    by (metis diff_0 minus_mod_self1 mod_diff_right_eq)
  finally show ?thesis .
qed

interpretation msg: cancelling_checksum msg_ck
  by unfold_locales (simp_all add: msg_ck_neg mod_simps)

interpretation hexrec: cancelling_checksum hex_ck
  by unfold_locales (simp_all add: hex_ck_neg mod_simps)

lemma msg_checksum_ok: "msg_checksum m = ok [byte_of (msg_ck (byte_sum m))]"
  using msg.ck_range by (simp add: msg_checksum_def pack_B_def)


section \<open>Messages\<close>

text \<open>A message for the boot loader: twelve bytes with the given number that sum to zero.\<close>

definition message :: "int \<Rightarrow> bytes \<Rightarrow> bool" where
  "message n m \<longleftrightarrow> length m = 12 \<and> byte_sum m mod 256 = 0 \<and> from_bytes_little (take 2 m) = n"

primrec numbered :: "int \<Rightarrow> bytes list \<Rightarrow> bool" where
  "numbered n [] = True"
| "numbered n (m # ms) = (message n m \<and> numbered (n + 1) ms)"

lemma numbered_append: "numbered n (ms @ ms') \<longleftrightarrow> numbered n ms \<and> numbered (n + len ms) ms'"
  by (induction ms arbitrary: n) (auto simp: ac_simps)

lemma numbered_nth: "numbered n ms \<Longrightarrow> i < length ms \<Longrightarrow> message (n + int i) (ms ! i)"
proof (induction ms arbitrary: n i)
  case (Cons m ms)
  then show ?case
    by (cases i) (auto dest: Cons.IH simp: ac_simps)
qed simp

lemma write_msg_parts:
  assumes "write_msg q address hi lo = ok m"
  obtains s a d1 d2 x y where "m = (s @ [0x77] @ a @ d1 @ d2) @ [byte_of (msg_ck (byte_sum (s @ [0x77] @ a @ d1 @ d2)))]"
    "pack_le_H q = ok s" "pack_le_I address = ok a" "hi = ok x" "pack_be_H x = ok d1" "lo = ok y" "pack_be_H y = ok d2"
  using assms by (auto simp: write_msg_def bind_res_eq_Inr msg_checksum_ok Let_def)

lemma write_msg_message:
  assumes "write_msg q address hi lo = ok m"
  shows "message q m"
proof -
  obtain s a d1 d2 x y where m: "m = (s @ [0x77] @ a @ d1 @ d2) @ [byte_of (msg_ck (byte_sum (s @ [0x77] @ a @ d1 @ d2)))]"
    and p: "pack_le_H q = ok s" "pack_le_I address = ok a" "pack_be_H x = ok d1" "pack_be_H y = ok d2"
    using assms by (rule write_msg_parts)
  have l: "length s = 2" "length a = 4" "length d1 = 2" "length d2 = 2"
    using p by (auto dest: pack_lengths)
  have "byte_sum m mod 256 = 0"
    unfolding m by (rule msg.sealed_sum)
  moreover have "take 2 m = s"
    using l by (simp add: m)
  ultimately show ?thesis
    using l p(1) pack_le_H_round_trip by (simp add: message_def m)
qed

section \<open>What a record sends\<close>

text \<open>The address and the data of a write message; the write messages of a list.\<close>

definition is_write :: "bytes \<Rightarrow> bool" where
  "is_write m \<longleftrightarrow> 2 < length m \<and> m ! 2 = 0x77"

definition write_address :: "bytes \<Rightarrow> int" where
  "write_address m = from_bytes_little (take 4 (drop 3 m))"

definition write_addresses :: "bytes list \<Rightarrow> int list" where
  "write_addresses ms = map write_address (filter is_write ms)"

lemma write_addresses_append [simp]:
  "write_addresses (ms @ ms') = write_addresses ms @ write_addresses ms'" "write_addresses [] = []"
  by (simp_all add: write_addresses_def)

text \<open>
  The contract of every step of the translation from state \<open>s\<close> to \<open>s'\<close>: the messages are numbered
  from \<open>s\<close> on, and their addresses increase and lie in between the two last addresses.
\<close>

definition sends :: "flash \<Rightarrow> bytes list \<Rightarrow> flash \<Rightarrow> bool" where
  "sends s ms s' \<longleftrightarrow>
     numbered (sequence_number s) ms \<and> sequence_number s' = sequence_number s + len ms \<and>
     last_address s \<le> last_address s' \<and> sorted_wrt (<) (write_addresses ms) \<and>
     (\<forall>a \<in> set (write_addresses ms). last_address s < a \<and> a \<le> last_address s')"

lemma sends_append:
  assumes "sends s ms s'" "sends s' ms' s''"
  shows "sends s (ms @ ms') s''"
  using assms unfolding sends_def
  by (force simp: numbered_append sorted_wrt_append)

lemma sends_Nil: "sequence_number s' = sequence_number s \<Longrightarrow> last_address s' = last_address s \<Longrightarrow> sends s [] s'"
  by (simp add: sends_def)

lemma write_msg_address:
  assumes "write_msg q address hi lo = ok m"
  shows "is_write m" "write_address m = address"
proof -
  obtain s a d1 d2 x y where m: "m = (s @ [0x77] @ a @ d1 @ d2) @ [byte_of (msg_ck (byte_sum (s @ [0x77] @ a @ d1 @ d2)))]"
    and p: "pack_le_H q = ok s" "pack_le_I address = ok a" "pack_be_H x = ok d1" "pack_be_H y = ok d2"
    using assms by (rule write_msg_parts)
  have l: "length s = 2" "length a = 4"
    using p by (auto dest: pack_lengths)
  then show "is_write m" by (simp add: is_write_def m nth_append)
  have "take 4 (drop 3 m) = a" using l by (simp add: m)
  then show "write_address m = address"
    using p(2) pack_le_I_round_trip by (simp add: write_address_def)
qed

lemma send_word_sends:
  assumes "send_word s address hi lo = ok (ms, s')"
  shows "sends s ms s'"
proof (cases "address > last_address s")
  case True
  then obtain m where m: "write_msg (sequence_number s) address hi lo = ok m"
    and r: "ms = [m]" "s' = s\<lparr>sequence_number := sequence_number s + 1, last_address := address\<rparr>"
    using assms by (auto simp: send_word_def bind_res_eq_Inr)
  show ?thesis
    using True write_msg_message [OF m] write_msg_address [OF m]
    by (simp add: r sends_def write_addresses_def)
qed (use assms in \<open>simp add: send_word_def sends_Nil\<close>)

lemma word_loop_sends: "word_loop s address data is = ok (ms, s', a) \<Longrightarrow> sends s ms s'"
proof (induction s address data "is" arbitrary: ms s' a rule: word_loop.induct)
  case (2 s address data i "is")
  then show ?case
    by (force simp: bind_res_eq_Inr intro: sends_append send_word_sends)
qed (simp add: sends_Nil)

lemma data_record_sends:
  assumes "data_record s byte_count address data = ok (ms, s')"
  shows "sends s ms s'"
  using assms unfolding data_record_def Let_def
  by (force simp: bind_res_eq_Inr split: if_splits
      intro: sends_append word_loop_sends send_word_sends sends_Nil)

lemma end_record_sends:
  assumes "end_record s = ok (ms, s')"
  shows "sends s ms s'"
proof -
  obtain q where q: "pack_le_H (sequence_number s) = ok q"
    and r: "ms = [(q @ end_message) @ [byte_of (msg_ck (byte_sum (q @ end_message)))]]"
      "s' = s\<lparr>sequence_number := sequence_number s + 1\<rparr>"
    using assms by (auto simp: end_record_def bind_res_eq_Inr msg_checksum_ok Let_def)
  have l: "length q = 2" "length end_message = 9"
    using q by (auto dest: pack_lengths simp: end_message_def)
  have "message (sequence_number s) (hd ms)"
    using l pack_le_H_round_trip [OF q] msg.sealed_sum [of "q @ end_message"]
    by (simp add: message_def r)
  moreover have "\<not> is_write (hd ms)"
    using l by (simp add: r is_write_def nth_append end_message_def)
  ultimately show ?thesis
    by (simp add: sends_def write_addresses_def r)
qed

lemma hex_to_msg_sends:
  assumes "hex_to_msg s line = ok (ms, s')"
  shows "sends s ms s'"
  using assms unfolding hex_to_msg_def Let_def
  by (auto simp: bind_res_eq_Inr split: if_splits intro: data_record_sends end_record_sends sends_Nil)

text \<open>An empty line of the file, also the last one, ends the programmer with an IndexError.\<close>

lemma hex_to_msg_empty_line: "hex_to_msg s [CHR 0x0A] = raise IndexError" "hex_to_msg s [] = raise IndexError"
  by (simp_all add: hex_to_msg_def slice_simps py_index_def)

end
