(* ===== verification/Intel_Hex.thy ===== *)
theory Intel_Hex
  imports Emote3_Records
begin

text \<open>
  What \<^verbatim>\<open>hex_to_msg\<close> of \<^verbatim>\<open>tools/eposflash/eposflash-emote3\<close> makes of well-formed and of damaged Intel HEX records.
\<close>

section \<open>Intel HEX records\<close>

text \<open>A record of the Intel HEX format: count, address, type, data and checksum.\<close>

definition hex_record :: "int \<Rightarrow> byte \<Rightarrow> bytes \<Rightarrow> string" where
  "hex_record addr t bs =
     (let body = byte_of (len bs) # byte_of (addr div 256) # byte_of addr # t # bs
      in CHR '':'' # hex_bytes (body @ [byte_of (hex_ck (byte_sum body))]))"

lemma sum_list_uint: "sum_list (map uint bs) = byte_sum bs"
  by (simp add: byte_sum_def)

lemma hex_checksum_hex_bytes: "hex_checksum (hex_bytes bs) = ok (hex_ck (byte_sum bs))"
proof -
  have n: "nat ((2 * len bs - 1 + 2 - 1) div 2) = length bs" by simp
  have "py_slice (hex_bytes bs) (Some (2 * int k)) (Some (2 * int k + 2)) = hex2 (uint (bs ! k))"
    if "k < length bs" for k
  proof -
    have "hex2 (uint (bs ! k)) = blocks 2 (hex_bytes bs) ! k"
      using that by (simp add: blocks_hex_bytes)
    also have "\<dots> = take 2 (drop (2 * k) (hex_bytes bs))"
      using that blocks_hex_bytes [of bs] by (subst blocks_nth) (simp_all add: ac_simps)
    finally show ?thesis by (simp add: slice_from_to nat_mult_distrib nat_add_distrib)
  qed
  then have "map_res (\<lambda>i. py_int 16 (py_slice (hex_bytes bs) (Some i) (Some (i + 2)))) (map (\<lambda>k. 2 * int k) [0 ..< length bs])
      = ok (map (\<lambda>k. uint (bs ! k)) [0 ..< length bs])"
    unfolding map_res_map by (intro map_res_ok) simp
  moreover have "map (\<lambda>k. uint (bs ! k)) [0 ..< length bs] = map uint bs"
    by (rule nth_equalityI) simp_all
  moreover have "py_range 0 (len (hex_bytes bs) - 1) 2 = ok (map (\<lambda>k. 2 * int k) [0 ..< length bs])"
    using n by (simp add: py_range_pos)
  ultimately show ?thesis
    by (simp add: hex_checksum_def sum_list_uint)
qed

lemma hex_bytes_not_newline: "\<forall>c \<in> set (hex_bytes bs). c \<noteq> CHR 0x0A"
proof -
  have "\<not> is_upper_hex (CHR 0x0A)" by (simp add: is_upper_hex_def)
  then show ?thesis using hex_bytes_upper_hex [of bs] by blast
qed

lemma hex_line_slices:
  assumes "line = CHR '':'' # hex_bytes (a # b # c # t # bs @ [k])"
  shows "py_index line 0 = ok (CHR '':'')"
    and "py_slice line (Some 1) (Some (- 2)) = hex_bytes (a # b # c # t # bs)"
    and "py_slice line (Some (- 2)) None = hex2 (uint k)"
    and "py_slice line (Some 1) (Some 3) = hex2 (uint a)"
    and "py_slice line (Some 3) (Some 7) = hex_bytes [b, c]"
    and "py_slice line (Some 7) (Some 9) = hex2 (uint t)"
    and "py_slice line (Some 9) (Some (9 + 2 * len bs)) = hex_bytes bs"
proof -
  obtain a1 a2 b1 b2 c1 c2 t1 t2 k1 k2 where x: "hex2 (uint a) = [a1, a2]" "hex2 (uint b) = [b1, b2]"
      "hex2 (uint c) = [c1, c2]" "hex2 (uint t) = [t1, t2]" "hex2 (uint k) = [k1, k2]"
    by (metis hex2_two uint_byte_range)
  have l: "line = [CHR '':'', a1, a2, b1, b2, c1, c2, t1, t2] @ hex_bytes bs @ [k1, k2]"
    by (simp add: assms x)
  show "py_index line 0 = ok (CHR '':'')" by (simp add: l py_index_def)
  show "py_slice line (Some 1) (Some (- 2)) = hex_bytes (a # b # c # t # bs)"
    by (simp add: l x slice_simps)
  show "py_slice line (Some (- 2)) None = hex2 (uint k)" by (simp add: l x slice_simps)
  show "py_slice line (Some 1) (Some 3) = hex2 (uint a)" by (simp add: l x slice_simps numeral_eq_Suc)
  show "py_slice line (Some 3) (Some 7) = hex_bytes [b, c]" by (simp add: l x slice_simps numeral_eq_Suc)
  show "py_slice line (Some 7) (Some 9) = hex2 (uint t)" by (simp add: l x slice_simps numeral_eq_Suc)
  have "drop 9 line = hex_bytes bs @ [k1, k2]" by (simp add: l)
  then show "py_slice line (Some 9) (Some (9 + 2 * len bs)) = hex_bytes bs"
    by (simp add: slice_simps nat_add_distrib nat_mult_distrib)
qed

lemma strip_newline:
  assumes "line \<noteq> []" "last line \<noteq> CHR 0x0A" "nl = [] \<or> nl = [CHR 0x0A]"
  shows "(if py_slice (line @ nl) (Some (- 1)) None = [CHR 0x0A] then py_slice (line @ nl) None (Some (- 1)) else line @ nl) = line"
  using assms by (cases line rule: rev_cases) (auto simp: slice_simps)

lemma hex_to_msg_record:
  assumes "length bs < 256" "0 \<le> addr" "addr < 65536" "nl = [] \<or> nl = [CHR 0x0A]"
  shows "hex_to_msg s (hex_record addr t bs @ nl) =
    (if t = 0 then data_record s (len bs) (addr + hex_offset s) (hex_bytes bs)
     else if t = 1 then end_record s
     else if t = 4 then bind_res (py_int 16 (hex_bytes bs)) (\<lambda>off. ok ([], s\<lparr>hex_offset := off * 2 ^ 16\<rparr>))
     else ok ([], s))"
proof -
  let ?body = "byte_of (len bs) # byte_of (addr div 256) # byte_of addr # t # bs"
  let ?ck = "byte_of (hex_ck (byte_sum ?body))"
  define line where "line = hex_record addr t bs"
  have l: "line = CHR '':'' # hex_bytes (byte_of (len bs) # byte_of (addr div 256) # byte_of addr # t # bs @ [?ck])"
    by (simp add: line_def hex_record_def Let_def)
  define h where "h = hex_bytes (?body @ [?ck])"
  have h: "line = CHR '':'' # h" "h \<noteq> []"
    unfolding h_def by (simp_all only: l append_Cons hex_bytes_ne list.distinct not_False_eq_True)
  then have "last line \<in> set h" by simp
  then have nl: "(if py_slice (line @ nl) (Some (- 1)) None = [CHR 0x0A] then py_slice (line @ nl) None (Some (- 1)) else line @ nl) = line"
    using hex_bytes_not_newline [of "?body @ [?ck]"] h(1)
    by (intro strip_newline assms) (simp, unfold h_def [symmetric], blast)
  have a: "py_int 16 (hex_bytes [byte_of (addr div 256), byte_of addr]) = ok addr"
    using assms by (subst py_int_hex_bytes) (simp_all add: from_bytes_big_pair uint_byte_of)
  have n: "py_int 16 (hex2 (uint (byte_of (len bs)))) = ok (len bs)"
      "py_int 16 (hex2 (uint ?ck)) = ok (hex_ck (byte_sum ?body))"
    using assms hexrec.ck_range by (simp_all only: py_int_hex2_byte) simp_all
  have z: "uint t = 0 \<longleftrightarrow> t = 0" "uint t = 1 \<longleftrightarrow> t = 1" "uint t = 4 \<longleftrightarrow> t = 4"
    by (simp_all add: word_uint_eq_iff)
  show ?thesis
    unfolding hex_to_msg_def line_def [symmetric] nl Let_def
    by (simp only: hex_line_slices [OF l] hex_checksum_hex_bytes a n bind_res_Inr)
      (simp add: z hex_line_slices [OF l])
qed

subsection \<open>Data records\<close>

text \<open>
  The message that writes the four bytes \<open>w\<close> at an address, the messages for a list of such words
  at consecutive addresses, and the state after they are made.
\<close>

definition write_message :: "int \<Rightarrow> int \<Rightarrow> bytes \<Rightarrow> bytes" where
  "write_message q a w =
     (let m = [byte_of q, byte_of (q div 256), 0x77, byte_of a, byte_of (a div 256), byte_of (a div 65536),
               byte_of (a div 16777216)] @ w
      in m @ [byte_of (msg_ck (byte_sum m))])"

primrec write_messages :: "int \<Rightarrow> int \<Rightarrow> bytes list \<Rightarrow> bytes list" where
  "write_messages q a [] = []"
| "write_messages q a (w # ws) = write_message q a w # write_messages (q + 1) (a + 4) ws"

definition advance :: "flash \<Rightarrow> int \<Rightarrow> nat \<Rightarrow> flash" where
  "advance s a k =
     s\<lparr>sequence_number := sequence_number s + int k,
       last_address := (if k = 0 then last_address s else a + 4 * (int k - 1))\<rparr>"

definition room :: "flash \<Rightarrow> int \<Rightarrow> nat \<Rightarrow> bool" where
  "room s a k \<longleftrightarrow> last_address s < a \<and> 0 \<le> a \<and> a + 4 * int k \<le> 2 ^ 32 \<and>
     0 \<le> sequence_number s \<and> sequence_number s + int k \<le> 2 ^ 16"

lemma write_messages_append:
  "write_messages q a (ws @ ws') = write_messages q a ws @ write_messages (q + len ws) (a + 4 * len ws) ws'"
  by (induction ws arbitrary: q a) (simp_all add: algebra_simps)

lemma advance_0 [simp]: "advance s a 0 = s"
  by (simp add: advance_def)

lemma advance_add:
  "advance (advance s a j) (a + 4 * int j) k = advance s a (j + k)"
  by (simp add: advance_def)

lemma room_advance:
  "room s a (j + k) \<Longrightarrow> room (advance s a j) (a + 4 * int j) k"
  by (auto simp: room_def advance_def)

lemma pack_be_H_pair: "pack_be_H (from_bytes_big [x, y]) = ok [x, y]"
proof -
  have b: "0 \<le> uint x" "uint x < 256" "0 \<le> uint y" "uint y < 256" by (rule uint_byte_bounds)+
  then have "byte_of (uint x * 256 + uint y) = y"
    by (metis byte_of_def byte_of_uint mod_mult_self3 uint_byte_of word_uint_eqI mod_pos_pos_trivial)
  with b show ?thesis by (simp add: from_bytes_big_pair pack_be_H_def)
qed

lemma send_word_pair:
  assumes "room s a (Suc k)" "hi = from_bytes_big [w0, w1]" "lo = from_bytes_big [w2, w3]"
  shows "send_word s a (ok hi) (ok lo) =
           ok (write_messages (sequence_number s) a [[w0, w1, w2, w3]], advance s a 1)"
proof -
  have "0 \<le> sequence_number s" "sequence_number s < 65536" "0 \<le> a" "a < 4294967296" "last_address s < a"
    using assms(1) by (auto simp: room_def)
  then show ?thesis
    by (simp add: assms(2,3) send_word_def write_msg_def pack_be_H_pair pack_le_H_def pack_le_I_def msg_checksum_ok
        write_message_def advance_def add.assoc)
qed

lemma drop_hex_bytes: "drop (2 * i) (hex_bytes bs) = hex_bytes (drop i bs)"
proof (induction i arbitrary: bs)
  case (Suc i)
  then show ?case by (cases bs) simp_all
qed simp

lemma take_hex_bytes: "take (2 * i) (hex_bytes bs) = hex_bytes (take i bs)"
proof (induction i arbitrary: bs)
  case (Suc i)
  then show ?case by (cases bs) simp_all
qed simp

lemma slice_hex_bytes:
  "i \<le> j \<Longrightarrow> py_slice (hex_bytes bs) (Some (2 * int i)) (Some (2 * int j)) = hex_bytes (take (j - i) (drop i bs))"
  by (simp add: slice_simps nat_mult_distrib drop_hex_bytes take_hex_bytes diff_mult_distrib2 [symmetric])

text \<open>The word at position \<open>j\<close> of the data, and what the code makes of a last, shorter one.\<close>

definition word_at :: "bytes \<Rightarrow> nat \<Rightarrow> bytes" where
  "word_at bs j = take 4 (drop (4 * j) bs)"

fun pad :: "bytes \<Rightarrow> bytes" where
  "pad [x] = [0, x, 0, 0]"
| "pad [x, y] = [x, y, 0, 0]"
| "pad [x, y, z] = [x, y, 0, z]"
| "pad w = w"

lemma length_4: "length w = 4 \<longleftrightarrow> (\<exists>w0 w1 w2 w3. w = [w0, w1, w2, w3])"
  by (auto simp: numeral_eq_Suc length_Suc_conv)

lemma word_slices:
  fixes bs :: bytes
  assumes "8 * int j = i"
  shows "py_slice (hex_bytes bs) (Some i) (Some (i + 4)) = hex_bytes (take 2 (word_at bs j))"
    and "py_slice (hex_bytes bs) (Some (i + 4)) (Some (i + 8)) = hex_bytes (drop 2 (word_at bs j))"
    and "py_slice (hex_bytes bs) (Some i) None = hex_bytes (drop (4 * j) bs)"
proof -
  have i: "i = 2 * int (4 * j)" "i + 4 = 2 * int (4 * j + 2)" "i + 8 = 2 * int (4 * j + 4)"
    using assms by simp_all
  show "py_slice (hex_bytes bs) (Some i) (Some (i + 4)) = hex_bytes (take 2 (word_at bs j))"
    unfolding i(2) unfolding i(1) by (subst slice_hex_bytes) (simp_all add: word_at_def)
  have "take 2 (drop (4 * j + 2) bs) = drop 2 (word_at bs j)"
    by (simp add: word_at_def drop_take add.commute)
  then show "py_slice (hex_bytes bs) (Some (i + 4)) (Some (i + 8)) = hex_bytes (drop 2 (word_at bs j))"
    unfolding i(2,3) by (subst slice_hex_bytes) simp_all
  show "py_slice (hex_bytes bs) (Some i) None = hex_bytes (drop (4 * j) bs)"
    using drop_hex_bytes [of "4 * j" bs] by (simp add: slice_from nat_mult_distrib flip: assms)
qed

lemma word_loop_words:
  assumes "4 * (j + d) \<le> length bs" "room s a d"
  shows "word_loop s a (hex_bytes bs) (map (\<lambda>k. 8 * int k) [j ..< j + d]) =
     ok (write_messages (sequence_number s) a (map (word_at bs) [j ..< j + d]), advance s a d, a + 4 * int d)"
  using assms
proof (induction d arbitrary: j s a)
  case (Suc d)
  have "length (word_at bs j) = 4" using Suc.prems by (simp add: word_at_def)
  then obtain w0 w1 w2 w3 where w: "word_at bs j = [w0, w1, w2, w3]" by (auto simp: length_4)
  have p: "py_int 16 (hex_bytes [w0, w1]) = ok (from_bytes_big [w0, w1])" "py_int 16 (hex_bytes [w2, w3]) = ok (from_bytes_big [w2, w3])"
    by (simp_all only: py_int_hex_bytes list.distinct not_False_eq_True)
  have u: "[j ..< j + Suc d] = j # [Suc j ..< Suc j + d]" by (simp add: upt_conv_Cons)
  have "room (advance s a 1) (a + 4) d"
    using Suc.prems(2) room_advance [of s a 1 d] by simp
  note IH = Suc.IH [OF _ this, of "Suc j"]
  have seq: "sequence_number (advance s a (Suc 0)) = sequence_number s + 1" by (simp add: advance_def)
  have "advance (advance s a 1) (a + 4) d = advance s a (Suc d)" using advance_add [of s a 1 d] by simp
  then show ?case
    using IH Suc.prems(1)
    unfolding u by (simp add: word_slices [OF refl] w p send_word_pair [OF Suc.prems(2) refl refl] seq
        del: hex_bytes_simps upt_Suc)
qed simp

lemma pad_4: "length w = 4 \<Longrightarrow> pad w = w"
  by (auto simp: length_4)

lemma padded_cases:
  fixes w :: bytes
  assumes "w \<noteq> []" "length w < 4"
  obtains x where "w = [x]" | x y where "w = [x, y]" | x y z where "w = [x, y, z]"
  using assms by (cases w rule: pad.cases) auto

lemma py_int_bytes: "py_int 16 (hex_bytes (b # bs)) = ok (from_bytes_big (b # bs))"
  by (simp only: py_int_hex_bytes list.distinct not_False_eq_True)

lemma from_bytes_big_zero: "from_bytes_big [x] = from_bytes_big [0, x]" "0 = from_bytes_big [0, 0]"
  by (simp_all add: from_bytes_big_def)

text \<open>The code after the loop, at position \<open>j\<close> of the words of the data.\<close>

lemma last_word:
  assumes "room s a 1" "i = 8 * int j" "n = 2 * len bs"
  shows "(if i < n \<and> n - i \<le> 4
         then send_word s a (py_int 16 (py_slice (hex_bytes bs) (Some i) None)) (ok 0)
         else if i < n
         then send_word s a (py_int 16 (py_slice (hex_bytes bs) (Some i) (Some (i + 4))))
                (py_int 16 (py_slice (hex_bytes bs) (Some (i + 4)) (Some (i + 8))))
         else ok ([], s)) =
     (if length bs \<le> 4 * j then ok ([], s)
      else ok (write_messages (sequence_number s) a [pad (word_at bs j)], advance s a 1))"
proof -
  define r where "r = drop (4 * j) bs"
  have w: "word_at bs j = take 4 r" by (simp add: word_at_def r_def)
  note sl = word_slices [OF assms(2) [symmetric], of bs, folded r_def]
  note sw = send_word_pair [OF assms(1) [unfolded One_nat_def]]
  consider "r = []" | "r \<noteq> []" "length r < 4" | "4 \<le> length r" by linarith
  then show ?thesis
  proof cases
    case 1
    then have "length bs \<le> 4 * j" by (simp add: r_def)
    then show ?thesis by (simp add: assms)
  next
    case 2
    have n: "n - i = 2 * len r" "i < n" "\<not> length bs \<le> 4 * j"
      using 2 by (auto simp: r_def assms of_nat_diff)
    from 2 show ?thesis
    proof (cases rule: padded_cases)
      case (1 x)
      show ?thesis using n by (simp add: sl w 1 py_int_bytes sw [OF from_bytes_big_zero] del: hex_bytes_simps)
    next
      case (2 x y)
      show ?thesis using n by (simp add: sl w 2 py_int_bytes sw [OF refl from_bytes_big_zero(2)] del: hex_bytes_simps)
    next
      case (3 x y z)
      show ?thesis using n by (simp add: sl w 3 py_int_bytes sw [OF refl from_bytes_big_zero(1)] del: hex_bytes_simps)
    qed
  next
    case 3
    have n: "n - i = 2 * len r" "i < n" "\<not> length bs \<le> 4 * j"
      using 3 by (auto simp: r_def assms of_nat_diff)
    from 3 have "length (take 4 r) = 4" by simp
    then obtain w0 w1 w2 w3 where t: "take 4 r = [w0, w1, w2, w3]" unfolding length_4 by blast
    show ?thesis using n 3
      by (simp add: sl(1,2) w t py_int_bytes sw [OF refl refl] del: hex_bytes_simps)
  qed
qed

text \<open>The words a data record makes the code send.\<close>

definition record_words :: "bytes \<Rightarrow> bytes list" where
  "record_words bs =
     (if 4 < length bs \<and> length bs < 8 then [take 4 bs] else map pad (blocks 4 bs))"

lemma blocks_words: "map pad (blocks 4 bs) =
    map (word_at bs) [0 ..< length bs div 4] @ (if 4 dvd length bs then [] else [pad (word_at bs (length bs div 4))])"
  (is "?l = ?r")
proof (rule nth_equalityI)
  have l: "length (blocks 4 bs) = length bs div 4 + (if 4 dvd length bs then 0 else 1)"
    by (subst blocks_length) (simp_all, presburger)
  then show "length ?l = length ?r" by simp
  fix i assume i: "i < length ?l"
  then have b: "blocks 4 bs ! i = word_at bs i"
    by (simp add: blocks_nth word_at_def mult.commute)
  show "?l ! i = ?r ! i"
  proof (cases "i < length bs div 4")
    case True
    then have "length (word_at bs i) = 4" by (simp add: word_at_def)
    then show ?thesis using True i by (simp add: b nth_append pad_4)
  next
    case False
    then have "i = length bs div 4" "\<not> 4 dvd length bs" using i l by (auto split: if_splits)
    then show ?thesis using i b by (simp add: nth_append)
  qed
qed

lemma data_record_words:
  assumes "room s a (length bs div 4 + 1)"
  shows "data_record s (len bs) a (hex_bytes bs) =
    ok (write_messages (sequence_number s) a (record_words bs), advance s a (length (record_words bs)))"
proof (cases "8 \<le> length bs")
  case True
  define k where "k = length bs div 4"
  have k: "0 < k" "4 * k \<le> length bs" using True by (auto simp: k_def)
  have k3: "length bs \<le> 4 * k \<longleftrightarrow> 4 dvd length bs" unfolding k_def by presburger
  have "nat ((2 * len bs - 7 + 8 - 1) div 8) = k" by (simp add: k_def zdiv_int nat_div_distrib)
  then have r: "py_range 0 (len bs * 2 - 7) 8 = ok (map (\<lambda>k. 8 * int k) [0 ..< k])"
    by (simp add: py_range_pos mult.commute)
  have lst: "last (map (\<lambda>k. 8 * int k) [0 ..< k]) + 8 = 8 * int k"
    using k(1) by (simp add: last_map of_nat_diff)
  have rk: "room s a k" using assms by (auto simp: room_def k_def)
  have r1: "room (advance s a k) (a + 4 * int k) 1" using assms room_advance [of s a k 1] by (simp add: k_def)
  have loop: "word_loop s a (hex_bytes bs) (map (\<lambda>k. 8 * int k) [0 ..< k]) =
      ok (write_messages (sequence_number s) a (map (word_at bs) [0 ..< k]), advance s a k, a + 4 * int k)"
    using word_loop_words [of 0 k bs s a] k rk by simp
  have w: "record_words bs = map (word_at bs) [0 ..< k] @ (if 4 dvd length bs then [] else [pad (word_at bs k)])"
    using True by (simp add: record_words_def blocks_words k_def)
  have big: "len bs * 2 - 7 \<ge> 8" using True by simp
  have q: "sequence_number (advance s a k) = sequence_number s + int k" by (simp add: advance_def)
  show ?thesis
    unfolding data_record_def Let_def w if_P [OF big]
    by (simp only: r loop lst bind_res_Inr case_prod_conv last_word [OF r1 refl mult.commute] k3)
      (simp add: q write_messages_append advance_add [of s a k 1, simplified])
next
  case False
  have r1: "room s a 1" using assms by (auto simp: room_def)
  have "record_words bs = (if bs = [] then [] else [pad (word_at bs 0)])"
  proof (cases "length bs \<le> 4")
    case True
    then have "blocks 4 bs = (if bs = [] then [] else [bs])" by (simp add: blocks.simps)
    then show ?thesis using True by (simp add: record_words_def word_at_def)
  next
    case l: False
    then show ?thesis using False by (auto simp: record_words_def word_at_def pad_4)
  qed
  moreover have "\<not> len bs * 2 - 7 \<ge> 8" using False by simp
  ultimately show ?thesis
    unfolding data_record_def Let_def
    using last_word [OF r1, of 0 0 "len bs * 2" bs] by (auto simp: mult.commute)
qed

text \<open>
  C9: the functional behaviour of a well-formed data record whose addresses are above the last
  one written and whose sequence numbers fit: one write message per four bytes at consecutive
  addresses, numbered consecutively, with the bytes of the record in order; a shorter rest is padded
  with zero half words, and the counts 5 to 7 send the first four bytes only.
\<close>

theorem hex_to_msg_data_record:
  assumes "length bs < 256" "0 \<le> addr" "addr < 65536" "nl = [] \<or> nl = [CHR 0x0A]"
    and "room s (addr + hex_offset s) (length bs div 4 + 1)"
  shows "hex_to_msg s (hex_record addr 0 bs @ nl) =
    ok (write_messages (sequence_number s) (addr + hex_offset s) (record_words bs),
        advance s (addr + hex_offset s) (length (record_words bs)))"
  using assms by (simp add: hex_to_msg_record data_record_words)

text \<open>
  C19: a data record of five, six or seven bytes is truncated without an error: it has exactly the
  effect of the record with its first four bytes, so the rest never reaches the mote.
\<close>

theorem short_record_truncated:
  assumes "4 < length bs" "length bs < 8" "0 \<le> addr" "addr < 65536" "nl = [] \<or> nl = [CHR 0x0A]"
    and "room s (addr + hex_offset s) 2"
  shows "hex_to_msg s (hex_record addr 0 bs @ nl) = hex_to_msg s (hex_record addr 0 (take 4 bs) @ nl)"
proof -
  have d: "length bs div 4 = 1" using assms by linarith
  have t: "length (take 4 bs) = 4" using assms by simp
  then have "blocks 4 (take 4 bs) = [take 4 bs]" by (auto simp: blocks.simps)
  then have "record_words bs = record_words (take 4 bs)"
    using assms(1,2) t by (simp add: record_words_def pad_4 del: take_eq_Nil length_take)
  then show ?thesis
    using assms d t data_record_words [of s "addr + hex_offset s" bs]
      data_record_words [of s "addr + hex_offset s" "take 4 bs"]
    by (simp add: hex_to_msg_record numeral_2_eq_2 del: length_take)
qed

text \<open>
  Damage to a record is found. A line of hexadecimal digits for at least five bytes that do not sum
  to zero raises the checksum error, in particular a record with one byte changed.
\<close>

lemma hex_to_msg_detects_damage:
  assumes "3 < length bs" "byte_sum (bs @ [k]) mod 256 \<noteq> 0" "nl = [] \<or> nl = [CHR 0x0A]"
  shows "hex_to_msg s (CHR '':'' # hex_bytes (bs @ [k]) @ nl) = raise OtherException"
proof -
  define line where "line = CHR '':'' # hex_bytes (bs @ [k])"
  obtain a b c t r where bs: "bs = a # b # c # t # r"
    using assms(1) by (auto simp: numeral_eq_Suc Suc_le_length_iff Suc_le_eq [symmetric])
  then have l: "line = CHR '':'' # hex_bytes (a # b # c # t # r @ [k])" by (simp add: line_def)
  define h where "h = hex_bytes (bs @ [k])"
  have h: "line = CHR '':'' # h" "h \<noteq> []"
    unfolding h_def line_def by (simp_all only: hex_bytes_ne append_is_Nil_conv list.distinct not_False_eq_True simp_thms)
  then have "last line \<in> set h" by simp
  then have nl: "(if py_slice (line @ nl) (Some (- 1)) None = [CHR 0x0A] then py_slice (line @ nl) None (Some (- 1)) else line @ nl) = line"
    using hex_bytes_not_newline [of "bs @ [k]"] h(1)
    by (intro strip_newline assms) (simp, unfold h_def [symmetric], blast)
  have "uint k \<noteq> hex_ck (byte_sum bs)"
    using assms(2) hexrec.ck_unique [of "uint k" "byte_sum bs"] uint_byte_bounds by simp
  moreover have "CHR '':'' # hex_bytes (bs @ [k]) @ nl = line @ nl" by (simp add: line_def)
  ultimately show ?thesis
    unfolding hex_to_msg_def \<open>CHR '':'' # hex_bytes (bs @ [k]) @ nl = line @ nl\<close> nl Let_def
    by (simp only: hex_line_slices [OF l] hex_checksum_hex_bytes bind_res_Inr bs) (simp add: bs)
qed

section \<open>Instances\<close>

theorem hex_to_msg_data_record_witness:
  "hex_to_msg flash_init (hex_record 4 0 [1, 2, 3, 4, 5, 6, 7, 8, 9] @ [CHR 0x0A]) =
     ok (write_messages 0 4 [[1, 2, 3, 4], [5, 6, 7, 8], [0, 9, 0, 0]], advance flash_init 4 3)"
proof -
  have r: "room flash_init (4 + hex_offset flash_init) (length [1, 2, 3, 4, 5, 6, 7, 8, 9 :: byte] div 4 + 1)"
    by (simp add: room_def flash_init_def)
  have "record_words [1, 2, 3, 4, 5, 6, 7, 8, 9] = [[1, 2, 3, 4], [5, 6, 7, 8], [0, 9, 0, 0]]"
    by code_simp
  then show ?thesis
    using hex_to_msg_data_record [OF _ _ _ _ r, of "[CHR 0x0A]"] by (simp add: flash_init_def numeral_3_eq_3)
qed

theorem short_record_truncated_witness:
  "hex_to_msg flash_init (hex_record 4 0 [1, 2, 3, 4, 5, 6] @ []) = hex_to_msg flash_init (hex_record 4 0 [1, 2, 3, 4] @ [])"
proof -
  have r: "room flash_init (4 + hex_offset flash_init) 2"
    by (simp add: room_def flash_init_def)
  show ?thesis
    using short_record_truncated [OF _ _ _ _ _ r, of "[1, 2, 3, 4, 5, 6]" "[]"] by simp
qed

end
