(* ===== verification/Emote3_Flash.thy ===== *)
theory Emote3_Flash
  imports Emote3_Records Py_Utf8
begin

text \<open>
  The script \<^verbatim>\<open>tools/eposflash/eposflash-emote3\<close> around the translation of records: the wait for the device, the handshake
  and the loop that sends each message until the mote echoes it.
\<close>

section \<open>The code\<close>

text \<open>\<^verbatim>\<open>response in k\<close> on byte strings.\<close>

fun contains :: "bytes \<Rightarrow> bytes \<Rightarrow> bool" where
  "contains sub [] = (sub = [])"
| "contains sub (b # bs) = (take (length sub) (b # bs) = sub \<or> contains sub bs)"

text \<open>
  How the script stands: it is done and has not used some of the reads, it still waits, it was ended by an
  exception, or it has left by \<^verbatim>\<open>sys.exit\<close>.
\<close>

datatype status = Done "bytes res list" | Waiting | Failed py_error | Exited int

text \<open>
  The two waiting loops over the rounds of writing the message and reading from the port: what a round read, or the
  exception of one of its calls. The value is the number of rounds, each of which writes the message once, and the status.
\<close>

fun await :: "(bytes \<Rightarrow> bool) \<Rightarrow> bytes res list \<Rightarrow> nat \<times> status" where
  "await answer [] = (0, Waiting)"
| "await answer (Inl e # ks) = (1, Failed e)"
| "await answer (Inr k # ks) = (if answer k then (1, Done ks) else (let (n, st) = await answer ks in (Suc n, st)))"

definition await_handshake :: "bytes \<Rightarrow> bytes res list \<Rightarrow> nat \<times> status" where
  "await_handshake response ks = await (contains response) ks"

definition await_ack :: "bytes \<Rightarrow> bytes res list \<Rightarrow> nat \<times> status" where
  "await_ack msg ks = await (\<lambda>k. k = msg) ks"

fun send_all :: "bytes list \<Rightarrow> bytes res list \<Rightarrow> bytes list \<times> status" where
  "send_all [] ks = ([], Done ks)"
| "send_all (msg # msgs) ks = (case await_ack msg ks of
      (n, Done ks') \<Rightarrow> (let (ws, st) = send_all msgs ks' in (replicate n msg @ ws, st))
    | (n, st) \<Rightarrow> (replicate n msg, st))"

fun send_file :: "flash \<Rightarrow> string list \<Rightarrow> bytes res list \<Rightarrow> bytes list \<times> status" where
  "send_file s [] ks = ([], Done ks)"
| "send_file s (line # lines) ks = (case hex_to_msg s line of
      Inl e \<Rightarrow> ([], Failed e)
    | Inr (msgs, s') \<Rightarrow>
        (case send_all msgs ks of
           (ws, Done ks') \<Rightarrow> (let (ws', st) = send_file s' lines ks' in (ws @ ws', st))
         | (ws, st) \<Rightarrow> (ws, st)))"

definition handshake_msg :: "int \<Rightarrow> bytes \<Rightarrow> bytes res" where
  "handshake_msg seq body =
     bind_res (pack_le_H seq) (\<lambda>q. bind_res (msg_checksum (q @ body)) (\<lambda>ck. ok (q @ body @ ck)))"

text \<open>The script from the handshake on; opening the file may raise.\<close>

definition program_mote :: "string list res \<Rightarrow> bytes res list \<Rightarrow> bytes list \<times> status" where
  "program_mote hex_file ks = (case (handshake_msg 0 handshake1_message, handshake_msg 1 handshake2_message) of
      (Inr msg, Inr response) \<Rightarrow>
        (case await_handshake response ks of
           (n, Done ks') \<Rightarrow>
             (case hex_file of
                Inl e \<Rightarrow> (replicate n msg, Failed e)
              | Inr lines \<Rightarrow>
                  (let (ws, st) = send_file (flash_init\<lparr>sequence_number := 2\<rparr>) lines ks'
                   in (replicate n msg @ ws, st)))
         | (n, st) \<Rightarrow> (replicate n msg, st))
    | (Inl e, _) \<Rightarrow> ([], Failed e)
    | (_, Inl e) \<Rightarrow> ([], Failed e))"

text \<open>
  What the script finds: whether the file is readable, whether the device was there and writable at each look,
  whether the port opens, the text of option \<^verbatim>\<open>-s\<close> and the outcome of writing it, and the lines of the file.
\<close>

record flash_host =
  hex_readable :: bool
  device_ready :: "bool list"
  open_port :: "unit res"
  prepend_string :: "string option"
  write_prepend :: "unit res"
  hex_file :: "string list res"

definition prepended :: "flash_host \<Rightarrow> bytes list" where
  "prepended h = (case prepend_string h of Some (c # cs) \<Rightarrow> [utf8_encode (c # cs)] | _ \<Rightarrow> [])"

definition flash_script :: "flash_host \<Rightarrow> bytes res list \<Rightarrow> bytes list \<times> status" where
  "flash_script h ks =
     (if \<not> hex_readable h then ([], Exited 1)
      else if True \<notin> set (device_ready h) then ([], Waiting)
      else (case open_port h of
          Inl e \<Rightarrow> ([], Failed e)
        | Inr _ \<Rightarrow>
            (case (prepended h, write_prepend h) of
               (m # _, Inl e) \<Rightarrow> ([m], Failed e)
             | (ms, _) \<Rightarrow> (let (ws, st) = program_mote (hex_file h) ks in (ms @ ws, st)))))"


section \<open>Programming a mote\<close>

text \<open>What the lines of a file have to send, without the port.\<close>

fun translate :: "flash \<Rightarrow> string list \<Rightarrow> (bytes list \<times> flash) res" where
  "translate s [] = ok ([], s)"
| "translate s (line # lines) =
     bind_res (hex_to_msg s line) (\<lambda>(ms, s').
     bind_res (translate s' lines) (\<lambda>(ms', s''). ok (ms @ ms', s'')))"

lemma translate_sends: "translate s lines = ok (ms, s') \<Longrightarrow> sends s ms s'"
proof (induction s lines arbitrary: ms s' rule: translate.induct)
  case (2 s line lines)
  then show ?case
    by (force simp: bind_res_eq_Inr intro: sends_append hex_to_msg_sends)
qed (simp add: sends_Nil)

lemma numbered_number: "numbered n ms \<Longrightarrow> m \<in> set ms \<Longrightarrow> n \<le> from_bytes_little (take 2 m)"
  by (induction ms arbitrary: n) (auto simp: message_def, smt (verit, best))

lemma numbered_distinct: "numbered n ms \<Longrightarrow> distinct ms"
proof (induction ms arbitrary: n)
  case (Cons m ms)
  have "m \<notin> set ms"
  proof
    assume "m \<in> set ms"
    then have "n + 1 \<le> from_bytes_little (take 2 m)"
      using Cons.prems numbered_number [of "n + 1" ms m] by simp
    then show False using Cons.prems by (simp add: message_def)
  qed
  then show ?case using Cons by auto
qed simp

text \<open>The writes of a list of messages, each repeated as often as \<open>ns\<close> says beyond the first.\<close>

definition repeated :: "nat list \<Rightarrow> bytes list \<Rightarrow> bytes list" where
  "repeated ns ms = concat (map2 (\<lambda>n m. replicate (Suc n) m) ns ms)"

lemma remdups_adj_replicate_append:
  "xs = [] \<or> hd xs \<noteq> m \<Longrightarrow> remdups_adj (replicate (Suc n) m @ xs) = m # remdups_adj xs"
proof (induction n)
  case 0
  then show ?case by (cases xs) auto
qed simp

lemma hd_repeated: "length ns = length ms \<Longrightarrow> ms \<noteq> [] \<Longrightarrow> hd (repeated ns ms) = hd ms \<and> repeated ns ms \<noteq> []"
  by (cases ns; cases ms) (auto simp: repeated_def)

lemma remdups_repeated:
  "length ns = length ms \<Longrightarrow> distinct ms \<Longrightarrow> remdups_adj (repeated ns ms) = ms"
proof (induction ns ms rule: list_induct2)
  case (Cons n ns m ms)
  have "repeated ns ms = [] \<or> hd (repeated ns ms) \<noteq> m"
    using Cons hd_repeated [of ns ms] by (cases ms) (auto simp: repeated_def)
  then show ?case
    using Cons remdups_adj_replicate_append [of "repeated ns ms" m n] by (simp add: repeated_def)
qed (simp add: repeated_def)

lemma repeated_append:
  "length ns = length ms \<Longrightarrow> repeated (ns @ ns') (ms @ ms') = repeated ns ms @ repeated ns' ms'"
  by (simp add: repeated_def)

text \<open>
  The waits end at the first round whose read is the answer, and with the first exception before that; the
  number of rounds is positive unless there was none.
\<close>

lemma await_Done: "await acc ks = (n, Done ks') \<Longrightarrow> 0 < n"
  by (induction acc ks arbitrary: n rule: await.induct) (auto split: if_splits prod.splits)

lemma await_answer:
  "\<forall>j \<in> set js. \<not> acc j \<Longrightarrow> acc k \<Longrightarrow> await acc (map Inr js @ Inr k # ks) = (Suc (length js), Done ks)"
  by (induction js) auto

text \<open>
  Sending a list, whatever happens: what was written is a first part of the messages with repetitions, all of them
  when it is done.
\<close>

definition partly :: "bytes list \<Rightarrow> bytes list \<Rightarrow> status \<Rightarrow> bool" where
  "partly ms ws st \<longleftrightarrow>
     (\<exists>j ns. j \<le> length ms \<and> length ns = j \<and> ws = repeated ns (take j ms) \<and> (\<forall>ks. st = Done ks \<longrightarrow> j = length ms))"

lemma partly_Nil: "partly [] [] st"
  by (auto simp: partly_def repeated_def)

lemma partly_none: "(\<forall>ks. st \<noteq> Done ks) \<Longrightarrow> partly ms [] st"
  unfolding partly_def by (intro exI [of _ 0] exI [of _ "[]"]) (simp add: repeated_def)

lemma partly_append:
  assumes "partly ms ws (Done ks)" "partly ms' ws' st"
  shows "partly (ms @ ms') (ws @ ws') st"
proof -
  obtain ns where a: "length ns = length ms" "ws = repeated ns ms"
    using assms(1) by (auto simp: partly_def)
  obtain j ns' where b: "j \<le> length ms'" "length ns' = j" "ws' = repeated ns' (take j ms')" "\<forall>ks. st = Done ks \<longrightarrow> j = length ms'"
    using assms(2) by (auto simp: partly_def)
  have "ws @ ws' = repeated (ns @ ns') (take (length ms + j) (ms @ ms'))"
    using a b by (simp add: repeated_append)
  then show ?thesis
    unfolding partly_def using a b by (intro exI [of _ "length ms + j"] exI [of _ "ns @ ns'"]) simp
qed

lemma partly_stops: "partly ms ws st \<Longrightarrow> \<forall>ks. st \<noteq> Done ks \<Longrightarrow> partly (ms @ ms') ws st"
  unfolding partly_def by (metis le_add1 length_append order_trans take_append diff_is_0_eq take0 append_Nil2)

lemma partly_rounds:
  assumes "n = 0 \<longrightarrow> (\<forall>ks. st \<noteq> Done ks)"
  shows "partly [m] (replicate n m) st"
proof (cases n)
  case 0
  then show ?thesis using assms by (simp add: partly_none)
next
  case (Suc k)
  then show ?thesis unfolding partly_def by (intro exI [of _ 1] exI [of _ "[k]"]) (simp add: repeated_def)
qed

lemma await_partly: "await acc ks = (n, st) \<Longrightarrow> partly [m] (replicate n m) st"
  by (rule partly_rounds) (auto dest: await_Done)

lemma partly_Cons:
  "partly [m] ws (Done ks) \<Longrightarrow> partly ms ws' st \<Longrightarrow> partly (m # ms) (ws @ ws') st"
  "partly [m] ws st \<Longrightarrow> \<forall>ks. st \<noteq> Done ks \<Longrightarrow> partly (m # ms) ws st"
  using partly_append [of "[m]" ws ks ms ws' st] partly_stops [of "[m]" ws st ms] by simp_all

lemma send_all_partly: "send_all ms ks = (ws, st) \<Longrightarrow> partly ms ws st"
proof (induction ms ks arbitrary: ws st rule: send_all.induct)
  case (2 m ms ks)
  obtain n sa where a: "await_ack m ks = (n, sa)" by fastforce
  then have p: "partly [m] (replicate n m) sa" by (simp add: await_ack_def await_partly)
  show ?case
  proof (cases sa)
    case (Done ks')
    obtain wr where "send_all ms ks' = (wr, st)" "ws = replicate n m @ wr"
      using "2.prems" a Done by (auto split: prod.splits)
    then show ?thesis using "2.IH" [OF a [symmetric] Done] p Done partly_Cons(1) by blast
  qed (use "2.prems" a p in \<open>auto intro!: partly_Cons(2)\<close>)
qed (simp add: partly_Nil)

lemma send_file_partly:
  "translate s lines = ok (ms, s') \<Longrightarrow> send_file s lines ks = (ws, st) \<Longrightarrow> partly ms ws st"
proof (induction s lines arbitrary: ms ks ws rule: translate.induct)
  case (2 s line lines)
  then obtain m1 s1 m2 where h: "hex_to_msg s line = ok (m1, s1)" and t: "translate s1 lines = ok (m2, s')"
    and ms: "ms = m1 @ m2"
    by (auto simp: bind_res_eq_Inr)
  obtain wa sa where a: "send_all m1 ks = (wa, sa)" by fastforce
  then have p: "partly m1 wa sa" by (rule send_all_partly)
  show ?case
  proof (cases sa)
    case (Done ks')
    obtain wb where "send_file s1 lines ks' = (wb, st)" "ws = wa @ wb"
      using "2.prems"(2) h a Done by (auto split: prod.splits)
    then show ?thesis using "2.IH" [OF t] p Done partly_append unfolding ms by blast
  qed (use "2.prems"(2) h a p ms in \<open>auto intro!: partly_stops\<close>)
qed (simp add: partly_Nil)

text \<open>The two handshake messages as the script computes them.\<close>

definition hello :: bytes where
  "hello = [0, 0, 0x68, 0, 0, 0, 0, 0, 0, 0, 0, 0x98]"

definition hello_response :: bytes where
  "hello_response = [1, 0, 0x48, 0, 0, 0, 0, 0, 0, 0, 0, 0xB7]"

lemma replicate_8: "replicate 8 x = [x, x, x, x, x, x, x, x]"
  by (simp add: numeral_eq_Suc)

lemma handshake_msgs [simp]:
  "handshake_msg 0 handshake1_message = ok hello"
  "handshake_msg 1 handshake2_message = ok hello_response"
  by (simp_all add: handshake_msg_def pack_le_H_def msg_checksum_ok handshake1_message_def handshake2_message_def
      hello_def hello_response_def msg_ck_neg byte_of_def replicate_8)

abbreviation flash_start :: flash where
  "flash_start \<equiv> flash_init\<lparr>sequence_number := 2\<rparr>"

lemma program_mote_partly:
  assumes "translate flash_start lines = ok (ms, s')" "program_mote (ok lines) ks = (ws, st)"
  shows "partly (hello # ms) ws st"
proof -
  obtain n sa where a: "await_handshake hello_response ks = (n, sa)" by fastforce
  then have p: "partly [hello] (replicate n hello) sa" by (simp add: await_handshake_def await_partly)
  show ?thesis
  proof (cases sa)
    case (Done ks')
    obtain wr where "send_file flash_start lines ks' = (wr, st)" "ws = replicate n hello @ wr"
      using assms(2) a Done by (auto simp: program_mote_def split: prod.splits)
    then show ?thesis using send_file_partly [OF assms(1)] p Done partly_Cons(1) by blast
  qed (use assms(2) a p in \<open>auto simp: program_mote_def intro!: partly_Cons(2)\<close>)
qed

lemma hello_translate_distinct:
  assumes "translate flash_start lines = ok (ms, s')"
  shows "numbered 2 ms" "sorted_wrt (<) (0 # write_addresses ms)" "distinct (hello # ms)"
proof -
  have s: "sends flash_start ms s'" using assms by (rule translate_sends)
  then show num: "numbered 2 ms" by (simp add: sends_def flash_init_def)
  show "sorted_wrt (<) (0 # write_addresses ms)" using s by (simp add: sends_def flash_init_def)
  have "hello \<notin> set ms"
    using numbered_number [OF num, of hello] by (auto simp: hello_def from_bytes_little_def from_bytes_big_def)
  then show "distinct (hello # ms)" using numbered_distinct [OF num] by simp
qed

lemma flash_script_sent:
  assumes "hex_file h = ok lines" "translate flash_start lines = ok (ms, s')" "flash_script h ks = (ws, st)"
  shows "\<exists>pre rest j. ws = pre @ rest \<and> (pre = [] \<and> rest = [] \<or> pre = prepended h) \<and>
           remdups_adj rest = take j (hello # ms) \<and>
           (\<forall>ks'. st = Done ks' \<longrightarrow> pre = prepended h \<and> remdups_adj rest = hello # ms)"
proof (cases "\<exists>wr. program_mote (ok lines) ks = (wr, st) \<and> ws = prepended h @ wr")
  case True
  then obtain wr where wr: "program_mote (ok lines) ks = (wr, st)" "ws = prepended h @ wr" by blast
  obtain j ns where "j \<le> length (hello # ms)" "length ns = j" "wr = repeated ns (take j (hello # ms))"
      "\<forall>ks. st = Done ks \<longrightarrow> j = length (hello # ms)"
    using program_mote_partly [OF assms(2) wr(1)] unfolding partly_def by metis
  then have w: "ws = prepended h @ wr" "length ns = length (take j (hello # ms))"
      "wr = repeated ns (take j (hello # ms))" "\<forall>ks. st = Done ks \<longrightarrow> take j (hello # ms) = hello # ms"
    using wr(2) by simp_all
  have "distinct (take j (hello # ms))" using hello_translate_distinct(3) [OF assms(2)] by (rule distinct_take)
  then have "remdups_adj wr = take j (hello # ms)" unfolding w(3) by (rule remdups_repeated [OF w(2)])
  with w show ?thesis by metis
next
  case False
  then have "(ws = [] \<or> ws = prepended h) \<and> (\<forall>ks'. st \<noteq> Done ks')"
    using assms(1,3) by (auto simp: flash_script_def prepended_def split: if_splits sum.splits list.splits option.splits prod.splits)
  then show ?thesis by (metis append_Nil append_Nil2 remdups_adj.simps(1) take0)
qed

text \<open>
  C26: whatever the port does, the programmer only ever writes the text of option \<^verbatim>\<open>-s\<close>, the handshake
  message and then messages of the file, in order, each repeated only back to back: the writes without
  repetitions are a first part of that sequence, all of it when the run is done. The messages are twelve
  bytes long, sum to zero, are numbered from 2 on, and the addresses they write strictly increase
  from above 0.
\<close>

theorem flash_script_writes:
  assumes "hex_file h = ok lines" "translate flash_start lines = ok (ms, s')" "flash_script h ks = (ws, st)"
  shows "\<exists>pre rest j. ws = pre @ rest \<and> (pre = [] \<and> rest = [] \<or> pre = prepended h) \<and>
           remdups_adj rest = take j (hello # ms) \<and>
           (\<forall>ks'. st = Done ks' \<longrightarrow> pre = prepended h \<and> remdups_adj rest = hello # ms) \<and>
           (\<forall>i < length ms. message (2 + int i) (ms ! i)) \<and> sorted_wrt (<) (0 # write_addresses ms)"
  using flash_script_sent [OF assms] hello_translate_distinct(2) [OF assms(2)]
    numbered_nth [OF hello_translate_distinct(1) [OF assms(2)]] by blast

lemma send_all_echoed:
  "length js = length ms \<Longrightarrow> \<forall>i < length ms. ms ! i \<notin> set (js ! i) \<Longrightarrow>
     send_all ms (map Inr (concat (map2 (\<lambda>j m. j @ [m]) js ms)) @ ks) = (repeated (map length js) ms, Done ks)"
proof (induction js ms rule: list_induct2)
  case (Cons j js m ms)
  have "m \<notin> set j" "\<forall>i < length ms. ms ! i \<notin> set (js ! i)"
    using Cons.prems by (metis length_Cons nth_Cons_0 zero_less_Suc)
      (metis Cons.prems Suc_mono length_Cons nth_Cons_Suc)
  then have "await_ack m (map Inr j @ Inr m # map Inr (concat (map2 (\<lambda>j m. j @ [m]) js ms)) @ ks) =
      (Suc (length j), Done (map Inr (concat (map2 (\<lambda>j m. j @ [m]) js ms)) @ ks))"
    unfolding await_ack_def by (intro await_answer) auto
  then show ?case
    using Cons.IH \<open>\<forall>i < length ms. _\<close> by (simp add: repeated_def)
qed (simp add: repeated_def)

lemma send_file_echoed:
  "translate s lines = ok (ms, s') \<Longrightarrow> length js = length ms \<Longrightarrow> \<forall>i < length ms. ms ! i \<notin> set (js ! i) \<Longrightarrow>
     send_file s lines (map Inr (concat (map2 (\<lambda>j m. j @ [m]) js ms)) @ ks) = (repeated (map length js) ms, Done ks)"
proof (induction s lines arbitrary: ms js rule: translate.induct)
  case (2 s line lines)
  then obtain m1 s1 m2 where h: "hex_to_msg s line = ok (m1, s1)" and t: "translate s1 lines = ok (m2, s')"
    and ms: "ms = m1 @ m2"
    by (auto simp: bind_res_eq_Inr)
  define j1 j2 where "j1 = take (length m1) js" and "j2 = drop (length m1) js"
  have js: "js = j1 @ j2" and l: "length j1 = length m1" "length j2 = length m2"
    using "2.prems"(2) by (auto simp: j1_def j2_def ms)
  have e: "(m1 @ m2) ! i \<notin> set ((j1 @ j2) ! i)" if "i < length m1 + length m2" for i
    using "2.prems"(3) that by (simp add: ms js)
  have e1: "\<forall>i < length m1. m1 ! i \<notin> set (j1 ! i)"
    using e l by (metis nth_append trans_less_add1)
  have e2: "\<forall>i < length m2. m2 ! i \<notin> set (j2 ! i)"
    using e [of "length m1 + i" for i] l by (simp add: nth_append)
  note r = "2.IH" [OF t l(2) e2]
  show ?case
    using h l r by (simp add: ms js send_all_echoed [OF l(1) e1] repeated_append)
qed (simp add: repeated_def)

text \<open>
  C18: the programmer finishes on a lossy link. If the file is readable and translates, the device appears and opens, one
  read contains the handshake response and every message is echoed after finitely many reads that
  are something else, the run completes; after the text of option \<^verbatim>\<open>-s\<close> it has written the handshake once per
  read of that phase and each message once per read of its own.
\<close>

theorem flash_script_completes:
  assumes "hex_readable h" "True \<in> set (device_ready h)" "open_port h = ok ()" "write_prepend h = ok ()"
    and "hex_file h = ok lines" "translate flash_start lines = ok (ms, s')"
    and "\<forall>r \<in> set hs. \<not> contains hello_response r" "contains hello_response k"
    and "length js = length ms" "\<forall>i < length ms. ms ! i \<notin> set (js ! i)"
  shows "flash_script h (map Inr hs @ Inr k # map Inr (concat (map2 (\<lambda>j m. j @ [m]) js ms)) @ ks) =
           (prepended h @ replicate (Suc (length hs)) hello @ repeated (map length js) ms, Done ks)"
proof -
  let ?ks = "map Inr hs @ Inr k # map Inr (concat (map2 (\<lambda>j m. j @ [m]) js ms)) @ ks"
  have "await_handshake hello_response ?ks =
      (Suc (length hs), Done (map Inr (concat (map2 (\<lambda>j m. j @ [m]) js ms)) @ ks))"
    unfolding await_handshake_def using assms(7,8) by (intro await_answer)
  then have "program_mote (ok lines) ?ks = (replicate (Suc (length hs)) hello @ repeated (map length js) ms, Done ks)"
    using send_file_echoed [OF assms(6,9,10)] by (simp add: program_mote_def)
  then show ?thesis
    using assms(1-5) by (simp add: flash_script_def split: list.split)
qed

text \<open>A line that raises ends the sending after exactly what the lines before it send.\<close>

definition fails_with :: "py_error \<Rightarrow> bytes list \<times> status \<Rightarrow> bytes list \<times> status" where
  "fails_with e r = (case r of (ws, Done ks) \<Rightarrow> (ws, Failed e) | _ \<Rightarrow> r)"

lemma send_file_bad_line:
  "translate s pre = ok (ms, s') \<Longrightarrow> hex_to_msg s' bad = raise e \<Longrightarrow>
     send_file s (pre @ bad # post) ks = fails_with e (send_file s pre ks)"
proof (induction s pre arbitrary: ms ks rule: translate.induct)
  case (2 s line lines)
  then obtain m1 s1 m2 where h: "hex_to_msg s line = ok (m1, s1)" and t: "translate s1 lines = ok (m2, s')"
    by (auto simp: bind_res_eq_Inr)
  obtain wa sa where a: "send_all m1 ks = (wa, sa)" by fastforce
  show ?case
  proof (cases sa)
    case (Done ks')
    have "send_file s1 (lines @ bad # post) ks' = fails_with e (send_file s1 lines ks')"
      using "2.IH" [OF t "2.prems"(2)] .
    then show ?thesis
      using h a Done by (auto simp: fails_with_def split: prod.splits status.splits)
  qed (use h a in \<open>simp_all add: fails_with_def\<close>)
qed (simp add: fails_with_def)

lemma program_mote_bad_line:
  assumes "translate flash_start pre = ok (ms, s')" "hex_to_msg s' bad = raise e"
  shows "program_mote (ok (pre @ bad # post)) ks = fails_with e (program_mote (ok pre) ks)"
proof -
  obtain n sa where a: "await_handshake hello_response ks = (n, sa)" by fastforce
  show ?thesis
  proof (cases sa)
    case (Done ks')
    show ?thesis
      using a Done send_file_bad_line [OF assms, of post ks']
      by (auto simp: program_mote_def fails_with_def split: prod.splits status.splits)
  qed (use a in \<open>simp_all add: program_mote_def fails_with_def\<close>)
qed

text \<open>
  C33: a file with a line that raises (a damaged record, a line without the colon, an empty line) leaves the mote half programmed: whatever
  the port does, the run is the run on the file that ends before that line, except that it ends with the exception
  where that run is done.
\<close>

theorem flash_script_bad_line:
  assumes "hex_file h = ok (pre @ bad # post)" "translate flash_start pre = ok (ms, s')" "hex_to_msg s' bad = raise e"
  shows "flash_script h ks = fails_with e (flash_script (h\<lparr>hex_file := ok pre\<rparr>) ks)"
proof -
  have p: "prepended (h\<lparr>hex_file := ok pre\<rparr>) = prepended h" by (simp add: prepended_def)
  show ?thesis
    using assms(1) program_mote_bad_line [OF assms(2,3), of post ks]
    by (auto simp: flash_script_def p fails_with_def split: prod.splits status.splits sum.splits list.splits)
qed


section \<open>Instances\<close>

definition sample_lines :: "string list" where
  "sample_lines = ['':0400040001020304EE'' @ [CHR 0x0A], '':00000001FF'' @ [CHR 0x0A]]"

definition sample_messages :: "bytes list" where
  "sample_messages =
     [[2, 0, 0x77, 4, 0, 0, 0, 1, 2, 3, 4, 0x79], [3, 0, 0x65, 0, 0, 0, 0, 0, 0, 0, 0, 0x98]]"

definition sample_flash_host :: flash_host where
  "sample_flash_host = \<lparr>hex_readable = True, device_ready = [False, True], open_port = ok (), prepend_string = Some ''b'',
     write_prepend = ok (), hex_file = ok sample_lines\<rparr>"

lemma sample_translate: "translate flash_start sample_lines =
      ok (sample_messages, flash_init\<lparr>sequence_number := 4, last_address := 4\<rparr>)"
  by code_simp

lemma sample_run:
  "flash_script sample_flash_host [Inr [], Inr (7 # hello_response), Inr [], Inr (sample_messages ! 0), Inl SerialException] =
     ([[0x62], hello, hello, sample_messages ! 0, sample_messages ! 0, sample_messages ! 1], Failed SerialException)"
  by code_simp

theorem flash_script_writes_witness:
  "\<exists>pre rest j. [[0x62], hello, hello, sample_messages ! 0, sample_messages ! 0, sample_messages ! 1] = pre @ rest \<and>
     (pre = [] \<and> rest = [] \<or> pre = prepended sample_flash_host) \<and>
     remdups_adj rest = take j (hello # sample_messages) \<and>
     (\<forall>ks'. Failed SerialException = Done ks' \<longrightarrow> pre = prepended sample_flash_host \<and> remdups_adj rest = hello # sample_messages) \<and>
     (\<forall>i < length sample_messages. message (2 + int i) (sample_messages ! i)) \<and> sorted_wrt (<) (0 # write_addresses sample_messages)"
  using flash_script_writes [OF _ sample_translate sample_run] by (simp add: sample_flash_host_def)

theorem flash_script_completes_witness:
  "flash_script sample_flash_host
     (map Inr [[], [7]] @ Inr (7 # hello_response) # map Inr [[], [1], sample_messages ! 0, sample_messages ! 1] @ [Inr [5]]) =
     ([[0x62], hello, hello, hello, sample_messages ! 0, sample_messages ! 0, sample_messages ! 0, sample_messages ! 1], Done [Inr [5]])"
proof -
  have h: "hex_readable sample_flash_host" "True \<in> set (device_ready sample_flash_host)" "open_port sample_flash_host = ok ()"
      "write_prepend sample_flash_host = ok ()" "hex_file sample_flash_host = ok sample_lines"
    by (simp_all add: sample_flash_host_def)
  have r: "\<forall>r \<in> set [[], [7 :: byte]]. \<not> contains hello_response r" "contains hello_response (7 # hello_response)"
    by code_simp+
  have j: "length [[[], [1 :: byte]], []] = length sample_messages"
    "\<forall>i < length sample_messages. sample_messages ! i \<notin> set ([[[], [1]], []] ! i)"
    by (auto simp: sample_messages_def less_Suc_eq)
  have p: "prepended sample_flash_host = [[0x62]]" by code_simp
  show ?thesis
    using flash_script_completes [OF h sample_translate r j, of "[Inr [5]]"]
    by (simp add: p repeated_def sample_messages_def numeral_eq_Suc)
qed

definition blank_line_host :: flash_host where
  "blank_line_host = sample_flash_host\<lparr>hex_file := ok ([hd sample_lines] @ [CHR 0x0A] # tl sample_lines)\<rparr>"

theorem flash_script_bad_line_witness:
  "flash_script blank_line_host [Inr hello_response, Inr (sample_messages ! 0)] =
     ([[0x62], hello, sample_messages ! 0], Failed IndexError)"
proof -
  have h: "hex_file blank_line_host = ok ([hd sample_lines] @ [CHR 0x0A] # tl sample_lines)"
    by (simp add: blank_line_host_def)
  have t: "translate flash_start [hd sample_lines] =
      ok ([sample_messages ! 0], flash_init\<lparr>sequence_number := 3, last_address := 4\<rparr>)"
    by code_simp
  have "flash_script (blank_line_host\<lparr>hex_file := ok [hd sample_lines]\<rparr>) [Inr hello_response, Inr (sample_messages ! 0)] =
      ([[0x62], hello, sample_messages ! 0], Done [])"
    by code_simp
  then show ?thesis
    using flash_script_bad_line [OF h t hex_to_msg_empty_line(1)] by (simp add: fails_with_def)
qed

end
