(* ===== verification/Hex_Image.thy ===== *)
theory Hex_Image
  imports Intel_Hex Emote3_Flash
begin

text \<open>
  What the programmer of \<^verbatim>\<open>tools/eposflash/eposflash-emote3\<close> promises as a whole: the memory image that an Intel HEX file
  denotes, the image that the write messages on the port name by their addresses and data, and that a finished run
  names exactly the image of the file. How the boot loader stores what a message names is not part of the
  repository.
\<close>

section \<open>Memory images\<close>

type_synonym image = "int \<rightharpoonup> byte"

primrec store :: "int \<Rightarrow> bytes \<Rightarrow> image \<Rightarrow> image" where
  "store a [] im = im"
| "store a (b # bs) im = store (a + 1) bs (im(a \<mapsto> b))"

text \<open>
  A record is its address field, its type and its data. The image of a file by the format's rules: data go to
  the base plus the address field, type 4 sets the upper half of the base, type 1 ends the file, and the
  start addresses (3 and 5) store nothing.
\<close>

type_synonym hex_rec = "int \<times> byte \<times> bytes"

fun hex_image :: "int \<Rightarrow> hex_rec list \<Rightarrow> image \<Rightarrow> image" where
  "hex_image base [] im = im"
| "hex_image base ((addr, t, bs) # rs) im =
     (if t = 0 then hex_image base rs (store (base + addr) bs im)
      else if t = 1 then im
      else if t = 4 then hex_image (from_bytes_big bs * 65536) rs im
      else hex_image base rs im)"

text \<open>The image that a list of messages names.\<close>

definition write_data :: "bytes \<Rightarrow> bytes" where
  "write_data m = take 4 (drop 7 m)"

definition write_image :: "bytes \<Rightarrow> image \<Rightarrow> image" where
  "write_image m im = (if is_write m then store (write_address m) (write_data m) im else im)"

definition named_image :: "bytes list \<Rightarrow> image" where
  "named_image ms = fold write_image ms Map.empty"

text \<open>
  The files the theorem is about: from the address \<open>free\<close> and the message number \<open>n\<close> on, data records hold whole
  words, do not go back in the address space and stay within the 32-bit addresses and the 16-bit message numbers; the end
  record is the last one; there are no segment records (type 2).
\<close>

fun fits :: "int \<Rightarrow> int \<Rightarrow> int \<Rightarrow> hex_rec list \<Rightarrow> bool" where
  "fits base free n [] = True"
| "fits base free n ((addr, t, bs) # rs) =
     (length bs < 256 \<and> 0 \<le> addr \<and> addr < 65536 \<and>
      (if t = 0 then 4 dvd length bs \<and> free \<le> base + addr \<and> base + addr + len bs + 4 \<le> 2 ^ 32 \<and>
           n + len bs div 4 < 2 ^ 16 \<and> fits base (base + addr + len bs) (n + len bs div 4) rs
       else if t = 1 then rs = [] \<and> n < 2 ^ 16
       else if t = 4 then length bs = 2 \<and> fits (from_bytes_big bs * 65536) free n rs
       else t \<in> {3, 5} \<and> fits base free n rs))"

definition hex_text :: "hex_rec \<Rightarrow> string" where
  "hex_text r = (case r of (addr, t, bs) \<Rightarrow> hex_record addr t bs @ [CHR 0x0A])"


section \<open>Stores and messages\<close>

lemma store_append: "store a (bs @ cs) im = store (a + len bs) cs (store a bs im)"
  by (induction bs arbitrary: a im) (simp_all add: ac_simps)

lemma store_other: "x < a \<or> a + len bs \<le> x \<Longrightarrow> store a bs im x = im x"
  by (induction bs arbitrary: a im) auto

lemma store_inside: "0 \<le> i \<Longrightarrow> i < len bs \<Longrightarrow> store a bs im (a + i) = Some (bs ! nat i)"
proof (induction bs arbitrary: a im i)
  case (Cons b bs)
  show ?case
  proof (cases "i = 0")
    case True
    then show ?thesis by (simp add: store_other)
  next
    case False
    then show ?thesis
      using Cons.IH [of "i - 1" "a + 1"] Cons.prems by (simp add: nth_Cons' nat_diff_distrib)
  qed
qed simp

text \<open>Every byte of a store can be looked up, and nothing else changes.\<close>

lemma store_at: "store a bs im x = (if a \<le> x \<and> x < a + len bs then Some (bs ! nat (x - a)) else im x)"
  using store_other [of x a bs im] store_inside [of "x - a" bs a im] by auto

lemma write_image_same: "write_image m (write_image m im) = write_image m im"
  by (rule ext) (simp add: write_image_def store_at)

lemma fold_remdups_adj: "fold write_image (remdups_adj ms) im = fold write_image ms im"
  by (induction ms arbitrary: im rule: remdups_adj.induct) (simp_all add: write_image_same)

text \<open>The message for a word names the word at its address.\<close>

lemma write_message_fields:
  assumes "0 \<le> a" "a < 2 ^ 32" "length w = 4"
  shows "is_write (write_message q a w)" "write_address (write_message q a w) = a" "write_data (write_message q a w) = w"
proof -
  obtain w0 w1 w2 w3 where w: "w = [w0, w1, w2, w3]" using assms(3) by (auto simp: length_4)
  have "pack_le_I a = ok [byte_of a, byte_of (a div 256), byte_of (a div 65536), byte_of (a div 16777216)]"
    using assms by (simp add: pack_le_I_def)
  then have "from_bytes_little [byte_of a, byte_of (a div 256), byte_of (a div 65536), byte_of (a div 16777216)] = a"
    by (rule pack_le_I_round_trip)
  then show "is_write (write_message q a w)" "write_address (write_message q a w) = a" "write_data (write_message q a w) = w"
    by (simp_all add: is_write_def write_address_def write_data_def write_message_def Let_def w)
qed

lemma write_message_image:
  assumes "0 \<le> a" "a < 2 ^ 32" "length w = 4"
  shows "write_image (write_message q a w) = store a w"
  by (simp add: fun_eq_iff write_image_def write_message_fields [OF assms])

lemma write_messages_image:
  assumes "0 \<le> a" "a + 4 * len ws \<le> 2 ^ 32" "\<forall>w \<in> set ws. length w = 4"
  shows "fold write_image (write_messages q a ws) im = store a (concat ws) im"
  using assms
proof (induction ws arbitrary: q a im)
  case (Cons w ws)
  then show ?case by (simp add: write_message_image store_append add.commute)
qed simp

text \<open>
  Messages whose data lie one behind the other in the address space: an earlier one is never overwritten, so the image
  only grows.
\<close>

fun ascending :: "int \<Rightarrow> bytes list \<Rightarrow> bool" where
  "ascending lo [] = True"
| "ascending lo (m # ms) =
     (if is_write m then lo \<le> write_address m \<and> ascending (write_address m + len (write_data m)) ms else ascending lo ms)"

lemma ascending_mono: "ascending lo ms \<Longrightarrow> lo' \<le> lo \<Longrightarrow> ascending lo' ms"
  by (induction ms arbitrary: lo lo') auto

lemma ascending_write_messages:
  assumes "lo \<le> a" "0 \<le> a" "a + 4 * len ws \<le> 2 ^ 32" "\<forall>w \<in> set ws. length w = 4" "ascending (a + 4 * len ws) ms"
  shows "ascending lo (write_messages q a ws @ ms)"
  using assms
proof (induction ws arbitrary: lo q a)
  case Nil
  then show ?case by (auto intro: ascending_mono)
next
  case (Cons w ws)
  then show ?case by (simp add: write_message_fields ac_simps)
qed

lemma image_grows:
  assumes "\<forall>x \<in> dom im. x < lo" "ascending lo ms"
  shows "fold write_image (take j ms) im \<subseteq>\<^sub>m fold write_image ms im"
  using assms
proof (induction ms arbitrary: lo im j)
  case (Cons m ms)
  have asc: "ascending (if is_write m then write_address m + len (write_data m) else lo) ms"
    and dom: "\<forall>x \<in> dom (write_image m im). x < (if is_write m then write_address m + len (write_data m) else lo)"
    using Cons.prems by (fastforce simp: write_image_def store_at split: if_splits)+
  note IH = Cons.IH [OF dom asc]
  show ?case
  proof (cases j)
    case 0
    have "im x = write_image m im x" if "x \<in> dom im" for x
    proof -
      have "x < lo" using Cons.prems(1) that by blast
      then have "is_write m \<longrightarrow> x < write_address m" using Cons.prems(2) by auto
      then show ?thesis by (auto simp: write_image_def store_at)
    qed
    then have "im \<subseteq>\<^sub>m write_image m im" by (simp add: map_le_def)
    also have "write_image m im \<subseteq>\<^sub>m fold write_image ms (write_image m im)" using IH [of 0] by simp
    finally show ?thesis by (simp add: 0 map_le_trans)
  qed (simp add: IH)
qed simp


section \<open>The image of a file\<close>

lemma blocks_full: "0 < n \<Longrightarrow> n dvd length xs \<Longrightarrow> w \<in> set (blocks n xs) \<Longrightarrow> length w = n"
proof (induction n xs rule: blocks.induct)
  case (1 n xs)
  show ?case
  proof (cases "xs = []")
    case False
    then have "n \<le> length xs" "n dvd length (drop n xs)" using "1.prems" by (auto simp: dvd_imp_le)
    then show ?thesis using "1.IH" "1.prems" False by (auto simp: blocks_unfold)
  qed (use "1.prems" in simp)
qed

lemma words_of_record:
  assumes "4 dvd length bs"
  shows "concat (record_words bs) = bs" "\<forall>w \<in> set (record_words bs). length w = 4" "4 * length (record_words bs) = length bs"
proof -
  have "\<not> (4 < length bs \<and> length bs < 8)" using assms by presburger
  moreover have b: "\<forall>w \<in> set (blocks 4 bs). length w = 4" "concat (blocks 4 bs) = bs" "4 * length (blocks 4 bs) = length bs"
    using assms blocks_full [of 4 bs] by (auto simp: concat_blocks blocks_length elim!: dvdE)
  moreover have "map pad (blocks 4 bs) = blocks 4 bs" using b(1) by (simp add: pad_4 map_idI)
  ultimately show "concat (record_words bs) = bs" "\<forall>w \<in> set (record_words bs). length w = 4"
      "4 * length (record_words bs) = length bs"
    by (simp_all add: record_words_def)
qed

lemma pack_le_H_ok: "0 \<le> n \<Longrightarrow> n < 2 ^ 16 \<Longrightarrow> pack_le_H n = ok [byte_of n, byte_of (n div 256)]"
  by (simp add: pack_le_H_def)

lemma end_record_ok:
  assumes "0 \<le> sequence_number s" "sequence_number s < 2 ^ 16"
  shows "\<exists>m. end_record s = ok ([m], s\<lparr>sequence_number := sequence_number s + 1\<rparr>) \<and> \<not> is_write m"
  using assms by (simp add: end_record_def pack_le_H_ok msg_checksum_ok Let_def is_write_def end_message_def)

lemma hex_to_msg_text:
  assumes "length bs < 256" "0 \<le> addr" "addr < 65536"
  shows "hex_to_msg s (hex_text (addr, t, bs)) =
    (if t = 0 then data_record s (len bs) (addr + hex_offset s) (hex_bytes bs)
     else if t = 1 then end_record s
     else if t = 4 then bind_res (py_int 16 (hex_bytes bs)) (\<lambda>off. ok ([], s\<lparr>hex_offset := off * 2 ^ 16\<rparr>))
     else ok ([], s))"
  using hex_to_msg_record [OF assms, of "[CHR 0x0A]" s t] by (simp add: hex_text_def)

text \<open>A file that fits translates, and its messages name the image of the file, one word behind the other.\<close>

lemma translate_image:
  assumes "fits base free n rs" "hex_offset s = base" "last_address s < free" "0 \<le> free" "sequence_number s = n" "0 \<le> n"
  shows "\<exists>ms s'. translate s (map hex_text rs) = ok (ms, s') \<and>
           (\<forall>im. fold write_image ms im = hex_image base rs im) \<and> ascending free ms"
  using assms
proof (induction base free n rs arbitrary: s rule: fits.induct)
  case (1 base free n)
  then show ?case by simp
next
  case (2 base free n addr t bs rs)
  let ?a = "addr + hex_offset s" and ?ws = "record_words bs"
  have r: "length bs < 256" "0 \<le> addr" "addr < 65536" using "2.prems"(1) by simp_all
  note line = hex_to_msg_text [OF r, of s t]
  consider "t = 0" | "t = 1" | "t = 4" | "t = 3 \<or> t = 5" using "2.prems"(1) by (auto split: if_splits)
  then show ?case
  proof cases
    case 1
    then have f: "4 dvd length bs" "free \<le> ?a" "?a + len bs + 4 \<le> 2 ^ 32" "n + len bs div 4 < 2 ^ 16"
        "fits base (?a + len bs) (n + len bs div 4) rs"
      using "2.prems"(1,2) by (simp_all add: add.commute)
    note w = words_of_record [OF f(1)]
    have k: "int (length ?ws) = len bs div 4" "int (length bs div 4) = len bs div 4" "4 * len ?ws = len bs"
      using w(3) by linarith+
    have "room s ?a (length bs div 4 + 1)" using f "2.prems" k f(1) by (auto simp: room_def)
    note d = data_record_words [OF this]
    define s1 where "s1 = advance s ?a (length ?ws)"
    have s1: "hex_offset s1 = base" "last_address s1 < ?a + len bs" "sequence_number s1 = n + len bs div 4"
      using "2.prems" f(2) k by (auto simp: s1_def advance_def)
    obtain ms s' where IH: "translate s1 (map hex_text rs) = ok (ms, s')"
        "\<forall>im. fold write_image ms im = hex_image base rs im" "ascending (?a + len bs) ms"
      using "2.IH"(1) 1 f s1 "2.prems" by (fastforce simp: add.commute)
    have a: "0 \<le> ?a" "?a + 4 * len ?ws \<le> 2 ^ 32" using f(2,3) k "2.prems"(4) by simp_all
    have "ascending free (write_messages n ?a ?ws @ ms)"
      using IH(3) f(2) a w(2) k by (intro ascending_write_messages) simp_all
    then show ?thesis
      using IH 1 line d "2.prems"(2,5) write_messages_image [OF a w(2), of n] w(1)
      by (auto simp: s1_def add.commute)
  next
    case 2
    then show ?thesis
      using "2.prems" line end_record_ok [of s] by (auto simp: write_image_def)
  next
    case 3
    then have "bs \<noteq> []" "fits (from_bytes_big bs * 65536) free n rs" using "2.prems"(1) by auto
    then show ?thesis
      using "2.IH"(2) [of "s\<lparr>hex_offset := from_bytes_big bs * 65536\<rparr>"] 3 "2.prems" line
      by (auto simp: py_int_hex_bytes)
  next
    case 4
    then have t: "t \<noteq> 0" "t \<noteq> 1" "t \<noteq> 4" by auto
    then show ?thesis
      using "2.IH"(3) [of s] "2.prems" line by auto
  qed
qed

lemma hello_no_write: "\<not> is_write hello"
  by (simp add: is_write_def hello_def)

lemma named_image_remdups: "named_image (remdups_adj ms) = named_image ms"
  by (simp add: named_image_def fold_remdups_adj)

text \<open>
  C3: The programmer sends the file and nothing else. For a file of data records of whole words that lie one behind the
  other above address 0, with extended linear addresses, start addresses and an end record, whatever the port does: the write
  messages, repeated ones included, name at each moment a part of the image that the file denotes, so no byte that the
  file does not have at that address; and when the run is done they name exactly the image of the file.
\<close>

theorem flash_script_image:
  assumes "hex_file h = ok (map hex_text rs)" "fits 0 1 2 rs" "flash_script h ks = (ws, st)"
  shows "\<exists>pre rest. ws = pre @ rest \<and> (pre = [] \<and> rest = [] \<or> pre = prepended h) \<and>
           named_image rest \<subseteq>\<^sub>m hex_image 0 rs Map.empty \<and>
           (\<forall>ks'. st = Done ks' \<longrightarrow> pre = prepended h \<and> named_image rest = hex_image 0 rs Map.empty)"
proof -
  obtain ms s' where t: "translate flash_start (map hex_text rs) = ok (ms, s')"
    and i: "\<forall>im. fold write_image ms im = hex_image 0 rs im" and asc: "ascending 1 ms"
    using translate_image [OF assms(2), of flash_start] by (auto simp: flash_init_def)
  have all: "named_image (hello # ms) = hex_image 0 rs Map.empty"
    using i by (simp add: named_image_def write_image_def hello_no_write)
  have asc': "ascending 1 (hello # ms)" using asc by (simp add: hello_no_write)
  obtain pre rest j where w: "ws = pre @ rest" "pre = [] \<and> rest = [] \<or> pre = prepended h"
      "remdups_adj rest = take j (hello # ms)"
      "\<forall>ks'. st = Done ks' \<longrightarrow> pre = prepended h \<and> remdups_adj rest = hello # ms"
    using flash_script_sent [OF assms(1) t assms(3)] by blast
  have "named_image rest = named_image (take j (hello # ms))"
    using w(3) named_image_remdups [of rest] by simp
  then have "named_image rest \<subseteq>\<^sub>m hex_image 0 rs Map.empty"
    using image_grows [OF _ asc', of Map.empty j] all by (simp add: named_image_def)
  moreover have "named_image rest = hex_image 0 rs Map.empty" if "st = Done ks'" for ks'
    using w(4) that all named_image_remdups [of rest] by simp
  ultimately show ?thesis using w by blast
qed

definition sample_recs :: "hex_rec list" where
  "sample_recs = [(0, 4, [0, 0x20]), (0, 0, [1, 2, 3, 4, 5, 6, 7, 8]), (8, 0, [9, 10, 11, 12]), (0, 5, [0, 0x20, 0, 1]), (0, 1, [])]"

definition recs_host :: flash_host where
  "recs_host = \<lparr>hex_readable = True, device_ready = [True], open_port = ok (), prepend_string = None,
     write_prepend = ok (), hex_file = ok (map hex_text sample_recs)\<rparr>"

definition sample_writes :: "bytes list" where
  "sample_writes = [hello, write_message 2 0x200000 [1, 2, 3, 4], write_message 2 0x200000 [1, 2, 3, 4],
     write_message 3 0x200004 [5, 6, 7, 8], write_message 4 0x200008 [9, 10, 11, 12],
     [5, 0, 0x65, 0, 0, 0, 0, 0, 0, 0, 0, 0x96]]"

lemma recs_run:
  "flash_script recs_host (map Inr [hello_response, [], sample_writes ! 2, sample_writes ! 3, sample_writes ! 4, sample_writes ! 5]) =
     (sample_writes, Done [])"
  by code_simp

theorem flash_script_image_witness:
  "\<exists>pre rest. sample_writes = pre @ rest \<and> (pre = [] \<and> rest = [] \<or> pre = prepended recs_host) \<and>
     named_image rest \<subseteq>\<^sub>m hex_image 0 sample_recs Map.empty \<and>
     (\<forall>ks'. Done [] = Done ks' \<longrightarrow> pre = prepended recs_host \<and> named_image rest = hex_image 0 sample_recs Map.empty)"
proof -
  have f: "hex_file recs_host = ok (map hex_text sample_recs)" by (simp add: recs_host_def)
  have "fits 0 1 2 sample_recs" by code_simp
  then show ?thesis using flash_script_image [OF f _ recs_run] by blast
qed

end
