(* ===== verification/Get_Pip.thy ===== *)
theory Get_Pip
  imports Py_Struct
begin

text \<open>
  The base-85 decoder of the installer \<^verbatim>\<open>tools/eposiotgw/get-pip.py\<close>: what it accepts, its two errors with their
  positions, and that chunks decode one by one. A bytes object is a list of 8-bit characters on the encoded
  side and a list of bytes on the decoded side.
\<close>

section \<open>The decoder\<close>

definition b85alphabet :: string where
  "b85alphabet = ''0123456789ABCDEFGHIJKLMNOPQRSTUVWXYZ'' @
     ''abcdefghijklmnopqrstuvwxyz!#$%&()*+-;<=>?@'' @ ''^_`{|}~''"

text \<open>The errors of the decoder, with the position in their messages; \<open>Reraised\<close> is its bare raise.\<close>

datatype b85_error = Bad_character int | Overflow int | Reraised

definition b85dec :: "int option list" where
  "b85dec = foldl (\<lambda>t (i, c). t[of_char c := Some (int i)]) (replicate 256 None) (enumerate 0 b85alphabet)"

definition b85_digit :: "char \<Rightarrow> int option" where
  "b85_digit c = b85dec ! of_char c"

fun chunk_acc :: "int \<Rightarrow> string \<Rightarrow> int option" where
  "chunk_acc acc [] = Some acc"
| "chunk_acc acc (c # cs) = (case b85_digit c of None \<Rightarrow> None | Some d \<Rightarrow> chunk_acc (acc * 85 + d) cs)"

fun bad_position :: "int \<Rightarrow> string \<Rightarrow> b85_error" where
  "bad_position j [] = Reraised"
| "bad_position j (c # cs) = (if b85_digit c = None then Bad_character j else bad_position (j + 1) cs)"

definition decode_chunk :: "int \<Rightarrow> string \<Rightarrow> b85_error + bytes" where
  "decode_chunk i chunk = (case chunk_acc 0 chunk of
      None \<Rightarrow> Inl (bad_position i chunk)
    | Some acc \<Rightarrow> (case pack_be_I acc of Inl _ \<Rightarrow> Inl (Overflow i) | Inr bs \<Rightarrow> Inr bs))"

definition range_5 :: "string \<Rightarrow> int list" where
  "range_5 b = (case py_range 0 (len b) 5 of Inr is \<Rightarrow> is | Inl _ \<Rightarrow> [])"

definition b85decode :: "string \<Rightarrow> b85_error + bytes" where
  "b85decode b0 =
     (let padding = (- len b0) mod 5;
          b = b0 @ replicate (nat padding) CHR ''~''
      in bind_res (map_res (\<lambda>i. decode_chunk i (py_slice b (Some i) (Some (i + 5)))) (range_5 b)) (\<lambda>out.
         let result = concat out
         in Inr (if padding \<noteq> 0 then py_slice result None (Some (- padding)) else result)))"

text \<open>The table: a digit for exactly the characters of the alphabet, below 85, at its place there.\<close>

abbreviation fill_table :: "int option list \<Rightarrow> (nat \<times> char) list \<Rightarrow> int option list" where
  "fill_table \<equiv> foldl (\<lambda>t (i, c). t[of_char c := Some (int i)])"

lemma fill_table_other: "c \<notin> set cs \<Longrightarrow> fill_table t (enumerate n cs) ! of_char c = t ! of_char c"
  by (induction cs arbitrary: n t) auto

lemma fill_table_nth:
  "distinct cs \<Longrightarrow> length t = 256 \<Longrightarrow> j < length cs \<Longrightarrow>
     fill_table t (enumerate n cs) ! of_char (cs ! j) = Some (int (n + j))"
proof (induction cs arbitrary: n t j)
  case (Cons c cs)
  have "of_char c < (256 :: nat)" by simp
  with Cons show ?case by (cases j) (simp_all add: fill_table_other)
qed simp

lemma b85alphabet_facts: "length b85alphabet = 85" "distinct b85alphabet"
  by code_simp+

lemma b85_digit_nth: "d < 85 \<Longrightarrow> b85_digit (b85alphabet ! d) = Some (int d)"
  using fill_table_nth [of b85alphabet "replicate 256 None" d 0]
  by (simp add: b85_digit_def b85dec_def b85alphabet_facts)

lemma b85_digit_None [simp]: "b85_digit c = None \<longleftrightarrow> c \<notin> set b85alphabet"
proof
  assume "b85_digit c = None"
  then show "c \<notin> set b85alphabet"
    using b85_digit_nth by (auto simp: in_set_conv_nth b85alphabet_facts)
next
  have "of_char c < (256 :: nat)" by simp
  moreover assume "c \<notin> set b85alphabet"
  ultimately show "b85_digit c = None"
    by (simp add: b85_digit_def b85dec_def fill_table_other)
qed

lemma b85_digit_Some: "b85_digit c = Some d \<Longrightarrow> 0 \<le> d \<and> d < 85 \<and> b85alphabet ! nat d = c"
proof -
  assume a: "b85_digit c = Some d"
  then have "c \<in> set b85alphabet" using b85_digit_None [of c] by auto
  then obtain j where "j < 85" "c = b85alphabet ! j" by (auto simp: in_set_conv_nth b85alphabet_facts)
  then show ?thesis using a b85_digit_nth [of j] by auto
qed

section \<open>The decoder, chunk by chunk\<close>

fun decode_blocks :: "int \<Rightarrow> string list \<Rightarrow> b85_error + bytes" where
  "decode_blocks i [] = Inr []"
| "decode_blocks i (k # ks) =
     bind_res (decode_chunk i k) (\<lambda>x. bind_res (decode_blocks (i + 5) ks) (\<lambda>xs. Inr (x @ xs)))"

definition padding :: "string \<Rightarrow> nat" where
  "padding b = nat ((- len b) mod 5)"

definition padded :: "string \<Rightarrow> string" where
  "padded b = b @ replicate (padding b) CHR ''~''"

lemma padding_bounds: "padding b < 5" "5 dvd length b + padding b"
proof -
  show "padding b < 5" by (simp add: padding_def nat_less_iff)
  have "int (length b + padding b) mod 5 = 0"
    by (simp add: padding_def mod_simps)
  then show "5 dvd length b + padding b" by presburger
qed

lemma padding_0: "5 dvd length b \<Longrightarrow> padding b = 0"
  using padding_bounds [of b] by presburger

lemma map_res_nth_blocks:
  "bind_res (map_res (\<lambda>k. decode_chunk (i + 5 * int k) (ks ! k)) [0 ..< length ks]) (\<lambda>out. Inr (concat out)) =
     decode_blocks i ks"
proof (induction ks arbitrary: i)
  case (Cons k ks)
  have u: "[0 ..< length (k # ks)] = 0 # map Suc [0 ..< length ks]"
    by (simp add: upt_conv_Cons map_Suc_upt del: upt_Suc)
  have "decode_blocks (i + 5) ks =
      bind_res (map_res (\<lambda>j. decode_chunk (i + 5 * int (Suc j)) ((k # ks) ! Suc j)) [0 ..< length ks]) (\<lambda>out. Inr (concat out))"
    using Cons.IH [of "i + 5"] by (simp add: algebra_simps)
  then show ?case
    unfolding u by (simp add: map_res_map bind_res_assoc)
qed simp

lemma map_res_cong: "(\<And>x. x \<in> set xs \<Longrightarrow> f x = g x) \<Longrightarrow> map_res f xs = map_res g xs"
  by (induction xs) auto

lemma b85decode_blocks:
  "b85decode b = bind_res (decode_blocks 0 (blocks 5 (padded b)))
     (\<lambda>r. Inr (if padding b = 0 then r else take (length r - padding b) r))"
proof -
  define p where "p = padded b"
  have r: "range_5 p = map (\<lambda>k. 5 * int k) [0 ..< length (blocks 5 p)]"
  proof -
    have "nat ((4 + len p) div 5) = length (blocks 5 p)"
      by (simp add: blocks_length zdiv_int nat_div_distrib nat_add_distrib)
    then show ?thesis by (simp add: range_5_def py_range_pos)
  qed
  have "py_slice p (Some (5 * int k)) (Some (5 * int k + 5)) = blocks 5 p ! k" if "k < length (blocks 5 p)" for k
    using that by (simp add: blocks_nth slice_from_to nat_mult_distrib nat_add_distrib mult.commute)
  then have "bind_res (map_res (\<lambda>i. decode_chunk i (py_slice p (Some i) (Some (i + 5)))) (range_5 p)) (\<lambda>out. Inr (concat out))
      = bind_res (map_res (\<lambda>k. decode_chunk (0 + 5 * int k) (blocks 5 p ! k)) [0 ..< length (blocks 5 p)]) (\<lambda>out. Inr (concat out))"
    unfolding r map_res_map by (intro arg_cong [where f = "\<lambda>m. bind_res m _"] map_res_cong) simp
  note m = this [unfolded map_res_nth_blocks]
  have q: "(- len b) mod 5 = int (padding b)" "nat ((- len b) mod 5) = padding b"
    by (simp_all add: padding_def)
  have f: "(if 0 < padding b then x else y) = (if padding b = 0 then y else x)" for x y :: bytes
    by simp
  show ?thesis
    unfolding b85decode_def Let_def q padded_def [symmetric] p_def [symmetric] m [symmetric] bind_res_assoc
    using f by (simp add: slice_simps p_def padded_def cong: if_cong)
qed

section \<open>When it succeeds and how it fails\<close>

definition b85_value :: "string \<Rightarrow> int" where
  "b85_value k = foldl (\<lambda>a c. a * 85 + the (b85_digit c)) 0 k"

lemma chunk_acc_eq:
  "chunk_acc a k = (if set k \<subseteq> set b85alphabet then Some (foldl (\<lambda>a c. a * 85 + the (b85_digit c)) a k) else None)"
proof (induction k arbitrary: a)
  case (Cons c k)
  then show ?case by (cases "b85_digit c") (auto simp flip: b85_digit_None)
qed simp

lemma b85_value_nonneg: "set k \<subseteq> set b85alphabet \<Longrightarrow> 0 \<le> b85_value k"
proof -
  have "set k \<subseteq> set b85alphabet \<Longrightarrow> 0 \<le> a \<Longrightarrow> 0 \<le> foldl (\<lambda>a c. a * 85 + the (b85_digit c)) a k" for a
  proof (induction k arbitrary: a)
    case (Cons c k)
    obtain d where "b85_digit c = Some d" "0 \<le> d"
      using Cons.prems b85_digit_None [of c] b85_digit_Some by (cases "b85_digit c") auto
    then show ?case using Cons by simp
  qed simp
  then show "set k \<subseteq> set b85alphabet \<Longrightarrow> 0 \<le> b85_value k" by (simp add: b85_value_def)
qed

lemma bad_position_cases:
  assumes "\<not> set k \<subseteq> set b85alphabet"
  shows "\<exists>j < length k. bad_position i k = Bad_character (i + int j) \<and> k ! j \<notin> set b85alphabet \<and>
           set (take j k) \<subseteq> set b85alphabet"
  using assms
proof (induction k arbitrary: i)
  case (Cons c k)
  show ?case
  proof (cases "c \<in> set b85alphabet")
    case True
    then obtain j where "j < length k" "bad_position (i + 1) k = Bad_character (i + 1 + int j)"
        "k ! j \<notin> set b85alphabet" "set (take j k) \<subseteq> set b85alphabet"
      using Cons by auto
    then show ?thesis using True by (intro exI [of _ "Suc j"]) auto
  qed auto
qed simp

lemma decode_chunk_eq:
  "decode_chunk i k =
     (if \<not> set k \<subseteq> set b85alphabet then Inl (bad_position i k)
      else if 2 ^ 32 \<le> b85_value k then Inl (Overflow i)
      else Inr (map (\<lambda>j. byte_of (b85_value k div 256 ^ j)) [3, 2, 1, 0]))"
  using b85_value_nonneg [of k] by (auto simp: decode_chunk_def chunk_acc_eq pack_be_I_def simp flip: b85_value_def)

text \<open>A chunk that decodes.\<close>

definition good_chunk :: "string \<Rightarrow> bool" where
  "good_chunk k \<longleftrightarrow> set k \<subseteq> set b85alphabet \<and> b85_value k < 2 ^ 32"

lemma decode_blocks_ok_iff:
  "(\<exists>r. decode_blocks i ks = Inr r) \<longleftrightarrow> list_all good_chunk ks"
  by (induction ks arbitrary: i) (auto simp: decode_chunk_eq good_chunk_def bind_res_eq_Inr)

lemma decode_blocks_length: "decode_blocks i ks = Inr r \<Longrightarrow> length r = 4 * length ks"
  by (induction ks arbitrary: i r) (auto simp: decode_chunk_eq bind_res_eq_Inr split: if_splits)

lemma set_concat_blocks: "0 < n \<Longrightarrow> (\<forall>k \<in> set (blocks n xs). set k \<subseteq> A) \<longleftrightarrow> set xs \<subseteq> A"
proof -
  assume "0 < n"
  then have "set xs = (\<Union>k \<in> set (blocks n xs). set k)"
    by (metis concat_blocks set_concat)
  then show ?thesis by auto
qed

lemma tilde_alphabet: "CHR ''~'' \<in> set b85alphabet"
  by code_simp

lemma set_padded: "set (padded b) \<subseteq> set b85alphabet \<longleftrightarrow> set b \<subseteq> set b85alphabet"
  using tilde_alphabet by (auto simp: padded_def)

lemma good_chunks_padded:
  "list_all good_chunk (blocks 5 (padded b)) \<longleftrightarrow>
     set b \<subseteq> set b85alphabet \<and> (\<forall>k \<in> set (blocks 5 (padded b)). b85_value k < 2 ^ 32)"
  using set_concat_blocks [of 5 "padded b" "set b85alphabet"] set_padded [of b]
  by (auto simp: list_all_iff good_chunk_def)

lemma length_blocks_padded: "5 * length (blocks 5 (padded b)) = length b + padding b"
  using padding_bounds(2) [of b] by (subst blocks_length) (auto simp: padded_def)


text \<open>Which chunk fails first.\<close>

lemma decode_blocks_error:
  "decode_blocks i ks = Inl e \<Longrightarrow>
     \<exists>n < length ks. list_all good_chunk (take n ks) \<and> decode_chunk (i + 5 * int n) (ks ! n) = Inl e"
proof (induction ks arbitrary: i)
  case (Cons k ks)
  then consider "decode_chunk i k = Inl e"
    | r where "decode_chunk i k = Inr r" "decode_blocks (i + 5) ks = Inl e"
    by (auto simp: bind_res_eq_Inl)
  then show ?case
  proof cases
    case 1
    then show ?thesis by (intro exI [of _ 0]) simp
  next
    case 2
    then obtain n where "n < length ks" "list_all good_chunk (take n ks)"
        "decode_chunk (i + 5 + 5 * int n) (ks ! n) = Inl e"
      using Cons.IH by blast
    moreover have "good_chunk k" using 2(1) by (auto simp: decode_chunk_eq good_chunk_def split: if_splits)
    ultimately show ?thesis by (intro exI [of _ "Suc n"]) (simp add: algebra_simps)
  qed
qed simp

text \<open>
  C8: the errors of the decoder. A bad character is reported with its own position, and every
  character before it is in the alphabet; an overflow is reported with the start of its chunk,
  all of whose characters are in the alphabet and whose value does not fit 32 bits, and all earlier
  chunks are fine. The bare raise of the code is never reached.
\<close>

theorem b85decode_errors:
  assumes "b85decode b = Inl e"
  shows "case e of
      Bad_character i \<Rightarrow> 0 \<le> i \<and> i < len b \<and> b ! nat i \<notin> set b85alphabet \<and> set (take (nat i) b) \<subseteq> set b85alphabet
    | Overflow i \<Rightarrow> 0 \<le> i \<and> i < len b \<and> 5 dvd i \<and> set (take (nat i + 5) b) \<subseteq> set b85alphabet \<and>
        2 ^ 32 \<le> b85_value (take 5 (drop (nat i) (padded b)))
    | Reraised \<Rightarrow> False"
proof -
  define p where "p = padded b"
  obtain n where n: "n < length (blocks 5 p)" "list_all good_chunk (take n (blocks 5 p))"
      "decode_chunk (5 * int n) (blocks 5 p ! n) = Inl e"
    using assms decode_blocks_error [of 0] by (force simp: b85decode_blocks bind_res_eq_Inl p_def)
  define k where "k = take 5 (drop (5 * n) p)"
  have k: "blocks 5 p ! n = k" using n(1) by (simp add: blocks_nth k_def mult.commute)
  have lp: "length p = length b + padding b" by (simp add: p_def padded_def)
  have ln: "5 * Suc n \<le> length p"
    using n(1) length_blocks_padded [of b] unfolding lp by (simp add: p_def)
  then have nb: "5 * n < length b" using padding_bounds(1) [of b] lp by simp
  have "concat (take n (blocks 5 p)) = take (5 * n) p"
    by (rule concat_take_blocks) (use n(1) in simp_all)
  then have before: "set (take (5 * n) p) \<subseteq> set b85alphabet"
    using n(2) by (auto simp: list_all_iff good_chunk_def simp flip: \<open>concat (take n (blocks 5 p)) = take (5 * n) p\<close>)
  have upto: "take (5 * n + j) p = take (5 * n) p @ take j k" if "j \<le> 5" for j
    using that by (simp add: k_def take_add min_def)
  have pb: "take j p = take j b @ take (j - length b) (replicate (padding b) CHR ''~'')" for j
    by (simp add: p_def padded_def)
  show ?thesis
  proof (cases "set k \<subseteq> set b85alphabet")
    case True
    then have e: "e = Overflow (5 * int n)" "2 ^ 32 \<le> b85_value k"
      using n(3) by (auto simp: k decode_chunk_eq split: if_splits)
    have "set (take (5 * n + 5) p) \<subseteq> set b85alphabet" using before True upto [of 5] by (simp add: k_def)
    then have "set (take (5 * n + 5) b) \<subseteq> set b85alphabet" unfolding pb by simp
    then show ?thesis using e nb by (simp add: k_def p_def nat_mult_distrib)
  next
    case False
    then obtain j where j: "j < length k" "bad_position (5 * int n) k = Bad_character (5 * int n + int j)"
        "k ! j \<notin> set b85alphabet" "set (take j k) \<subseteq> set b85alphabet"
      using bad_position_cases [of k "5 * int n"] by blast
    then have e: "e = Bad_character (int (5 * n + j))" using n(3) False by (simp add: k decode_chunk_eq)
    have pj: "p ! (5 * n + j) = k ! j" "5 * n + j < length p" using j(1) ln by (simp_all add: k_def)
    have jb: "5 * n + j < length b"
    proof (rule ccontr)
      assume "\<not> 5 * n + j < length b"
      then have "p ! (5 * n + j) = CHR ''~''" using pj(2) lp by (simp add: p_def padded_def nth_append)
      then show False using j(3) pj(1) tilde_alphabet by simp
    qed
    have "set (take (5 * n + j) p) \<subseteq> set b85alphabet" using before j(1,4) upto [of j] by (simp add: k_def)
    then have "set (take (5 * n + j) b) \<subseteq> set b85alphabet" unfolding pb by simp
    moreover have "b ! (5 * n + j) = k ! j" using pj jb by (simp add: p_def padded_def nth_append)
    ultimately show ?thesis using j(3) jb by (simp add: e del: of_nat_add)
  qed
qed

section \<open>Concatenation\<close>

text \<open>Chunks decode one by one.\<close>

lemma decode_chunk_start: "decode_chunk i k = Inr r \<Longrightarrow> decode_chunk j k = Inr r"
  by (simp add: decode_chunk_eq split: if_splits)

lemma decode_blocks_start: "decode_blocks i ks = Inr r \<Longrightarrow> decode_blocks j ks = Inr r"
proof (induction ks arbitrary: i j r)
  case (Cons k ks)
  from Cons.prems obtain x xs where "decode_chunk i k = Inr x" "decode_blocks (i + 5) ks = Inr xs" "r = x @ xs"
    by (auto simp: bind_res_eq_Inr)
  then show ?case using Cons.IH [of "i + 5" xs "j + 5"] decode_chunk_start [of i k x j] by simp
qed simp

lemma decode_blocks_append:
  "decode_blocks i (ks @ ks') =
     bind_res (decode_blocks i ks) (\<lambda>x. bind_res (decode_blocks (i + 5 * len ks) ks') (\<lambda>y. Inr (x @ y)))"
proof (induction ks arbitrary: i)
  case Nil
  then show ?case by (cases "decode_blocks i ks'") auto
next
  case (Cons k ks)
  then show ?case
    by (simp add: bind_res_assoc algebra_simps)
qed

lemma padding_append: "5 dvd length a \<Longrightarrow> padding (a @ b) = padding b"
proof -
  assume "5 dvd length a"
  then obtain m where "length a = 5 * m" by (elim dvdE)
  then have "(- len (a @ b)) mod 5 = (- len b) mod 5"
    by (simp add: mod_eq_dvd_iff)
  then show ?thesis by (simp add: padding_def)
qed

lemma b85decode_append_ok:
  assumes "5 dvd length a" "b85decode a = Inr x" "b85decode b = Inr y"
  shows "b85decode (a @ b) = Inr (x @ y)"
proof -
  have a: "padding a = 0" "padded a = a" "decode_blocks 0 (blocks 5 a) = Inr x"
    using assms(1,2) padding_0 [OF assms(1)] by (auto simp: b85decode_blocks bind_res_eq_Inr padded_def)
  obtain r where r: "decode_blocks 0 (blocks 5 (padded b)) = Inr r" "y = (if padding b = 0 then r else take (length r - padding b) r)"
    using assms(3) by (auto simp: b85decode_blocks bind_res_eq_Inr)
  have p: "padding (a @ b) = padding b" "padded (a @ b) = a @ padded b"
    using padding_append [OF assms(1)] by (simp_all add: padded_def)
  have len_r: "padding b \<le> length r"
    using decode_blocks_length [OF r(1)] length_blocks_padded [of b] padding_bounds(1) [of b] by linarith
  have "decode_blocks (0 + 5 * len (blocks 5 a)) (blocks 5 (padded b)) = Inr r"
    using r(1) by (rule decode_blocks_start)
  then have "decode_blocks 0 (blocks 5 (a @ padded b)) = Inr (x @ r)"
    using assms(1) a(3) by (simp add: blocks_append decode_blocks_append)
  then show ?thesis
    using len_r by (simp add: b85decode_blocks p r(2))
qed

lemma b85decode_chunk:
  "length k = 5 \<Longrightarrow> decode_chunk 0 k = Inr r \<Longrightarrow> b85decode k = Inr r"
  using blocks_Cons_block [of k 5 "[]"] by (simp add: b85decode_blocks padding_0 padded_def)

lemma b85decode_Nil: "b85decode [] = Inr []"
  by (simp add: b85decode_blocks padding_0 padded_def)

theorem b85decode_errors_witness:
  "b85decode ''ab~~~~~'' = Inl (Overflow 5) \<and> b85decode ''abc d'' = Inl (Bad_character 3) \<and>
   2 ^ 32 \<le> b85_value (take 5 (drop 5 (padded ''ab~~~~~''))) \<and> ''abc d'' ! 3 \<notin> set b85alphabet"
proof -
  have a: "b85decode ''ab~~~~~'' = Inl (Overflow 5)" by code_simp
  have b: "b85decode ''abc d'' = Inl (Bad_character 3)" by code_simp
  show ?thesis using b85decode_errors [OF a] b85decode_errors [OF b] a b by simp
qed


end
