(* ===== verification/Base85.thy ===== *)
theory Base85
  imports Get_Pip
begin

text \<open>
  Base-85 encoding, as the inverse that the decoder of \<^verbatim>\<open>get-pip.py\<close> promises (the repository has no encoder), and the
  round trip for byte strings of every length.
\<close>

section \<open>Encoding and decoding\<close>

text \<open>
  Base 85 as the inverse of the decoder defines it: groups of four bytes, filled up with zero
  bytes, as five digits each, without the digits of the filling.
\<close>

definition encode_word :: "bytes \<Rightarrow> string" where
  "encode_word w = (let n = from_bytes_big w in
     map (\<lambda>j. b85alphabet ! nat (n div 85 ^ j mod 85)) [4, 3, 2, 1, 0])"

definition zero_fill :: "bytes \<Rightarrow> nat" where
  "zero_fill bs = nat ((- len bs) mod 4)"

definition b85encode :: "bytes \<Rightarrow> string" where
  "b85encode bs =
     (let s = concat (map encode_word (blocks 4 (bs @ replicate (zero_fill bs) 0)))
      in take (length s - zero_fill bs) s)"

lemma b85_value_5:
  assumes "0 \<le> d0" "d0 < 85" "0 \<le> d1" "d1 < 85" "0 \<le> d2" "d2 < 85" "0 \<le> d3" "d3 < 85" "0 \<le> d4" "d4 < (85 :: int)"
  shows "b85_value (map (\<lambda>d. b85alphabet ! nat d) [d0, d1, d2, d3, d4]) =
           (((d0 * 85 + d1) * 85 + d2) * 85 + d3) * 85 + d4"
  using assms by (simp add: b85_value_def b85_digit_nth nat_less_iff)

lemma digits_85:
  "((((n div 85 ^ 4 mod 85) * 85 + n div 85 ^ 3 mod 85) * 85 + n div 85 ^ 2 mod 85) * 85 + n div 85 mod 85) * 85 + n mod 85
     = (n :: int)" if "0 \<le> n" "n < 85 ^ 5"
proof -
  have s: "(n div 85 ^ Suc j) * 85 + n div 85 ^ j mod 85 = n div 85 ^ j" for j
    by (simp add: zdiv_zmult2_eq mult.commute [of 85] div_mult_mod_eq)
  have "n div 85 ^ 4 mod 85 = n div 85 ^ 4" using that by simp
  with s [of 3] s [of 2] s [of 1] s [of 0] show ?thesis
    by (simp add: numeral_eq_Suc)
qed

lemma digits_85_prefix:
  assumes "0 \<le> n" "n < (85 :: int) ^ 5"
  shows "(((n div 85 ^ 4 mod 85 * 85 + n div 85 ^ 3 mod 85) * 85 + n div 85 ^ 2 mod 85) * 85 + n div 85 mod 85) * 85 + 84
           = n div 85 * 85 + 84"
    and "(((n div 85 ^ 4 mod 85 * 85 + n div 85 ^ 3 mod 85) * 85 + n div 85 ^ 2 mod 85) * 85 + 84) * 85 + 84
           = n div 85 ^ 2 * 85 ^ 2 + 7224"
    and "(((n div 85 ^ 4 mod 85 * 85 + n div 85 ^ 3 mod 85) * 85 + 84) * 85 + 84) * 85 + 84
           = n div 85 ^ 3 * 85 ^ 3 + 614124"
proof -
  have s: "(n div 85 ^ Suc j) * 85 + n div 85 ^ j mod 85 = n div 85 ^ j" for j
    by (simp add: zdiv_zmult2_eq mult.commute [of 85] div_mult_mod_eq)
  have "n div 85 ^ 4 mod 85 = n div 85 ^ 4" using assms by simp
  then have h3: "n div 85 ^ 4 mod 85 * 85 + n div 85 ^ 3 mod 85 = n div 85 ^ 3"
    using s [of 3] by (simp add: numeral_eq_Suc)
  have h2: "n div 85 ^ 3 * 85 + n div 85 ^ 2 mod 85 = n div 85 ^ 2" using s [of 2] by (simp add: numeral_eq_Suc)
  have h1: "n div 85 ^ 2 * 85 + n div 85 mod 85 = n div 85" using s [of 1] by (simp add: numeral_eq_Suc)
  show "(((n div 85 ^ 4 mod 85 * 85 + n div 85 ^ 3 mod 85) * 85 + n div 85 ^ 2 mod 85) * 85 + n div 85 mod 85) * 85 + 84
           = n div 85 * 85 + 84"
    unfolding h3 h2 h1 by simp
  show "(((n div 85 ^ 4 mod 85 * 85 + n div 85 ^ 3 mod 85) * 85 + n div 85 ^ 2 mod 85) * 85 + 84) * 85 + 84
           = n div 85 ^ 2 * 85 ^ 2 + 7224"
    unfolding h3 h2 by simp
  show "(((n div 85 ^ 4 mod 85 * 85 + n div 85 ^ 3 mod 85) * 85 + 84) * 85 + 84) * 85 + 84
           = n div 85 ^ 3 * 85 ^ 3 + 614124"
    unfolding h3 by simp
qed

lemma fill_rounds:
  fixes n :: int
  assumes "0 \<le> q" "q < 2 ^ (32 - 8 * p)" "p \<in> {1, 2, 3}" "n = q * 256 ^ p" "v = n div 85 ^ p * 85 ^ p + (85 ^ p - 1)"
  shows "v div 256 ^ p = q" "v < 2 ^ 32"
proof -
  have m: "0 \<le> n mod 85 ^ p" "n mod 85 ^ p < 85 ^ p" by simp_all
  then have lo: "n \<le> v" using assms(5) div_mult_mod_eq [of n "85 ^ p"] by linarith
  have hi: "v < n + 256 ^ p"
  proof -
    have "v \<le> n + (85 ^ p - 1)" using assms(5) div_mult_mod_eq [of n "85 ^ p"] m by linarith
    also have "\<dots> < n + 256 ^ p" using assms(3) by auto
    finally show ?thesis .
  qed
  have "v div 256 ^ p = q + (v - n) div 256 ^ p"
    using assms(4) by (metis add_diff_cancel_left' diff_add_cancel div_mult_self1 power_eq_0_iff zero_neq_numeral add.commute)
  also have "(v - n) div 256 ^ p = 0" using lo hi by (intro div_pos_pos_trivial) simp_all
  finally show "v div 256 ^ p = q" by simp
  have "(q + 1) * 256 ^ p \<le> 2 ^ (32 - 8 * p) * 256 ^ p" using assms(2) by (intro mult_right_mono) simp_all
  also have "\<dots> = (2 :: int) ^ 32" using assms(3) by auto
  finally show "v < 2 ^ 32" using hi assms(4) by (simp add: algebra_simps)
qed

lemma from_bytes_big_4:
  "from_bytes_big [w0, w1, w2, w3] = ((uint w0 * 256 + uint w1) * 256 + uint w2) * 256 + uint w3"
  by (simp add: from_bytes_big_def)

lemma byte_of_add: "byte_of (n * 256 + uint b) = b"
  by (simp add: word_uint_eq_iff uint_byte_of mod_pos_pos_trivial uint_byte_bounds)

lemma div_256_add: "(n * 256 + uint (b :: byte)) div 256 = n"
  using uint_byte_bounds [of b] by simp

lemma word_bytes:
  assumes "n = from_bytes_big [w0, w1, w2, w3]"
  shows "0 \<le> n" "n < 2 ^ 32" "byte_of (n div 256 ^ 3) = w0" "byte_of (n div 256 ^ 2) = w1" "byte_of (n div 256) = w2" "byte_of n = w3"
proof -
  have b: "0 \<le> uint w0" "uint w0 < 256" "0 \<le> uint w1" "uint w1 < 256" "0 \<le> uint w2" "uint w2 < 256" "0 \<le> uint w3" "uint w3 < 256"
    by (rule uint_byte_bounds)+
  then show "0 \<le> n" "n < 2 ^ 32" by (auto simp: assms from_bytes_big_4)
  have d1: "n div 256 = (uint w0 * 256 + uint w1) * 256 + uint w2"
    unfolding assms from_bytes_big_4 by (rule div_256_add)
  have "n div 256 ^ 2 = n div 256 div 256" using zdiv_zmult2_eq [of 256 n 256] by simp
  then have d2: "n div 256 ^ 2 = uint w0 * 256 + uint w1" unfolding d1 div_256_add .
  have "n div 256 ^ 3 = n div 256 ^ 2 div 256" using zdiv_zmult2_eq [of 256 n "256 ^ 2"] by simp
  then have d3: "n div 256 ^ 3 = uint w0" unfolding d2 div_256_add .
  show "byte_of (n div 256 ^ 3) = w0" "byte_of (n div 256 ^ 2) = w1" "byte_of (n div 256) = w2" "byte_of n = w3"
    unfolding d1 d2 d3 by (simp_all only: byte_of_add byte_of_uint) (simp only: assms from_bytes_big_4 byte_of_add)
qed

text \<open>The characters for five digits, and what they decode to.\<close>

definition chars_of :: "int list \<Rightarrow> string" where
  "chars_of ds = map (\<lambda>d. b85alphabet ! nat d) ds"

lemma decode_digits:
  assumes "v = (((d0 * 85 + d1) * 85 + d2) * 85 + d3) * 85 + d4" "v < 2 ^ 32"
    and "\<forall>d \<in> {d0, d1, d2, d3, d4}. 0 \<le> d \<and> d < (85 :: int)"
  shows "decode_chunk i (chars_of [d0, d1, d2, d3, d4]) =
           Inr [byte_of (v div 256 ^ 3), byte_of (v div 256 ^ 2), byte_of (v div 256), byte_of v]"
proof -
  have "set (chars_of [d0, d1, d2, d3, d4]) \<subseteq> set b85alphabet"
    using assms(3) by (auto simp: chars_of_def b85alphabet_facts nat_less_iff intro!: nth_mem)
  moreover have "b85_value (chars_of [d0, d1, d2, d3, d4]) = v"
    unfolding chars_of_def assms(1) by (rule b85_value_5) (use assms(3) in simp_all)
  ultimately show ?thesis
    using assms(2) by (simp add: decode_chunk_eq)
qed

lemma encode_word_digits:
  "encode_word w = (let n = from_bytes_big w in
     chars_of [n div 85 ^ 4 mod 85, n div 85 ^ 3 mod 85, n div 85 ^ 2 mod 85, n div 85 mod 85, n mod 85])"
  by (simp add: encode_word_def chars_of_def Let_def)

lemma digit_range: "0 \<le> n mod (85 :: int) \<and> n mod 85 < 85"
  by simp

lemma decode_encode_word: "decode_chunk i (encode_word [w0, w1, w2, w3]) = Inr [w0, w1, w2, w3]"
proof -
  define n where "n = from_bytes_big [w0, w1, w2, w3]"
  note w = word_bytes [OF n_def]
  have n5: "n < 85 ^ 5" using w(2) by simp
  show ?thesis
    unfolding encode_word_digits Let_def n_def [symmetric]
    by (subst decode_digits [OF digits_85 [OF w(1) n5, symmetric] w(2)])
      (simp_all only: w digit_range ball_simps simp_thms)
qed

lemma tilde_digit: "CHR ''~'' = b85alphabet ! nat 84"
  by code_simp

lemma decode_filled:
  assumes "n = from_bytes_big w" "n = q * 256 ^ p" "0 \<le> q" "q < 2 ^ (32 - 8 * p)" "p \<in> {1, 2, 3}"
  shows "\<exists>v. decode_chunk i (take (5 - p) (encode_word w) @ replicate p CHR ''~'') =
           Inr [byte_of (v div 256 ^ 3), byte_of (v div 256 ^ 2), byte_of (v div 256), byte_of v] \<and> v div 256 ^ p = q"
proof -
  define v where "v = n div 85 ^ p * 85 ^ p + (85 ^ p - 1)"
  have f: "v div 256 ^ p = q" "v < 2 ^ 32"
    by (rule fill_rounds [OF assms(3,4,5,2) v_def])+
  have n: "0 \<le> n" "n < 85 ^ 5"
  proof -
    have "q * 256 ^ p < 2 ^ (32 - 8 * p) * 256 ^ p" using assms(4) by simp
    also have "\<dots> = (2 :: int) ^ 32" using assms(5) by auto
    finally show "n < 85 ^ 5" by (simp add: assms(2))
  qed (simp add: assms(2,3))
  let ?d = "[n div 85 ^ 4 mod 85, n div 85 ^ 3 mod 85, n div 85 ^ 2 mod 85, n div 85 mod 85, n mod 85]"
  have e: "take (5 - p) (encode_word w) @ replicate p CHR ''~'' = chars_of (take (5 - p) ?d @ replicate p 84)"
    using tilde_digit by (simp add: encode_word_digits Let_def chars_of_def assms(1) flip: take_map)
  have "decode_chunk i (chars_of (take (5 - p) ?d @ replicate p 84)) =
      Inr [byte_of (v div 256 ^ 3), byte_of (v div 256 ^ 2), byte_of (v div 256), byte_of v]"
  proof -
    consider "p = 1" | "p = 2" | "p = 3" using assms(5) by auto
    then show ?thesis
    proof cases
      case 1
      then have v: "v = n div 85 * 85 + 84" by (simp add: v_def)
      have l: "take (5 - p) ?d @ replicate p 84 = [n div 85 ^ 4 mod 85, n div 85 ^ 3 mod 85, n div 85 ^ 2 mod 85, n div 85 mod 85, 84]"
        by (simp add: 1)
      show ?thesis unfolding l by (rule decode_digits [OF _ f(2)]) (simp_all only: v digits_85_prefix [OF n], simp)
    next
      case 2
      then have v: "v = n div 85 ^ 2 * 85 ^ 2 + 7224" by (simp add: v_def)
      have l: "take (5 - p) ?d @ replicate p 84 = [n div 85 ^ 4 mod 85, n div 85 ^ 3 mod 85, n div 85 ^ 2 mod 85, 84, 84]"
        by (simp add: 2 numeral_2_eq_2 replicate_Suc del: power_Suc)
      show ?thesis unfolding l by (rule decode_digits [OF _ f(2)]) (simp_all only: v digits_85_prefix [OF n], simp)
    next
      case 3
      then have v: "v = n div 85 ^ 3 * 85 ^ 3 + 614124" by (simp add: v_def)
      have l: "take (5 - p) ?d @ replicate p 84 = [n div 85 ^ 4 mod 85, n div 85 ^ 3 mod 85, 84, 84, 84]"
        by (simp add: 3 eval_nat_numeral)
      show ?thesis unfolding l by (rule decode_digits [OF _ f(2)]) (simp_all only: v digits_85_prefix [OF n], simp)
    qed
  qed
  with e f(1) show ?thesis by auto
qed

lemma length_encode_word [simp]: "length (encode_word w) = 5"
  by (simp add: encode_word_def Let_def)

lemma zero_fill_append: "4 dvd length a \<Longrightarrow> zero_fill (a @ b) = zero_fill b"
proof -
  assume "4 dvd length a"
  then obtain m where "length a = 4 * m" by (elim dvdE)
  then have "(- len (a @ b)) mod 4 = (- len b) mod 4"
    by (simp add: mod_eq_dvd_iff)
  then show ?thesis by (simp add: zero_fill_def)
qed

lemma zero_fill_small: "zero_fill [] = 0" "zero_fill [x] = 3" "zero_fill [x, y] = 2" "zero_fill [x, y, z] = 1"
  by (simp_all add: zero_fill_def)

lemma b85encode_word_append:
  assumes "length w = 4"
  shows "b85encode (w @ bs) = encode_word w @ b85encode bs"
proof -
  define f where "f = bs @ replicate (zero_fill bs) 0"
  have "blocks 4 (w @ f) = w # blocks 4 f" using assms by (simp add: blocks_Cons_block)
  moreover have "zero_fill bs \<le> length (concat (map encode_word (blocks 4 f)))"
  proof (cases "bs = []")
    case True
    then show ?thesis by (simp add: zero_fill_small)
  next
    case False
    then have "blocks 4 f = take 4 f # blocks 4 (drop 4 f)" by (simp add: blocks_unfold f_def)
    moreover have "zero_fill bs < 4" by (simp add: zero_fill_def nat_less_iff)
    ultimately show ?thesis by simp
  qed
  ultimately show ?thesis
    using assms zero_fill_append [of w bs] by (simp add: b85encode_def Let_def flip: f_def)
qed

lemma small_cases:
  assumes "length t < 4"
  obtains "t = []" | x where "t = [x]" | x y where "t = [x, y]" | x y z where "t = [x, y, z]"
  using assms by (auto simp: numeral_eq_Suc less_Suc_eq length_Suc_conv)

lemma b85encode_small:
  assumes "length (t @ replicate (zero_fill t) 0) = 4"
  shows "b85encode t = take (5 - zero_fill t) (encode_word (t @ replicate (zero_fill t) 0))"
proof -
  have "blocks 4 (t @ replicate (zero_fill t) 0) = [t @ replicate (zero_fill t) 0]"
    using assms blocks_Cons_block [of "t @ replicate (zero_fill t) 0" 4 "[]"] by simp
  then show ?thesis by (simp add: b85encode_def Let_def)
qed

lemma b85decode_partial:
  assumes "p \<in> {1, 2, 3}" "decode_chunk 0 (take (5 - p) (encode_word w) @ replicate p CHR ''~'') = Inr r"
  shows "b85decode (take (5 - p) (encode_word w)) = Inr (take (length r - p) r)"
proof -
  let ?k = "take (5 - p) (encode_word w)"
  have l: "length ?k = 5 - p" by simp
  then have p: "padding ?k = p" using assms(1) by (auto simp: padding_def)
  then have "blocks 5 (padded ?k) = [padded ?k]"
    using blocks_Cons_block [of "padded ?k" 5 "[]"] assms(1) l by (auto simp: padded_def)
  then show ?thesis
    using assms p by (auto simp: b85decode_blocks padded_def)
qed

lemma div_256_cube: "v div 256 ^ 3 = v div 256 ^ 2 div (256 :: int)" "v div 256 ^ 2 = v div 256 div (256 :: int)"
  using zdiv_zmult2_eq [of 256 v 256] zdiv_zmult2_eq [of 256 v "256 ^ 2"] by simp_all

lemma b85decode_encode_small:
  assumes "length t < 4"
  shows "b85decode (b85encode t) = Inr t"
  using assms
proof (cases rule: small_cases)
  case 1
  then show ?thesis by (simp add: b85encode_def zero_fill_small b85decode_Nil)
next
  case (2 x)
  obtain v where v: "decode_chunk 0 (take (5 - 3) (encode_word [x, 0, 0, 0]) @ replicate 3 CHR ''~'') =
      Inr [byte_of (v div 256 ^ 3), byte_of (v div 256 ^ 2), byte_of (v div 256), byte_of v]" "v div 256 ^ 3 = uint x"
    using decode_filled [OF refl, of "[x, 0, 0, 0]" "uint x" 3 0] uint_byte_bounds [of x]
    by (auto simp: from_bytes_big_4)
  have "b85encode [x] = take (5 - 3) (encode_word [x, 0, 0, 0])"
    using b85encode_small [of "[x]"] by (simp add: zero_fill_small numeral_3_eq_3)
  then show ?thesis using b85decode_partial [OF _ v(1)] v(2) by (simp add: 2)
next
  case (3 x y)
  obtain v where v: "decode_chunk 0 (take (5 - 2) (encode_word [x, y, 0, 0]) @ replicate 2 CHR ''~'') =
      Inr [byte_of (v div 256 ^ 3), byte_of (v div 256 ^ 2), byte_of (v div 256), byte_of v]" "v div 256 ^ 2 = uint x * 256 + uint y"
    using decode_filled [OF refl, of "[x, y, 0, 0]" "uint x * 256 + uint y" 2 0] uint_byte_bounds [of x] uint_byte_bounds [of y]
    by (auto simp: from_bytes_big_4)
  have "b85encode [x, y] = take (5 - 2) (encode_word [x, y, 0, 0])"
    using b85encode_small [of "[x, y]"] by (simp add: zero_fill_small numeral_2_eq_2)
  moreover have "v div 256 ^ 3 = uint x" unfolding div_256_cube(1) v(2) by (rule div_256_add)
  ultimately show ?thesis using b85decode_partial [OF _ v(1)] v(2) by (simp add: 3 byte_of_add numeral_2_eq_2)
next
  case (4 x y z)
  obtain v where v: "decode_chunk 0 (take (5 - 1) (encode_word [x, y, z, 0]) @ replicate 1 CHR ''~'') =
      Inr [byte_of (v div 256 ^ 3), byte_of (v div 256 ^ 2), byte_of (v div 256), byte_of v]"
      "v div 256 ^ 1 = (uint x * 256 + uint y) * 256 + uint z"
    using decode_filled [OF refl, of "[x, y, z, 0]" "(uint x * 256 + uint y) * 256 + uint z" 1 0]
      uint_byte_bounds [of x] uint_byte_bounds [of y] uint_byte_bounds [of z]
    by (auto simp: from_bytes_big_4)
  have e: "b85encode [x, y, z] = take (5 - 1) (encode_word [x, y, z, 0])"
    using b85encode_small [of "[x, y, z]"] by (simp add: zero_fill_small)
  have d2: "v div 256 ^ 2 = uint x * 256 + uint y" unfolding div_256_cube(2) v(2) [unfolded power_one_right] by (rule div_256_add)
  have d3: "v div 256 ^ 3 = uint x" unfolding div_256_cube(1) d2 by (rule div_256_add)
  have "[byte_of (v div 256 ^ 3), byte_of (v div 256 ^ 2), byte_of (v div 256 ^ 1)] = [x, y, z]"
    unfolding d2 d3 v(2) by (simp only: byte_of_add byte_of_uint)
  then show ?thesis unfolding 4 e using b85decode_partial [OF _ v(1)] by simp
qed

text \<open>
  C2: round trip. Whatever bytes are encoded in base 85, of any length, the decoder returns them.
\<close>

theorem b85decode_encode: "b85decode (b85encode bs) = Inr bs"
proof (induction "length bs" arbitrary: bs rule: less_induct)
  case less
  show ?case
  proof (cases "length bs < 4")
    case False
    define w where "w = take 4 bs"
    have w: "length w = 4" "bs = w @ drop 4 bs" using False by (simp_all add: w_def)
    then obtain w0 w1 w2 w3 where "w = [w0, w1, w2, w3]" by (auto simp: numeral_eq_Suc length_Suc_conv)
    then have "b85decode (encode_word w) = Inr w"
      using b85decode_chunk decode_encode_word by simp
    moreover have "b85decode (b85encode (drop 4 bs)) = Inr (drop 4 bs)" using less False by simp
    ultimately have "b85decode (b85encode (w @ drop 4 bs)) = Inr (w @ drop 4 bs)"
      using w(1) by (simp add: b85encode_word_append b85decode_append_ok del: append_take_drop_id)
    then show ?thesis using w(2) by simp
  qed (rule b85decode_encode_small)
qed

end
