(* ===== verification/Pip_Bootstrap.thy ===== *)
theory Pip_Bootstrap
  imports Base85
begin

text \<open>
  \<^verbatim>\<open>bootstrap\<close> and \<^verbatim>\<open>main\<close> of \<^verbatim>\<open>get-pip.py\<close>. What they ask of the operating system and of pip is a
  record of answers, so that every failure is a value of it; what they do is the list of their
  operations with the way they end, by an exception or with a result.
\<close>

section \<open>The code\<close>

datatype stop = SystemExit int | Raised py_error | Decoding b85_error

datatype sysop =
    Made string
  | Opened string
  | Wrote string bytes
  | Path_inserted string
  | Pip_main "string list" "string option"
  | Removed string

type_synonym 'a io = "sysop list \<times> (stop + 'a)"

record host =
  argv :: "string list"
  environ :: "string \<rightharpoonup> string"
  has_pip :: bool
  has_setuptools :: bool
  has_wheel :: bool
  default_cert :: "string option"
  mkdtemp :: "string res"
  open_wb :: "string \<Rightarrow> py_error option"
  write_file :: "string \<Rightarrow> bytes \<Rightarrow> py_error option"
  get_data :: "bytes res"
  pip_main :: "string list \<Rightarrow> stop + int"

definition ret :: "'a \<Rightarrow> 'a io" where
  "ret x = ([], Inr x)"

definition stop_with :: "stop \<Rightarrow> 'a io" where
  "stop_with e = ([], Inl e)"

definition seq_io :: "'a io \<Rightarrow> ('a \<Rightarrow> 'b io) \<Rightarrow> 'b io" where
  "seq_io m f = (case m of (t, Inl e) \<Rightarrow> (t, Inl e) | (t, Inr x) \<Rightarrow> (let (t', r) = f x in (t @ t', r)))"

definition with_cleanup :: "'a io \<Rightarrow> sysop list \<Rightarrow> 'a io" where
  "with_cleanup m t' = (case m of (t, r) \<Rightarrow> (t @ t', r))"

definition attempt :: "sysop \<Rightarrow> py_error option \<Rightarrow> unit io" where
  "attempt op failure = (case failure of None \<Rightarrow> ([op], Inr ()) | Some e \<Rightarrow> ([], Inl (Raised e)))"

definition path_join :: "string \<Rightarrow> string \<Rightarrow> string" where
  "path_join a b = (if a = [] \<or> last a = CHR ''/'' then a @ b else a @ CHR ''/'' # b)"

text \<open>
  The certificate that \<^verbatim>\<open>CertInstallCommand\<close> gives pip, which runs it as its install command: the one
  from pip's own configuration, else the extracted one.
\<close>

definition parse_args_cert :: "string option \<Rightarrow> string \<Rightarrow> string option" where
  "parse_args_cert cert cert_path = (case cert of Some (c # cs) \<Rightarrow> cert | _ \<Rightarrow> Some cert_path)"

text \<open>\<^verbatim>\<open>os.environ.get(name)\<close> as a condition.\<close>

definition env_set :: "host \<Rightarrow> string \<Rightarrow> bool" where
  "env_set h name = (case environ h name of None \<Rightarrow> False | Some v \<Rightarrow> v \<noteq> [])"

definition choose_packages :: "host \<Rightarrow> string list \<times> string list" where
  "choose_packages h =
     (let packages = [''pip''];
          (packages, args) =
            (if ''--no-setuptools'' \<in> set (argv h) \<or> env_set h ''PIP_NO_SETUPTOOLS''
             then (packages, [x \<leftarrow> py_slice (argv h) (Some 1) None. x \<noteq> ''--no-setuptools''])
             else (packages @ (if has_setuptools h then [] else [''setuptools'']), py_slice (argv h) (Some 1) None));
          args =
            (if ''--no-wheel'' \<in> set args \<or> env_set h ''PIP_NO_WHEEL''
             then [x \<leftarrow> args. x \<noteq> ''--no-wheel'']
             else args @ (if has_wheel h then [] else [''wheel'']))
      in (packages, args))"

definition bootstrap :: "host \<Rightarrow> string option \<Rightarrow> unit io" where
  "bootstrap h tmpdir0 =
     (if \<not> has_pip h then stop_with (Raised OtherException) else
      let (packages, args) = choose_packages h;
          work = (\<lambda>tmpdir.
            let cert_path = path_join tmpdir ''cacert.pem'' in
            seq_io (attempt (Opened cert_path) (open_wb h cert_path)) (\<lambda>_.
            seq_io (case get_data h of Inl e \<Rightarrow> stop_with (Raised e) | Inr bs \<Rightarrow> ret bs) (\<lambda>bs.
            seq_io (attempt (Wrote cert_path bs) (write_file h cert_path bs)) (\<lambda>_.
            let a = [''install'', ''--upgrade''] @ packages @ args in
            seq_io ([Pip_main a (parse_args_cert (default_cert h) cert_path)], pip_main h a) (\<lambda>code. stop_with (SystemExit code))))))
      in case tmpdir0 of
           Some d \<Rightarrow> work d
         | None \<Rightarrow> (case mkdtemp h of
               Inl e \<Rightarrow> stop_with (Raised e)
             | Inr d \<Rightarrow> with_cleanup (seq_io ([Made d], Inr ()) (\<lambda>_. work d)) (if d \<noteq> [] then [Removed d] else [])))"

definition main :: "host \<Rightarrow> string \<Rightarrow> unit io" where
  "main h DATA =
     (case mkdtemp h of
        Inl e \<Rightarrow> stop_with (Raised e)
      | Inr tmpdir \<Rightarrow>
          with_cleanup
            (seq_io ([Made tmpdir], Inr ()) (\<lambda>_.
             let pip_zip = path_join tmpdir ''pip.zip'' in
             seq_io (attempt (Opened pip_zip) (open_wb h pip_zip)) (\<lambda>_.
             seq_io (case b85decode [c \<leftarrow> DATA. c \<noteq> CHR 0x0A] of Inl e \<Rightarrow> stop_with (Decoding e) | Inr bs \<Rightarrow> ret bs) (\<lambda>bs.
             seq_io (attempt (Wrote pip_zip bs) (write_file h pip_zip bs)) (\<lambda>_.
             seq_io ([Path_inserted pip_zip], Inr ()) (\<lambda>_.
             bootstrap h (Some tmpdir)))))))
            (if tmpdir \<noteq> [] then [Removed tmpdir] else []))"

section \<open>The arguments of pip\<close>

lemma set_argv_tl: "set (py_slice (argv h) (Some 1) None) \<subseteq> set (argv h)"
  by (simp add: slice_simps set_drop_subset)

text \<open>
  C36: what is installed. Pip always is; setuptools is added exactly when it is neither declined
  on the command line or in the environment nor present; wheel likewise. The two options of the
  installer are not passed on, and every other argument is, in order.
\<close>

theorem choose_packages_spec:
  "choose_packages h =
     (let no_setuptools = ''--no-setuptools'' \<in> set (argv h) \<or> env_set h ''PIP_NO_SETUPTOOLS'';
          no_wheel = ''--no-wheel'' \<in> set (drop 1 (argv h)) \<or> env_set h ''PIP_NO_WHEEL''
      in ([''pip''] @ (if no_setuptools \<or> has_setuptools h then [] else [''setuptools'']),
          [x \<leftarrow> drop 1 (argv h). x \<noteq> ''--no-setuptools'' \<and> x \<noteq> ''--no-wheel''] @
          (if no_wheel \<or> has_wheel h then [] else [''wheel''])))"
proof -
  have "''--no-setuptools'' \<notin> set (argv h) \<Longrightarrow> [x \<leftarrow> drop 1 (argv h). x \<noteq> ''--no-setuptools'' \<and> P x] = [x \<leftarrow> drop 1 (argv h). P x]" for P
    by (rule filter_cong) (auto dest: in_set_dropD)
  moreover have "''--no-wheel'' \<notin> set xs \<Longrightarrow> [x \<leftarrow> xs. P x \<and> x \<noteq> ''--no-wheel''] = filter P xs" for P :: "string \<Rightarrow> bool" and xs
    by (rule filter_cong) auto
  moreover have "''--no-wheel'' \<notin> set xs \<Longrightarrow> [x \<leftarrow> xs. x \<noteq> ''--no-wheel''] = xs" for xs :: "string list"
    by (simp add: filter_id_conv) auto
  ultimately show ?thesis
    by (simp add: choose_packages_def slice_simps Let_def)
qed


section \<open>Effects\<close>

lemma seq_io_simps [simp]:
  "seq_io (t, Inl e) f = (t, Inl e)"
  "seq_io (t, Inr x) f = (t @ fst (f x), snd (f x))"
  by (simp_all add: seq_io_def split: prod.splits)

lemma run_pip [simp]:
  "seq_io ([op], r) (\<lambda>code. ([], Inl (SystemExit code))) =
     ([op], Inl (case r of Inl e \<Rightarrow> e | Inr code \<Rightarrow> SystemExit code))"
  by (cases r) simp_all

lemmas io_defs = ret_def stop_with_def with_cleanup_def attempt_def

text \<open>An operation that neither creates nor removes a directory.\<close>

fun keeps_dirs :: "sysop \<Rightarrow> bool" where
  "keeps_dirs (Made d) = False"
| "keeps_dirs (Removed d) = False"
| "keeps_dirs _ = True"

lemma bootstrap_given_dir:
  "\<exists>ops e. bootstrap h (Some d) = (ops, Inl e) \<and> list_all keeps_dirs ops"
  by (auto simp: bootstrap_def io_defs Let_def split: option.splits sum.splits prod.splits)

text \<open>
  C17: the installer never returns normally and cleans up after itself. It ends with an exception,
  the SystemExit of pip included, and if the temporary directory was created the run starts with that
  and ends with its removal, and no other directory is created or removed in between.
\<close>

theorem main_cleans_up:
  assumes "mkdtemp h = Inr d" "d \<noteq> []"
  shows "\<exists>ops e. main h DATA = (Made d # ops @ [Removed d], Inl e) \<and> list_all keeps_dirs ops"
  using assms bootstrap_given_dir [of h d]
  by (auto simp: main_def io_defs Let_def split: option.splits sum.splits)

text \<open>
  C35: pip only runs on the archive. If pip is started at all, the data decoded without an error, its bytes
  have been written to the archive inside the temporary directory, and the archive was put on the
  module path, in this order and before; pip gets the chosen arguments, and the extracted certificates
  unless its configuration names others.
\<close>

theorem pip_runs_after_unpacking:
  assumes "mkdtemp h = Inr d" "Pip_main a cert \<in> set (fst (main h DATA))"
  shows "\<exists>bs ops. b85decode [c \<leftarrow> DATA. c \<noteq> CHR 0x0A] = Inr bs \<and>
     fst (main h DATA) = [Made d, Opened (path_join d ''pip.zip''), Wrote (path_join d ''pip.zip'') bs,
       Path_inserted (path_join d ''pip.zip'')] @ ops \<and>
     a = [''install'', ''--upgrade''] @ fst (choose_packages h) @ snd (choose_packages h) \<and>
     cert = parse_args_cert (default_cert h) (path_join d ''cacert.pem'') \<and> Pip_main a cert \<in> set ops"
proof -
  have "Pip_main a cert \<in> set (fst (bootstrap h (Some d))) \<Longrightarrow>
      a = [''install'', ''--upgrade''] @ fst (choose_packages h) @ snd (choose_packages h) \<and>
      cert = parse_args_cert (default_cert h) (path_join d ''cacert.pem'')"
    by (auto simp: bootstrap_def io_defs Let_def split: option.splits sum.splits prod.splits if_splits)
  with assms show ?thesis
    by (auto simp: main_def io_defs Let_def split: option.splits sum.splits if_splits)
qed

text \<open>
  C37: the successful run, step by step: on a host where nothing fails the installer unpacks the
  archive and the certificates, runs pip once with the chosen arguments, removes the directory
  and exits with the code of pip.
\<close>

theorem main_installs:
  assumes "mkdtemp h = Inr d" "d \<noteq> []" "has_pip h" "\<forall>p. open_wb h p = None" "\<forall>p b. write_file h p b = None"
    and "get_data h = Inr cert" "b85decode [c \<leftarrow> DATA. c \<noteq> CHR 0x0A] = Inr content"
    and "pip_main h ([''install'', ''--upgrade''] @ fst (choose_packages h) @ snd (choose_packages h)) = Inr code"
  shows "main h DATA =
    ([Made d, Opened (path_join d ''pip.zip''), Wrote (path_join d ''pip.zip'') content, Path_inserted (path_join d ''pip.zip''),
      Opened (path_join d ''cacert.pem''), Wrote (path_join d ''cacert.pem'') cert,
      Pip_main ([''install'', ''--upgrade''] @ fst (choose_packages h) @ snd (choose_packages h))
        (parse_args_cert (default_cert h) (path_join d ''cacert.pem'')), Removed d],
     Inl (SystemExit code))"
  using assms by (cases "choose_packages h") (simp add: main_def bootstrap_def io_defs Let_def)

text \<open>
  a bootstrap that has to create its own directory removes it on every path, and one that was
  given a directory leaves it alone.
\<close>

theorem bootstrap_owns_its_directory:
  assumes "mkdtemp h = Inr d" "d \<noteq> []" "has_pip h"
  shows "(\<exists>ops e. bootstrap h None = (Made d # ops @ [Removed d], Inl e) \<and> list_all keeps_dirs ops) \<and>
         (\<exists>ops e. bootstrap h (Some d') = (ops, Inl e) \<and> list_all keeps_dirs ops)"
proof
  show "\<exists>ops e. bootstrap h None = (Made d # ops @ [Removed d], Inl e) \<and> list_all keeps_dirs ops"
    using assms by (auto simp: bootstrap_def io_defs Let_def split: option.splits sum.splits prod.splits)
qed (rule bootstrap_given_dir)


section \<open>Instances\<close>

definition sample_host :: host where
  "sample_host = \<lparr>argv = [''get-pip.py'', ''--no-wheel'', ''--user''], environ = Map.empty, has_pip = True,
     has_setuptools = False, has_wheel = False, default_cert = Some [], mkdtemp = Inr ''/tmp/x'', open_wb = (\<lambda>_. None),
     write_file = (\<lambda>_ _. None), get_data = Inr [1, 2], pip_main = (\<lambda>_. Inr 0)\<rparr>"

definition sample_args :: "string list" where
  "sample_args = [''install'', ''--upgrade'', ''pip'', ''setuptools'', ''--user'']"

lemma sample_packages: "choose_packages sample_host = ([''pip'', ''setuptools''], [''--user''])"
  by (simp add: choose_packages_def sample_host_def env_set_def slice_simps)

lemma sample_cert: "default_cert sample_host = Some []"
  by (simp add: sample_host_def)

lemma sample_data: "b85decode (b85encode [80, 75]) = Inr [80, 75]" "[c \<leftarrow> b85encode [80, 75]. c \<noteq> CHR 0x0A] = b85encode [80, 75]"
  by (rule b85decode_encode_small, simp) code_simp

theorem main_cleans_up_witness:
  "\<exists>ops e. main sample_host ''0'' = (Made ''/tmp/x'' # ops @ [Removed ''/tmp/x''], Inl e) \<and> list_all keeps_dirs ops"
  by (rule main_cleans_up) (simp_all add: sample_host_def)

theorem main_installs_witness:
  "main sample_host (b85encode [80, 75]) =
    ([Made ''/tmp/x'', Opened ''/tmp/x/pip.zip'', Wrote ''/tmp/x/pip.zip'' [80, 75], Path_inserted ''/tmp/x/pip.zip'',
      Opened ''/tmp/x/cacert.pem'', Wrote ''/tmp/x/cacert.pem'' [1, 2], Pip_main sample_args (Some ''/tmp/x/cacert.pem''), Removed ''/tmp/x''],
     Inl (SystemExit 0))"
proof -
  have "mkdtemp sample_host = Inr ''/tmp/x''" "''/tmp/x'' \<noteq> []" "has_pip sample_host" "\<forall>p. open_wb sample_host p = None"
      "\<forall>p b. write_file sample_host p b = None" "get_data sample_host = Inr [1, 2]"
      "b85decode [c \<leftarrow> b85encode [80, 75]. c \<noteq> CHR 0x0A] = Inr [80, 75]"
      "pip_main sample_host ([''install'', ''--upgrade''] @ fst (choose_packages sample_host) @ snd (choose_packages sample_host)) = Inr 0"
    unfolding sample_data by (simp_all add: sample_host_def)
  from main_installs [OF this] show ?thesis
    by (simp add: sample_packages sample_args_def path_join_def parse_args_cert_def sample_cert)
qed

theorem pip_runs_after_unpacking_witness:
  "\<exists>bs ops. b85decode [c \<leftarrow> b85encode [80, 75]. c \<noteq> CHR 0x0A] = Inr bs \<and>
     fst (main sample_host (b85encode [80, 75])) = [Made ''/tmp/x'', Opened (path_join ''/tmp/x'' ''pip.zip''),
       Wrote (path_join ''/tmp/x'' ''pip.zip'') bs, Path_inserted (path_join ''/tmp/x'' ''pip.zip'')] @ ops \<and>
     sample_args = [''install'', ''--upgrade''] @ fst (choose_packages sample_host) @ snd (choose_packages sample_host) \<and>
     Some ''/tmp/x/cacert.pem'' = parse_args_cert (default_cert sample_host) (path_join ''/tmp/x'' ''cacert.pem'') \<and>
     Pip_main sample_args (Some ''/tmp/x/cacert.pem'') \<in> set ops"
proof (rule pip_runs_after_unpacking)
  show "mkdtemp sample_host = Inr ''/tmp/x''" by (simp add: sample_host_def)
  have "pip_main sample_host = (\<lambda>_. Inr 0)" by (simp add: sample_host_def)
  then show "Pip_main sample_args (Some ''/tmp/x/cacert.pem'') \<in> set (fst (main sample_host (b85encode [80, 75])))"
    unfolding main_def bootstrap_def sample_packages sample_data
    by (simp add: sample_host_def io_defs Let_def sample_args_def parse_args_cert_def path_join_def)
qed

theorem bootstrap_owns_its_directory_witness:
  "(\<exists>ops e. bootstrap sample_host None = (Made ''/tmp/x'' # ops @ [Removed ''/tmp/x''], Inl e) \<and> list_all keeps_dirs ops) \<and>
   (\<exists>ops e. bootstrap sample_host (Some ''/tmp/y'') = (ops, Inl e) \<and> list_all keeps_dirs ops)"
  by (rule bootstrap_owns_its_directory) (simp_all add: sample_host_def)

end
