(* ===== verification/Pip_Scan.thy ===== *)
theory Pip_Scan
  imports Get_Pip
begin

text \<open>
  A scanner that shows base-85 text to be decodable without computing its bytes: it reads the
  lines character by character and compares each chunk with the largest one that fits 32 bits,
  whose digits are 82, 23, 54, 12, 0. State \<open>T\<close> with a number says that the chunk agrees with that
  one so far, state \<open>N\<close> that it is already below it.
\<close>

datatype scan_state = T0 | T1 | T2 | T3 | T4 | N1 | N2 | N3 | N4

definition below :: "int \<Rightarrow> char \<Rightarrow> bool" where
  "below k c = (case b85_digit c of None \<Rightarrow> False | Some d \<Rightarrow> d < k)"

fun scan :: "scan_state \<Rightarrow> string \<Rightarrow> scan_state option" where
  "scan s [] = Some s"
| "scan T0 (c # cs) = (if below 82 c then scan N1 cs else if c = CHR ''|'' then scan T1 cs else None)"
| "scan T1 (c # cs) = (if below 23 c then scan N2 cs else if c = CHR ''N'' then scan T2 cs else None)"
| "scan T2 (c # cs) = (if below 54 c then scan N3 cs else if c = CHR ''s'' then scan T3 cs else None)"
| "scan T3 (c # cs) = (if below 12 c then scan N4 cs else if c = CHR ''C'' then scan T4 cs else None)"
| "scan T4 (c # cs) = (if c = CHR ''0'' then scan T0 cs else None)"
| "scan N1 (c # cs) = (if below 85 c then scan N2 cs else None)"
| "scan N2 (c # cs) = (if below 85 c then scan N3 cs else None)"
| "scan N3 (c # cs) = (if below 85 c then scan N4 cs else None)"
| "scan N4 (c # cs) = (if below 85 c then scan T0 cs else None)"

fun scan_lines :: "scan_state option \<Rightarrow> string list \<Rightarrow> scan_state option" where
  "scan_lines s [] = s"
| "scan_lines None (l # ls) = None"
| "scan_lines (Some s) (l # ls) = scan_lines (scan s l) ls"

lemma scan_append: "scan s (a @ b) = (case scan s a of None \<Rightarrow> None | Some s' \<Rightarrow> scan s' b)"
  by (induction s a rule: scan.induct) auto

lemma scan_lines_None: "scan_lines None ls = None"
  by (cases ls) auto

lemma scan_lines_concat: "scan_lines (Some s) ls = scan s (concat ls)"
proof (induction ls arbitrary: s)
  case (Cons l ls)
  then show ?case by (cases "scan s l") (auto simp: scan_append scan_lines_None)
qed simp


section \<open>Correctness of the scanner\<close>

lemma below_digit:
  assumes "below k c"
  obtains d where "b85_digit c = Some d" "0 \<le> d" "d < k" "d < 85" "c \<in> set b85alphabet"
proof -
  obtain d where d: "b85_digit c = Some d" "d < k" using assms by (auto simp: below_def split: option.splits)
  then have "c \<in> set b85alphabet" using b85_digit_None [of c] by auto
  with d that b85_digit_Some show thesis by blast
qed

lemma largest_digits:
  "b85_digit CHR ''|'' = Some 82" "b85_digit CHR ''N'' = Some 23" "b85_digit CHR ''s'' = Some 54"
  "b85_digit CHR ''C'' = Some 12" "b85_digit CHR ''0'' = Some 0"
  using b85_digit_nth [of 82] b85_digit_nth [of 23] b85_digit_nth [of 54] b85_digit_nth [of 12] b85_digit_nth [of 0]
  by (simp_all add: b85alphabet_def)

lemma good_digits:
  assumes "b85_digit c0 = Some d0" "b85_digit c1 = Some d1" "b85_digit c2 = Some d2" "b85_digit c3 = Some d3"
    "b85_digit c4 = Some d4" "(((d0 * 85 + d1) * 85 + d2) * 85 + d3) * 85 + d4 < 2 ^ 32"
  shows "good_chunk [c0, c1, c2, c3, c4]"
proof -
  have "c \<in> set b85alphabet" if "b85_digit c = Some d" for c d
    using that b85_digit_None [of c] by auto
  then show ?thesis using assms by (simp add: good_chunk_def b85_value_def)
qed

lemma scan_chunk:
  assumes "scan T0 (c0 # c1 # c2 # c3 # c4 # cs) = Some T0"
  shows "good_chunk [c0, c1, c2, c3, c4] \<and> scan T0 cs = Some T0"
proof -
  have r: "scan T0 cs = Some T0" using assms by (simp split: if_splits)
  have "\<exists>d0 d1 d2 d3 d4. b85_digit c0 = Some d0 \<and> b85_digit c1 = Some d1 \<and> b85_digit c2 = Some d2 \<and>
      b85_digit c3 = Some d3 \<and> b85_digit c4 = Some d4 \<and>
      (((d0 * 85 + d1) * 85 + d2) * 85 + d3) * 85 + d4 < 2 ^ 32"
    using assms by (auto split: if_splits elim!: below_digit simp: largest_digits)
  then show ?thesis using r good_digits by blast
qed

lemma scan_short:
  assumes "scan T0 s = Some T0" "s \<noteq> []"
  obtains c0 c1 c2 c3 c4 cs where "s = c0 # c1 # c2 # c3 # c4 # cs"
proof -
  have "\<not> length s < 5"
    using assms by (auto simp: numeral_eq_Suc less_Suc_eq length_Suc_conv split: if_splits)
  then show thesis using that by (auto simp: numeral_eq_Suc not_less Suc_le_length_iff)
qed

lemma scan_good: "scan T0 s = Some T0 \<Longrightarrow> list_all good_chunk (blocks 5 s) \<and> 5 dvd length s"
proof (induction "length s" arbitrary: s rule: less_induct)
  case less
  show ?case
  proof (cases "s = []")
    case False
    then obtain c0 c1 c2 c3 c4 cs where s: "s = [c0, c1, c2, c3, c4] @ cs"
      using less.prems scan_short by (metis append_Cons append_Nil)
    have "good_chunk [c0, c1, c2, c3, c4]" "scan T0 cs = Some T0"
      using less.prems scan_chunk by (auto simp only: s append_Cons append_Nil)
    moreover have "blocks 5 s = [c0, c1, c2, c3, c4] # blocks 5 cs"
      unfolding s by (rule blocks_Cons_block) simp_all
    ultimately show ?thesis using less.hyps [of cs] by (auto simp: s) presburger
  qed simp
qed

text \<open>Lines the scanner accepts decode to four bytes for five characters.\<close>

lemma scanned_lines_decode:
  assumes "scan_lines (Some T0) ls = Some T0"
  shows "\<exists>r. b85decode (concat ls) = Inr r \<and> 5 * length r = 4 * length (concat ls)" "5 dvd length (concat ls)"
proof -
  have s: "list_all good_chunk (blocks 5 (concat ls))" "5 dvd length (concat ls)"
    using assms scan_good by (simp_all add: scan_lines_concat)
  then obtain r where r: "decode_blocks 0 (blocks 5 (concat ls)) = Inr r"
    using decode_blocks_ok_iff [of 0] by blast
  have p: "padding (concat ls) = 0" "padded (concat ls) = concat ls"
    using padding_0 [OF s(2)] by (simp_all add: padded_def)
  have "5 * length r = 4 * length (concat ls)"
    using decode_blocks_length [OF r] length_blocks_padded [of "concat ls"] p by simp
  then show "\<exists>r. b85decode (concat ls) = Inr r \<and> 5 * length r = 4 * length (concat ls)"
    using r p by (simp add: b85decode_blocks)
  show "5 dvd length (concat ls)" by (rule s(2))
qed


section \<open>Facts to run the scanner with\<close>

lemma below_alphabet: "k \<le> 85 \<Longrightarrow> list_all (below (int k)) (take k b85alphabet) \<and> list_all (\<lambda>c. \<not> below (int k) c) (drop k b85alphabet)"
proof -
  assume k: "k \<le> 85"
  have "below (int k) (b85alphabet ! j) \<longleftrightarrow> j < k" if "j < 85" for j
    using that by (simp add: below_def b85_digit_nth)
  then show ?thesis using k by (auto simp: list_all_length b85alphabet_facts)
qed

lemmas below_rules =
  below_alphabet [of 82, simplified b85alphabet_def, simplified]
  below_alphabet [of 85, simplified b85alphabet_def, simplified]
  below_alphabet [of 23, simplified b85alphabet_def, simplified]
  below_alphabet [of 54, simplified b85alphabet_def, simplified]
  below_alphabet [of 12, simplified b85alphabet_def, simplified]

lemma scan_lines_cong: "s = s' \<Longrightarrow> scan_lines s ls = scan_lines s' ls"
  by simp

lemmas scan_rules = scan.simps scan_lines.simps append_Cons append_Nil below_rules if_True if_False simp_thms

end
