(* ===== verification/Pip_Data_1.thy ===== *)
theory Pip_Data_1
  imports Pip_Scan
begin

text \<open>
  Lines 170 to 769 of \<^verbatim>\<open>get-pip.py\<close>: part of the literal \<^verbatim>\<open>DATA\<close>, line by line, with the proof
  that the scanner accepts it.
\<close>

definition DATA_0 :: "string list" where
  "DATA_0 = [
   ''P)h>@6aWAK2mtey7Dt5400EW_006Ei000jF003}la4%n9X>MtBUtcb8d7WBuZ`-yK|KFd2brwikWo_B'',
   '';u!rn<*pQ}JfvyeG_Vod&A;=bObCD&Dl#;mHzWcj7k|JfvSvC!;CGmK7Jl_3ycgo4LuUaL)T8i>3Uf!'',
   ''{K-)yULvX<43rRlnDTFKLtiCtaEhGk1t6>Y;){XChN_eHhYh;m~eE7jfAO`S=_?el#mOCVI;OttT5C7'',
   '')=ywWt&Ru;O(is#00muS(TqMUmmlODQWEvx{oC%gWq5U5T3R9Fw*YMK^!Ln^b5XJWq3>8Yz}7iHK>im'',
   ''euCS+?>~vuSm3`xLY~iqKVm#%T+5yR>VxT%R4R=kjHG9ea<q;*a<7E-!eCSnJG@Tk(SFvRj$S6EiL<s'',
   ''Mq>7%&OvOsdBN9NTQurtUeqruxyzb{dn;XOOY|12T6iY~H_KCECyGp_mh|{!`wT`}HI6L3<7HmSMDpK'',
   ''St{Rop+3GgiaFw*OD8%yHkxdIH3@+F@4yNJPdge#%1o0%AOeQBRQ%Y>g9WNWUt|VI**)9J!Ybv(nY@5'',
   ''~f9*N#>g<@;*z!l3_4crO=YisuGe#=WE4S2FUk%8apXYkt@aA)_NW#C*VOq8O5{SgW&n=Qv>v0at71&'',
   ''`U(F0?blF0b@zrVNBjT!IpJ$Ox>%Kr;@T1iRXxviFs|W#B?Jm&G0=0sjo#TQn`XO=7*A4Bl~`xLY<q9'',
   ''HV7(W;_X3(kh;7-kd4kv~^PNNf~^RSKyE<@F93PNmDZoj4)@@?~=3Rn<<zZBNaSuZbLQ!*LY3u!Za<j'',
   ''9Rz!Xf`1k{C$5Kk_Y>_MBV(C;pV+8Q)}jEnw2$Ew_O+6H8Z(F;zNzGXKJE(W2svM~tZgdrzPjKI52JH'',
   ''(p6PUI;+$5hjl&ET-lEf>rn?L*V}?y&g>Ht5h#S5Tjlu}++`dPZOo;BX%$5ab%RN(7D_6MWs^qL%lPF'',
   ''KR+VY}cY9&PtY(t3ZEdzx<t1YlH`qS?Tdr_4^W9M=v*0`S%d|cssk^|d|98!OIqTrenObD)CU8O&Lc>'',
   ''gxNc>BxM>&y3-0XZP9TqOYDLRO`=8(tE8M3(fp0td~}$sFBHfK1YlZ?9jx3l@p03(<tp&Dr_F&43A_Y'',
   ''{J2$3!D`!v{4(mcQRpjCC2jHh`iB!X6#I})gS?WmGcL}>#?apptr%_ra8NT;Gpe>Uj$jiH;T0$+=Y=A'',
   ''<l^dPVRpc=8|v-GC=PJiJqf!<3C4V|1@!3YwYd5EFBdlC{RX^AFVVOvm`ieqk`&!I)i1+nptoI>b%+D'',
   ''bP9#hMm;|(g*i-zR1>mQ3;Bx}M1K;T}9B0brb2Htsr&aC2D;~gS&Z47Y0c<fnSiz}_J7tbvhR3fW>$a'',
   ''tN%lw^rM3HVnK*5aOZ~P{K*RoOfqS=PQEQtErI^mr|*sEBf`3;kzy6-G+FH{s&w!U^Gj|gd@X;l{c`F'',
   ''q*&0}afga7uE^_rAKtDx%fcF&oq-gdik`ta^(|@Hi^-&@$-je}ZxWxFnr~xa)cYy6G`n;}$I8M90Hy0'',
   ''J42cuHD3;TE49wA;YVdh%HDQ4aR-v8i^y^Fh5PXIdGMQw}Tc4p2Nn6@PKDt3co3CUAYOP7)g>clN&Wu'',
   ''#I6ZQ`jMaLAWby;6g@qK#g6aOnnYj_v1juxEl%EjxVpN&eD^N>`SSJEV&a97K1x~DLdqcdov2y`5k$e'',
   ''Y7QDj&eGq4N8RT|&U>!y?&c(G73_ci)59UDxs71?q=((B0>czl(XuXG+-9<Fd+;&GUVdI1K+fM9aWJ!'',
   ''h|&Q=TfqO99yRN!qV5bqAe-TEP9ctuX4*){ZJH?QxB=mlUnUa+|#uxReo){(`)Xf8A$soaXymSHX|D5'',
   ''^H<Fh&f&vysqsV!<bYagRVpMMt7Nk{7BE?%V2KXFTTouzDf*=%l#hE3OorkUpXwfl5qSMu!G4YJExge'',
   ''ov+rtkcGhZDiHfYB6A7(P|h$(U`EX(gGT@kNV`O2w@rz9`N!rhUcW`VYEACk=1CpdIl3u4_du(0Sl5}'',
   ''D^Z3w4=%ubtuRhT9XHa8?;#(h#bcSlxtBboxA$PB-#bNuRzY1Bz@h)CJjJq>{l`fEf!!EKSp>18&+<I'',
   ''QWu|%%X1>h8;XI19tvO-r(V7&{)XhR9Mm07?waf}%B5DOAw(hpG{yfNuh9z<M<(J)}Bab+NV+0Wp&Su'',
   ''a8a1vhTDaK`JJOrw%w7%WIaUpdYTxZP|rb*N?JocO|75+kXgo!v*M^R6zEzTf}v2;8&fDFH(Zl%C&6t'',
   ''GiM3FGCJX0fkSOgnGJZqC157`*|3a$VtVc*!NCRzAqXJB#nGbWC<oL#KWahTfoIqX%NMlHRJ&A9}N`l'',
   ''*r$ogz#t1Fx4SUsz^(Um(E|<ZCTwbyAtim_UNYUkg7?{8MrQ@Y_?%f^DeIkNe6j8(RuR_mx5ryp2N@S'',
   ''?3?ct7@uq}V)m<vd$^+$?~wbV=Sw}F5Je`Wz4yivy23K^Ot{hmS}UZC;=J$DqiMb|&zq`&oY|0K&aBu'',
   ''YZXH{TORgXeb#W?`H8m!5LgAT3r#?}d4hWrBSlCr#e#Mp?Ohx7Yu>QdRIXEdeH|`vsONpTZ41gji!<_'',
   ''Nlydpv8upP5mBX%6Jnfbqhm<2Y4huhf<t6;o)_2$+4swz}q%QdT5YR~Q-BjB{~#iVpb0?AXDA8?Kx2k'',
   ''gUWFQ6Z7Yn>VzX|tILQd@)_Ftai2)qfD!s>wm?<X(z~hkf*jjuQe56{6&d*L@;7AUcf@dj9x>ekl58K'',
   ''j_1VK;6U%=!wahTPG%Q-4mvRU71IlT=3EjM>u%qr2^JOhf>D%qkfh1Ap}?*<GZdP_BEMUg}ZTE4*4m+'',
   ''Q)bgbqGRFVpv@Ut9$ucXQyYScwnT91*s|%Vnj&7<DK2rrO-3R8TnPBsOeWZ6`z2@ls%1N#K}u_R(KJu'',
   ''C%mmop?_5L1Fta%WaEu)6Lja@YC|EI7z+#|p%Fc>Jqpf&j`#0uwBKfYm<A;VY$YtNg9lcFDwtRJ)3RM'',
   ''*VSGf;m_8rKhG@;wB>1<}lrnp@c{LY4M8lD(EE$o<)jo?TU=h!E)V%G+?6m?G=W3zU2JGi~029`0QY2'',
   ''#I`WG`F~pMA8SA&^QRKHXqy+LyQh?{)Ix5|X})pWeTE`{tdK-L*c!?*R97i4#t9of=K!G0xov>+GhLT'',
   ''0xJpV{6*r3X7y>3rF#0%XAA@nZwU1XkgDuNj04f!hUOYGSasjID$n&ca-^kF8jF!`_k}g0CrqTgJILl'',
   ''>+84I=WrNLAs~QufOn4eQM|LQfMY#?E^b5XPxAvWwo5ZfoQ(lf(39JBB=m9O<ey(Sn|*{;>3%uqpE)&'',
   ''iA;4Be27vWaR-bu!txHJ!{t;HoU-_y5e>a=E#%~#LWT$DUc(IO|-XN$tW5#pQpmWEhKFn70F!B%@CnN'',
   ''@3JHYJ*fCapVfBUa3Qy8<ieF7`X*dA}SvME;lk`q&;s$r#}3}!O?ls}KY2(-b|9CM!$vhbU)KjrQ}nm'',
   ''{vtBwOt`pkLlu1#@g_y@jg+&ThP;NCPD1<!TR=WO)nk*8(!UCIc8Dobrr=jXIOv*+jpDj1_y9gUp{=Y'',
   ''IZ{8+|o0J*H0Y#JP5bu8=PFF((Si@yZ{YVs@Q_#rim4HQv2tQw@ZYi{#Y-j?WK2nM1xS9&dTvj)-S}n'',
   ''-uA&a*g^0+10(n(28+VMI9^lDf|?beHhq+<P)p`%NbvmMi+6|u4adqVX47$Y*uq36wu{-8ouPC&0&on'',
   ''<4kizKe%fBtqxWCKHsQ$N0Qx(N4lb&;&~57+pjhqz?SN}tDbZAN?>rN-d8l68-aJ8V>yb7o8CT%sggt'',
   ''x4o~TCfWNT5FWUA*~Lt4*ub?(p&^cq}`lKvf;*f3QZ=@Po{jRLZ8{PP7!b!kwixs?9WGvuO}7(*s-Go'',
   ''8=Dec<2ubP=;pgM|f`4=@AMn=_hA2^+El_k~H{cbc5a?{$A1Z!tq0^3uv^T<b5#wHrG9&K8FhP+K;uE'',
   ''h2QG5`)W$;+b4+!$HM?SFQ_EZ<2xOM`s~ub;2-*>bMLeL*11Y*+9er)`bBK2SZ=M4?u3-_$LG;@W9-o'',
   ''4<nLc2giefR*w*PeDv^C8KoRm9)ru*Z+rz$0S&wYleC^gWnUs|glgpPAOoS2Fax}O{6of*5Q3xuO1ym'',
   ''azh5pvT!$2$#1Gf6O?uq34I83G$4`Hy2k10^HF7>qJAxPkVE6}%u_qTE4|rr*Xu;+P*iNnYy))-jokL'',
   ''_E<>#kOk1LOtA1C7r(LC=kGAv=D`)+6BERWm7u?l`aRevJBxVZcarjKM5jy1w=aH@VhRVRG2nVSaNQC'',
   '')ohKOSVD@$o?fBoL)DqVbP~c)7PWt1pz!-D+83TAe<cJlk{=+@uk!gM70u-dWzH*CeH*af(<-bwCQ4Z'',
   ''oP*DH~Ex*5$JT@k&87OaS|_uzd6_2NFNVE?@O0iF{Sxl>7W{EDhE$zy@j?2@P+p(fW8uD-)G!(RQ;Jo'',
   ''xa*Q)S2yfc3lX+tL7NbPX@O5j4F#4!HT9nzQTr*?ebLnXr9oHuQDp|X_x}M<O9KQH000080P~d=M@vb'',
   ''hWitT)07wD=01p5F0B~t=FJE76VQFq(UoLQYU6D^u!!QiR@BI{(c4&u2#~En{j$9G<D748MktQK_Rrc'',
   ''+%vy=^T%Afb1?O$w;Gbm*jTC!0J+?--2&>tB6LPlNBO;hh9ZachS)9m2Y!fHTg19=I-g)>-5)UZy*_y'',
   ''g#11e(nC2o%NFCruN3-zSHly^kvv&4T)DAYEvR0g_9P5B)m%Bk#ZkBv#&T8)v!gq=!%TaNnmBwC!^Py'',
   ''mm5=^JN<Rn{!lZ)-EX3r%TmZmyuv}Iq2EIAVrX}O9;_Idv9nDfM$qcya`0Xv2D$IGq`vX2r{8mm$6DP'',
   ''huttZLgQ^Uy%a*4?%@DN!8+)$eF#@6`to|>e<-@X_TBwIZv^)H;@Wb1=4di?Plpn;|NU2C%)Ny8rJE~'',
   ''SiK$#S29>XbnQuoOn|gWaxXKSuO9KQH000080P~d=N1nacs-_D70C_0@01^NI0B~t=FJfVHWn*t`ZDD'',
   ''R?E^v9x8f$OcIP!ab1))V?Y2mutI~;HbVC=O?x@&Ce1bMW32ns^BXq#JE^pcbl-=hEhX86#PN?P1LP9'',
   ''GA9oEZ-1J*1;3dXp+fPQ`Yc78zOQsZwKtuaf1dX7FE>niot(QFOGDVoNApmAaISQo^@8AvH-CO5~+x)'',
   ''P5fwx$#`A*SuK!PoeyqI#jP>r+2AT%zr<mvH%=)WEb1<onK|S%>bB-LRC|fTr5*F<bh;aAUZ9Jj7hrZ'',
   ''QkQAYihYfeiH9N=Y34Dm`0j=&1w?8X_PAub7Tx$wnmHkj$*fR1&2zKzxs*bV$sMfP9XujWJdT({zmja'',
   ''vMXBDDJkQR!G{Z^F&{Ax7sU~f?(u^<lsVG)_T|+KFokpP2LtBVTv!5$71MKcHV6<4Du~k~;TK&lK-CH'',
   ''5Isn$%^#3cLGQ*nE~X1|tPvMnq0n3#2_tcMz!0cc$+x)d3!g=i#lb9Z`reseP>=hxSl*TBpCr}^cFId'',
   ''z}!XV<rPuP@H$@9F&VmcG5bo1a-xUR|HRpIzSF&^LFpi!*vQyLLE74M~Bq=GB60rs+<K^_Ud6xt#xpQ'',
   ''IO-N13t;vPBLpr9`%}S#hzue0_@|TAFNS!(VQM?5oI6)7zjwxB7iGp#;F_z%+NiPXnb_JVarcPM@N)`'',
   ''n8CNE<bLFgWb_fnaWPQp)N6kNo4YV$F{MSi1%FHc%y_W3u2?L7VN0Ey82KR(;Lk<D%y+5Mb!%Y5GuQ!'',
   '')yiIduhhQ<Pv}Ea4!FU|8M}6}0CHOBWID_p(W6~aDQbxcB;%00G!GafDQyMFluf~K!pg;jk%?ge$e5}'',
   ''dRPY<xlZ!O0e88$~J1Sw3+N87VTs9~5N9V>FIM&y{pUhi=-wrIHZq=UBdS_0fB{UPpRrddWe06}d$0('',
   ''`Tb4iv8G*~a(IH2B3*a!<fOQJRS*r5!*oGl251HN@wm>eY~Nu0IWUef;gWm6Vej?Hg|_il~h!^Nhguh'',
   ''>NsD3!*n%xo@(DY_O|PVbBavXIZELyP{D;we!g`-EnQ)FHYM0LQqF3qH+05FtH?lK+17rQ{(n}tu4F;'',
   ''mi2~#!xv1Zxo5wEfN{S}okk|x^b>PBq=s<Zl6(Ww(X~)*{WLkOCX$d=CTKUU<vd$Whgo0>pvtBs=QfU'',
   ''wF(hRzIa5<~*)h?4%fJWCSHqVaF6_0=ZJnK^5N)P$FG01VWGvJK|4)7qyokLh3@)S|&_}e<dKV>0j}B'',
   ''jv9ynp(B6X~(B-NIt-=O=Cl&V(+{AokM((+3<fHomW$83pJ%0?)yrXE(yQh@'' @ ''{6(Wbr{#`GgNL(a$&AR'',
   ''&4$(-(^p2NW^U9L=l*ZB_`)%`&M^I@V#tKY=LER|jk56=-15o0|(L!Z_p+f)ISgAuX}sS_X;^FNrhF1'',
   ''#9@gy3UkTXeBpCg!EwH1wGu9^exNJ0om$xNS_X%Z6+ZFnGgp$&IkniM=*g9_c(P3GwiT>DF+{G+b3-@'',
   ''{gTdrsi)ySH+er}kWsc!P$Q2Iu!*!l?zcN#Sr&oJMA8yIp_*`235<ZSx-LFJsEI|#LS$+r>RBlSB;Q@'',
   ''xP&ar=DGQHX2OV3;rE;xYz`@r>MEQoS(xnzCY1AC@rx{du3!Za*=##HQUW2lsS+BWGc@bW%igq{-d#d'',
   ''U62z7J~g(&M7XLpuNr{vX1Pmej<vmDlnKD@r3&*ncw&l36D6GTi|+9rV({shM9_3U<b`ud_qVtHd#2p'',
   ''<d4B~T%soxi#Jp@}&NIh((|jB3&K8;Q8>36ZN#!N6a&jXKJ>N*6h!?2#)pK57e8^o2k*6s>r!?QFo;p'',
   ''x?^Nj8WhG1)&UNoWNYvE5Rr4(#H$j<Xf{$6z;tuBL^Vhv7EB|(4RXV+}(^X4F~qaO(*coF8b}l0M~Xk'',
   ''!03n73g$T8f>T3noTz9J3Jj_lAF#G(kGq^Np+YyJQG=)^Ku7n-v4J!7m-<MaT{Zb?(QZs^9}+Btd?<n'',
   ''0uw*L@<NpD9nieT+MyDbd66&Aq#`HWk(F~fCZHyvUy*FB=`|myu>9TTz`@Yo=B6$Nrrk!m)E7+#ID8u'',
   ''uFC)~=5tqOmCo#<Zu{!+lCis9)C_HRS!*YExfL(Z;+Hf<zCA@+;_zz`U^QKNJKTA1gfml@l?EXq6|!p'',
   ''&Ho9su!HmhATwR@WD$5aA&9oSQYhIEVBQTeFXC+j2i3UFX|F!f%`M092*wX3j>zR^3M*@ne!aDF-OpY'',
   ''_20|aqzi=ESTbWw&gsAlm)a13QM|8x@W`~l9f+~m?r@02b$T0+-{gMl^<CMy)nl{bkB+mtH8qcwTo0T'',
   ''bAF>b#7rr+!7>uiA2tlYlz{RX>dUh5eTyh1s9_;fY?CH!9oJbKi-3NH3Fn;td4_+&4rZ5fMl+no3|O!'',
   ''N>pq}eTh#CZBB?2B#=h?Q_#~#yWSx?!`vme9K7ruUZ+=lF=0L=-*3c$$2vw5?Rp2Y0n?ez-@V%5djQ+'',
   ''jDdV`D4;et1i!rPUf&n**t=?gx3@d8M^@FZSX5@5j!?3)$DAB;lbkEZy*^Bg9i&^L#pefdSW>6F+D0^'',
   ''*9tNx)e{$E$6qR>yaHd3Je1v^?N})S8)I3DmfQc#N)uXZm$_zO?6A-#75BEV$la`y!bV()3F}OsEMf_'',
   ''FO`b1z#JHXO{LPC~x0VwS`>MxF223uIT)d&gNHlx1*1EDE4X;BxUMmMWL^P&!_2~|2(_7y`is9Z)cZt'',
   ''OO%Y-r!p;SVOw$M^k|IxlTH|!tw3uyfnB)+%!oOXMiN|`J{1ylo*&QvRsupxw?)F*a_IggP6Ex32|bg'',
   ''g<k;rs;jl0|HD{7Ydj)w6%#h$F_r@k``Xu&TCzH_^I4Pc1gUoasx^8I54@|Cec3|!`d{+wFja%(%(h='',
   ''<2+0XCJPYB4(n`L#(>bhmv5HjKjchHT~ZNL$^IWNgf{^ZKsH5E(d&rk}+GUK9$Ei~y}z0~lrT?9xJI-'',
   ''n5WzqdKDmto;6DguE5<~!YHN3T%X#Q@YfCv;F5Ta@c~bnb85fHhmYpjV8>NS)%)6pNjPVjBDo-3xVh5'',
   ''P#vl9jWj7lK+bh26xlEK>Q*uM~2J^-jSG9|5R>&VuyuDB?Nq^17*3>&+vM=W73{{EzxjuD3r+JV2;N|'',
   ''e<tJ4iPSImg-f*VIx7GOY#3O(LHX2&-v>65SRk5|1qlxCfRy&>m57zOCQtV%&#|QJ`hVPP`u(v@@9NR'',
   ''Sn&uf}^MRBL-Gr=TU1Tz0#vY-1v3Gfac!CMn-E6gQH3sW0Pk#`=-w%8@4B~G^wvZnGG47r!C&r~6BYl'',
   ''?f>4_$G;7RW!)!k)R_pXiWaeoEtBgu(H{uf49zT7gXMQjE&2e4vSqE?%i=^!l~cfM_sX<P_lP8>QoYC'',
   ''UcXV_UjoQeinYmop8;;cq<r`@2-CO`78^7&H&iPngqKNE`x6g$7$dSx<r#un_ibF4l$BO$7YWG6hndV'',
   ''igh0PY#N}PYc3E<LQSbP_JZs(u-^Aq~<xAK52GNa??tJ4cSe@a`aC}d*%YLF^1Z0*i>WtDC?7>uOZc2'',
   ''yZ?iY30BAybs3f=kQ>_;xxT0OI`ac`E3yG$4~XTNVl2G>s;tep#&GpV3B%JL7D#X+vp*A{`(=Hz*cb~'',
   ''V{Y5f`N*rYa(VC*Ow0_-TA;MnT^u0gWO`q|~o(F!7r~+OYk_m=~|IvM22V}0N@Eosa!#LPmyThORk-~'',
   ''5O*CY7vb2p)T$|x}O=TEA?$*sccz<Bg;QIc&5)xw(ZA%<&`vlPDYfT$V7A*%P=CijevV|(CF;%$0>?('',
   ''cv!Sqf-)yg{nzrzjXU6BT`*jL7j2oH>F*5sZm}pZ5CPddo?t+zwx`eWe(NcK`ya#h@6oTgP7kRpSwEj'',
   ''o9CFG;v+k=#FAyU@1BJFHlPZ1QY-O00;o{l@>?ZFvLBk3;+P(C;$Kv0001RX>c!MVRL10VRCb2axQRr'',
   ''omy>g+_(|`?q5Ny5lBkc>LrJMG3rCpyxbWmF2SMc7snO25_gxiBnl+8>%F4?y)%4~NJ(ouX9Ui!G#t('',
   ''h=jEB9SF6?EsbWNQnv0fnR4OKkV!H2EtJTF;iiQ-$w%5I6ML~Ge38@L)C{g#C754kZg?p|}%6|lghS~'',
   ''6acq4~rnmy{Hq@CTS;!5|L*DA-~ek-M=78@bz3rp4UE-wzOt%S@Ke+<ZYyDRjmV``BwZ^VHqPhN_4%X'',
   ''e1Wk-QcqMKcU!=>>tGn(b(LD(sqK%WJlF42liduB8n;kbT>t1btgESsb|3J*`=LSQ{3KgRuez>LMGrH'',
   ''A)Yr?YfFfwI(~J3(aK1TUr;2|IRKhE(&1CrD%&zvMqlsBqKLq&%6{(2V7IR`uCUHFU4w&4{tMAQPxx`'',
   ''@<lSOPrtCb`y^yTHSkUS0p+(KajRJsz0R(U+~5Q6NQbLAlYa)e6*(}u5#TX<ASYW-kDrD!&(U?v`igD'',
   ''AeR#`tQKX91+ckMj<qp(){rcgEpWH_Hb7^^Y0<4A3*z`)14I{MXyOvet$n}2UmYbbmN0nDhm696=9(Y'',
   '';icS%DZ3*=gOuE{-^?8hHwgxpvGn3s|@@X64<nUNiNrT6CD?0nMf?uUDFMcxjJo;Gp*jA2F#S}PYeMh'',
   ''ole%B`{w11rK|^|B@SHZPV}+OKPpkiWiCKPB)1{ssG;Sr%@%Ce4A$ZKH1nCU_RCyD_{*anKd~=ijVo6'',
   ''r!hT=oL^?Nx>|nhR`Qs>$8yCkkGaw4bv2MQu)Qe<{FnZj`*4o$W=AN<*C}c)UzhFXm|K2TN9S=u1T6)'',
   ''ZBewVE2|vnJK^UPy7pT-vpZ?vVA+Azy^)tHPfcEV@&)lgK@iWWDdeI}kPN)(?tavddqd=fQ3%gLjTZH'',
   ''*a!3`B-qJZO_+hrh4Q=v5W&`Pz7vwY~QW^P)yjkGGTS%!oedGNhThdF@2c`-%Cqzxm#2f#{)A|QCzu*'',
   ''&ycMZAv2uUnEtH|tp{E9#z7b;1T|3`4A)-3Awj8<^|&imcBKxoj)JtQ|bB>8M)R7tGWu+wyJzw}Qex&'',
   ''GEBv)y||cg*c=KA#D#kFA0VP4u3@Z?1@F>l6H9q-DpN!~YwmkBqgJiHR(rC0i&p+6xh?G%#uf3G!>cx'',
   ''Ot;McanT-zasN%@=Ad!V0n{+Tw+BbRO%}}oFP6<tx9XM0*2YtHo$gfk3be@mEcKKOKL_BpkQCuSgf@a'',
   ''H30-5LwceG*dtUsco`oco-$RCx24(ERv!uZq@lb`CO(WmHQlfpt@0joU0bOnB4M>+Pb~T{$`P--BuX@'',
   ''lRH7WR<R10JO2TRFj~nWUqiYi#F$mSaiH^2LhFuEBm}D>7bBm>K*wOfu>S+0gHkWqu>BiPg*65BcxP|'',
   ''qlCs;o3aiP0R{cg@Ld8HsMy+5bsd}5bd3iBmEGC%M!Crq830hkj$<Jd1Ra&1dG_iFomad-Rb`=pHQYl'',
   ''TEBuicA4RPYT;h851fg-mDi5#mMjfwyLLuDY6Q>wWjrOtAXau56ATIF8`<YgYkkZ+9QqmiDz)G0a_nz'',
   ''9Y7M4+s-L_yUyem67bdf$TP?e=#BNaL7ORkQ?D&kDG&jm`p1t0OVR=!3cZoASN)o!`o&JI2KBf&$IXl'',
   ''PYSB`5xBrXO36wMSsM+qcla8C5v<6)z~doU=7rny92kVd57L#*=bHQqg&{uWfG97lPM)<26JG8g&XV;'',
   ''rSobM$hm*9&5n6lfQo^TBLF<bMH#}0^Nzr$XIj<g{YBs=_w`MKmEn=DfjH?MCK1y~RI>(_C$-`o2_VB'',
   ''5OR#m+BGKe2c9MY=16Jf?%AaG#HsA3+?!HaoppZ=|rq67NVU>(N|y{G{1GnR>M@H0boJ^lt7w?<(!mv'',
   ''!&lSJ-fH_}obsT1A=|4^=>(ch_SmV^ncuGS_pOaTK_VMi9qCW^>(va`c^9q^5Isnniv*_Bif&xgSEBL'',
   ''nMzOeIn(al@BhO4IA6f_tMM^h-vFh5p+#Dc9BpY0eW(}fp<grawTfhM%<836cX+qXqAl(?f$?eoMz;|'',
   ''(WAA6v%<u|a9RONEJx#k2|h|DWPywU>B>J|t*z*jRn`X153oTFM;>W5OH1bYLMF1yatXLJ9SO(vaNro'',
   ''ZgF^F;J4)FvZnS42PXgxBfo9aw`XE>cTtj0ufIed{a7qC|v|-k#DibxbLg&Kig?Amx%%X404m}*1G4w'',
   ''F3=8{*CNRc~QTskt09}P}MWfd?A51eeN+K0#^Pzbv!2rlcNctB}_^P=~kfBkg(bMfi+A0Lz1!NOTZ91'',
   ''M$!9a?}Ni%=nKWiK(EqRntnMvlw^N7|muMC|IwD;9^*m@b?vp<UA1_$&*zfSh;Lqvmlywva?ZEwJ)Mz'',
   ''CA<up`IAXplC<+9<mV#q0->>0^m1t`R+3$eF5&j9Pk9%%FY{|G{nvukH$`lqbG5VzySwi#PqZa>^jMX'',
   ''<QhGbS~vl~$*>}R$eBN_!F=c$*nC-T+~Ord@A+>3LaCi8kli!#&femWKR^Q=7b)<^ja+l|A+InzNLL;'',
   ''2R@wUOy6FsfkuaM*jeOViPyqVIf$^-YV2;qTZ#t71urZIo{kg&Obg%+|=1|OX!4u|DCwOh<%yZ42R6U'',
   ''!<)g+Flk~|koGx`}2up{*$jhjlnh&9*bft}V+lj~qpEl-Py%#E8YH#@8vR*xOiW63%_Ej<51>W@+a=A'',
   ''jB{;tjyjp%q=dgZ|6Vh_dVf{#T^x&8#tU0i36-p!)<av1Rdqz@$3;F`V5lq4)IwWMcI9HRxU}<Q)KyD'',
   ''OW~mMa)eF(ge|Mpw4JQc<IXu`5^EuWNxj&%~Z!qoJ>GSS2Ze!K(K`JO|j9z`x-!=VF5Q6Fe&DJl|>j6'',
   ''vki#26DB#=LOd8=xVH%lqC_uC!*622Ni77||L^|-wr}!Cvk0;(Xv#1SLD)3e)nY?ysF4HmnE0*(F7^x'',
   ''-Ldq<|rl{t>vjV)ybyorKa2uxX|13KbTbJZ*ehzAWN7;)deo{bx`Gn*6G|NI!-hl%*J+jByepj<c?@0'',
   ''((bdbCaH|JM3W7wF0aeK{sOk`Z(_}ySjon}*?fQQx(oclPig>8%7D>_pj#dxSre*hSbnx@Q4!gsCd<e'',
   ''Ltv(u7lBUwAXmVK|!MZO`JeDWXvon$<qR)H0oZ-P+x~Qn(W&WQ9`{GbDhz>p(yGnD25RXs@h`!i!!{b'',
   ''pdE*-`*pt#A=6;4*=~*TRjXUAn8Iq!ViFB@e41}rzXrwH`UCi=5YFfX!9w<d8>?912hOXXwf7qp!PAm'']"

definition DATA_1 :: "string list" where
  "DATA_1 = [
   ''xv}52h)(fqDf(6~O<tXw_<Q3tO4s<q>e+TUxwq9OImZxwyBXEIq+5zR+q*=?CoVggalZp<2TSf>B2@'' @ ''{'',
   '';u%YF{f?PvX;26T++~DQNTtIk<*LdTtigP@7w|7=0UjjvYz%h$0f^OZU5c;1>^2wA7`oIdS$BYEKu7J'',
   ''7IurQCoJ`2*=PHkb0djYG0j2>tm5)X$FDqwT@LQ@!@%@S(&`RJKLM<YdReSW(Oj_lrg*u^wYp{oq%e7'',
   ''(#D$lQhWct2rtl@TF3lY22fr$EZ{9Pz|LF<29mEn_GV-0hl5T5)ssRGw@y9{5x!6SmJg=wZ!Y6a?k}x'',
   ''M!x4V=gyjN4$nI5Ms-1HyxC`vEZQt49Pt1AwvWa2oXVmX;Cox#n#5NxWV7KWL-^5mL`R{PfliV7xOd{'',
   ''LgkZMq4sHVb+weLEK_*-O5yzieuelkcXx=q!4Uo$J1#q;9{%vrcP3{!5-komMx22sI>9o-WYEJO91g~'',
   ''yDzvMg=eT0Jr)pro0FuJLP>9N}p`EJX#|d8i2!+fCn$`~yf9_bz%)PsHKrCl7xa5$6ZF7kE+nGSEsap'',
   ''iIlSRA$W|;qlPOcc0<=)iyxd)s$t1FT&E$cVwYGotX-(82<#M{G#tj*0!7WwRkNoI5@NCS!4&N$sHbH'',
   ''w~~i-RWK;)F?a>JB~v`SHNC6H4(7w)(TSBO{gY_ae}fLKYD6A)h$SfK59o0Jy7(GE+46xvtiDR#(_$J'',
   ''pgR~3)!$eJ#fJN`I3u0122aqg9ThVU%mqI-@s|R698ZntG$e|rN=-1FL3aP!1Wx;o4Jff$v1-xW-NEM'',
   ''n1j){vL^&7$gNpNfBv@MW#3=^&()}fo_MIHZq50tA$JOs12DH)*ao{))TrHb(rx->|F;m(^(tM#ib-K'',
   ''Jt?=75S>bgpHq6NA;{Q-f0|XQR000O8^OY7yRWz-g0}ucJZ8-n{5dZ)HaA|NaV{K$_aCB*JZgVbhdCe'',
   ''RBZyUGucl{N_1;a^&bm=w}!;E^EYr9FXG%;eQE0zWa>O@JLPj}bjogHo1|GxJ@-jOF+a^e<ffYuWE`1'',
   ''rp09{ChS(a5Z2trnuJ8eJAf$YLQ@b=g*CG`d+UQPsN0bd@WyR<#n^h^7<^wbX^`)|5r2refYU;;W);z'',
   ''7o1HjVu~18zq{x+Kg6tIhT39O~hMRRx4@BLd=yeRxmG{4$-}C)<S0Z<usO6rHVx?GFiZXb-fjUwNazF'',
   ''YVMUPL?vsZOd={>+0SC73RTOz!`IyF3}`MIRTsGbl-M)tvdtGo+>9z|ka|X(h?^3K5*e)2rcp%$;Cb#'',
   ''52Va(Do|pGPH3(v%j9wMVXcU1Mmvy-jX}WBiwpM8>^rkB7M##A-^R`hbe;+a2vMsWvEOX<)fPN5H&a<'',
   ''!~@#7}n5&<tzDN}L%{_5)8<@I&?^78f7)Xt48<h`s55UR1;fMgO~EYv55X*?3}?`nJXYAU`j>y2#A%c'',
   ''7~vd@7ckCe4~WU4w*jm2Q9!nWySgmbVMlPZwo6*M+RNQ$pnpw??J+Yo+o@zj<C}l7(jpI6q6jd;jL*^'',
   ''<{c>cJp#7-d|t7OV7{FUtXpcuij0Csk5}I!MZ+;MkBB?v5~hbWeuccmg5!6fh1H<PKXRt0RDZaK>7tJ'',
   ''*_W9p=l@n&Ljbf`h}lel=GzU}eM355=&WJuiwn6?G1*CMH6M#xwKcS!cct}3ucs>-4Jh$R7N<TrW5zL'',
   ''MT0Zc8A15r%vbHP1XdQr~;v@4q#Gc5-!b)gt|4bNL&C>9JtyF6TR(WUj<&?*IwK$BGtX>LmY3Bn;r{t'',
   ''cNj4cS5bU;h8tkh0)fctD^Y=I`0uxzce+mzx*o~QFx=Zlnshoft1VeHq_H)WxEE4a``&LLJ2a)Z=Ys-'',
   ''77TM3q!q2qT_9L)a5A1OAJPPe3hl<0el8#y-{>YqyUnrD&@K#tVO4Koqa`7SQa}3DdMym20p);8?bKg'',
   ''CGOdnk29$y$m<NFpP|QS_q~)T`+Gb*_CS0(#FN4Ut|pgrexF9;{eB06jR!RZ3)*R-VYHg#X?0>5wU*!'',
   ''5vM;l^wBXPi|u$L!H1ccDWjcCo@Pzfa640SATAmv_+i`)<G+{<1rH!J39v^|E}hjZT7^o3lgmxaX2kW'',
   ''($u|y>JqG}mLI;6ERt#<|iKlqbWVgAxQ~Bwi(B_}@|3=R`i+L7|kJc)$Qjmx}B$yMnO^(9xYz?^M*$g'',
   ''4$snxk@PGfJt9jo3Demsq@*KnZW$0P=lG(-k4?nSyO7wXWa5in?BBX7$nKoA9cN2V#^aBS*UbxX(tPQ'',
   ''RDAQ65pfwxV}!K}Wo%xbCnE#10;{D#{wQsERvXm&FE7ZE+`SjZuJ;nHHTl>hXb@EcL3b>0nBDVlo{8>'',
   ''$Uo&)j%I$!ov?x9^(I*K+4J@-=bxMt~JO@iheO<L{jJ0=@YA{ncZa8!?EhRaT@Vd*iqF_I92xIj1P-5'',
   ''NE(3CJ5|q1b5OnU%o1i{1De7yM^09@MKhq}Yv0md=sN|9gScC^P1QDu-4VkXoMO6xc}~$V=bMxJfdVV'',
   ''^#y^WjL##;R5z}vQ-9h?)?C3|>A^qOigW~l3!|jN~sZY8gUjfCa<}eYzFcAb9kl>Geo&dqHjT0bJk(a'',
   ''9@ehLs6mg&Q6sdMGN!FkA&p8xjWH*hY1FP%n}Y}S!SM|1@Ps1zxjC2_Kjo(Su~tC%jxAK|3SbdyrdGl'',
   ''%`@pS5nlX)*31Pj-nzp}^5>REF8u`4h6_KxVuokn<iYel0J8qemB@g~ME3fSo}dU~Vb9qXmxkqMXt9f'',
   ''MAF9*P^nj%TL?GMmi&yfC_)4*;Wb(s0Ta8zMDkXmCE#T3pT+!LcB&@;qfg#U=TjRYU_US_m4E6z{njA'',
   ''LRpYR6n&dotAi#&VUnN*5z-%HYW0pIed81RgZ!j7?M4*sW{$ZXro_CxlGz%wkV28*ZLugIK~kHl@eUF'',
   ''ZjV)^N2ls(O)P&f<kL6+80Cp@C2MLR%9}K)OHYy9)4#Al1WnRi5<A3xykFOzOp<Yax-72OS$=u}ywkw'',
   ''MTaDy?%4yJe65g*3H*I{rm)8%w#3sv=o+(1FFrz3hQRI*A$Z0?HArJWpLvw&fbh|jUip+lHkU8VL^#e'',
   ''BiQmlf2=2l+Y^48-LkolEc$Q3)TFV*w{-{=|%y2kbmR$5U9N8VZgl1IRdVjBRdhQ+;Nt&#s=i6Btroy'',
   ''ivjHm%LVTv1K$JAn?R^XN=cU(Q^~*>di7A*}Bx3@`ic9oPLN68o$Q>-Q)k}@kbvuGyTCE8(a_d6P=^%'',
   ''(7--_Va<}KnPa(!XDHviba8AZ_qxf}Q!&;P%r+rI8Q)KIg@5N0NavxnM28<`sy^oK2ol(UH}H_c2UjL'',
   ''xOhD>`DBPXQIo)|RN}QjGd5d>CL}dnrX91PdBWNYaJtX%Sj!=%(<74T)zJ4tjvp~#xsWTuRl0ji0sep'',
   ''<e(-w*(QWt!0sDfZz)%p(Ey;WOE(s16xgvZg<<qv|ZNfHI!jHPXz9~Ok>;7rgnfab5&w$l8~6HSM47`'',
   ''orTdp(d1-oYhCZ>n730zX23Cn2AL6?iILZJRaN>J^xoTq*I2F7tL`HOFY{{7o&>j*uhnPhJfReC~GqI'',
   ''zVXlIb6@)K?mLE&CK#8Zh|};WV*84(x!@UTnuTDiv$n|40$R^_~<|xQ1-Mq9L-(kwHO3sxAsdjulN<k'',
   ''hmd|TrV=qP%Uil_Xn^n~%*=9K+#2Q?FA5<3cxpt5lpv03aLESQ<J?hUkL*je)M+}j5O(2LOYl;3BRJP'',
   ''97k&z{ZZ<i2?G$~{Uf0v%&zu94=fC8`vd-2};h01aPO48BC9FbJC(obLPWWgLL(M1_aCT;(pY3#ri}p'',
   ''mR)0Pgi%SyX-K#XZXF&x5C^b#-lp=97UgCpXHDvID|4n7(PKMK)BI|_(c0ny_W5M7;}|Kse%Wi(X6nS'',
   ''GW}!rnU3^#*#A?CcSWpMvfx8Z5XSNno5q*{w^{-|C=Tm<hbnbE}S2oGcW){2FlX3&qFxr58nq7|(OZy'',
   ''5VOgyz%we?$~syhy8FQ#fjsJx6m_$-ch@c$~;EvorYh&y}o&K_QT~7i*R*JeanwgxDiyDj)y608%~dQ'',
   ''wMLCEN{|BHKCk7S5_dA!iyghAqZC{5^5*91I`P#1OuSQ@5|+s&2v7Va`5NPFXxT>$0s`({NBJy!SfcW'',
   ''e7)1C!HVVjhb_tfEvbOg5={>(Kj9jY6`h8nKl><2j+EG91Hh3T!_=|ow@qoR-Pkrr;YbPwcOtqBrBa7'',
   ''VjMsmnTSfr1&kb&@q7BZNAqJ@lhN&jQ=4PKf+bz;(mLS?8T+wuW=ga^B9)-U5DIbh`>++Q35FAGvfL$'',
   ''CFO8#4`1b-x3jxrrC+@Rb{qE)8|((G(-&6r*3VlVW(-o}6RgK|f3~;&ZowyHzld6S_KJrO}c-8Yo#vy'',
   ''l0yD24kdsTJ<lNH$Vn;H`v?dN%un9*X2j$QwLZ0xMoK{KEB^ZLa*4*1wFp^Qt>x_x>(%3%~6pk7Kwx3'',
   ''Ei2pw(36FM`Qh_DdFi;52;E3x3jk(+Zew~tf|@=7fzbOf_hW=Fd%#Jwz&qozBKT;+;_Y%%i`V6-Qv7&'',
   ''+EvO=ybdk~2*^z1lAXr?cZ0k(<pJ$M%4!?8e8r~(<SxS&$-PsR05%vuhe&KS_rNi#A8Xp*XSy?_YeQr'',
   ''u;K(T+<hi8TN_Js#Z^esMFk!=3<9QKX&F2wAd-%j00Wq2{f_!_SRfCsxg=3xEPPd}YtXakZZWjZxSZy'',
   ''@2XaO!lu1xJJqa5I7n1lg^AY!P?^LkH83qXhf?5XZ~bFCm*w#lv)u<BO8g!|$P3q@y0K1WrRHtE->r*'',
   ''32mS4$;?@=+rLbxlZhrxLp%aA}%gLIOk_Kmlw$VQr>}0^ZPn*#?ScVIWF9!E7hc71Hc$k*B0-MIcoK-'',
   ''A1@T-zaj*-tv`wDqZl+igs2h}Ww*2KgX-H07>IyVIA^AURu3AH=mHT1bJ}gf^U2=5aLK{Ot3IUK-P{I'',
   ''A--y+Z;Z1`b9rEE#{oXk7NZZGs<D}Qb(bT*%CdkP-=L*dNhFzA09YJ%*hrI;a4V~`Tz?82#AvLS_<mW'',
   ''*{-5Ac4@nkCK&t&H+ntcs#wHR|(s3zi^kKwLKC_IY!d3;#7(W4d4;|-Z{&!n9SN#cn(%Q96#5LX&zYj'',
   ''Fa6p6t7ZS=c5jJUa*EO~pxpeMh(q-@~^2mZX{~9)BhFgw{LwHvXj;Hxf~+T~=;3P_epxPV5v-#G8_uM'',
   ''xk0a<wot`>I!<S<(pb(w|r)mn+h+8Q8*j9h0vmN9JfabhppW!qCWZ2h7+IC($QT9`Hpkc@DTV{HNC($'',
   ''etqNPoZ@$Dd;{`+d*i!u)`cLL0S&QPcK{;6_U5hM7`)Ho1{OBNwrg=2$Wmb@ccjoHILrlu%CcKMs2B%'',
   ''bwn2^<_2Bj$A5#W?K0$P1AsdOO^|zRaac2hvM4mfZ(LavPhiiCivDPL!qHH0%DDR8Bl#Aok;H$C)W}3'',
   ''o><p9rvuUHQ?fk0|^tZe~Afl!>u^B1nnhrJBc(5BKo^Pl}35pm~<Gf3wHK58;LZs<H>bMb7>#1pjlu`'',
   ''f`%uY2l~ZjXm6ls%P5TOiT>B`#JU6oLpHeC3j0&~AD}6=7HA;QcN@G!T4HmUaw;u=YZRp0i}VYPsy@r'',
   ''hzV~+6dWoB|8oI&zTgSfYULC>0IBcoqp2OpQC=rWVMFqdiuOI^>eCCpZnM#Z2cTf67e38bs>F-&~I3#'',
   ''A4YVLJ}M7r$N)XtY|EC;X1<+~4y*lXM}Vq-guxnd$}*~zd+&2UouFB=)Uea|h@OLn+(6ACnkQ=6)~=p'',
   ''d4yig&G38fk>B6lu1FL%C7$a@2<dIHCinIv!#8AOowUzZRrymz6?9rT7x=QUWT*{XPhtC1KZU*aIH|C'',
   ''7i1&6|e*uVH*l$okjt;>bZ=*fr4#m9I48B?R`4gQh|PHRd_q$pJ1>>1eolDm*0^Spzjp3Wn@yKrX*82'',
   ''^TKPL|$3F_Y+?i3_j(x7W?s$Xt(PelNEsZHxct>ad#s#c`Gw%xFPi*FL64wYKhiEAji$`FCJJJ32Ta|'',
   ''Hi8OY0H0^I{F#QiHKj=pJ2TWJf?G?6Y(KPN7Ft#4I0P$;oYw6e$IBE1_P#(82+O++x}}_u7WSa*3f>^'',
   ''wPE%n)VAo;MGb@ffNiDQ$<47}tsi`#>#GL{8mT<&-h-l7FsR!9*0<*PHHA&K0^VrUBlRKYV~~%d|G9p'',
   ''d2h<*Rs60aXT}O$}dC+Py(8a<RQs2_xT^|SUk;8HSaWTMrco{!k?O8CKc<5E97vTQ^P)h>@6aWAK2mt'',
   ''ey7DocJ&cxFq006*z000jF003}la4%$UcW!KNVPr0FdF?&@bK5qSzx%JiD&ry5%8b)?Z)V-`?xktE^<'',
   ''A1|;`C$3^)a*vNvtVSOOUqJH21gP`v5=yq-3W%H#@U;noc8;z{A7C!}|ujXzH~{(?!>IjZ9NftT%Pji'',
   ''tI|&W!K7-e;*v^=ksM@zRGo0lu6eXr819JnOc>_mHD}p?Iu(9?JugX%=fZhE{keuey)qPY_}U}+t&8m'',
   ''rp($!-K@>;Mw)MGg@fB)Tid0T>&>Dl<-tMQY)=jZd`u%%3h_u(_1`mk{O!~8^zDmtaVp+6ojj0tbGd2'',
   ''788v?1G<9<lH2Wqi6~J8})i%W@NpED8*G-~|yJTJ8NR@O=2_!HBZn8#6ktxBCQ~Lez?v4C=CspeJ&`<'',
   ''1w02Buuo<LDo%0M`)RGXDRLwHCtnu%{=mA)&~I&0^vzU#WqWof&;-o8HT-_atQSFzfZMJw;xnP}E+Bj'',
   ''rrs`ebdYieKSJUO<Cv3sY@ZGa}!}=PH|DcbhaX0G~`<Q{z<L6{=M;(N!CGo#GPi1Tcq5rK-EyH1%96='',
   ''=Ai>vv1FSc%DB0>Fx8E=Vz~8o=<}bBnS}L1lYsOWxkSgJ$QXv$tLWf+0-;Is$5oW3Qxm^U18dM4S>oz'',
   ''%U?J3vH{G#%3zA&!}Cp1dBc_UJoDD=wgDQaup|=xS!d0)Y=|Izmz%k53||L46|fLc2$*chdFFMJ<=Li'',
   ''{jfMGDrsPw81}yXT?Q8vGABe79neI>FJA&Z8@U58RqdmQS27Dvc2FNk8S8NB>Hr*V>mhJQm1_Xwel`7'',
   ''ieMt)t)+dch}$+BhNn|Ijf!yfYt`J}GerY`%T;Mp^Nwv#e$NB&_4`v%sMU<`W!FI?kNo2D<|H*MWLa>'',
   ''KN}TbIpdp3chx81>-bAWd<fq#(I2A`r*KLMdVduOn}BMTJU%0?|xF@K4&-v@P%_Z4dZOZ^JHGGhYFz2'',
   ''{85Ly$c+fmPK_PbZ~aI84O@x<NjCwa;)pBZ8sKAeuTd+VXnAYWdl>yyEcIdzo2JvnpW8w)Y}xA<#Hi9'',
   ''1=|VMzG~wsi}=Z8LjS&zz)_XR1aKGb{6=no!Jr}jXjhWD3hJ789rLWsVC?r6=}Ez&S2mLq@qU5`z?TU'',
   ''u-()5xH?Y-Uzrzz+&s6_T(+~Z$C!1}%;x<|dCj7*-j;Bsz;DA!D0WT6HIHo5%4FVx3zncqDWAfpEHRy'',
   ''t-coB|sdBKn`#p$Vtp1mfh(TRn!tCJxB^xHi>f+EX@jSV_$>kJH?K-dGw&DK)4s1`K{fKq~>DCLbTsp'',
   ''F!kveM~^pFuZ3a}?ag$>*20CkQb4JK=m3!6wNh`K2zZ*c<Btcs9P9qB<6Lpsa?2_n3YhY5yZ!)kor4j'',
   ''U8Gk{tD7m{S%h^tf{L3xBV~SWp)6qoM{ESyJ^*J(XQeN$hz)sGIiJ<Oqm83I|n5cgG>Vj;jdPit*`P-'',
   ''+?|NKizk=9q4R68iS=Y1Spi>*d~!MK5v5^M8mqYKcmq2-csjLTL9@;OF>C;Wi;R!P)f}m{YjB_(Ht}}'',
   ''`Q;6WsiTwD*?ZOR$PPB~thC1=r`xhwBn%kn9Ohs1ZJ>u(3<9%^_8Hy}tkY0MfIu}0$;(H8MFEe{&$nc'',
   ''D({xFG>Ehwa{E8BR&O#uA+57VC2haiT)wMhF2=(>kLfCV!g0cN)<s=){slli9ef!LM|q+x|Rc~8x)PQ'',
   ''1Lp`CWc^Jb122d-*}UN00HtBw_a=_69!1|Mkp<El=@(N#3nDDyFwWN$|I_wr<pEJelFTolK_i7%ZjqT'',
   ''5i=TdVQK@(KMKs;I4}AfLz7bHMqBxwOeCj&%*p!-Gdd8f=n&iG>t)-EMPl;b+$n}fx-5K!q<s?i?lM|'',
   ''gC;QgZQbMwS?+^74tYCf957%V;N(%}(8KjG(T$`pF*L>>dNJ_xNc>f{WXe>s1zS_#2B|x6GOH~(^;a^'',
   ''_0p7fk=<5{V@7kWa{iz-^;onI^4q-g`cOdYS>BZ5LOLwqyJs2P%>IHo@UTs_3H!coiL+fdbOcRYjoG9'',
   ''aTaq{F+d@5o_Z8nAP`o(7_mmU$mN533KQ@|end;zHp955+X*^MM++O7(vXKx{(9f&Lp>#mm#HM_TrXn'',
   ''-0_MEtU@pfUb`>LK#{u5Ge;>tSG*0hG8Q5$r~TQw2aY;;z6nC<(w8$MHqyK7@fnsWX1;EwF>FI|$Il0'',
   ''P+WdHAmE}wM?x^?CR!TYoBBnJR}N~c!;oriD51Pi{o73Miu0MA}jHVnOKS22c7|J&nJ!DDNQC0edzZT'',
   ''_mH<@Pumt`9QX*Uy1qs(Ucv0ZU;E<t3BYH+)o0yCE<u}s&w)MSiD@*M@$|WW3jLjNwBUs9y(H)xT3Mh'',
   ''rGx5nM*SA@-R8!Xw`Vr<+m9U*MSc~imcbA9Y4A~#(1QH3&R%EW*tfF1{OXpDSkq|@?plMTg%N5ZZ7`D'',
   ''qw3(RE@e1@vG?G$*LxfFjm#eq+PWzdsTn*$$b#I~w20tplaTv%52u9vEXA~VjwV2Lus1A+LG_W>x}D@'',
   ''|c;p*VdVV2BbU195SC5BJ-*r=pMl71gE#S^B*Jbg01U5Qiezkv+b4E9+=$qW_I2ug&fh6A#~hckaXy2'',
   ''@fv_0}c(_IMT<-f?#)hv$%hgqcvZt4hGO63qn#`DKvw+DVFHHVS`G}(E>)?L0#6jqV5`;qQ}XO?rCJF'',
   ''p(vU|B@<`!!9wdn{fA9<YwRQpq*(8O2Y8z2X4u`7b#$OBC4ProLVOsIzrrXM4I1G{@GQliFr1mCrW}}'',
   ''yRgTimktl<12}o98ply<EHr!lohEmJ4?nT#7$*=^|9PRn-U`n9o<5xp1rrqdq^W*r^Ymd-Q2%72X!*g'',
   ''&p4H6CTgaD4o4AYX;c{ul8(OZ-9MGY3*H|IJ~7(205*PbNuTN@7-ZH8eenXOM5W?QT!$Z`D(4CP|6)j'',
   ''#I4(a-(qf$+O4q@q`z)!44I>~W%fu^u)Mahh99NH(7OJHnOqr{c5YWB)aqZ4TrfuuadH4}wDLw^jr-H'',
   ''fZ)E>J-hZbBc&!Vg#Oqf_;G07sp==o4`(nSI~V=_-0+_#iAgM;N-isM*>cUj0t5JE?wj5%#b&h>y}*r'',
   ''50sWBDdxEVoK1NpOAJ)d<9@!t#<a^Z&+-^tD{x(h6IjVC$B6yuSl~N;Kj8DpGe+U)EsO=OtBcVv(PCS'',
   ''_kkztXL3=w@O7sjnyvS60^qr;{v^T`_n|=taIA<+tkSLZ0;H@=RlW_l`z$$Acjr2lsOb<p3Cs+JX8`@'',
   ''mnE>Ozu(erE}ZB#zC--7t?Q$eA5us6|Zzy{)WRe&`J_ND>|Msvy=S-~60_DKt}6#SsPXh70}@D%H8OW'',
   ''@E*xk7UalUN0sJh1AR`$6-k4>0d?IX^)eJ!=1{ZUchGn-d$G)5O9EdwYr(Gh;Xz;Hi$xg^W#{eh$b!z'',
   ''?f)2qOM_L*w+p$APr{Ma&fiot)zL^G^o+#ot$^%7h@n?oGnBFgsP<?+E7Z+0fk0tQI?#zBVeFc5KNC&'',
   ''2kNE7hKmBVV5M;<kOVGq;PG$;4>m;7Lk=HT7K6M{xJC{v?8QVtg<sZ7umXXwNT7a5ZJ36MM_SLsPGag'',
   ''yA<k?h8dyBsd2hXii4IkSd{lre9gruS>tqOxCZd;z(;eE&;@Pc0=w3-6g(g9sh}Ue9jlgmiN;d04DN1'',
   ''r8K$<s)1TqIfVu2Ar{!);Wr@9<e@V4%7JF)YEk0K?Gz7>lyTPBmCl=2DfzaQ~0TjK4We6S;45>M4;`Z'',
   ''PIC<?S8^#1$I^_zE{Nh6e82!^EDzZ+TrsEqnf1kIIbsv0oRps=G2LaRN(xRBt@43-B2Y5wPUkqo1{C-'',
   ''6LFZUIV#ex@+Yf+l=PSDDs&&dqrQSVJrb$!h-Y=Fb<gYTkw@iS<NN8_>wzwY-FAxomiIkbP3>@O$?36'',
   ''&lTz#_-Rf-%O#uYTvFhLs(|H-MF7e4xy=-gD=Xd%UMtoxX3^EZ=%TCtU-aFJ&NUqWlIyOg_Ww&CEWNf'',
   ''U(IN*uDxK<?*!k|de(1iX?9gdWLAQK{&Y5xa*vE6|g)I{52w0;R5IuYT=56}&)ywBm&?rl>ow8a;Blx'',
   ''=5oJ&&4v8{^H4-9hJ<s9g*2OFZmMGZKh0Dxa5n|gy0P<jd;_HoZH%-McJdN$E<^Pa^uWz$uy+7Pz?68'',
   ''c`ak$-0Ae&!!#73;_^ngkS~dx~`+yFxk~+GQW@f+BiH)Sl91ZUxGY5ikaX`+zIMbnLe=qbWw;AB_Uwr'',
   ''{ftc-@I=mIIlE}E_+Jez>;hQCE{?qu~$Q;E=SWkg+tF_3)O4z{~TZ|cuT1Xih}E<O-4At8!8UAmq`@0'',
   ''b(@u<>eg3m9-8iCCT3{R0!g|uYwTu)tsTHZ@#$|&f_kc9%|bixsrcjZ=PX<V6<J~ZqX56Sn3D`z%dAq'',
   ''p5A+Q<y72Vq&*BxuA45UW$0C<?OX95QV8>HBN7ZW#w1b`N4hk=T7i5!_0W6StJsJR56~ImaDFb;8I2G'',
   ''hV5eQYoB1EuU%UWc}b|~BeXbrD%>(fTZN)~l9mnAqzrx$?O<&a1@4y)D~vc$RuKMR)!D>>m`_#)d|^a'',
   ''>Uk2<+U(i^YIEb(1q2ZyNNHQQ586vM~i#urY3md9Zvq3Jj7iGSq0N$H`}ZbSe#k6oN@(q?rFmwOFxv4'',
   ''{!+u3kaa-LbmWS*KuT(VE4Rsz>(IulJl(N6bb8`o2)D_`r{=ZkQ$(5jQHuHJK%Vn8R;FX?AdbxzR->Z'',
   ''Ds_|ns0&qBzH8}#Ln4Eg2mhzSbd0<)!h)E%?*)(+#hthCphD?g7_TSEsf$4=vNWi39QvOG=+qCO%-K)'',
   ''?vSF2PibaiXy50S(v%6I9%zlTu4IGPN5TP4j>}uN)$R4x20{LgOwA<16c8VUJoAt&Rxj5^?6AmO$D_l'',
   ''{mjReq(ly$q2(|%_n4;3vZh~OvIGM+qsEWUs90$gI{K)aQ=#}p-~v6aGRsLo7oI=aC{Z>~`iz!qCpHS'',
   ''HfPQYUHP0)ye4Wv>PV8#7b(6OMEZNq~4_(4$<Y3wgS;Ikyfm@sr|YTv4nIrw)okje^q+09+7apY9S0x'',
   ''CUr4S4U=1(G1kYpp^ldTj9l8Fl$_OmrJ=OS<d+Pw8h@ENJSM`C?iR+fPC+dKRmXTF4$+flR{{IX#}<P'',
   ''wU+Iw&b76;&&7C3njG9Up0&`$LDtHvsq!_jEVOOq))MLVCV#DedL;k4P#Zj9;HQhjq?hAi3{5gK$-UF'',
   ''l6}@3`b4-orAXGuIfiTo*5<NFJ9Wt3r{wiDTK<G3hN^)YpFLA$Obcq}-e8Qn=;yc{9GZ5(nh8P>4B&L'',
   ''X1iP)6&&kW=#yw!1aRP9|=V1^<w(PeVo2*aVz)?@'' @ ''{+E{5*Oaq^|`WHA4!plBN`^An>ca&axUlt2W^by'',
   ''x;@A|gFr)Q8;kGSc}F5D%#WLB5tC4uA!)+&iZ1kVcnUIbmmNi|Gw~o-CWX+r&?%39ub*N>}^DrY%+Am'',
   ''NFux*ss{Ye8Eru+O6)3koeIw@FkgGg99)_^%cEg`XEIV$M+AhdSn5X7MQ{cR~4Sj`ba;nYZ(my9g4U|'',
   ''koeUvf(&OIlnQ5LyhAUYfs9TfN@+g19BYUFz!uq**<8la&p%^D{Nu>am)JGLB%cDGZ<Xc^mg~b}(mTq'',
   ''w_<e?p8Vu|&t@u;`o>XTA_-Mp`+lRPcT2cMIt6Mpa2ZMCh8RoYWEqH0LD6t-P6A#G2sYq<H$Dnv5zB&'',
   ''8pyXPmM%8__vuLn96KRPL@w-3cV?Y?l^B*cbjT&HYj$3c`C`J%W>UjOa$otbHqN9B5-1e1bZ)8Qm`cX'',
   ''o>!ypRut)F}gp^FXs=;lnh-@l-5;@3P#~YwJUEuf{X7588#%Gm2(WVgfKQ0;}JUCjxUChnNnJ0enwp{'',
   ''$}#>Ec1DS2M4|6qHG~deZ2u#aTEPlj1uEFQog?-{3&iVXmU0^7}+af_s5^a7unITm(!nrv)xz?@gbU+'']"

definition DATA_2 :: "string list" where
  "DATA_2 = [
   ''a=2E#7<JHs`HRa<r8k&-FYEdmgh_FY$_0dsqXuwKRpdNUQ!k!^Q{{t*_`r%>Y!^t5<4aHS8hy(>0Q3b'',
   ''*PLLc#3jAUY@+{yvmQvo#RYGU&sFN}WXq=(}WEVe43L5T4;wjQzPf}G5?@q62rj+EfSKdaaei7I}J)c'',
   ''beR(BM|qpCKV2t!BX5S{GW>SxfrNV~&kiltM1F+*y~O=g723?HN;#a>LrzTYFa_!3s?<ulzMJXkD(p('',
   ''kpkOV^0W%{qoPEVhOgBsR!wAh510r53(~bZRC(Gg)z6PpT!Ix2z=BczK*7TP#_3tq%=IOJi3GER?sDS'',
   ''8a9p=L%hoT-r0iq^FS-1dGIX&do74qx|*NGpg~p9jrb0DQjXH^8kR-Z^DwNGhXLQ$6YjE%t8to>U?G='',
   ''9Lj}$f4V2uMmH**1;({|hi~7ZzR$eS3;Jb3gCV+E`wav$>I8j2mZ5_d^fn;?#%8elhDTNh+nkOi54OG'',
   ''DgZ@#w82>jD#^ltq!nYVaK`sS50L?`3fb!INP93LV>x98u6V^z$Js@~Q^n%QYFiDgj`lsUt(TR}iI_X'',
   ''7`8CJ^~U-kI2a0g9BlrB-q>C&&gK56KptD9fdbs6uOn<L=O0mTt01|zfJV=~RqkxKyZ$b6jZ<H7W6CL'',
   ''FkU490z#<i%3z3LGq~)hF(gO5QR#@BtlmoVrbWYU)ygc~f9uxeUArJQ^;zpP(Uh#lAi&D-LrJAF3$@K'',
   ''rnK(wjQ3Jv7gAhjhv%gKzvx)9jZSB>G+*9V-oQH`x&_bKfBmuUAQOO<LFyE<XS%?p0slyL!#&T0f|@g'',
   ''j&T7W>JO(q5+6mxkZ@`j;e1LBiNuuHiJ?QJ2hztkyuQkEM2-d@QYql6nL{=n$B_xt3LPJotX%TMhxlE'',
   ''N_H0gXT4FCdyS8ThLsoWDClakkJRL01Xu-_n`$`Av0`?5%KN;{Juf-UZ`@&Dw<Gn5Iks)fXBDSnIj@`'',
   ''XNhZ6;TU~aFv>Kcvh4O`n^9RKOx1|AaE5<$bE`F{nyuJ`P>ZbS8p)Z5dRUNf`88+~&@T2wg(nZbew9o'',
   ''Jx#Zdb@jgEP$xBnuuzD4$<o9yjHPY>yv|@rNz9HTr{|Q@NG5R6R8YS?!NyIfw0fuKURHtOs-4pzD4P#'',
   ''E&*ny?IiyD=n#R6Q&5ZaqJe1UPPMIN8BX3+`YU0Q*QU{vtXcO#)U%vxhXOS_Rm^y+jyxbBq2;zm&}>|'',
   ''w4o*>^mx8lU<U0*zQ9x3Ac+5LPxYU@'' @ ''{N|Mta9Y*3mO1SOEi{|bq&OIr2lw$N^=APaPkbVt93LM~cZ0B'',
   ''Y8bQEa=|Xu>Ki7pH$MC?uViTDyDE-@w4XaH`B7^oeY1HYS9q~w<g9<9}5JjfXe3(S7*A8E>P%5gv_?8'',
   ''RQhfGh5V8<W7$Atp(7?95;hCxm2@|314R$y(rsW&Gt=L4b8zD60HnKcqk9|MyDON+0zEjWb$16XSZ5S'',
   ''uZ>{39@-DaVoM_R}&H<N<(Y-vPm5&{v!wBXIQwhnLahQ{8$805ey&sdd4$L1D0w!`P^v2l^x6!C~4GH'',
   ''2{hhf<bO`J)d`tjzR1I!1EVbo}=Gmiol;&utFG3W*MSmp*uk2<P}q<6>9@}s$%U7%K1gH?7)>8DlP7R'',
   ''B+fDF#(fl{52P&SP8~AekV3{(wgZf?)GACei4(5~uaxM_TS!^yp5zGOaIY3sjgae2yB*NwAD_wY!Aso'',
   ''CTW9Ha&0-G-OfB198D;XrDV&Jquf=933|{yL&Xe-mdZPB2A=Yo;=p%7`GYFyAX4fX$LR5;Br2*9)-@6'',
   ''BdNhRow3*#;`5L)<Dahb`^p5s*6JNq55zS`PM8y_Ght)OKco>i^EAlH>0x4RHpffY$*_+_y!Dl9nwwE'',
   ''*0_b|jp_JBD(S-pMGKG4VPQNZ%H+%vorMrq9!sZ<rV}fAB;hP&R9FTCyXGXVzE0fCBf?*=6bC$5^}08'',
   ''9QHr4SMXie(^K3fWujGh-zTkVx(mFv^P^w@0vi~Db)%kVVsXOv{lYTN>9Z*Djb8U`T#sQP}y=#;cGpZ'',
   ''X9}EXoym10_{w6B!j`R_ku%7FRWoY7;(@ji+tplMhHR|8*ojWXI@i9%F8JxL>W!V$9=SAah{`&<J9UQ'',
   ''%MoG}o==pY#5^<*)%!()UJMh%^xW&%kyUk7yf$u3bs~612z(@T7XdgK3a(UG)<H&7DmJO#cBjdr_NS!'',
   ''t4MjX7}kR;!8Cg>k8i06A#TF4D+jqme3@#DIG30;5Zws^3^cVArXUQc&kZ?+u5=+pg!JU*Y9bK@G=%{'',
   ''AyPY}40?f>SKJhe=a0gW2ht#(XPcJb>rb*y;+j)9^CIAlmcRm>Y-sER;$_TuiZi2xb%CP79n>d^M%(8'',
   ''AT)x{bh8nb{s(ndPW82j&AXPSCOCm?vXqd&@9X?67_md%x)#G+ikSh^Nzm8f^^;-(d<5S{rwK)ZX}+;'',
   ''A8EM<qpJX;9AlV7;#236%Y86M<}na`(N_Qp=LL&$NOib4!9lb8*5{rM2KBx2n{QoB#wj)H=WqEKm)7-'',
   ''csXIP&_SYWrxbiPL2WvNf;Np5o5_4@}kR)+NhE>{KBlP?0a>DWd;j$dO+!m1q{xbL6ChO}QzsJ!L4@b'',
   ''8)7Mr8U<}c5%pvlY?kCo7QRdoC5fG(98_pT7z+NQar!+(wZ3&GNF)BbI$b9`=a&LwM4s@;9H)ONeYLF'',
   ''5}A^^u|-kouu0%%p+uXgtt7`%Y$Cc=m<?Urj#(R}38$OJho^w(AWNdx+I69JHT$z^cmB#F>S+YszcQ^'',
   ''>sQKsm}&nbw$amY#2Rp4kS|`Any$X4Nk*Qbku0exo$2-=7A*5i7zx}2VYk6LK~UR#h$S<$-R2h%wrE@'',
   ''eyOQS>cN{RGUOPuk!?Wt$K1yuuA=WTc46(oT00;24gy-Gt0+6$GZ0%Kbais<EUGK6ycFYJan&cUzh`#'',
   ''99$XD!*PdFO1#|*3gUNSO<T{){{Wf5jw5l%%n1RtvzBtl~!00d(wdTMDN5x#&i9NE8&CD)zOGb9OJ+8'',
   ''ni$nhsfi4dZqyWoJiV<#2L2#wS!c^GdrG@+a|8R{TMX>kiPh`TguyT<1#xcXtIFeLi8%IyWMobr$T+0'',
   ''t$oNED`?oH7+!89bt$32pW29aJrfX3gcScq%~+%xcHyF!M7>lCcDzO9U?~=vv@Dq+sL!9;HMZpBR?Px'',
   ''Bn$|lCN3ZUY49X(elxX>;I1G2o-^2&is?~hT~r1-J-meJef79-T^`S3{{_d!z=9v%tnZJw&Odb?>p1^'',
   ''UBdJ^t8QwfJuMww<Y3P=Ky!WN=1{OE;(4-6PMk~8ij8fZj6VJE$GN<Dye!(IMs8~Lm@m*h;+xlw+PW^'',
   ''U3mww3y5SLQ&Q_jqssjGgH%<V9{qX$F-^BTgS3lw+;q?x>?yjt<GM{eR=8F+EAV*%B916%epfsKv1nz'',
   ''Bg0GcAE?*eK5F40ha#DIL!nxoag1|@MjBFEbztAxU(AZ9Uh#|X6naW17juLIOrbyrw53gp;ikAYr~!S'',
   ''o0EKmP2=pZ;jY#=WX(pqBJtK2G#dfi~Er<Vr{MJ=tuzOr6@Kn4QPF;PIMVzEA@*^Or#jbG27=G}oGD_'',
   ''|9TCF@IVEhr^XdDFAF&6~D?aQ?_K%)5GS=-jkubJYrK$Yx2XU6ZkGzIRQQl{xgjYjHxa<cHp?>@6FFY'',
   ''W1k5Bna+gi1y69aXiBA^hCaJy715)?q{XLrfBw-CJ~%@C+i%oMH~7YS{7qNUr8s5*G|%vDemVlDEkWu'',
   ''`T-pC=3HOTK;ICZ7JxU;BZu3(|a!{ODwK?7o=BCxHuxBjDGVCQqKhfRcDR_*hLOt#TT{0ccoJ~-gJAp'',
   ''jZb-6TcdgMsBf$$F+_)=8+<~U)td)-6qKha-3c#8*Okr!j{uOKA$c`sC7v*imi<sG-h3J}}wo$&7o7d'',
   ''J(QP5To{OgA^jVgC%k@N7IT?OjR{bL-5}vB<2IcyelxkJ*8K62Ns~xJTo0G^)hid5xvTC^(~++FEi4i'',
   ''mu2ETk3F#Jpr-nY#N?ro0-Gw_F}vAs?N7`v%yuZh7>U9$1Yj}Sp7wN;r#&jUKQLrw^R%YBKmvP-be10'',
   ''Y0-&@=t4GFpy-3|I`k1(k3I=#Lwy#FZmssFKM2R|{%Dj=^}qIBz~MD>29vRKCvH1JQ_~-?*53k9d|aT'',
   ''vBiI0sol$NFbyD^&2|Q7{`<}kNRh0OdV1IqO{ZQ%j;ZmnmN6V#PjKremTmi@lt36RoB9`xiKP*}pqCi'',
   ''K^O*7`}U8fEmhuvCLXWD@yH}HpN=k&`V8`=x*2s5l7<v&e?spZh1CGSz%2{_2omA_guc+mpW2Gv!K-j'',
   ''*Pj0u8SKm!rM?@qJ)p&-yry4jlwI2YrK?;(2E~4B<!j&zLcd1b#$^du7gd=wTgre|)&uRRxZpd+O<pI'',
   ''wjOCM9K*4C<=FgJ}97Lhd>k39l~`7_l2VI(+g(jb{FT!Ss0M^x8$I_&|>O6^;UIk_^?VgTurC^b;lpN'',
   ''8Xi1&c!bn$F_Q-6O+~k;BhT3wdPk9X8wb;n3@7Q@T|ZNAPFOvP-0NmN9Wrt>(4$cg*QcE=hkH6lIqH<'',
   ''46m)5ByY*}023ImO5PeFU!*~RVQq6t!kgX4J>%>Mb>d3@R))W$kh0TAPZIyQ3>Bh%FX;<M^b|nF*kFD'',
   ''tPDz^ey;sKRh!-}l|ki8XLABC}r84QNFzhY~&GV5Mcch@9+bR||_aWxqAK^0izl~zMoedX0h%_gj&qH'',
   ''DYP)*n6w2=MIYkfuiQM;SHYd{*^_ptz+}bluRZXmstA_!d0QMOT(4%s9B`gF#W|oGwb>nnu1U34<)l0'',
   ''z+k*a4yTxC8Oc?8n5dk?%LK}WG=#2<WbSp6afUMr@tkr1l28F#am_<XbLFazX2c{HCdSD=DTC?<gP9@'',
   ''LdLnqn0#4MNCo-?K)}@HLQ5>c#k2vf*lpch`_jPJvhOE>oWnn`V-|DrA<!$my*qvaWBjBwzI(V;de6C'',
   ''@d#uqt*5}THBW!l!*C3Yb*6Wi7u{HbH00SL5N@0@dMn&1*XsW;_$07u6R(xy1X!W(o{Jn^`b<}uyG|F'',
   ''`vRsR`-E0`esSlU0PW$?_M9{bRB+C@%HzyOF-piV(k{L4LS^ugxKLVF(!KOX7aQ`G9vckk-v-Mf(@a('',
   ''m;FxeTTf6Veb9Oeu8kO)s`4+!B?ra&CO-iO=}*+|A=?ir4U(Uz!=c6QZ{2$J~{m6N~V!CkXcmqx<j_@'',
   ''B0Sp&Sf1h@#I1A@ck4oK5v5&`?@MLdH!%}uMP-NF@YjG4f}U7+$$d*iU8Th!8u_HK^Ze`X1h)MfEk^x'',
   ''vR$$0NT028>&Tp_{lktO9k4L5r^`o@_5S(I`?5pU6xBCsdoCIs|7qk+QFp5J3NEw)fqBmB27}v_%(Jt'',
   ''h%$a#(tdK?B(O<{Vr>+#Ay(UM`ron8O%Aheuci(6GxazbZ^~y=UK?Y{Vsuhu>3?ro^{}Re!4k~^_q{!'',
   ''4*T?$tMd1JfmH<H@)Cch`U=>ZKhocI|;jfl%0QheC&CDKdo;mje#`zpim6TP-PbQJOspY0S^S+3K;!&'',
   ''_?zL?dliJY+ReT;@^EtDiBSVU2cQ{;*?_%*Q=J89W<~={Ei!P)h>@6aWAK2mtey7Dw4?P5ssZ008L(0'',
   ''00pH003}la4%(eV`Xr3X>V?GE^v9JludKfFc60C{uMjEv>cKjz>UxrIKX5&0~|9OYaQ<(OJ-LJ<liIt'',
   ''gDB93&fuHneV=!~<hri!e>OA(_D&%x83>*Dc<6i#Fktfy4^-E6)r#+7w`*gFLc1MsKX?g%d-XO3+D-3'',
   ''ORW%k>Vavn4h?m>n^jEJdNKayIPzeSefR=CBU{QW>8qiwI=M!RKoeA&Ak)S;Tz(iqp04~HO^t0pt!AA'',
   ''ES_>MIQ?_)my<imrH&fNZ0!r9^xIrsQSM-C87p@s&X^8xk*ZKgo*pb4SvDMbo>k1W)a3#I+z`B)#=(i'',
   ''TN&D(}Tf9G0qc5csBvqG|G?x$+BVg*JJBWk>5Wiw$Y`LP_A=8!Lq7G@FxoqRXXw=m>hR0phR<eq}Ha9'',
   ''48X^Ho4Cm2&{k;dc^R;zsv*8Ti^HS{$+b)2@x&1BczfMnn{&i@(9NMm*AQD+}`|Akxc2jxufhB{wjA4'',
   ''P!4hIX6djMI<k+tiEPas%ZsgUG<RuMCnMKdZbBa2KBLl#2{pmXsdRgf+I?j0F*Mz^MJcy?nthj)a6}t'',
   ''P!FYEQV1%qMZ*U4=^R*+gc_|(Cbj@Xs&qa|PZL(s0d4Dwy`3FN2_8P8;osc8x7f?$B1QY-O00;o{l@>'',
   ''>WU|OI>F#rJPx&QzS0001RX>c!TZe(S6E^v9pegAvgHj?-6{wrAdvXUB!iM`vqJ>R;$Y?@sCylI*zPT'',
   ''PB*tWQTvkj0Hesw5Rh`|WRk=Q9I<00_#?Cht@3T`H5n02mAg^9_T+VDP%!HF=@xq*CjwQH!K0lUMs!7'',
   ''n39}7V3kl2ZO=UvMM*pY_{AryGqSwNxs>ZRg+}bb-CU(Y9@al9qIS$^5!NlZp@$an_M8w%k^5#o4hP)'',
   ''1ER<_YSHYrYh_C3jjEcmT-WABy|+J0`>V3$H~B_2`>nE{wq>1v*k;YjytvJ(g1S>5NiVkfHl4j!#iFc'',
   ''IDw%G|_o_~J)q0&@n{I8hs#Zx>C-Qp6f8W1)rGD9|x^V#LH%=Gk<%T+GYUJB&v8YsCw*_ck))r5rqlB'',
   ''J|VmV3X*?grIvu#yw2~+z?Qk2yuTjzgKGhlO))Y~;7@k8T&0X`-S<H_r%-(CFlZ1(KG-#mMHdGW)`%S'',
   ''m$i<EvLcyngfSTj%XK=t;Uz+e*zdOrPo1YlYD-E{a$A_V+&vn!{?E80<ias)}YtZ`*?E!(44WvXJ3^o'',
   ''7YX1U+?hgW!XG0cg13o{E_hZld5WZ`D9(GY_Y#6>Lw%7qK_BFdm8ZK=ao|H=lNPOMi|(SMZMbsxRS4v'',
   ''BWHw*^0ru)*}}B{-IL4Nn-_!`n!Z_63i=ZKi@)e)TXj<|R69>tI_<YxG-N(Ws|mlG(e$*%wrcyk)32K'',
   ''B#)7e3o#E{y_<L5ASv98)-Kb`^rDeOMdG1iBfwgKj>#v9gCx$Eu-uB%Mkz`%&s<{IA{6m+xx7qw%hN('',
   '';63${CpgMZBQ*De6lTx5PPFJC;Xs<JvdI-1RB>WHVDCvS((L9flzvS_MuJ)9)N<))d<oAqp!6^pf+ZH'',
   ''NJ7K;C@4TPPHG#hp~oK~~l9ir^h5Z?bo)NVq#sSM;wM*2$VkDJhppt>(nSlCsKaWOXvSRO*Z{)NIclJ'',
   ''-W`DbiIFc@=LY9{69~}N0-l@'' @ ''{`mUY?1$GE|8?>55*=hhI!<WmH6<~#NwO;IMiw12Kztqz0InWPlEIhq'',
   ''&v>Fg@Zallo~=<Y_VMKO-_pnU-=p8hKA)YPJUTfIKP`#QO>-~HLeU2x0t-)7)NQ>2Q=*m^{BAU3PBEK'',
   ''}sn~p-)peqm5U=j1gzS7lo585O{xk9G@!1i#v`|ah1o9$pX0uVP*2Iel6DToBG!aY^3=cr4QlcLeO?6'',
   ''4?j{fC;HY9fL6V*unckGuojqu>)r(a<9PVMRA$ZdM!wKVY|jol$u#Od@9oncgpcE2JS{2`93zdrt=`u'',
   ''imL>xum5l>RgRdXO%eq(>G?h>(N5n%HVy|5jPO>g^vsjw}+qdh2%L%4VgiZe^**TT?~Tk3ux1+2(qYC'',
   ''B!Gnv!qV`kd!`D^;w{v2Vm7Np9Ac92=?Z)^!Dox*w2F6uLG#XXX)%0L1#^A2k;~zA!=1FoCfkGi4U}2'',
   ''*Ez_&m|N&k@^>may`xS0VnedshPHgQI0`#2ZMMX!J7Wk}vnG$lw=4;8NH%@5%IjoF->@BV!8(<O_zV5'',
   ''tMrB0<v6j~1e3huI-p_Iw18oeAny-qSHmZbHDshwY9fTG7%`gneNpihUAZy^`7H<+7xm!HRwvfoGoRC'',
   ''4gP4SMpp}W}2J<;tMm(|iXB#V0DVUi!}YIzHpK~+VzJ|B%I`qi!=#*r^`wZO~1ir8Rn<>%SDRukt7Np'',
   ''&Rq6IxWQKX&0X)vkv0fqkn!$0ozPpM-~cMslHoP&ePpSbBj_1K@GGx-do}M&9iCr9(u7wx@(|!e!<YK'',
   ''-yB#8BuYz2>_iXPZCdzNQ7c&%jeB8O@6FJ%h46QeiHd%Nr{re@&b!UmJX6f$#q_2)xLd0@>~H}^={oj'',
   ''{0+hJ#0s^vRADH?{LYsKJD^zfGgwbqP9oPEQgc{r8g-C6@K?#0)FJ{$q<O+pUtZCeX;s~p)gsBNn;ll'',
   ''<Su*It8R~uv{cqzI?Z?R<clmnZP;Z)CENO%ma6*f#Y6vxXvr7I!v`t!Cwok5=10&;|d!0ad5#2L?uP`'',
   ''kc2~``FEU3%#rmXg9a#<4n?X5E7BKa7wfm=c#{Zb!t7H@ZiEa2YiKMNzEq)t`CAV_}CuT@3Fw%+qhs_'',
   ''MOTXUbjAZ&nR;9s^d%pJ^dbHytq7goDMp?H`eBv2RvDKH~vD7!z6Yk2GyNz-+HYBIL^}`;nOuy(aQ;5'',
   ''bYBMjTvuK!8V#04gWC=I5D0=-Ew_u!q*5#csuTtC%|Q$qChGb9T^A_;CKvhU8*bWIJ821lGufA*+)jp'',
   ''0|{9BhhHdUH-a~BS{2k2lJc)f%qQeav1Ucu_9~-U%|vUYDW#RmQu2b<`9`hE+dycQkG7p!HKVZ4KKG$'',
   ''Q!3&y4j~$H|$V6aytLob_xmCiKNpQ`UiV0izdv?86<HYcAA~rB$wcyoLf8+Pa-z;>ueH+237&C<xATP'',
   ''hX*QK9VIqjIJQ8PlhsBllcgW|uUQlYbEJ3@C4^sU{sbniTZxwETn^-w&PUOzF*kEfg#xaqdjF2Aiy`^'',
   ''gOdAS(ZM9v?;DECN5DK9lb5P5A1*^qb#gP;7bV)R9}_<ir;@d20q^bn>nR`EJL%#CLDryt?!omua0DP'',
   ''1$I_<`In)ofl=)`-m3s33E2`WC!pT|Aiu9fmUz}z+23hv;`=xMT5z2h&BjU#9u82_3EanG((<e1yg6W'',
   ''bCk?u`hNuqCFWjJ-)>zRrmbQl@-A&Vt;tE#{QE3lW7d516pBUwl)7`nlFz-mzblw7e)Z0KOR>{^A?8~'',
   ''xKMPSa>5=fKrbcS)rCLX_^a$5^-)&8cl}XFz1xrCIebT2G7^0toO(MC}64$L75*}G*fRgY|SwmU4B5G'',
   ''};(7#-O7d*uaUT(b0ym@g+lLp)`CYYom`T5D~mzXJ<|Lr;>sgfF|Inqjm1B;N86UwM50@4Z$S|ii8$+'',
   ''OOiGxCD9pr`W{F@sUCw@$(>IkKs<5e6jT+P`7s<{$lHgVamwIT59T@~w?wJz@h}qf*V7x<aja2HSiKj'',
   ''!k>&GQZhj4Y5FF%p{uKX+bw4)mlJ=w?~(kFTl8N6;Zwj{PjB7l#AUO!g}(GHV+ZQf$RgY?Al7>g}MmB'',
   ''b4{|xyH+F27K;v@YV9zbn`8Rl^Nauf{@EGznz~o7%H4VadL!BNW?f!0GlX<XUs>pu5=2Mqy$6LvFxq&'',
   ''C*fqu=v)9mefDNtK2uka%nu9w4!^(rvS$FTV^-je)i+y&2#i6^?RMY~^B?%QXHqwsrRHY)czwii)wW0'',
   ''%S-KQ$EzcD>UG^B4^hVp`YtifXcTV=I~gT~3hY#L-noZ&h~QiDo-A1sz6;u%XcS4#(7?KkEs@k{yi5|'',
   ''wpR>@`|=uC>hbpR^4$`CM!%t)-zZD|lJ-0vXv~6WTeqG_)BhSfZ)>TDSduDV{vD!t#RXg-y-%AQ{2^K'',
   ''nhYlW-JZBR!ADaZ!zsyC>haHUV*kinsqW_2oqEoN1NsEzAmH{0$<AC?iwaad}Z#3-#65!LR3m<FVbmz'',
   ''@QpKdyR`yWj4D=#@K3-E0sh?e{79it5wl*%^kxTA#qSZ7CT2@p^1RWge*5?eTyY5Z+#@(<hF#8x;TkQ'',
   ''8e)~;9TIyC|q<M8bMG|Aki*_>4j{NS|Oekx{0Sz|L{W^W1@@Q}-sG)y74HTcwhU23ULw+l8PqkpWBMK'',
   ''|THxS)n_~XJ)aYXr*jAySqMBN30iM*!O5~B{MY`d)DMVzJ$SlSBKE#39j!W7b;zQG()RnYGp-7!x~*`'',
   ''~=qmn0B~HxnSo@m5LxSRS4q^Bg2r3#!E<ARg*@uomw@`<)(yR%YQiT+TIu8_TtD%6Dq7x7~Tfr0p`O='',
   ''et6zgF9_Uyio-kk3{|gG+5eNiHxHg9J?Px&l|RF3e(cv<o%N+MG{6T$iZr<D#$uHl-RcZg@}QW-`KPS'',
   ''e{!uw%$l9VFjgCf8a98gZnPeYK^$RGEfkif144?ph(Afi(#CFmQA29y^J%Jq3p5zt@=V;{sdi+~L>%1'',
   ''^F}id7+te6b%?4vXzAPJcmarPjf?%BsXqo`ExyBF3L?lt>^Oo(u2#rxmBF>Mz25PpLx3YqDf7b{i7Wt'',
   ''B}&NfVFQzC=~AXxTfjAbO`S}fhNbi=YgHBUl=(@T=G9NU6RP6i>xZUb+oB5~dG^?TBgrA@~JdY)Xoyn'',
   ''OTI#fxX(&VG9K8nGMxBB5=MAfMQGydt}hXmQSX+WgwbtdffTITl>ui(nk@a4vH_inOuRwL1GJDEii=5'',
   ''VaUZScLQ=4CRPx4uc1^k>ay9fI|0CBnJ9y!Y9(?qEFf%&_G1WmgSWWk_Wo8%NQ2$j3ZMp9o_b=fw40?'',
   ''#N>c>roSi@hh)YfvvZJc36tu%?my;t`lHb`pb_MAC^Pm;5BvLLC6+Z}chm^25W{FjEHCrAA18YKk$7J'',
   '';vbtcFYUuwxMZ$6sW)%2Ai@R2|a26R`{*~DA7v&scl=ig!FAKw#Z~w0+>ns$tLOX(3_m_rQv!%b32sa'',
   ''cXF+C?nw=0OFU>Jyxh>q9zS%oCM`G_FRm*}Z;=h{Kr*=_ui6_n9hoxiCZ9m<_FUU*#JHOm=Ik@e_k?8'',
   ''R~Nt)h))1J?yiZ$Jv<Hr~846AnWvSy4+gotm$*BCj_V!X2gnnis2FIAkpSLkNav5||hZffG0*FVMPg4'',
   ''tM)an}Pue%dH>AgT2alVw+V}?rv77;J{jC)nZ;Q)S@R2Xac&sRix`>HJj&1EzdC`QmM<r*@cc>8$?+M'',
   ''K0Vi4V%+7aN0#2Su~{^TE_xWVx{gC${B)&Acc#@<D?OjeMk9%TTh$?J6<E+bzBu>$fp=K7otIQ_@MXk'',
   ''k1E)q_?36FuH`Tsd^f>uhC9pH1w~JCRwNRLaWC8r}&P|NGQr7q>-kAs}TBcl4T)CveLd`3!t>!fSkal'',
   ''Vzo)T^(6Ihw%+nN3u-!Js=Pp+b036cE<DmO^NK;fvm6p9`zgX5&Edh6Rt#{2sb1|_ziTL7t`cr@5G%i'',
   ''j;WHM(yK)!dfVyAW0Sb$rY|!SrLy!An>rL{I<N!kQm9M2S62eu8w(zVjYZbu72nB|B@G<t7>>P*}|?j'',
   ''T#z38G$9%<hd+V5WQaW*$o^sjSU&ByCmB#)|1F$J&7&Wlm5ku$1d0qt36nd6&MU1tvX|Nd5;NN?gA5Y'',
   ''Ep~iut(C3c0E!Ntmn;Vz6{g%B!@3W9l#taZYc#9%G=lC^M)y6)|I|#u{mW~yG>Cb*Yjo^l7}5mYlubh'',
   ''na7C(x)!$k|)7t<Kp4x>n69DpePnO%Pbymweo*;t9eSg&7r$%%7ZJ9&zv&yC2ys^q0kMXT*GG=Ql%j<'',
   ''Jqv^hu68*;QN56>?Y#1tgUm9#nEfkiSA)zmg&yTiaI#%?%PU7MB)54j=+Z&*vmxdH^FNJk((HHoWYXt'',
   ''!o!cYASxvVqix2lZNU55yzL@iUAzrxnOK#>2o0H2Y|QlP<K1IO1jlQ!#J1u%zqK#Bo%%(1CTgP@eYXj'',
   ''-zpEs4nx+v_0T%7__19;`QS&oBeIJ*HJyg=~Rz*%A<Tx4@0YWDCynrW7mG;cqLgBM$mif&2ntqUPv+r'',
   ''5BNIFYlbHaqcv<VajJk39QeuFjxbxX)@Ft*!k=Qb21e~loZSqXM9gs;_SKrPIVefwZ-GHmMZI0@<{U8'',
   ''4_Q_L3JX7`N9V&14+ni0&uy^_VgJ8g1ZH~Z*y^rnC1}~=daljOw6WwmI5BX-d5hF>HU+3$**~^5xVUv'',
   ''?qa1%p&07@Ymll>y3SP%?ELano!)@$-)O%fXf^hScOzz#It;A;v1u}+C26>Nl%LjY_8$^oU3YJfcE03'',
   ''M-oL45!zH({uH)^$)9oN;=i*o)hh#d<$RGyrw2XqU{(Dh+oNumQq<is6eb{820#OQs0_K1`@YjLXu;c'',
   ''HYB@3stdSc4ebRF4?DuX{o&MBI8PH$-76ja7A&C;OAw9h`jY46NSSzXW{<zLxK1?2E)rjmH@;+{_*4M'']"

definition DATA_3 :: "string list" where
  "DATA_3 = [
   ''7hr1aqw#8@aJ!;ucre>_1<!!?gW-_c5($9SJc{+|(AyU9qZ^gz@E+zccro&O)-hUfB`vWhhE!9MTrjy'',
   ''>j)8t0fa#LN9j;3}gXgr8guTOpn>?sw|6#ioyumx#z-oPfZ@0avvPGXKe6WW)Et7)1RLn_ku%wRo5|+'',
   ''oaPb298_NeBy_2{oC_jk69dBivg<~J6moZQDh8kseox$g3iS>yl*^EQrDCbTXgO+32k>2TO?q_YqO!e'',
   ''ZW%?DX9c45I<{ZzCIk>*5Q>(kf=A{*|+lGJ+6~6Bq;gcTku(c&l<G6J3{k;nr*i%9gmf?4fQLiWB>a#'',
   ''nTDbG4-ENgHAKpuCvPcP2A`^m<z==sDl`0UhlMN5Dfm70~^KH%yCjIa5@2nUT`+|xs@1PHW3v>JOl<{'',
   ''*ri5AorwRL><9uh@Y@G%x6qbr2NeBr2ON)>g7_aVB!DU2kvX<bGx+O{cA{Ymt~*)-v#9iY#tSke>M)+'',
   ''Et2zdl^>E`3p&ghX=Bi}D!>&Y<H=5;rkoUiuBnpIwNNmB51O7$K5MPwPpCMEavgCBiotgp`jbu6nx~D'',
   ''!}bHjxCbw1CruP#bn{L&RCXn79Kz>zY&ON2q0I6WFIe2Wl}V9S(PSfThusf5F5Mc>l|TY*MTvYjM9^p'',
   ''m}shXT$z6ErgO8gN!`mfhtL;koyL(XN9-0K6&=O^*-7;}`*|&k}EK@LmLy6SAT;%!Rt%-He70T77mT{'',
   ''t{7Xxoehdl}p;;&xY|0h@FMrOpOEH?MH!F{h3DXRSPu;x1V1^vvWKPEl85c%OXd7hTe6(GsP*wTV?0<'',
   ''x@1ICw`ZHI0g;)rzWU855?((ET6K?wGWO1C55SM8I2_hCXOLX3YMElYbr?<;?kPT*cescgU|CD_Dy#+'',
   ''K(e@8?cpw}KA5NFU19Tn+a83gDj<#Z~ZtLxdodYK#&lZ6cT>C`UD<5=;=Sh*R_kU@RV8{t^G{QuMUuj'',
   ''3KW^J?05)ktOd&4j>aXpr|=*)4;dhZi##mva=E@;^9M^Z(c=fpS3Nq6GRFJeBCJ{&-OXEei3ye11$XF'',
   ''L<#(nNt`I(QpJt2s<%{rV;d&t?iJVjb?lx*7)@*OwFSMz$|bbSE=k`jCR4Y4=kKNoM3aV#gnY-xu~Y+'',
   ''oz${4NHpzP()*_cr1i{TV9xqGq{hye0wgAk0Q|8(vHw=mD66=?5(ptR4zvS$W0zbS?j}qBR%vW9HJn{'',
   ''H_m{aNM^0Y(3^=-gncdMO|`dbG>tKOo|*AUAX>aU`>-XZR}0*>+UvGqIRYguQjz4EL?V^7vZ1j*_O_{'',
   ''ysM-qOXL}v-63c{w;s<h}L{%AA+w&D=PY<Lqrhx=;oILl$%229=Ax{oi!?<AL##@WL-)wN?3+>q|smQ'',
   ''P0H6~juC=G(S4RDj=y&UtE!Q8@rk>py<Ggw@$;X4A34?)Qx3@mF{7Z)6?LLJ;~S)vsa<-~ZJ+1XI57_'',
   ''d&dlvGbl)Gc%zh)camS6V1_8=MvaC&9<Ec5jJp+CwdZ6n3P*OF*EA*fL()6@oo(VxtksDAmVW>ZaW4l'',
   ''VWW0b-NC6;C&9yLwC|!c<i}El&}WF0Ufu+#GH9rRMY}{tTH}d%XYJI*Gu>o?>`vi$gcW99}To5cGYFO'',
   ''?jiRBqC)(PQmnYq2jZul*l`_o<o7BW?XO5&QAY<mPM*M@Jb|;23ULsXV2$G~6!B{oq%>W7;Z1lx#4*R'',
   ''i@-a*$y6pGLGh^}cC0<tJ9NFx8-*3hO7m;I+*<!&&U_-!c7u?t}Xh0}sH)#)A1W_r@qgG9KiXV4rBA&'',
   ''-3I@^XJ#x=2U{5JG1TDlXi88dVC|78$1Ye!Gi;rVO34*qzh;Jja)?i@3Z-5+A%f*wWi$x>~E#?p_p-#'',
   ''N=30s8jwRU7F_M0H1`E1tt*8lK^^Aa=RU4v>r<kTQ;(A@FJLw$rAZ^3IGg4CBzu#Mka=sved7{)BR$$'',
   ''oJ1M)M)4XMmh?yVx|3>WZm&6j~P##2;QDXSh|lQn{lR49ZHM<jp|Nw5^rH0h=})3IXJ?^-6JMJk6n(*'',
   ''Su{#Oe~Zcobp)Hk5o^M>FFn|Uq<KJpi0@*NI92aEiC$pvxxa<x;YQHo^uU9tRxe3cyy#tlS=|#tJ?E-'',
   ''>3IE`^(ZMAg!ae8gN$RMa^Vl`p|7+fQdc0hG%36|`B)bBhV&<VE2w2l83jtGm5d6U*NL+RtJ0gguf1|'',
   ''k*U+q!uPr=w7`5ZjV^^DNRigUtT@bZ}u(61OpmhVfQ{RynlJteQ*Nmv4;ttSsy<?CtmvusgLlwHx0ed'',
   ''GjXt`9a|JJIzYV~M!9_pUbDW^EJ1h9aD*mowdyr?>2?m+M4udUAFZjh7u1#NG#o%=AJPhty(sK4C$R$'',
   ''uh~;$;n4q*M6*>X#|}kV~&zg^Sju54^e$yl=kvo$#zAv*k)k7gUUS&j>7t>!!aB+K!QliuI756e%!X)'',
   ''%fs|}pKZw|E9UvV%#65C52xwIpM^aPJ?J*XK<rM|k2SHeGkqrsIcpu3dPCAX$Hz!$*^-Y<v#E0;MvC@'',
   ''uvknu0xrL;RrWN{ie2#n0P|SF{ddJ8x=M`-z6m)Gh1&)fE1fTbLv+vDLCebW<WUxXWigG$me#&lk$fm'',
   ''W0#;+3#a2(f@R~KoT(k_x$Vrs$A)1bCa9B`d+e>deKU$Pt1$pOOMa{H4!Joloh;sHI8Se_t`=dfTnBt'',
   ''4OZKm|*egwR}PwM-s6HF~0jf@ATBwK0CPAm33pKF@Wvww?>WqudEM@DDE-9;XPC<Hp$cwme^v^LMsGo'',
   ''gM*HG>+{~_2V_{5Qe4$v6z*HVY^5sJchf({1%s7JY1`-_-{i+#f4=KO5Nqea>@Sx=4wp~l)Xjbt(u7^'',
   ''2f};1B3<{xyL`KKE#pCk65jX~P9fB?*W;WKL=v5T`Vms!F*W+$!O(>3`sNXCI*J5{)JSJxa+aBwPK;M'',
   '')ntNQww=1Mm@LKJJoSJ03Ua53jZby$hl;*mj(Z>Vv@9s+!O$lA2h$|XTe7(1YgI@G6d9MfFmp$l#Yx?'',
   ''gy>yy+2oylb!1WD@FM{ca0juVXJ8|&LMTbx9bg!LV*?@e3P3HCS7-Af$LfCO*tc>^&&kZ3DW7mOL+ws'',
   ''s()4(ItmG!{wdIxkzFmcX4O4BuDv#1o%XJeUz?lO}}!K7xze4O_AA1PGpkbKYu6eJK_{VJaltE^o9`@'',
   ''6Z$!W+Y6|82emyJQJwSY0C)a0U)8y_&F!>Q2Mf7GVY&wpJ8=VQ_i;5_c*J-Un<2HHz12eHJonuqqirg'',
   ''zrFfX`pw(N(|^DEX8bS1&Qa?_Ih|a_Zrp=v-6mubS3UB6z~_n!9g3;CvGEi*b}&io3y1gP2=zqsZne%'',
   ''gd6BWEx!AF6->CTJLZE82GQ$rJ5Sh3^BGEm?Wq<uyN?V$bvHX_1_hlC2Wk$W4EvxK?v)4wa8vXX?u~V'',
   ''WqF^nE|yt)=J3~C;7OU_hxLKB<`w{Zz>`flV4?$7z^23Iou#4@$Lw;NtG=#}fl16&B9@B6(pZ3hi5-g'',
   ''gio-yH-HgPO7YqZ6h&2!O7Y)!w=E4pju%Ru6?0U1}*yAUvr5L&vDOEd{be0No)qX8=(gx})gKqCHe}r'',
   ''%&HqWG3YV&7OOKhnrfqRmMFh;@#^2U-DvEvS1jL^b3AyY?%-3r-<uFL!7u(%oQ`Eh$4YB%#qcp2{oh='',
   ''!R%0u&|$k6_6hu9OX!X!pV<91_wGS_yOnP3+Ds!hfKOcGXWC#$y|{0O2a-B`&=Nf#Vl)wu;wNjMfZ01'',
   ''@KFc6pmXfp_{)sJeDl{ewh73XX10%%&sCy4*lg-Qe!^z`;;ry&-y5kt8f62Fz6laHN!N5i8g^!|!!<d'',
   ''VvDZt}rt>J;h^VHzc=gDKKa1Mywy<^P<j>$@+Aw@>rGjcupQD5+_WSsFrZ<8<14`>uj3N}vmkScLcBE'',
   ''+Kyds~&bK0)6E!*+oY)&lIJ_o2hXIJjpDp-<?)NYH4<9FSZqlMM=aKsZL|<L1tZwnM~lvrkr;9AV!g6'',
   ''tQTG=N9|jALZ(SpC!2#%n%WHY-ZaPYxuLY$e;Y27mM<ilNfxT%{@4&=|BV&Qa74ht63tkLgs!rR?@Dy'',
   ''TO?AJ*`hXC7$bm?C@W2VC^+Y>IeTDJ%}7F?LPImh(UuYW|FOA!!Q>ZXzO(xv))hp()NOXIyjV#lFCsX'',
   ''as7-8yBw}lbo>z#c6Jbf$@aFQtv~DPplfjfX@~lBB9Hx{(`_0_R6kWBw1lRus59?zlZ<U*S@ir&&yHj'',
   ''Ju6Rj?c_ah-NpP#Suc+dcz@j<oNL1UnH_g0B#B0AXHwv{xNEz)*XpWbY(+s={Baewm181F&$w)5!4Z3'',
   ''nV8ek^Cg)2~CDXJ8ls4h~MWCtMSLzaq~ynMouZ#hAF#keU7ix_y5}%N}OfO1*+h&*6ecb4#770<QQil'',
   ''0V6<ExdV@?`C>jeBf}R!#QE=t9L3n{kO-Dy@c8W*)s2v$-d~7EbcpDtt@8aCO=jb(^zx6k6vpm1*)M%'',
   ''rIFufIxonm73hQ3!oy4X(v9%xs)-*t^iSFSBSRNKjiXp$SG<qO&acr|Dlm(O{py@xvVHnEBkui-w{BJ'',
   ''*$tLP#GT|HyG;mXwv-7m6TrevEummE377jEJ?gBPm1Es#tBzqE3C(33R(ZBC!dG4L)k8~@Cb^6MM7o*'',
   ''&Jw!1U#m~cOO5+w>+uV#2V5d;ECy}^l#NoN*2^L$`l^;Hv*M6CkLrowa_bm^xobZcln97}YVNDf<eLo'',
   ''$(*2lkkdYqU*eO1n2nB5OCQ^)XKU>+Knr5<zJ+_H&)JEl~w2cT<(S?dYWIacYYq*VMjFZ3Dl(`Yd|BK'',
   ''BM69?7YxX0e7p>zKKl^m}vW&z1{Q7HMCiLhL*v2SaoNwu`y4f9nL!MTGLzi-ox+SeE;GVd~L0(Pn+oE'',
   ''jyd<j4qPP&$eo?gHG6woqIO98g4N8{uhhBc2N=E0rhj=n{r6dV^>93G|N7$LlwJ&BluR!SQy2^euXb{'',
   ''8i=8S7lh`#9`XQ-K^+k93k~`D(8K;ld$xxvsvJ9L&OK(zI$mR4jJ#ni!!;zZC8SmfpzzM0=B`ybQ%2Y'',
   ''V3bH^DqtaDZKaazvBY);6FqQvpu^zk~s*_FFmB0p-=(U#||^LI-6IX%^fhuZ7aO2R+h!+D4z^jGQ*2G'',
   ''b#<&`i`K!k&<y=#$QJ<uu~^vV2V(sJ)93|25pgol(Ok%qv+iTEq(YguhnW&|n#}nN(J3q|bKQbj;}1y'',
   ''vy;NcCxwx*OF*vW;*V2n#UcOZPB;wPss{08cv7fGvQ%6{KSXl?RO+@n_Dx1>;d+Xfz;#K_s;>%Ij6a{'',
   ''+?&`I&`YKGx|`8(hS0U?&;a*DL489OV{U^})JV6iF!4H}d6q1)S`Nn|*(;8TGsCwyv-Yir$zVFL(}yp'',
   ''Pl56UAS&EN{w}=gF3k%A8>$n$lqAx2oe5rF!>1$jpQj1@&P>IBpWLR_h#4~;P@%4*C*M-83sgPBVgUe'',
   ''PbTM)kVZJOq&c#u*sNTX|wFStO9_J)NV4G?Wd$7JBRjfUOwM^m=zkI+RW&D~S!;S?8DvQ=1r^|v=Y4$'',
   ''k|@`G2zwe2w#)Je9a|sWsA--}+#$x`EJx`3m)#fka>cUUx%v#vn!B4t2HRl@|`VOmzp*C;8=nwi%Jl&'',
   ''FX2y0O11i<u}ujbMwRh%(<6{H7k(PGwllw?^F%$!?rhZ_^-{}oOdRaKO0y7xuG7H@`$tcUNLRj)ECe&'',
   ''<p=lA*ll@^&;z|Uze5UMo!DPeawYDau)cfn6YoQ{9k}OJsCVCcDoAF<!o{?63ksZKqv0`exf9&<;@T}'',
   ''FyBc`bPfsrsNrtV1!gSgfWA_Bl*=;2u^|jnJ?4*+B3<~)+eLt@e$cYL+&Ff34+ZIC(O1XoJRzzDsXW{'',
   ''O8=+S-6K3!%h#l;>-MVKe*cUOQse0Ub|?gZPTNCy~}&X{RqB~4E7xT8LLqNn4;0j0Qf6~7!uZ%3YQr('',
   ''2M)cAYJtpJH%NUO)Zr;-_Z^U5dH~24rhC)Nl@1`dlsuPP48hZq0pv*zPCS3t54;?mvrzr{5Zf>mZy)V'',
   ''}#&bSaipgGjhLK-`D=&3-jDB&dEG&EPzfc(w_TXChoS;lZ~O%`kkg!Jl+O&uyjAt@q}6|_rO~`|D~G7'',
   ''8J&d71{)wrX>b{_e3xR1NWhRRQ0nZ_Bdj*fXgDV?9}m`dE9b%4=8;*DV(*?La#4_Mmy_g|ovQXEVe4>'',
   ''$F;VTGI^&Dm=406tN9`?vd}-9M*XHkE!=zi#cQm4nQ+$;eR$Lksv(q2*fnz@%sgdrrU<RWK0mI1(o6&'',
   ''&Oi<pmXi9^h^^txdcdTgu@9S)Lr5EjO+yPvxEF0?6KhwYq46nvkOgdR*1PJ6rd1Uq#jv4T<RBHV1-8!'',
   ''w@5cUL7k(|Kv+)4xVXJ$S+y_XcOlz_OMeSHj?FMuale_a~#qCi^g@1#$kbj~_?s{QcnhAR11}(gWoB8'',
   ''Sc*8)uZl;LM8&cWt+Vv$*#-yimy~kkes|WImR(job(oR9WmBHII?M|u@ly!3G<!l3_DG}vo}&^*3F!C'',
   ''V7Wo`C11J@GE086ra$p>WXX5Wo_uTWG3AuDNJ`ZKhmN<l$9DxTEyl#Li6Gxd8Wb@zFP(AZqUdzMm7Ko'',
   ''49g9xxAehXS4ZlLRa1-#(w_Ewf#$aFM3DdO1)Hih5`jBIE(C^Uit{3558=FIY|J)IW&#(dYZ#suJnqH'',
   ''fpj|f~k!16_R1dLp(R`OrWSX`v{C)IT$pZnIF4wo?(>ZV9b&LTSmT>2Qq`4QEC<(*1I&pbs(%A#fso)'',
   ''+qiZvmkV<9CmLCpk7weA<B!C268(u>5GFAVJbfGdFO~|MvHhrmawXZBTztds-UIZCyF%foUIbnAlu%*'',
   ''S=QY&~htx&Hb9e+C=`0W)O#ZdHJHh?-C-3+?&X35AOpfhtXjYa>ETw1~>M0+&MCgEIDrYtk+>Yup=Gc'',
   ''XAIH{Z(dF(2{_ETUUsb+jz`uJ9kqf00zY^a>b=@N(QS7XQM`_8q5S3C;}VWbLV>+Fc?0;!nCL#Bieze'',
   ''!3k|~H)kCA{=m@SF;K!zt^vF}_@*!jV)#*(6m?CS({+8igQ5Tg818FcKsE9rs9=6j`pZ2$phPWUaY@9'',
   ''EO?w%ynX8}3AySbJCdy?6Uz6r`_HS)jM_4iGTVunN4Y2nE?V0wa4aq3k{M5Q{&2zRF((S}L;+m~<5qN'',
   ''O}A(>;fnvzXzcS{lLL&Um)Xjprz|#}E#(Zf+naw~u45;(U=bsL>#O^avFPoelGY^bnG?^vs%6ag#UoW'',
   ''2*bn(#BP=QnEk+j|N@Zh1-m{3QiYu%X|l>iI|Gs<1?~0pNVs)Pc%nlU3X@qwI%do8>b3wet8G(wZ6sv'',
   ''qfw2Dy{KMQYB?CY9_=`0rFEEL_?JbP)Q_^oSi!rQX<*vxpr<{|;<FlkR+6u=FlSc8$8_VxzOy)8%vU('',
   ''7-jA~^920UcaIOAf<H36zL+ljoQLV&CizIyqysJ_Di)$KMnQ+4gQ;3=;b|0Ud`4E3U;v)2QFfa{reh3'',
   ''yPB9Ia%@!mUlOGr=>yz9%CNVL^g@Z6dUu23=x3N8Vsxyb!Yg^k*XCN{GP(OPz;@2d)4eogXSTou+=NH'',
   ''~RSE^T5boc@uR-P|hGMT;4a7k^{>-c7n286NUB_M4tu;;Iy>4F^LN2L>+tCOUPs%{Xo*ija>SL2dH{o'',
   ''0J36#<}_7xYOISs3tAux<02}S06OS&TEvh;rNa<Z9{8Ccpy-6aL&Ikb8S*Q;%AV9`qP)bMftrL0;hMG'',
   ''IeqG#f$kKzOI6~D8>EKy$S=9YGG+Lj7)Reu5KZ`)goWh}D3}8z1~9gyoB{lXtHxK({TUygk6?bf_&>='',
   ''2@x<T83E60t?Cml~Fr|y#)0c1mN8&90<u?x}kIw$%{G0zwj~~qb^ryc~uT02Ay9}IhN>lztEJVTI6KA'',
   ''Z&){$A34F9=ymExMN<c%0-CQOydkp5S%5Lmz45_wo?jSf+m$X!LWemIW&w#v;NX%9{xCnGtXiH*M`b~'',
   ''nX6K5p)S2at2+Mk6>XvpL9boW?Gvl{;oNp3-`E?N8=9+gvX)9mS9gA3S()`eDfM7bD;6JvJsl?at;2v'',
   ''aak_3Gp4%JcDh7wRTBct`zl9+YTNxIqG2hEcx-}Q$m>>SEy;&p0gPxzc^1WiluQ$c}|Ky(GzMALhDdj'',
   ''kXG5;nG!gBd;F(fgn#>oU&z@w%um0-$Gch0R@ychmDPsGGsL~qA+#eim`PawK9XNk+4^oc7E#o;-xWO'',
   ''k!wU%#`&wdn*Gspm`o+=+6S6->Rso%xQ&D2VBo~)xUzW{<$z9{*Hx49M=qe1V6=S6{h58jb^F>c**3G'',
   ''ZbnLqUO<<~&WA9@gT^J^gH>z=;+8i@J22QjOxUiB_Rd<<7_S9vpT>JZ2*wC&J~S+7B-ZN}6$7l3q=4|'',
   ''Vbmv5SD)3Tyj~6>_Vce+E-*JBb8mj)rVYt4wAJSlQYGl$sg&{WNFz?d?=u6p3}J2g`Th!-jlx!OD>TN'',
   ''w6oqVELAS`vBGGysM?tD~I#jGu}NxK<0B~+O=>W%zZCi9%zKac<o{H1E@e6DSa)ZJ@6g^{WL>nFFl3D'',
   ''cZF2wai{C{w2ez-T=$rMMASW|@8_ep|MQ!xFUP}vG&(>!mO?K;K4{LwzII0#kAHQ>?wJB2fs`j^gv`F'',
   ''ek+n64BNFyb{zm_tp8gL1`R(udKc`>)EB^D<$?4xVi?7D#2(Dft)yl)M_{)2-VOe4?7Ic>mj=q27?kG'',
   ''>=alHq6HjDA$|6koZ`KazeqlsBSb=AJ*9*cl8FTOD^dS|OW8xk=t+TSKc4s7wh`Aq8%_RNSln~h~-BB'',
   ''{>#F48t$L%iOSh>b(uB|=s^!xu*RkLN^erFu`ur|r!g1r9`Tc<rQ6=SVO{(vx{gzYo14Z=8Xf%i-D^s'',
   ''3jtsZwCExlkLB3F~f&%u6N;u;EALX!su}V$GbrtDK&MnG|ZW#5!w|Cb0R?9c7Q#3bz!dv@;*kr0j_QE'',
   ''`~dcxa=nMDeOPcXIB(((h1QEOX#+|lrX(M<AC;&l(Jf-Gg@w_}c}-&PNf)*|p*T;Mv(|51>wu9rv6=4'',
   ''r=7D~F8G6#DD~L^;GfBxQkxblT#mm81m|-KHud{r^kubYP*3+=INx@<#?4mIVTEPX2JB*Ef^47VM`EJ'',
   ''IHd8$7C7##?Qp_E0PF9b2@ao5J}UUKigkB2SZub&g=;uKmez<acZK@RB7RgEjYKwB>Refh&1XF>N3L#'',
   ''}sd#}H>T_hKzL`yD}l%Pr;RyWF4t?gj2$#-G<SK3RQ801R`x9DtP}P$8Rl<R6!HTeEK6ayW!WN_O%hq'',
   ''3Sz04m7A_q;R^5<~6IXv-O&Fn0(oC@5Zk_$gWA~rHTW6^`?Y+vGm96fJ4CTjb70%#^Su`XZJquHp-hm'',
   '';~?rR8sgoZ3Fj@7`_a*H^2FYzL?fxpffYIX1Bw`!6d#f6B>3c-cY^ddk*wHkt*dRE+=lI}Sb`YTD!+l'',
   ''Qd(=srZmt2R+Av2x=OZdQ22dX?S~NRSr*T-(`8MQaQYHxiLiO}-lACe&7iL=z5}c#Ch0+K=2dBN$)j-'',
   ''=$)%57-V#(>LV6=u=nDDsQ85O}DYb94D3CI2G@QiSCHvBu6(1&zIwxjn)`q*7<b|BJOYQ<?>u`tDLDr'',
   ''R49FBPX4_7Z7di#pWi5lxeA48ipo2koUCzF6t><D6eQ=erO<%;wM^Yu)-F<PpvbO9v)8+Y51eaq^h*9'',
   ''P|j$P%^&oNg>;%w&^22z{JNb&3&Fa{ARPms-opPU+)%b#IF7c))ejdzI_E;@;u=JMu42?=sq!->mj2L'',
   ''RJNsbv75jS?w;6|Ci-3@6P$+UUVFR-<hN(^k2yG}%Onqz6VEk2JVR1?>Wz+Q@p>dI^=Hvb2}cE+!f)H'',
   ''VdKY;;&#HxlX9~L@s^qq4zrx~*GgW?t)o5;K_nOt`-Z->ccP|Lbh~orLC;RRl*Sp5Ab(N{mqYKP94(4'',
   ''^PVUJ$S{jd7(&YiC^5}QB~UcI*_wc5lc^tiGIID?C7aW$eqPMswlW@fZq9|}B89K4D41GF5ZADm@I7M'',
   ''w%PpV+Yoq>t^9IYL^Me?d3_oVX|*&XEOcW=YS=;Wcl&pgTJ0c5@QLL8SFvt+d<_??AVM!apQ}tmaz;o'',
   ''c>IwML8vyQ^~`I2zhLO^Gql8b-Z|-4a)H8B@K{Nbm!)bVe*RafJ@'' @ ''{K6auUF6j{^QI90YtY3$$X7HIeU'',
   ''S-RDV^R&Cp-|3)8jQ-MGZ|v@S@)8@KIaS}1rn%Z!cD<+B7X8GrH)1bxkEI+nms9yiM`uvFkp4;~2ACY'',
   ''R=KIere7zf_Zh70LRA{^4ZZ%#F-8U(3Q|(B`=QbUMX)C$3>3%Za^>`w&OBvFIRArU}eqWb-g)oPfV?X'',
   ''+TP)h>@6aWAK2mtey7Dr3@xpO=U008tE000mG003}la4&3cV_|e@Z*FrgaCyC0U2o&K6@B-wU_B4Ar;'',
   ''d!p0)0pk6xoSqC)msf##zi3=|DqEbj*z`YDp@NyV(8hJ@=B5B`29}i=ugnO!8jdd+rAhIUbL%OfJ1Pl'',
   ''@q&-vP$ffD2=%jYhy)js<pm#GodTzWmyX6oAr7ol+VZG@n~($R%F?_@r_kkCiJ#8)(g3Erfj^*!tc>2'',
   ''j^8R@OXu33ruUWB(r?<IPJ7jT@7*ZuQ)q1Nb?L-mD%f{4pXO$}l~s|pM#uH>=S(bLy;;0nWIrtaz7*n'',
   ''xsLU@i?osQSq+v`e^y%{5#rsdo!}P!eS=WWOuyFK3ygC=(HC0h6(IGl|b)J3q<GYKiMfTzR`pr_DiJO'',
   ''rSwCROfX<5yGTs4(%=HIKz8$+<BJU^b}bM9O@&z1FVp34*Z&}$9N3LaWNo{gfa*Qzj9&Og3cT=j(OJ3'',
   ''aTMJ1AJOaYNDfwW^jsE*Hm}cB^Z(9j^XvdGUmW!*#E%Qdl>?u=3VaugiUuXq=swz^0tLjkM}unl;9sR'',
   ''PM;HH)g9=R_%nT#QWt>kCc!B1|}UD@tJ~g?!DU9UU(yDu~$O&0^~OcF!DT?m7t77YG9#Nzck8uWILud'',
   ''@}6W$Bo)+|wWy7AdIe!qDJM7`?xoeHag>PI&86aU9ko`*i?yx_T8!OPh4F;SN0Bza(T*&8N3+g!<`il'',
   ''zo05&*VMyI8+ZiPw0_mov*^T7jj9x(5I|Ju1c42nNZ>!|?l<e4>M(niP&=e{|uGnoTk&QQn@+zkc6;O'',
   ''n7+t%e?G)_U?Q-6<*DGV@}l=@CV5L+b#R*B7vJplFjMitNKYE`5h{FGbHWI7EXMN3qneK5AvjL<W>7&'',
   ''k1XeVzF7Wms(}HUjv|mvr=KqEZijGI`)0_kie&<3iQzwkf6R0Xg6%57X(46;8R@&+EF>q0GgFwt&-Et'',
   ''=tI3^f7yNjt-MuTz<q>u|=eS*Jil{G#P$R#^@zuQgyMoT3j!(x91;!faKf7a(Vv!0&+=`{9|-YAgncF'',
   ''hyQgcb5#g#(yKi+BML6EjGF=>2&fvHqlHVXZv3dXG#!oJS9#2VTIP51mX*3D&y{oQrUdY@Lt+zN7PaN'',
   ''b7vvJsccn&!Dv>;em^4)hInFbyw&p&nCS#}R2-c52Tz<%g-o3uOTD&`d%kIIZlc4N`1W$?x;y(2cJ^?'',
   ''VO2C=g^3bL>)+e&)}3~7f+w|aUS`T|ZP`u~Xp7z%<X2#O#WaimITOAi|kG|(!FJ8Wz-;Af+&!;UlYyk'',
   ''k>VvC|Nz&NOM2%|x<GrUGGUov4G|^w$lg?C#{rjF?75Y*SUby3NqYAak#+Z)B;e`^gayAJHppC9Z9wD'',
   ''4EfIkP1<l;;aj5ZwL9Acr8nZ?gs2E8V9<|Kp%8$q?6v;3ECa}LD7|2ZPi*oB-4X4_OLIHsS=WqNW)U`'',
   ''r!%4f2R-AJbSml@&w4AL(K+f3u*DIVgC|*KvfI+EWcde}pzMJFB)AJ!CiZcrA8m=aVRFRYz17wl>p0I'',
   ''!bE|XGb+90<_uN_d<RQGVE{a#?B-nOByPR~pAm=&rco|J)TT@V@=%pckRdTB)?QhU5`ahxNX~uPtWz&'',
   ''#?9R@snoXh<U5X!F@l}y{{Kc9FEU#nj`uFv8A&&84>mt{zZjM^i6cZgYxSAbcq*K}l|&9p1&P^Ou@u@'',
   ''>}6)YecZOZzDs+1sP-BNI*WpVUpFmx0vPyP}_E_(|*PU84)a9^Z;Sr_;3FWn>8)`6@tRduQ{Q=a0hCB'',
   ''|U<HWdL0vvrk((b@|iV#i_VcswO3rYx%C=46DpeOmG4sCy8=ML97R4&{6`Hup>C;?fwA4^L7O1pnEdy'']"

lemma DATA_0_scan: "scan_lines (Some T0) DATA_0 = Some T0"
  unfolding DATA_0_def
  by (simp only: scan_rules cong: if_weak_cong scan_lines_cong)

lemma DATA_1_scan: "scan_lines (Some T0) DATA_1 = Some T0"
  unfolding DATA_1_def
  by (simp only: scan_rules cong: if_weak_cong scan_lines_cong)

lemma DATA_2_scan: "scan_lines (Some T0) DATA_2 = Some T0"
  unfolding DATA_2_def
  by (simp only: scan_rules cong: if_weak_cong scan_lines_cong)

lemma DATA_3_scan: "scan_lines (Some T0) DATA_3 = Some T0"
  unfolding DATA_3_def
  by (simp only: scan_rules cong: if_weak_cong scan_lines_cong)

end
