(* ===== verification/Pip_Data_2.thy ===== *)
theory Pip_Data_2
  imports Pip_Scan
begin

text \<open>
  Lines 770 to 1369 of \<^verbatim>\<open>get-pip.py\<close>: part of the literal \<^verbatim>\<open>DATA\<close>, line by line, with the proof
  that the scanner accepts it.
\<close>

definition DATA_4 :: "string list" where
  "DATA_4 = [
   ''4B;An$Q8KM`{jbt{-EiFxP&RF-$5L9#@<oVcMX#o2aXP$@0bT%NERDgb8)Z=7~rJ!lWv5w;2Mg9Cw$U'',
   ''?HNqN|H(XZK;+cpMkE@93Rkv8UA`wI(9e28>bYyd2#9Nue6Y-PybFX6i9V%jpbgGrbp=cFuGxtnr0@4'',
   ''n=6m0+o5CIZ%0&wolyx#kbspczP&C@h8vs0uit)y<rr%KT<Tl3qR0CJJr!e(0K_FFKXJ2!eVMqRyklk'',
   ''66!2Q#uNK?>wKeD|Ck+}lVY9q2}cf)s-qAC0&dv_G+1cdMdY$bwH<saL2GrZC(c&sa;!WM_GKy$Dmoc'',
   ''BLL_GzKoO<acD!aXA7fsQ+p$EOV=C?_wH~0I53`>CAd0@j|Q`T^6SC)HR$)pdum2KY=xw9g%SJx3*VM'',
   ''(2qD@FtOLY{tcUHi|Ih%k8BPSEE15<=uG4m7kCmbvN{P1N_8vqedbVCh}RL~2hE|cLo}Ka#iIJBj)cz'',
   ''Q$2-irxg+z!M88@6NBI12u%Y4q2AuT&g-+YWjm?=07|KP_yT`&uE?02xs*tugw5YX(9_ptpGj~zhdFi'',
   ''O#v9{mmS9(P)e|}|d-JDg?4$MNSF~2euI+#jv6JeQqt#-<`Y0tqarH9z|=JYS0#TkHw89OQ!z8-ebyE'',
   ''*+P&d--jmAajiCrTt4x|qaP(?i*H?;!)Q17SWwGenAf<2Fj%EnckpT4`Vs^Zs+>7u~y1=5YDi(%r#%K'',
   ''DTGgCC->e&cp_7{fsVnGePeW;d5{rb$=Ro;>uM7(WhCa>_1qwuV-w)@VYU4x}vX^hg{&>>QzH`%#cMv'',
   ''9;p5L+o+9SYs(=5xZ7Hpv6s@`63D-f9rs24Jw6pT<C7DRKJxw~U*C>D{}#D=TgT6+3CjjU2?3d$iVoD'',
   ''HHEB~9FmH0CEtW+A6@51+y#+jvw6JcNG%Z<!C=;_RKKEs2_46c&P$x(roVi||5z}l>gLm(*L8P4WOdq'',
   '')SAfYJm%u)CTjf>GqAe%%mSxKbuVIfj1Y72D+zCjF#GBfTSUsH?5lHgibvef@nnW=ev(i($}uy{|eO-'',
   ''UiB!k|mGG0sbRm*N)=GL3F02g~BEM5nQRww{E6HZ$n^5Kf(TgreogDLZr){9<wXigQ#0nB#vuM_+O78'',
   ''J`G)J4Me3{U_EQ^JLd<umoMCy9R1B<A_|AfR$moYntsi_=j+{%Jo`<%RoOrg{8<{;Wnlzi>}08(nHmr'',
   ''>DkLp319i?Eo7ool@g8f@(%3>h~%nJ^e$rPeQSl=uc#ZVXg{P>R6y+!Bhyqcr<(zRzG0w*FJ-xtd-sy'',
   '';5_0WTn<I~r`YXNknF_>mCo6vIqpdC7$Js<3ZZ%yXUvT_Erb?Y_&wP|$&<F?Q1{;5CDAQITaU!@HyJw'',
   ''pTNzdGb;0uKlY(i1y{!lp6<9M|d%*!G;X9EOgEkeWL>9lK7e{?tMWk<465{q2&`PoC5S06aVU>ttrWm'',
   ''Bl+XqZlk<FP<)Dd$KVqTm3>&FQzFhwBdKMgKn0)zv!GNW3=Csc|~AH25`+evQBG7yXgG$0yIDYrwJI>'',
   ''CHE%N2X5)?<Mj0`4>=20|XQR000O8^OY7y?@^De^#uR`OA!D75dZ)HaA|NaaAj~bGBtEzXLBxad97G&'',
   ''Z`(Ey{;pra*$70TvgX8D+8Hy3uIRRWS%bFN3S@>#%e2ExqBN39Vif)FyQ4&zvfQ94W*~{om%HbldsRl'',
   ''G(QjOG#SAA*uE~9={vr3m+>oo+SLFQc2lA>cDrUq=<ihO8d$!fdXfz5osw_yFZfa92o~A?;RjCYND_!'',
   ''Qb;c4?d2-<bU-ILyF_ju2g6mqMBz^L6kAn@5A%1XHr+kii0yfWm{uD@2QRC7Ycq*82KFe1yWyyMDV9h'',
   ''0k_xhW<2iJT?ReQ9f<O>IQ3lTI#S+EX$(hrfd$E%ignRCbdB17rb4BpI+Fa!yr9lV?#%|6cEZ!$KGZL'',
   ''9pf<vgIaatCd0?avC+p0dH?P@FfXu@jC&muMuR<3oZ??4Co~*xMkQHupu{0Gh-A5v@r>*UA0TWVhu-A'',
   ''Ava~%%EnK%Ls<Yctg6ti@*E_<&7{hi*_5hCv|-9<^e_!?*&RE6|91C<`(y#TSuVn3w?wB^^JDv2yRRA'',
   ''&nhlRI{EEg6`8wdJC7`3J6&QxeZ7C!zSVgr_u|@8abv-{@M!t)jSwoFwtw?7y`h<k{Le9=Ya6&F*{g6'',
   ''JqxJWO~Lx*8ZK79B9ND2tZeI$`Juee-uneBX}{YXptP!h%AOU7xKptdyhRwnI=XM?UQj9$K`t*LtPM='',
   ''5y>$$_!E_?3Y>h7m||z(7iHue(nSBsT#JgtP3%kxX>OGqDjEsnQDh==6L{0=qD;m|}&ypy$4Dqaee(t'',
   ''r*wL4JVe?>(OjBipgkpHd@AAynuehpOE)>PACxMpxlc*Co8B_TGs^vE**O7ub01ECeBRzcW>H)TrY#x'',
   ''Pk**xNKu1q5VsX~TsBotaWvPUWQ18MzTpbI$6Y!)ONh`G=04859jnW&7VH)bS`0&Rx<4}}?^-Ju*jHg'',
   ''?C~JTxBwTHanv<S%x6o0|5h00Ua?9yJ$>}mClT-Zh(%c7|unOao4pN6&;BliNiZE;1ii)XxP~Mt7wi4'',
   ''PSx~u8d6D906G&D8W#(eXb-Z4ePcW=Ob5ZJbWv_=1oE%;cgxvlz_;CD{Or_<->on+TU5`3VePt(t%1f'',
   ''z=?%A=UPt)&qK|EoC_4FI7J1Lxdk5&NKh>J`hZvW}Se1rsg4p3bLBG#kqsdFF0b&@M4uBk;kp<7b8hX'',
   ''>Mrb_b2!hIFIUjvk?#IQdmuz{KgfosizpR+GPl%9?Ariga^L1dK0!@Q}0fL4-3p0LiAji@CSn-p_`(D'',
   ''nM|#SE(q)?7dR3K45N-hS(>)+cr?McHfZ)$u4l_(hgmZP)i&(gG47JRU>UUL$>}t?m<VZjP9Q_}i$6}'',
   ''9+T6Ph0bx<}ntEbaDSnN5rva4R>Lb7p_JWxB*%1?#nVRKkYp1=KY*krTnnnWw-eGR@#amboP6H5MI>Z'',
   ''GH#q7le_JOL(4t;%8N$0B#GvN@>V=CGv_arUWBTv+WrhKD1FlzRd+CU3P|8_li<y+{3r-qchr45uP0j'',
   ''Q<GvdxZhYnllQs$cr)^mBS5(i0uJI_QP$k#Owda2R~H#q8S)*g%_p0Cn!Lqxg3i-su@}{On%8GZO7Mf'',
   ''#w4_74@<9hf4PuH^l`~*>F2otz~H1T&F*O_n5i;d>e{CJn6OTSG9tnpqoo#lC=vjuPzB))gm`;Y|5ae'',
   ''?<^@ep)}3hW6rV#JqP)Ms@g|jH`|!{5{=!6;~1pji3Z;zi`bmwuGK@?hkgiJVk^uQ^Twjzp~tR-WJ+)'',
   ''t($*yyj+MOD+|EJm5CZ0TEq$oD+O?WJosHV2P4qR7q4`?lzqiXVS=IQW_-`#>3bS<e$NqWOBt>TxQo|'',
   ''(-gZKv9sf`{*d7K{)WXR+$jCvhPU|X6V_9J*3-okL%b2SplapuibsrAI+%-YxJoFB-bcJ92zQ52bO=E'',
   ''cG6-4Em^Ilb=yXWMZPZ1H~qB5VEqKk<DS74g%l{tBs&nAyH`bwYxmdra*+&*I=kDmpljHWSU@T>FOgU'',
   ''e!Db{sT};0|XQR000O8^OY7y+pKr?eE<LeoB#j-6951JaA|Nab97;Jb#q^1Z)9b2E^v80i$My)Fc3xe'',
   ''bBY{6TemK16ERq4B+10(pwNO~iNxgo7R2t}f1fwyG%Jy*mYPQq^_<@+7j=Jp(yNwHejC7Z-y84MUTwf'',
   ''QM{c1lFrJZaD1XyHv@UQr7>t4x<VcKqIa;_n6D_fq1KUB1wr;I<fFzeL^e5xjqG{m^P)h>@6aWAK2mt'',
   ''ey7DuA+%h!}7008QB000aC003}la4&agWo2wGaCyBwX>;7hvETJ8Cd;T6u$CYtA1}q2R(wziE0(1a<='',
   ''82T55_KLmk6=I1_xK`#Q**EH3yDe(aw7hRT6Q`^z`)f^mO<1^iC#|M_27;Q&x>ymX*qix=HdpD^@BgQ'',
   ''Z;Y0JjI9RR;$VOR_lDC=2?+cJGDs`cgad)wRO@&k0t<WS(R%Q$IG^9D;>uwTNC7DUYB{>=$M}$J(Bl}'',
   ''a=poN4Gr2i^}V^(RaKPcVc8aorY!T?ytqy3+dP|_$Glvv08jH+*6uFaB+adPthBkSZ`&rb?Lw~`d%v@'',
   ''_8@=8v0Yme=O{xN#sULAq=Si(U`^5CJt@1iq>UjRyC%Raaspdj@on$#6QPsLKMPJjCK-pxQD8AQ4T2@'',
   ''h=y*Fj9nhKh_d}XNx<y?id+!lG6q^2}>GH%KkkeI2qz`?<LS3$pD=uMNAMQy5F7WYY>r9a@PzJN{^$y'',
   ''(3U_eIV8p!th~ke7?310c=n28me5_2O1z<=2<5<8Lm$y?A>Ozx?veUoYOoFD}2m`0mS>7Z!{~SZ_Xg_'',
   ''Gyy<F>MP3%oGS7DYzEE9C6*wH&waNbv;uW@B`jTvudW+$(@d==atR@w|hWgk!+Cp(ztHYvTbGrrCK+Y'',
   '')?u%uNVvwdm=&omni$>=2L}5J{1(-VD%&&`$t!w%33yb4I<}{GE5NTV+X{LxI^@y1yw?`yqAZr#Y9lQ'',
   ''2h-O`^-#6-9O{48?K7I7)Zx?T_E?<2YfBov^>o4D4e)a7Id<>q>)M*Gcuv@@u=Vn$!E8Toc?}9kSQI2'',
   ''CQw#bvZRy4?8Coq6PIsb=VG~pSM45ss!KumbA%B3PCY7!AVxs9Z#Bb@hCBh^co`&p4SaU9e-U(UEbj}'',
   ''?oF7&_NfWiE|KLtj@qX|zhX8LkyQvL()d7RlNHJ5z4~tEwy;L=8og)aX^{HhHGLB)a1$zmHzfx3Bq=;'',
   ''-0IfRC%_}8Vd+75_cI4&s-y~0II2?K^$oqX<_b>0#R&{hT#xd1XFPX!nK9r4eaMoWlPsX1;p0syRy(d'',
   ''aNRBe%<c;}5CkfXiJ&qVAl2_?Mr;!wc%x8h7}cU%twV-hcMP~Ow0eyIs}XB(T__r3)u0E;u^s(=!}ug'',
   ''1WGWb%5*8d7of>Y0=&9k!tRS{T7{W7O=|uw6#Q}oS3H*EMGjLMu6i`;xIHzZ7s}%^B`z+OdYXk^d<QV'',
   ''{v*3i(57Dad{aFW(-4lHw<G#-vy{FayH9kNQh5fO$UZnLHq{C<EbRpdLILK+vDTU=7$37WG!h3o(iJ6'',
   ''P!M0l^$Pl+AOk?sZjz3??{5yPm@%3_{6xKv&YTn34!-k~J`Hqdkz@thqI<NqL}6Q8K@`MfT5DN9rP4M'',
   ''JhTm%lkT8-8PIxTK){u7w4Rr{Mejk#i4Nu1A$8ns#yLsI*p<T3qZF3ODx6}WGrRs<7iA%knt%HPeGSq'',
   ''NvDAT>}%j95fB<grw~Z7Tt$5VCMdktX$DJ|P<mW)xM{{y8h8aT-;s3it07Bq4ZJh5hS-MsyuHm9M9>;'',
   ''Yo9Bkg#A%V`X1Y1TLEk0?$(WTcbVUNMK&1g+A-h5kpf3XDPVZ)JJWb7iv~?r!Dt#<GuD*ZsE%bzW9>&'',
   ''2Nu@a{Mywhu%Cs=q{C95?ob42~E7HGmYI9HN6ESpfYtVOT^DzL~_u;`tuYno<&bd1ad1!Dv6hRVXAPz'',
   ''hAeX!a{04saOBGHTL(_P;neWE+c;%?9`&n4C|df0S7fTz3J_9Hg5tw1^@-&(-8eDp_!$8HWo}&4|+Qk'',
   ''?2qJqP|U@J^O?h5QdUTo7FyDk;Q6Q9`d9TShZfXRo3iKfNWqY<0^qt3P64O*$lY6Vb}@0LXE0|uP|?*'',
   ''@n!?x0+uFiE#Puca2TczBlVYZ3w&PDprzSz33Igo1ww`jRUd$x^BU;BBV!6U>>{GR04-IaDCFTpiUGf'',
   ''$8x=a@o(Dp`h;`Q>45M59KFwCTZh~-xiwpQ5$g%Xp-q$4zIegqyI7f*K$(De3BnX;v1Kqp_wNm)btGg'',
   ''v}y)`1IY6~P3)&l*nQxafNLocqlOO`viZ`WtfZf4TY>t|=5xQ9>9K64MBo!#7+eq9zdE&wvcQLk4<-K'',
   ''DACS#m%Lr4^hg%x&WnGMs>;^#TMW^cQq5=ojNDi>%QDh(o<)kPWPQGE*NJo_#b}%Lgm)!L|3y%u1YTP'',
   ''7L;!eT3wfB*}NE5Y4@;W}F@b4ogF)vSqSpK3Ku;!~VjHq$rCFECiM`=Uq)ZB4Z4{1Rauq)(`7mz#@Z*'',
   ''hrHud!{r*N+2o?s)Ip!X-DX3B_k``@33Y&#60E)-eNtf0Kd2Y+0$A-FAhrmw@tU>D99AT#5FkV@&(@x'',
   ''Lb#+lysPfdxqaz@zBQmcM&w%cti|<}teD`*y?9<zCF5h?x;#d#pU6R$>3`d%!u&&WmyfO6k(8cCF<Q?'',
   ''!%_iPsd3|S|Es}tH%(!(($whIc!Eh}2>cOQp{fJWBX4SIb&QeTmhLK>qLu)vx-SoeyPq*~mb=w@-aDM'',
   ''u2soCTd`W8%0NG_@d{d87%$?z}Zn4$cMBQVoEGy;00~h6f28WRjUz{`&Oh`sq#R3n(`izD17od<%3Bs'',
   ''5TX7B04>PTeVifuQUo)DglaezADeByb?}fDFkVHS7$%#^QY?b&(*V2r|yfUA7Eu*d0nia1tL3PPfDO&'',
   ''s|vjh5Oiqlgj;VRvmfaTLxRtz^hgUatkQ)bIIZT>5GTgc5tXn+qbfoxFR)05-qZsg<8obgk=CA^;~m!'',
   ''wI|Xi|c7yaD`*yfpUW3v4XL6oT)svyK$ysZ+kzKX%F^p181*YgCDV|QlsH&SP+XU0|X=m62u4e~9#ub'',
   ''T1;%QOe2dsLn0iIi1>Rla)vJVWsEP<oc=jvlepaQ4zzkYFa1~~xTnNL|(fvwvwJB6_X-qzDIHJuJBPC'',
   ''Kh9j;TWnXfsDk?W2#1-1K0Xy^q;(!~E;<9#~eOG#&kpr!{lQ(eF;M*hy2K@N3^9MUKZ#qgxPkp;|3&l'',
   ''VSxHhvCR0_2Z8}sy7#3zk2fxs~Tb+6dE)L(2eF=F)O5ofM$MXHA3}qJjl7+r7j;XvkDzm1ulpDop=i0'',
   ''1YM>R;bJR9VA6rofvpAesiDZUCl)=zzew_0cRuR(T2^9Y33ytxO#)V{(JApQ=tI~^xCN_(-oyM3!f<a'',
   ''d5EtZl1N;fEc%XjjjR8DK>P41Kx<D$PH69f_3Ji$4JwQ|eu?1aU2Nt(*e;I7reXbnm06)T7O|t|v6~G'',
   ''R(a`A!(6>!jh2hU%Bj@^X$^o6<qB6{*X436;;U%yN7IeZ=t2Bv?#Be&%-w)T4fKEu}jcJbybPz$WkhS'',
   ''eYj)ocSs2gp#FNVF26S8CKLW2OMA%KCj%fktO^W4pqmbqz*Oo2P13vTsA0h&mw29l0#?luQzQf{~(08'',
   ''BC4=<4HWRni?6h*n+3>^f1K>w5|opeV@`1y$le5BO7#q%cAy9chRaUTM&$h2e8BWxsP8@L$M6hSzQf2'',
   ''GeQ>l>W9BvTzoqXiMM*%vgLMmUpe(?SOhPb4>VUrhc%LXoE2D4*Vv5-j`ML=AIl(|;R>!N;|<~E^Q`y'',
   ''GbDmiTW^xP~QMKDZ$5Brf^{Z=iIHxBJ$Doi0`d`1yaE%Zd`WB7vOdL$c2;Y@0DlVWHfT0XVHSLg~NF_'',
   ''94#zSo@)U~Rb{WAh@t&>8$UgTC=Cp!gX$3KWA$YjzZ)#Z1WB--nU96w2eTR;t&&xlS_8q*)?4hv<Hn!'',
   ''PfZ2N`XgL9?J%ZE#&dUaeBH``KbA!_c-Qu(-XRmSPD-I?Be83s#N<*uZQLd1LSMkzd2q65%Amp7<u*S'',
   ''7`FC@Wd&7sI|TePQ?|l*Z>axPDS)4*?vvWytyTKEjA>1mzw}#n95~Qm$`OI!K%&N13JPt=-7#Cu=qi#'',
   ''2&Pg&7V+9&lpL%yTQmXGBzM<Hop2v?XnhPaBh`c2DcjMWq`eu|lNo~BI&31xG{z!bEB#L=VrS^1sm^I'',
   '')&D3qV*5~LEn~`MZ+wn=d*~!8|O889i9-LIp02S0Q7_JlJm+ZJT{#NUsl*!6490~YYWU0T^*WDZ7Zc#'',
   ''t*Kj{YkC*5G1!y;vFERfJ*@u2kxFZd|iDvZ(fRH{sGMzqS2(trV%=B9C-;1XiGBERAr&zcoq^SQ;x$X'',
   ''_GmKqU!TK{1a;p1lDbyh>H7n*{eb#nD7uL2QyrIc0q7v>x*JMY+kex9P+yt?U-0plYC_-)ssX2vJEL0'',
   ''C{HX#oOZ#%y#C{?^tp)yA66a@?B_w8E>@%hr0RBd!M$Ii4hRk2C$XIGWWc$$z*q^*4kJsev8-EMfWvx'',
   ''JGs?_d@uzBCE3oHf|OpBvM9{`t{VQbv!<tC_qL4#)&=Q)WZgG$0MP=qhS)szeF#+E6a_>ZUD=}3Y*mz'',
   ''%o(`987ZqVtLuA8%nUDN^3p3~c*=D*CBiyn&?ev1tH*Z$~_W+e{Sae$S>bfmLXnu`s8r0QdrZ&SBdAP'',
   ''l9idr4b<8;t<PNp9Cia0*DV~%xkux7-vd<O<ww#<5B3NH{$FO!WzFAFqltSM}YJnRCL{j>hZ$lrkltx'',
   ''X&tepk6=D^Z-`ski;o4pEUGp6+P6buF#jU_}PeQ81;4J)e}=j7gf>Mm*9j@^U`cZpc%z%0VikV|s?>E'',
   ''J#`w^vqTC;E~S-Nf7uD=MV7GTD;jfccxjf$lFv;iEwVS9lz7ERJU`KelwY2tafjc{7%s7@j9Z$@)Q2Q'',
   ''Mkk0Vb`#}8DcRLKG%53aPZf7t01u2;AqQ_ea+#>!<XO{Y%BSJ==?&P4DO<MF2<7^iRXcFr8ER19g&M<'',
   ''Zh$MeJh(6GBIMc^_f%^J%N^czShxCBZF{_qwIF2;Cx3_q~61r4@ht^&bq3+;h3{AA64^%orEt-M`Kns'',
   ''dCRf&NY>>Q?jstuUVy24GP=LZ@#=8xyHIA{#_+p_X&dOQWW6;JK1K)8plU~%AHJ^S`qRe*{w+q}s(uq'',
   ''e6y`x{l$akEV7n-Ow@91eJINxD2vz#&>k>go<`khZ`bIn)oZ*cgwoj39>M+hDn;mwUNF<mQ0IDY9qCV'',
   ''MeBXU`mYCJo17m78n+U5*}D4Pk!D}50Yggo1)YJcZh7TIjB)1@W?zwap<<wjh2F@-3}Y9|LEPLi8)1+'',
   ''a0FOeSiv6+r%qSu(twV@_(AiwY`NJ{7XoA|)B$JoZiaR#-aHFMiy<G2LfB*7lfaLJLpcx-Qlqn7irdJ'',
   ''6ZEr~$sM#kTCq7hTkA+5Kq4tQ_Zx6v5{i+L#n#Ew7H7LDgwHiBqE4#>RismsfSXg`u&__U72-xtVX;D'',
   ''L^mZ{coBsjP;GF=|39-{;EwE;-%W!p3>CPP@X748E;`xGC5fjlFiWO1#jA~5lqCHxxiM$m0|qF@xN!F'',
   ''6=C0JAk|nhI99nVPf+Y_ex212p>X=`f%SLJKir1IrOT5JKT7H7=L5zfCLy9d+K^8Am{oKLbm676_Fdf'',
   ''#tb^$GQc`CJPMjbOQyievDuJbx-deMlig<_*iFkO<}9&YX2%B<iHJte^WGYbQNFz`2E!z|MAanUi*))'',
   ''-u`72-Z&<J?&202@J7T#Ze$3YX*Be-3*kr;+#||88xRV4YG%LWLlkv^X8boj{ZzE$nUd{5EF%l1TP!D'',
   ''!>#=2${cp>%Ez*g4j4QP<`2MUVzC<s<G)>vbr`XBICjKTKTVza=p!dNN?Yjn}=6xdum+!3s0DWJkfcA'',
   ''89(1=`tSnS%M=gK@%7q4gV5BEN3!e6{TmW=@rEhsXL!R>5ZUl1SporKC5l?HZkyW!Y(Z{$gfF=~*fhe'',
   ''5-A)sQ^fvM+;wuFsA?xpAgKz8{*y{Q)qao<0cZ1fV5-sr4ZgYkj!9N5D%mt39e6J5mer`*v>Nz-88t$'',
   ''KGM@Jur%}1DQy$GN7&wAFRslaHJ^*xOF0UMGfn}MGJ%NhwjeCo^1tbxUZ*<wkW(}%oE%}7T4v-CWHWR'',
   ''d!-{qqywXKp;O#?$`1F!SeZj}(0S^(#7(EfxPdG_R5p+4e`_D}9~nPfxv(2v@P5G7v~dm^GTnG#gQWd'',
   ''{v2Uj^PG{5>&|%)_B9f9<TC3Zp+0<tzCoACic8+eGlg)0EoNThq2?+dF*C$W^aC+*niKIt>6>k%ETD6'',
   ''L+7dg69_eqr{xZy!8BuLF|>@)A5B>B3uF{6bxIu^yx&C7I0ida2{`#fvr?cz>1QCY1ReK`cdT{!vp(-'',
   ''W@)78~~D1yeAr!mz)c1LC~}!Jk?@DMEFd)mjN~*7|jAdqfIn;sq)X)rnt=_%k1Iz?RqjF6pnb^#-Kaj'',
   ''$?k=o5>c`d)5Y%MPv7qaD_-P99#<4TUbfUtqJTzvV$N8H5udztg?$c+$~!CM(jU1`AyY6KCx?AjLRLP'',
   ''8aH5F1T>q+9e`D23$D>;u3?e>S7$O#fO>7NCuh8PfuRix_WSOx#e~ncknwE`*6k7siqmEiP0&-*tA^*'',
   ''kdgWb-U%crY_4|a8b-h>qp!fQ8jvmJ&b^Ot>;)sMZ)i%rHKj52@vtv7R0_<_Xoe%BloyURK)ey>Mcq)'',
   ''cZ-H-^5<8_i1aV#<zV<M7jb&o+a6b=CLE~ut~tiA7Gx!nHy9j@!)^WUSh0{(e*LJLH{2P!@ekYZttj$'',
   ''SYL{A!~YS(1y3CEE}uyCt#{lrE7xxLqL5dj?`>GMWQ*%iEzwlqm78)L>;`TT9+Wn2j_RqV+4lC=?sLY'',
   ''xosaBs_7!hk+&*k4Z=KQ^yGNS@d5R1^n8D=Nu_`N9}zaeeAv|c$z8QEF$$4g|%y-KnEU*mN_s*N>K^|'',
   ''%Wbn*GZ1=8ryCU8Pt>W>gh5E~L+x#Gptd8>67`V{ApFQb7a=%OAcc<;#S4Muzpct*MLW@!U=^y(B!$>'',
   ''6Ww}cBIq2vM-L+lWfq;?{Z(*4PrkWdIb-TFrhTF%0gV)*Cr<LcHoK?_wK<uS~{wz9$#!V;hlPvdT@?{'',
   ''~oz_LIjvpm8ved8^2-*rYO7w`~+Km&_f`o0fiHq&<!Y{i@Uw&xkTprKC&+@vis1eD|xb2cc*A|1_q7}'',
   ''}joL0ioXmmm;Eorz&i9eL9Vd4whavKSaRhAmXg&J;5_?z0Mg8oIcj2{2gkO}H4sw8)y%CF-i2p<f1rA'',
   ''j-`uK{p_bO=oCk?sx~PDHR5|<ACg;yPOZ<-Xd03A~XZ`gW41zk<~JVYmV;OnWGNJplz*j=t+O+;D)G~'',
   ''F|7w&W28)}l9Y~G@o@p1EVsCB5|-pbrp<eNj~L84p%xNdYgS)N>&7BX<BR9C<V2YI>8FeDuD*YBfhSm'',
   ''By?%T7>bt9-euAnnG-ZM3TLc)XImlFe_=nH^hzE;bnd$8;y+-w%hNhQ;CeM?+k+M=mfxLT#hs6N@AEU'',
   ''q1zyMWu##}$fmquJTONWkHnMU`vHf)MpAu;;n>{mAwf%#!)7+#_up`UDHJh_bqn~IkQl%4~uc!PkIEh'',
   ''}8`!YMtV&o>t@zWn~%w_X?Cdg|C*;{g<m9P_sgv3I76ro(<$y*9_lEoV-$jp!B}2!l3bv?({i6u!V3O'',
   ''*?W_5_g?#;Z79(WYBqgdZ5JJ6=J?#C?c$`7y^sz41d%U4|b=Z9U@Q+8r)`J#RvbVCE9oTu?tSx!_DGg'',
   ''1hW~aNTK>2Xi9DnCVP>4jE2DDdJ5WN;Kc`DpFO>qc_@d!8Rv(z_3@sz9?*^{3LK_$EfyCar*rZX2Vvl'',
   ''qGR&cIfUa4<-1&|LjB+sni521>yi0?3(YrK!&MMwr=&W5^n?d%1x^!-!Uf)UBi^r^c_|q@aXVj7E|63'',
   ''gEgBI2uY3)Deht6z0$QdK8|L?O%r`Myr(m{inrbC1ea*z)oIDVHhD={NkNFyB8Yxp2*S(mI+2`n}!Bm'',
   ''eyUWmlUJD}c0Wr&ky@!|(v99;z?Y>Dhj|_xyfl5aP9Ly$07)Z<O!uxqtT_xg>Niym8bBeMHc)_n#s$@'',
   ''RjYy3YxPR4MY3>g%O6+Gjc`z()sFRPq*y1KkWVH*ckD7qqQ49yjFw@8P~L7srDQQgTccH95!z^5k}4}'',
   ''*h(G(7;*okQ*{t&g>j?g5re7`KLoa!?!rMatEMPF1P<(QTfHi`I1~(Y<bXrDWpmtVHYhpy^-MmGZqP|'',
   ''hWIo<88Q+}2VowFqGq(Hb?9@KU+$HH*xy5pOVg)Sg4jabPRj#R#z4v}A!E#2G`iC=2Tb4Q_QEz=vE?#'',
   ''PR!%mE;iJz6tTHFEeatQym`6D<%L9i^uQS~RA6evPZMU7vqi%SZBlvJx44+Gt8J@;0Pi30qHL(?sDz+'',
   ''hSIsVT!u<z(GMU_%1nTMF;$9yu`AF4K8RU}P$jzm1WG{(=GY>YG<*tU9ksIatjHq~{usD%ZY?f?QCK{'',
   ''v;H7B>ned<S2@-4$unj9qITxAwox$Z*{Mh#M^O1Slw{khO!ZN$C3izINIzMk348LOwWL|5o97*)C&Nq'']"

definition DATA_5 :: "string list" where
  "DATA_5 = [
   ''6EK$0=fgY9=Hm<vKNeR|6G595gc3m5Z9~cM@V&wKH8gsq8=`rr8j#L4=QEI4(KrTBbhI`msNG{I<0*('',
   ''<02Dk_N~UjCE!sRWS$%ley28m6Cpx1V9UDJPOy`vXD~>~Vrp1UN$3kO=HVL9Rkv^0_J4<(8S>tmTZf|'',
   ''h7jh6zfW#Ki(zF0bd)+tEAVCPWw`t11Q?q19&x&=r1fR2aFE_zX}9=bfYIYwTzCfU`A_ntq(;iLn<$A'',
   ''5FKG_c`&XOU(^gR-W?DZ(zV%yz@9bD~Akk}UAN5_-GnNP{{t5MiQr*`;${ndSy)Z7I(bQr0^M(U(~P>'',
   ''kv;uv(e<bcmpHp)L5p3obed&QDBY}jh8nkFF4y+-N^B%*gJZGm+?@Xd$q5p9g0qGqW;MuSF34J<yj{i'',
   ''km}9Md=TE5MwY!j$>yi6;gj2g%?AHy5lqv?U5wGs!0_`7;O+teF;m{2yJZYKgkIy>^|Gqb5r|>dHK$a'',
   ''v&RAp-^dd6QyvIYrAg{rslXGj8UeZpQ^BW{RwnO*E6rFJE<R7>Pr!j7dz$CYrCW;bgCCEP0T6ql<Hi3'',
   ''>-<U##HJ&m4*f8>NLfHx%(Vg=R9#^>C|=nYzDMQP0pX^j9rjh+cW>5!B;0|?KKY2=_|6lIB_eyc&Bf|'',
   ''uBrnR<yW@Ho<$divj{0#kH6n==FffhY-pvMJ^`hm54)sd#MqdF9SHSJJ^TLAT8+yBBJh!IrZsrelte2'',
   ''#J0>UDX_eP{>P9xp!PqMY#|8V3wpgeB6yJuqK1CAwkXiLJbqK!TVp0(zNam!s9wL`EmMuLpp&O`AHX4'',
   ''Nv<ZuT@KE`Y-EXyvlV8vovr>Hm6Q>=>)dG1ywfy%#6Zq6bh|UXbWBUDYJy?$pqvkTIPIE02XLKvxONi'',
   ''PjpVFj{zRq1+W=#AYMt!nnnEo*hgD=3iVoDEgBZbcMR#^<a9Y=m@xf!e{;A!Mo_j<O_&_ghDVdMY>D6'',
   ''Y3<!$9;p1B9yt)wRl=N+a5{I_?~H>9J!o^&-wejf?_@XtuDzLAre{$UC;k4F=3@LV>kp2_=UCKRX8a1'',
   ''MYzXr?kng`IP3c!%!d=&<<tDvnL$LDhTqBTc?Be23<`$OUpSD^CpA{zN#b%)=hLoKUv}I3E_L0`k#e-'',
   ''92>dLepb3l8(K#{z#Hj0eiLpV-io~SnK3?qSBTmF=Jg|^0$?Qvv~D`hXkfP{q(fgr@q4AV-4R9B255@'',
   ''rA-j#5C(k)C{BauR);AtUJ*VVsD_hePlNEKThSxZmtwUv$qI$<Tw+^ma{v!;>4dr3VUIDJso0er775<'',
   ''Z)NZDJ=Cmg7*=p>NWnf_MY$57AzWUkK!;bacK{%y{X=QkBBVzqCLjDZ&6l)CFt2r0yd)~jn6WFD<%{}'',
   ''G*$9?)(XkcY!`d-^DMZ5YjfiS>LY0NUno9B|F@ei&X;p;>grP^{xkiAHdXe27amT{+qjuf3NO66%}I_'',
   ''J=%RCJkdK+DXx?T;t)L~Ny1%2`K8w=qhvT-<fWPuRd^xQ)6La1fEmoGyuq(Q~k1Hd)x=cD#iOEp-+io'',
   ''E2uGb;yrL5Gk9ef$nmN_W1;3eGl=+Wi8naiAtWbWHw<biO2K*TOvvC=4FYAOq&2dhCr$YrjDH8?oui2'',
   ''=?Iv|3C;7qszC2;Vo+99-f(;xZup`z;ZSbd$`y?PFI+%@;MI(yL}K3XtoNPZUghOH$vdSw4k|t%<u^d'',
   '';N9Rpn0u`x5aN<q(qa+!Vlw&<Ok(^QIWVSBHYY&7Ni*(Sf4?(_3QtDyl4oxtrOXnH*<NBssp-Uf((C)'',
   ''tADsF59V4>aU%p}jE=Sb*`Jc<F%#^t3NW^UuGpLQuXX#puAnD`a|0Tv|gTS`Z3_K6R4ZKB`Z<P?wAcP'',
   ''ZY}hVd~$_1DcoN;C}QrE&23O1&h&BL^i05X|KzWb34lV?fuZHwS8sd3zk0J2}ioq4>_;4iIX*Q-9_)I'',
   ''Sx$h5M0@V=@sS%Chv>&5uV}xONR|c!H9%$tqn@`T^1v?2Z7gP?_p|U+(S=KrR3y7eP7&+@^pW+(ajd4'',
   ''uX?a?*v-L&YT05s8kOmVEd4QNtvfz{T>Y_UTq3N%m_L-G#1sxCyOL7_-@U8ey(>@`#6K{UJy@nD9?$@'',
   ''=(=e379}(daZ``4(8})=1_FzOVczRoh7v8i*K?<;mE1Xj@AW`XI>JndIb6rmDoSmP3;~i}3^OTI1smQ'',
   ''z|!{CPGiMpP8O_Oe%n%Xz&U56-7MnvU)anMVQA2<wVYOzhviI&#OI76q_R+1aYY5Os5wfTPV8smDQ5P'',
   ''8~y=?ju~?q?!CNMNri@%P~yWOsrgjGnYjX<&|}2JlzzVV-#Y^@B4!z{Xh;ge$%5%{B$K%c;SxmF^VgL'',
   ''>C>gkIr3y2MyWWu>O{bmxJD}B$6%5Y=(%!!B8cjF5iu>8FGlKzy3m_flnieu<fq%zTL<q;m&hdBJPbh'',
   ''Rg2M>FiL8mP4pLd?zEOXHlD)aO+l!`ddesS@41dB8$}&>m8maW{kj{hfcVj7EkYlxiO6HznFMsg2OjH'',
   ''}dcy>^UIFq2ctqZll*<!4qXqDq;z8{V4%B0qonomcISS34<RE87Wbd3I=Nx{*^yVne|Nl@PicZ@FM%|'',
   ''z^-IJ(DsY9I_@G+L9eCzmtJu)xGGYFdtbAmkpx&i1!<AXr;51`@I1HU(E+a2r6Q73J#e{oh1KC?g_CB'',
   ''Foo%h;RO&1GoSs}(1?BQF`uDTc<|Oq4*_+G2Z$=SY21>KZq`C?qz|D7U!r?;p$IBiq@5Gj9mbo%BYB7'',
   ''3HEYO0`WW!XF!HHzW)zO~0a0Cxsq4M{TaXX$gcH{nX3*b2;yA0xwUhMZKiY2kY%iJ8ik%CYRVh1P_{&'',
   ''cugKOG0kt5Ob)~12@G&>{-zQF5l!|<A^+MtCPt8(^cDcB8){0S`BG>!zqC7sg%>AcPQA6$t(AMJHvOu'',
   ''jlCT49QRca({b6D4nw7b3P24o$9~>}5@K+&&_)TX|!rYM-;eJM_pAU*vySiQQPZ{we+KesjE?nQt{Iw'',
   ''6Sk(Pg>AaX{K8s;4D>kcz3u*Ml+uW5;wmj>fQme;{F<^9XsbqXe5jj5bsf8(f54o_KgnIQ)8yPwrN<J'',
   ''4j6eKihb*BM($@al|DPvIL>aQh>+aL*}li1OLe12B$Fhf_b;<p(h!UX&a8%$^2aLwQiJ(-zjd1tl2c8'',
   ''PriW_YdR|9a5q_(!8W&U1htvrJtW@bNZDH(zDFLOHP1w0NPqNx8+D)7gvIQJqC9R=Nd%1Y{b-L&XpDZ'',
   ''D4v{qrZh6g2LPGh$H*F3TuGQGsr)q0{`N%$bgGNhXnILjJC2nP&V#<Cxc^7o4lQ5=iFVw+B%=k4A)3@'',
   ''5ZhwM(cZ36dgOXwZQPxRyr>n{Sd1gbey<Y;dww?3uqm_41HwCi<Q+3*Lj2YG*{fk?!B|QbJL@u30vI0'',
   ''W{I$?G}?}~C;97aLT8<y2wm-PYa0e0;10xOw3aZRMy1N5D~nZ^M2N^C~=d&*xfdoIPDJ&Jf3S<!`izb'',
   ''<fCweo&?z{#w^4-o9DF7~r;L3~JaH6dT#?vVLmt}#h$F87m*AI?O^zuVHEcC4{;4ucO28>NgnA00mVI'',
   ''3&sbm1qC*=ILM{W$-Y(tOzGk+E?p3OU9_vXk59SUU8LWn_FkgKr5qyA6Cpv^S*Y5S2#pedhlxy6>k^n'',
   ''*EHvUGnUf!ek_mrsn*eX#0nt)Xj^S*=6PTE7eVmnC;V0@jrr-L{{c`-0|XQR000O8^OY7ynY3ELV*~&'',
   ''I%n1Mh7XSbNaA|NaUv_0~WN&gWUtei%X>?y-E^v8`R>6+jHW0n*D+uLKyLIHGKw4md92(e*E)eukw8$'',
   ''Y?2$VFkSW}`(Qr5ab{=IKV$!o{nqB^W4&TwY<=Dp#jX`1w^&+-Fxm9auOQR63msct7K>hVrpsmKXa3p'',
   ''fjJL~jW`UUWniyT#=sdJEGDXIk<No9M}t?WE3<<X&k+QJqs2O~Fo?U1J7aiGoCFf`g?>sJ0!vEHnv;u'',
   ''#=1F^bvl^&{xvK3FREfI)!bbwx$(B@4O}1W=V?Ug{3^N2R~TKbHwb8^+FcT=)qGSzmsHI-)U3K@5W`l'',
   ''^v(R~jxI@FiH#Y%m_VRLg;!M!-dHEbMwN|d<bi-&F?5wid1kPeC{D+a+8IPc0_*`)P8_5jh>rshyd5Y'',
   ''LfAI3Cw8ppE?a0CrSX7nrIIh%jH&8|(>?`HqNCeoO&}vU2b?PadLdt_wI)do}^vP!X;m_YTAGaIvUfi'',
   ''P|;^TcdqTE^z+OLE*W{-Zw@+xJi#5s?FB2wUhs2pv~#zu=e^fn?eQYae1P%3BVstekwu46`E3!n_pVi'',
   ''mzqk@wX0o~>}7ThtxHSt1UI#zmMeK;(u#_*Cc3czw~00KkR{CA&bMdjiiSN@Una<(dE)wtB{llog02J'',
   ''~c!-s^F?~@RzD$K&JL`amlA&x7&~T=HYjsI58#zyZCo8e*?QtwzL2bfm5C@mr0-!)e7g4!nG1jZb<j&'',
   ''aSdR(zagJi=oVKJbpk@QrW$mthH=FKG&Dg0pgJs_TzMG~iOzWF5a3Ldg1jWRA@p@b0x$Q}1@$0G<9+Y'',
   ''$*6W?}%}`{eY1goJ(6c4w|5;o5dm!iCx*xP&|M>2wpED@GKBZm63i-gxyF}obEjh0Nru563ui2NkU(*'',
   ''aYx6%U_w&eLrob64*UT=>v2tWBG*F0Zb#9Rg4g2Ia>v$mYyFs1bSH_Nb}o=WPycnATu)*5>=?sEbECn'',
   ''!Hm=BX*4FRFUPQO}Lfp&w713+a%kAz8usVs~a;ua#e<S-KK$&(e{HT<qdJGDmrgVOB4tjFfw*A<yq1I'',
   ''RmQ6pg8bZo((L-ANmy&sS8S$nDgM;4rB~vvX-WC#AAmC5|eaN_61e7Dy+0D9dK+UP#nKJRM?p%Hb%8E'',
   ''(W@#BF%B?~hw}*-ha1aeCT?k}d0a|R{I$UybnF%Sq>oHvGon-WaztEAh!T?l*zibHKEe<#ALsdQ8|6{'',
   ''R(i+Fg;=H|<p84vs1VTFv&&Z-z;+N77oO+&`^DXy0A5bgwUY!q21~UxFhT2KdQ#gnbMNEjE07+)T@z>'',
   ''`&W*Cz+<3Fcq^OsTG;*@qJ((gHAx?GAMPJ5GYtB#Xq!uO(!=QA+7(DNcKW!Vrw^VT52w??Beaa(z1;4'',
   ''Xk0SL=;$^}AaJsBh1JT^aa(yRioTAIQCI$p))$<>_U)m$;{PFI%$dpN;?Ua6Of(R`9!a+V65p4)~Tg>'',
   ''g%o9!Fp}5gfV!lta%p0@GnqH0|XQR000O8^OY7yhqJe*GdlnPD>nfE7ytkOaA|NaUv_0~WN&gWX>eg='',
   ''WO8M5b1ras?R|T98@aLP|N0ad={h8BiXthRmKDoc$FUQgGx5xwagyEjIy_CXDRoSCbGn;)WV83PZ&l&'',
   ''_=w?%rJ)Yd*z46#2P$(1%g+ih5!vTApt#9+>;<9AJe*YQ!W0qYkV|Jd-dV2?qeVfeUw20@d%-HuozGa'',
   ''(q9_K8AT4|Xl(@mM>?A1jc$E!FkdwYBP`}?ohA}Y!*TO!fxm`I<0e>FOSKgMhorOA4;jLIZSp~y6k@>'',
   ''`aq?EBmDGE0HN`^%)zKNM^uTA$@'' @ ''{RK`c^>{EQCh{QyhMd_Ro^=LlN<D!U*J^U(-%j+!vRB*ob_7-`zV'',
   ''w1^YQ*QEjGGWPTo#iF;DVb&Sc(P2&IFFXa-rk=01-~e>489Uy6lK1dm3w=W$yJ;e&;_7!##)13zc(1Q'',
   ''_CR8<v(*|pH%)-rEn95T8TPc;o6P8kNs^Y6@^&2;P_GUD=yvwX{PuK@!KbneTW0A+XD_~)#p{y2i&pW'',
   ''QJkN4oYaJDZPXjoG+M;U}HSMzSCw&X#px11ATLJ^$@b8lao3{Q>zxAR2k)55f{wZSzV#wGrD`FUsGMN'',
   ''=re;zLsWg;>uGy2Qq3WVE+zjb)?_{n1!ixeB%i<d=wdS?nB_|Wt=={lNyYEN6={Jzy?(++aH041HGl0'',
   ''nUnVR55s=q5lK@MTYZSx5oCD!JC1QZ%{sNg=oR-!6;Oc@m|dod)wl*6Jq|Zflxcw2bZ{H+}VQ>dTer3'',
   ''=-DF41!6Kq(vE}v$#FI>iUY+u`2O4+W4OrFW5<kJ%J`%0mH8_G0e`2K`Bs0ffLZuIK3z@'' @ ''{hs<v$r=@m'',
   '')r$p`k++0jk97axdrp_VV0{L1690O6#)j<iV|F~WWtB%s5sN9^i*Z2P`%opm01KCGN|r64NO}>I%v<L'',
   ''z{O>9%8P2Hvjw>HQM{3_WXdiE%myDMd+k<g)z6ZmT`!N2W|G69IP`;~Jc*({i^{?Ns{>{Sq$ll4htND'',
   ''AEmFKJVl2(RzP7|ixK}&KO6%ouMZrNa1%L$iDOQ_2MR;3B3e`8$++B1t;c?tcv&e9hCnSa8GFzh{J*O'',
   ''ze~lbK}kO;VHrQ>19M6W@F!Mq9vTg)It`Kq=$g0anz4(VJzPv}||mfy0qTnbL$qGiv=>JK1PJ+c16dk'',
   ''|r3)qm0*Q1AB_$ckHDw7YP}4s6hX^zD!_UPe8|@wr=<~iI;PhXk}zi&WH@OKU)G>HhG_w(ek?-7XBo?'',
   ''_;YfTr0s0_k9a1n@MKafv$CM25M(FD@K5n_4f;sqg;lSh&*f#zGWa8B)T=xxVExFT7`X!lL(?g$PbSL'',
   ''}DB?0cnZ!R$CgS_Q#VoqYk~v>mNz^6sH^~HpY#PrZa2jAN*gT61)Rapgvy8QJ8F~qv<T><ZdCP9&lC>'',
   ''|(a(#MqG~HYjy*2kqvi#yGDT+-z==Vp%j#dlet6jv)MVEK0(_jwl8THe+vVQ#224)-#1^n6*E%7p@-Q'',
   ''cCbOR^hs%mvpeyNEjhQkZf?&EyY<;6D9ZR`+j7W?goV8uGhGg}mOOi9~ks*I-X;WF|^rRg=++>W<!n('',
   ''Orh&=NRucu?^BBvK>nxpJn9k$R{7Iz4Pz?I{Nm_yFb4F6EuH3#D9;~zhRM77V8z?1^hKyZn&e?)_)Zp'',
   ''p?wN{%jj!p4!0Au(?BaFHWEGBHwd!t;&K%gpYB68<s<}I6m_zmh_>3|znawh=o4^~!qx`YXs~TZuqcv'',
   ''A6vBbuxFyCVAL$EY#?Y7Q@$r0>Ul_AQv~kK_36jF!K;NNDB%m?bdB)x(WUXnFmF33h*}E;+)!l;KWyN'',
   ''N_UMBJUw~}PR6#*6jSf(F8J|42`WVtlxOp)ibNWgY;DNV(eZhDKF7;ToN=*JJ#Wuq&vQYtA18~cGwse'',
   ''h7OWL-2?MpZp-r>Lyh?Z=`sk7+*zyd<=8#9ROoBLU!l#|HPJ&Ym1F`mfqw7+P#Fs)m_6PJCa{_Efg(t'',
   ''D7+gY0p>J+W7Odh7OGO;sxz4-z$2HgFg+e>EC*k(*jLXJX){gC>IJ4rBdT8J?pWSP2dmU2Ha*F;t##A'',
   ''NNif$xS>@s1vcz3WI2vt<ybf*ppMuh3yt|*i#=jWXnVRhMmKim9B6u;o~b|`Z45-rLdzDX>8w0^pKs!'',
   ''y-!cg9wps=mdHFdF!#mD{91Hc&9SwsJ#_m?3$G*!Y5g`xU`moEaC>d-e3RprVAKPrlyRcS#W*hQ(TfN'',
   ''7$65`xpTA|wIi%1)-pMNg>qE^{+DL**|#ur~~Lh&ZRUo=~IPtv^loo0x<H4xW4E@pYc)knDnxJtmzvr'',
   ''J~2Wu#>-R2@'' @ ''{D9JSk49<ymwB(rD<JHrU~tJ5UqQESkGDR{ip89`T%JgAMdG=h(YQ~cc1(9b)$KUaJAn'',
   ''AU2NHl5g4BOW=-CK$Ym=l<mWAzs55F->S$n}HD?F<wJ>4B#wC6WyLB7l%CZ*kKe@*fPaaISoO&qA{f>'',
   ''vWLcWub5}3#*&WYQ?N+vHs`Z$3ZC;RC>w$eS{h#fw^uZ;%PeCsDK26)KDI3i^rKFzy*RO2M@C&9&b3v'',
   ''}3}|-QcUPbb%k0|KG*7?w<=hT;Wx=&;w6BzAd{?CzjK8GTjPI>Az;AO#?>3Ty@s}UUu^P%r0SjR{$<`'',
   ''>jXgLwvYkx##FfwCQ!`zGWl|H;-!6hq=<9R%n(m~4X%se?$jrE9hyLBXF!Q=h(bBDcT!|mIn{qIs(Y_'',
   ''c?FK!gFqtE9x>0Sw=xeBa!c7-NIqNpUQabS}dQB4Vt(2Q7@ZPzsi`BK~O;V@Mq|uE=t12s*lfPRuA|0'',
   ''g^s=WvO3Km%-Ekv1L+_dt_7+j)AQFzcA2jIu@*iw#YFlqa;O_07qq!<OTP>VD&7GDZtg390<X<qqs1v'',
   ''XB2=p`b<A?l4qRY84T!6*-nHPiz=0@dFb9gky-a9@WVH}8vXqV8`uFX9y=%UT`Fe%Dw|E#I&>D9-}u#'',
   ''4$bSO{iVo#5ay|KHoM(9WP_)y{YKkr-{zDJwYb?)ontsQDz&d=Fk#VW<Gk&DU&=Cv{DX)Ht21r<yp85'',
   ''@Goq`K`ldLu?qakVo&*zbeIy=>zH|b~d8tyPJBqjR<MV=%l;_OHKdzGYZ{H_~1#rZEm={HPBmL0M|rz'',
   ''6cvv01I6Jo#tr%qe5Y^dS5w3&U)X#+IMLU4S7=w<)*i<(r!bW1+fRFJHc-$<?l6#tbdB2G57Reh>cF>'',
   ''U0%}Ua!Y$KS2_MV<6J$G^fJY!91J6>QJ7tC-1)d;m@zWJ^$ZtCV%_W`TI9Ne*fzA8%64axuw-S9}S-Z'',
   ''+bsCwV0dzLJTQAzQSP{ZbUbWzK8Dnr#D8jxL{0oq*cy^?&ziuTfEd7r^(*&QlyZVeG(zRoD3kqdkN!3'',
   ''8C~dOsDY<#Z41>L>k(8i>v<NAlpu{5B<)Bw?E8_0;iSuX`Gm#aeX&BCDh^|46oKc{4L3uto-_5GFgIt'',
   ''N$r0fKfasW6v+Fgu&8`7o&5F?l=CiUd^Q4xzl>|l@WjfhcU8F}S9o^zvyrQLF5xY}SCD7IwZC6;CIO#'',
   ''2aB1hTtwO%ngEZgT%oLG3-#BPG?$7%X%w?8vP7F>RgA5BM}R9je{AmSg2qpRF+_Vy(_zxU)`*#~PMTW'',
   ''8!nCa~Y~N_G^vpT7Jrc$@?b#lxEiy77|nyk84_tfhKQs0*m4VeE3Cj1M7-*IdGey3yDP^MIwHXjs<<s'',
   ''kLPv07iX%du|A7-aZ#)B5)_rL<khsB#wV~OD*g@)X2A35(9)<miMb=w4m1WOiBV(m;I0l-vTZRZe#Qo'',
   ''vca*B7+f)R>%K(QIeX>{IemnW@-J2h6b20^m`lQ{b<uY0qYN3n^9{z(JLdYHdHp|u+Jj=7q#ie=phx1'',
   ''X;LhlqD)!8P`aa#x-nJ%;0CvVj@RBm8vs<qCITgGAOdRSF*JaUU3R~5ze(J4EsEc<-O%c{b)BKrV+!L'',
   ''c3UAIJE|=p$&uOJe{k7xa-@iSa|JoyBFgS<W%&hf&FBxx{@(!c#DQi%vY05no>=k<p0HWBbF$&bF<|D'',
   ''|2fid2AKVsX(i!TA~|Phpp2Zchwl`O<^))l2Q!+pT|~+ES@_n(E)o)wsaN42AA)@vkCnJ4Fvjq&Ss|A'',
   ''OhNn52>jpwXBZAy>(rT{^84O8Ter1#6dTxG@)Gc8PyW*=L0MGToio{F?;=Jol$W%#5@cCA@K0lVZi?z'',
   ''3WYv$nQQgwgB=HUXXj3>~e<q1w3_G4}C@>(XTIJ^P(r?Wwp~Qi4$aL;>=K%L9(kFvm$Q4Crip`QZlgo'',
   ''0K6`zvz8oz?Zz+nSTHMtR+JQRf5Vxp+QBjnrcwiM_UE;mKn^cpZ|fc1s<;!E>@'' @ ''{V4L_;#*qPInAz9h}'',
   ''IUtv79itrr>D1Uqf3F-=x@Hmf)o~&9i7e!*xN{c*zNQKlu4<xVul%jh+SmN}#soa{n8c=mE3+T9mSa4'',
   ''~~!Q?WRIDq;4}(=@#Lq+7Lrk*F<`s1~#+WsM#Bbt*4!p@x#ClM2bjnKq_cCVP?GnLHAso?&z^uB{yi%'',
   ''rN?fOGJ|Vq**<&}ewOhMVe~$Hl=+1`kY~k*%$$EGx}$|>1$m5&<hA3=`<a_--U9sh!{Oj#Z({i4=$Ux'',
   ''#xcqz$w_NeH?n;IXcS}f5TDfFx*!86dZYhUVdRCSf`%CY=6~zvUq-RQnBvYN@UrofZrKX&V*b^ctvCz'',
   ''`5OpKBvM~<{k8EPaaA6|yR<|$%q%vQO=fvW&tbW{b5Ok3->TuLZFqC>kp4y{7d6cJQ`H7K!?yF{RFXJ'',
   ''8u}RiqY*g(FAKbqTaMz4)f&&cOC?pG*l-=OXo6jRLk#C_))g1Q%*TmXK~cOg_c8m`ZJ)Jn@)5gI}QIN'',
   ''f}L-{M-X2!?T;q>o`{DIa~?cD54BPnWxci%mxV(b)5t7TY2=&jprtvN0^jJN8s~hv50B&!%xUzy5O-D'',
   ''Dw%fht74JpdDJX-BJortYp-}d2J|0qp7khr3_NpR2UNRERxxJLT*p@!3g?;sm<ERF5!Xp^Dcopw8G)W'',
   ''9YpH3Zv%q=51&TGGmFwuXhYJ?|6OVeZ;v9RJfTIUr60up7;ypC_R^92s6E+kC4AmKMcd<cP(Ge4$1EH'',
   ''-648o~Sb}-g#H*FCMJF7L!!aQ5&3A(1xrXSKWRx=<YmNU_Yf8zm)^d_i}Qj<s<jms)Qa{lV*l9O{sQw'',
   ''!($s_O;k-wUEhza6-3&^c9I#dCy}xIuumc_J<T7`lY;KTu$CUfy#3igBB<US@MLP|JnU2|e{FDw(Ahb'',
   ''Qs|T7>!6)gg!IRWa-HvF#5`qqeW{I*z)E)Mw6^3yizrb7?PpMyoE_c^zK}mr<l}M6;C-%HL!B)jI3LL'',
   ''F*@MEg-0+UYOp`N`;m!SH0x{zyDaWq^lX!i2OetD_KfuC{lV}V7>#~!u;1x999b0TIwll@;z@dl)q7F'',
   ''Cj#>?y8TR{w)A{t|^t53^&HwMDH|@=lHTu^OnjH()Oj(AN$sL2r!4m4=4$`W?y?pBtbg!U1#57ZyQ>^'',
   ''1zvPj}NCcn0EY2vlJ#>I)sJ6%B7ygD$ujAx%H!$L}wUn7V-%K<h<?M&UfP@LQSM|0MO-#T(Xtk1+zwJ'',
   ''A;Fky`%tEechK>_{0psdE}hx<V42PKdjgqEI;YXt0Vm_8vceH2?hkTF!d?Hr4sK{dGr<r;mgOuZsp0)'',
   ''+hKKn(cUd(+O=SRN8~(5Nml-De!kqS|O48jw_~;wXrq`5ePIDw3|3ir0$<QPGkZJ<W`~1od(&E)J}tI'',
   ''iquzaZZK%!T*c74xgL9-BFpbCbG>TM@Y1r<F~{7?RfzvCFSY`S3<a5#*Vs>yVWW+k9nip!-f$WzQC**'',
   ''OPZRNi7)05~Sg5n5&?!BS+22{){sI;S-QzlW@lsq~Ty|Vu{O`d<+ZGjJ5nwkRVfE^y#i{$ElBrCfwx9'',
   ''vv6JUy(pv$lRHWuF&**ifW`~>q0*PD{3bFRSmSi-cz(<%7RZ!o>72#!z*lVb^`C!*+CT_OyZ#7=WVe`'',
   ''w4t3#w<S5f%xQV}~xAI*bV>0>8%o(a{*4T!BJWRe)`kEZn98FwG4fc$tRNq78;mR&@@+(0)~Nessi6t'',
   ''m5;y1jY&@n@wNn=h9UatsFo35e|jO3I;n`;>MSOiN+nSGvcj)8T9O*;K;kJsn1qxW@H{CLI?1D6)lsw'',
   ''N(H1@DgJ?uZonhT<suR>sw<15Gi20sT_Nu_pmv0|+YIq{u^F&Ut;1%m1&J^j3bsl!;pR88wb;NZ<z$I'',
   ''me4g$*%Tib?Xm2K~Jh-v&q~_X;;7A1R#Q~#x8p~yNjoTbCN7$32L-YZz<K+_nTWp|}4L_N?zDz)$!NG'',
   ''~U29+Yiqq;bSk^)|U-$|fgIBZGHiHN+>KKQSr-sBH&UZ4N@)wh#Bod5Cs{f|AoBECi!y=+$vC4OjXRw'',
   ''%1o&#;WQ6(h-kN~-FKh-Os|&K)=rB53z9qNBNZ5wbY<@Aod#-&v5&iN*gJa9|>-Uq^T+i>#QK5W<nMG'',
   ''<(a!tmc$Q^J|}7iqnc|_I;F7>?_c<Wuop*sZ8}strbh6&=u3;6r&{u%GF=bU2d*elA_U@_xUXYhiG<*'',
   ''<E%6QcD)$eyT;rE9Id0l<No6#9zc<vR1Sl3v+nc^Vt5yc+YA&>c@0Xlf|YWUZ3?m-u$=${bx7+r1#00'',
   ''Rd|m8dK+~X9Qc4tUUj$2aqBOnPfGaAz(58k!U*6%ooRg+X?-aKqz<O!R?Wq4`@Z^XoO%R(T&9fNozn|'',
   ''GY_m}EZW3AwL2YEc-%p~T4AKesS2V{9BlP+s}p|fsBM>LH<Y1<BO8llWr>>^HS<yObmVs=xS41CF{iT'',
   ''wD&%6Lpto^OH?XKo1#T-|1uN~;JqZF-BSIfUotWq8&`PPtHUe%4DQS)1i+;83bYyDjP9DI`^*e|UM9;'',
   ''$!V-jVf}F>zR(4!@P>HwC+v~`iWQv%@8@3=rV7(x3{>RX7#bOmt<OhDu|K2R`5vB?54Hc+Y<lAmH55b'']"

definition DATA_6 :: "string list" where
  "DATA_6 = [
   ''k$IJO;fUYOP#O~yv?}>R7j*UbZL|azkG?%%KdP8IT{Y4ds}g?TL#L5b*wE1dP>;`4zNiWct2p9^Kp3s'',
   ''1o4RyTDkvNowdtalJteu?!IyW?I}b>07u5?|ImGAUlb<~ijF__ny7INLc^F_5Z`V~CG0@NUqr5{3Xj6'',
   ''s1;c*7qde79`VkoQ0yES{l(XrMwsiZd9%c!`lq>DecFXNlGUEd_&p2UR-wXNCB1BUln79}(8YA6qWo2'',
   ''`cSg@@0vDjLY3f&pvUOSI+pk1co~XVL63=2@6uiM9dxqepX1-APRm;b1qsiFDD4D*}glf5agnkX4l<h'',
   ''E{D;P~HI5;*oO+3*w~u5|Arw5J03r02~alDjUdbxjxWLjpTg%Akd{uF!VAU%u&OSR2jY>4)tHJA)2aD'',
   ''+RJ6s<#8>zp_~#6i%&NBgbliyren}}x+5QLIUi}z+c&nWMFMii;OFa=(Id+Kzgw@s3PHzKYBHr?sBgI'',
   ''bV3MkHsK_(0#GpX|O}8rF>Ku&84TrU}el*RWEdZl|x@54Fu06QinKDnoYZ1gAjytP?&R6T~`bjIg(+}'',
   ''Y6nxC)F@omnXo5-!0bbhFIj=c==Fo96ZwCgup#4l=Fq8cyk3N`NdefN}=yTtn4r7M!N3ZYg~G0hovu|'',
   ''o;A@TJx9&cp6ixBH8gR+jzUXW23h($}gShyxZaucO<7EpYTuNf5&TR(}D_UMkpE{BGR4`!q9^M7KVVq'',
   ''b0@nlM-CLlsBb(5~H!*%*_ssx%0#~_y=AYqm7!ud12}fy7}-;z1sQfqA{B2z+uK}#Ykdg91l*!z~Fcx'',
   ''Skm%VI@}zMf^$=qs^r}-5f#v*v&~(Y-<k^e3D3raHy*B{s|6e5es*O-l~>1|W;Y5Bm39SmQL5$DYFP&'',
   ''SCVW{+ld>1?Y6baM?E>OyhYZ*{dEN&59|El7ovj;puy3jaCfjHvCt3Kx#KUdw-<_PTn(itNcIzb?0Da'',
   ''nZuT9y+OF9X+CIi?tZ57+vk`k(IsA>dvYDuYDRa5C^Wn9Ga_n+?+Vu;#n(xI%lh0Cweh0IWmEo6t)`w'',
   ''iUbRPpL4oWtyaILo69ef0RGb&*;3ZP-6w${X(r=L}DQ`1$q1@Zk^GD$508Ur}ODr}1TUm1G-OXl8j<6'',
   ''c(nW61wWFxiA|y0g`l{TqScvkR}Yu0OUg`Nff%9%@Te%C8&`M?w2d-OL*H<a%PHN)8xp2AGO@f<LagD'',
   ''hj^7;#U`ki$e|#3shrWBZX>|(7NN1dtKIm)`U9TjlLqcIoH(g6SbSJfd_Z_5KJ}j4Eg}NWq-XD|ZW1E'',
   ''h3OJRa3#KAI!NQ{>go3G{baFI&Ze8*g7Z4i=%t*8j%fJ<xSz!<q@-9-VrR<9)Tzm+{pEWN&g5u-m#ZR'',
   ''Dk@EU5b*K0=Nq~GtKo*o?^TVv!WFwkr{Z3La`ZL*u>W;&NlE3TG`Xf2`yz#O)Stdew72q&&S3BtaJN='',
   ''_kKKjEn7bVY&RW}=hqfLG4s1|5tl2Z2+&7oI-h2B^)dPV$9S6C-WQxQs1-8V_mFw1oqkB2cnrOIsg}c'',
   ''&NLAb~NHaV>!rTg?N!K^IXShk_&<R0h4UuE*!cc3yxHdg|VR#&Wzw&#NCa?_$Z!n=QFfTG}9;kj2GA_'',
   ''o9sGn(Lzpdod|$C)wzY#W?54-B8OHTa2eiKaPPBI7A&Wr{Y^ut#Q?fKlpeMKDKH=*IMPHhP`h+~AUah'',
   ''4_M)xc__%>&{D@%k(ECC2GYD{lAG)XJH8QMjWKh${u(A<%FOQ!CoZQzjy8u<f8;F#wmB%eg7}{LWRYk'',
   ''g*=o@Nr34mVgfq5s?k^@eHON0sA3B6+kD;Q1g!1aaTr&SD2agrB9`j4>bkE-G4-A|iKBOGxYD6<nh4A'',
   ''A38qk=N6D?Tua`>~Qc$@a6z^<Fad<f(jCZWCg4`Lfz+ea%Z!a+wEkfggF)mZf}InIWPH`07)93XCH<='',
   ''(m<E{9nVvb|Gj38;rQ<iN-L=p-^dWii!rd2Y&Hz&%hjyC{vg3;D`dA&i0tRd3znDde=f=lDyN3B;CcO'',
   ''d$@5_B+$_~CAg+J>`zq1)}NsGE0OVmfB!xHz17t3vCo_F6Le?J)iq1$B@lwD?`Oybwky_%!tsd@2P)3'',
   ''?A~aKAYFwOF-kW}k*Q)C=NE~V=q`&F$f{O@#<_PHpRJx+pP}Q>P^i`MS?BAhF$ii9uP4QiObQTJhZmn'',
   ''k3(WCTow;su1fO<89co&hgDrA}MJu@nXoM*#*mU#W9qN7?XB!CK!^?;+j(>#|q>bYr-3_t95*4pwJ&)'',
   ''V*D40y23?`G3@nO)N&b?SAf;o(~F)ZuWjmE6l6$PL^sH9qCq(!tP~-VPn2>Mt8q*R{nLeJ9z;LNN%06'',
   ''8X=Ev`8YjhD34jt-bNy2fq!1`9yd-TIjTliR<;zI0%%t`1nGppdtujOW}F!0|WaSGD5<8AZCOjL^z>I'',
   ''QTFf`g(V?+;|e2`$JHqO%TbQG*UP7XzKVhK{A_@ir>;fR?F<9*{=I(*Nyj(u|HyEW&p3=nAY5ypg{10'',
   ''^4VN?-S(Vw9Nig*D?^Tty69h!PJsv8If84DHO5odYl7hsL?{tMH8X3_EI@9|Hf|O>P+}V`Z-KRoP`L{'',
   ''BomBQt=FOo3p!vPWT(m|5qBiB4dt!JVol2OB#Ul2xa;ndgTLu$4xGXAhoxD3CeGLMS{-7@&zxnLqZJO'',
   ''R`iIc<qRsQ}Av7b^s6%ms;##_Uyae*71A4^-JTN2Yd%c8W47^km;*-gb%gy&5o+4}6Az`fI&O;P39f`'',
   ''=Lfj1o)F0FkG<cEg9@S;RMQ`9J<_q2yqMXD{0FaCWy*marK1P;?BE@c?&Disf<1a<`e&_1}{wKht-Bk'',
   ''C?CsI-Z12$UF?O+QB`)78S^ppT&gyLyu`WVfB6~+&d8ui3$Qieak{d8$ejkAvS(&b55q?uVLm+s4WC8'',
   ''(`Y6?s!g$I024k8Be#OvLfhSJm6(fp8Uv5_xk5NzBA<iG+(@'' @ ''{*^?2#Cobbup+c|m{A;!Z{SbO;QeOKy'',
   ''~s7{jPGOGczOna_+I4|Oieag|NX0WMBib0I7OlJqk*-M66K`<B8esFzx0II%5Bc5P`m83B9_3o53!Af'',
   ''RIJ;Vua5S?A>s16<ijCVsf37gh#GEzCfNUWw<ixe}WPfnD*OgS#@q_SAF;)#Xt&L19fg?vfWMy3Z4cJ'',
   ''Te1~=1>TWsZfLQQ?>Y!{}ardr&`;A8|?IOus*(p>9O-(+~ctrL|1c|kMz4e&aGAEe4It{+%sp5*GXC#'',
   ''YrT}pWzsGt)<xGjlS}R$mPywj>tpPDE`cu}XbB_;v9E9qbY*#H`bG7tRJHzAuTk5VPJczRbqT4!*gXP'',
   ''EEM!2~gCQG0$v_^xw#~e2R}Iq~z5``*Se@YV8x}~FGNDI!bM}dnB`x(!b-r9uOjd}Qjmu#ODlRTc8Cz'',
   ''0GcxdX1IKPVdTCVEjjh(H=4@^V0gz4L5_)2boc4QFr?y2MF$2ev`ynW4v$Ip)0u=k9Z5O5?-w%(4Qd!'',
   ''`72iNay0!K&wN(d7x}FE|0WeHj%|S?2PjwdDw|6?k$5K5nf*Ze=)mH+*1<NwvW!SXD}QRqp7^vx<T2Y'',
   ''!lA*gkdkt`InS}NBELF&LFN6(utx#615QXjH@kYTP+Nc0&U?eQyQ0dNF`mBUls466z}B&Dc*~JU&RZq'',
   ''CvtIUzMK$Eg6%ke^Zu<`UGBe@U|%soJ(XCe&hU#>j2`fm=}jEu`i={UBDvc-BCFMj71ZO?1oq6)@'' @ ''{a2'',
   ''?5;!CR_ZO@pj4yTKVmul?AKX!9x??*^O;@aw+d5CKqB5=(nm#GuQA{LS3bBd$?lt5G5}xe~Mrm}Itgl'',
   ''9g1o9d!5A*mUDG<#CkNCu|WAE2H3SRbXH>rzSbt1o5X45TdS}XC*beYT^P~hm~e_^4kJU}h68i8$6h3'',
   ''eaUavPQIBqE-Pf<z5UCLA>|CvxsAVutViv^Tt??paOlq<==uT639Y>uEIeZbekfGh(ui^OEyDG|#8mR'',
   ''ItZ)wWg}Q-E66-=3qhmb=2nJDFglizZWNXHs%B3m*Ncx^kXEX0|tX6kb_Z&?uYOok;FVAA}W2!dLPC>'',
   ''exScNC`j~`I`(HH`r?4S`Dp|5ZYhBNhfhIS_5W~g9}mUDwhK0BiA|=4mj%*8_V_Vy_Sez3Z{Gd!{hu_'',
   ''{rvoR54+rMiKk*5Kvfb(rhR36)<7X$&WeUduN4}uwH@>=B(j5|Uu_IO3Zbgruqk_B^o25D^6^wCMECR'',
   ''R`G|W~%K%ctM$r1iBgg-_n_(vc97{Ygh=kVQN2;cQT3Z@*$(KDl?g6a3_EeB#NqDOy`GY}Z>43A<G?_'',
   ''Gh-$gwt{zbmxrg3>iU)rA>m^wc<L1E_C|9DIt^J*kcWYm;AuQ9J5j`omXIs(|x@$b=S01V|X=7q<1Fj'',
   ''Nyp2MJXBnA&_nHOt!)c7U5@+JYYx3c|HMV$xRKX{?K^O8FB8M=xoO<C;<>vMxcz&+hO!J;`X!s;b?!S'',
   ''+A^{&s~hvDZ%}eVtI$`TU@pMntikl+q(&M#RNM|ZgdbC7p_27`IQ=*Hz7SW;*9fCdGfkrlCLVZemal^'',
   ''KJ^bNn)L2v_kA}ER{?0>!+<{wRM<nO-41v`Tf7(RkORfBHJ}1R92cp|5fZTAs+79c9=yg^yduF{l<3U'',
   ''SuY8qkGIpy*d>I1YSo+vcuq8a)$kqZ5~O<~p>L6qtlfBwA<PO7Ig4xY~O-3A~|IHj)yt**@Q<3DV3PT'',
   ''re^1=79`yB<1g660eYIng6dM2O?<N>ox>(qDPrQs7dI=uIGc;WgK8y^?nqd4PTzvv{>GZ_SiQwFU}l&'',
   ''=Yg*R?ohgj5ic{$qq)XM$Ovae<Psz@kMIh4&FP-@pg-cQd)&<VcIg%Aq42gRlM+zC|1#$&xSR^xAOJ9'',
   ''E1K?jfZiUOCXOzA*|2kujNY`Nn$qZcKy1w!p9b_-e<r-<(7B)?bMVqvu&Jkl?nJ27d_~$-etAlmF=D6'',
   ''56yUAzqW+HFmx>5iedGt<zcqSD>-~p*4;ROe_0vFiEihP?3ZlY`hOI|4_RX;2-w-96o^7N<)5{0}3&9'',
   ''iaqF+6u%LDC>fxFG~ZKugUqa2^;DmRNo&t;Jmu^KNsH14Fs{Arc%&{dRznI{+MVCx4zxZ>4!o#V^vX3'',
   ''Xx!{JpPOF3t1|3T$h@x17s9^Gg%lJ}HT?*n(a<ka%anEQfriYuri7Utqvfarpugc;k7{q!4rLB|8qv;'',
   ''Z+GFVO)-lQF%B)$XN!wD`yd$Z+rz^3LX9SWqg6bF<Fn3;<(NPR3b^k-k@)if0f=!!$--Uusam^(Iq}*'',
   ''`*?+~JUm9RUFX=Jlwd$+WwbQG+Hq^c^GxR%&K#l=-$XQfRL-~D2vT)x*LtAz2>X)9|KK(m=duKDHU~!'',
   ''c?j?K1uXo7)edvG0L;hC36&@>v1KlPrjzqg1Mz8+z!E$Ed9f!{06AZ>SL+~A$0D7?qi+3D8R5KRfvV7'',
   ''=G{!(Yz12~tJ&!fEON!PG-KAa|{(mgWn-1Ssr25d%7(suJlQcR5UMsAJ~U5T{s)qtl!Yz3T%9%e?{z|'',
   ''pjI?QK$gbE!RTee?TPmrXmMSwT<P{n(qGsd%m<bfLum;I0Omsw|6^YHH@3d2fS^qz_?YMJ0s|9a7=h8'',
   ''o@Hdtwk}beTM~@p|&QSJ9xM23^6nkfqLP*v9n7Iu7cHyfu}G~oh#|T>Ja7pjpG{)&WK(de~KkRf0HBQ'',
   ''$n*~{e53Vd3p#r6I8`h}#0I&x_%CX=S!Jq-X7Ppi>*3&IuqF!Coggmo+x901jkgd(uMN^`g!;)rJdpN'',
   ''gKfgLDK}vYwnwv7rke}trlrO74ynQ|BA3tTsy{DDaoU^O85MGGLP=ODpry!b26JgWBEYX(pkRi9cUWn'',
   ''R?zSW|rSS72-RXikU5fWuogxB1Qi)gP0V7{jYP(+DnVO>ROvfeE5@JPjP^+qtRdg`-<H$1@<O(xfI^a'',
   '';8&nY1kQx(YPk;3)bgMP8~>HiZsw#1iF&xz4}0Z+Ozamyo~l4c)G}Y3D&Y@lHAhI-QEar*sGUf~5TIc'',
   ''sLvkhfklMJngvgl?)a>azP1N89AtF1DEKkHao$4lvSm74g{Ppj8}RCu>gPG+Sd)=EEdTup~$BU2jhFt'',
   ''xPel;Gg;aR5X!4j+k%7wFU)(|(#yKgh4D#)8q7ZvFyggj8}&#)67gpkJpvW{^Oe7vXXjBzRc~Z-KD{z'',
   ''c7ZH^UKaVnO>u*hf0%!-H5%b0I3O0r-`DBgxu<|rECLz8MEw1U=*Vhe7e5W8@-YMj(K72n`Qj&&z9am'',
   ''Mt9#T-sHsM~!VIW#ZErP!mH5!IW{*uZ^8YKZ9Hu3KbXtBz_dci~4b~UIL4SdCez0)L(^4s9;e|?r7!d'',
   ''JT*@tKlM4Elsl`Gs?M!v0(HEFL#~$I9Os+4(#54nEyoRGt|bq6l1yp6a%|q5AKhR#Gn}n6+&wD$F7i7'',
   ''k7e^6Wvi)dw)R*$BJAy&G>lmY|uQ#xKg!LD-Cq(7nct5^cgwa+a;qeBpQ-2no}6o)w22O@;YP&-0|^o'',
   ''|BkvLX*E!duPO^r)6!CSK74jpDF8Jhro~`vRL&(1r|J31y+Nb5Kq}m^Hn~nAx6<*^jCOk!jrp#YyyRs'',
   ''grRXKts}Q)%X>S0{8i7l?p)OKZ!p^<<fT<#86%lh#7gSz`ZW{TWz}<=@IdDjZ5A2%>qN%VorUISZoKf'',
   ''^5JXGS4+9c+I->dQ}{N+^eUT6%B6kQVqx0M17lWfiRohtRjQ>ZP&^+Bce+)o%4l9yczNq-mFHIth$rF'',
   ''VHlr}n|7I@~>ri_n`pwJ#e8i9!(s>pgQu%ByJ3RYFj-s%N?L1tDvj*u23YomEE_s5+Up)x!akQ571zb'',
   ''Z{W!_GFml-31ebShj-Q`0l;u!XNM>AbvW#NqzKUgt&;x7UGrgBO`ns!68vbpW;FwS(JH1hj?Q9IHO0&'',
   ''dm$lsk5|+@sv^a^B=j9;guQy^2wOFqjb+6nER6>9#eK%|Z!vp3&mQyBVkZ+*qhQOuJz?PB@VFxy8b<8'',
   ''80We3>;D-f-Gbd>`8>rgnGt@@>@18BQpU#l>$wmwiF-!TB8d_-U-JG8Ot<p(bSFmQr;I{6;n*-Jt4`l'',
   ''&A53v2ct@48d;NOoU11R6{PUZ4yhtc0DI9;Mjk(@*zvg=4r;e^x+dAe$$1UxaI9fgCfrgL%1J_yKzLZ'',
   ''uCdAncwYvb5}u2Syf-5}RNns`pOWeh>c-Vajz;FU`DyzJ(^PaK-GhR`Rw5`lr|HQ#O32^ThGL2kbRT8'',
   ''Z6ePh(!`IKHY3!Ny~h6KJlfw<|AZT`fVEx<x$~Y$vLw)=X;!lF53`}Q#}C0{f{=-hu=u@AKjw{8>X@5'',
   ''M>FHMq8yYw;)4&R+%ojG0vLFStcIr=R^A6?x3eFURkDoo<*hsSjDw2GUyhu-{+g1YXh8;x%;qpw_XfE'',
   ''4!2zX!>Dw+_L<wEfEZrj@uuNC5x)El`RC>eL3G|*cE;fMbxSPay_U?iKU%fqtnt(0khwJz%Exm-bC}V'',
   ''y?dL&=hkOB7&^2k$9o#+gcDG(|nxQkCZVwdzI=0@)G0)Hj6nj#E(l4dErip~~<Im5HVX%t8g(4Ray>2'',
   ''O#TD@lMzJH)Jpm`Ap6-PquiyS%g)43-Cx+|`k9_NM9;cP>nYS#S2<?V;SuKzoRyf_^%aATK23F6I6$q'',
   ''Rp}tBS-<b!VY)S=U!)uK1!(%x@w#$IusfmDeAC_JXF-*G&@!dm;ZbRizXdEb6!pzjmv|S6!4U50MZ)b'',
   ''F60iGcN}PnhH=~=g(75KHgq*}vxZ&1r5t8l%ybnh152uOlM_f|ao8ID^1@#7fHHJK=^>F?%XDoNjOXW'',
   ''9M|O;RHx=<9EBa$MasX!IW)+`G0UXJ3p-b=q^zpmL%^C&4@D_|ZQ2sEmQ^cw;>i>ps5O6SVac?NCBB9'',
   ''&Z79ngtY+ktU4kPDX{1AHC1f)#}SJe1T;AzHh&cv_2^b$Eg!&hg54@=;aNg4*dh)die@Ec-o{qT@Al&'',
   ''|bj&Ca6s6L|2^>f6tICNHi^g^uQTiElQLW9`8@YOnp~h@7RgVh$a5TFp;$X8EJMeU9CAl9-%^G#6n|+'',
   ''?1c-{0YqzoGOjAHE_l5uG6K#AlCF_m-$ik2&$B*I}T@Z?{8mvJ@j77R(t$HgE8{=zW@F44z}DlN2<ZG'',
   ''lUq6MuJ-%A@d&pAM}vL^T2J^Y`ZiKwS^=;H;~qQGdo7O{o$KuWp(AtOG#EdJ-G|^{EFD|#$kwYie8x9'',
   ''KM<=R|mjd8c8V*OIl0yIY5-Tw0SP8(Y-Pa9v!zBg{ikN&?m2pH;RqPq;1jfA7u)36pBlPKQx-EqU&-%'',
   ''_|cs1`&)D#+wPquRZ{G>M!rJmN7dOGN#mew{p>>nfhgX1m5Mt!XSRb}je2Y)$`ii+E;UKW$5W@am*P9'',
   ''O=xvD{L>u*#lw1ftIHdAQt|Z4Q{kxEf4id<QUz@fQG-81pYes1Rch72;2C{^$EQ?<cRn`^&rcQ1V25y'',
   ''9FoW)$d>b;mzA<I)n8@#5P0d45C4aDdE90OgHK5(g0@|e?f4DU*Qz~+rTN@2lc=L0vJov^6v%&z{5&o'',
   ''b!C2stIt)J{uQ+*Pb=UZBvs8ysiSK5zVbi*d9M7+J6HBKt<#nj9eb5p-KJNK3VhNGJZ5mlhhXWJ_&QS'',
   ''inA0<EVoX*^I+2YWyL(A-)#`;&tm@(~Z|c!paIA93^|gCVL#a_CG3hs%d2i2c-~W<lQs5eVSd_Q;0_0'',
   ''`^^PnsD@EF|(WxR}UB5^0ux^B_xQIdPbjj$k&3hpGtm0~;S0VI0sY>i6?%plvYh;#(EdqEt7I&sut8J'',
   ''P7sH_>_>r*qiM-q2xiTe1G~B^!)!C*8k!3!f&HRb8V}jTVAdw*=5Mh2$yu;Y8`;b59p(c^3&SR0>f;V'',
   ''(|#}rjU!v{^{wyy45O>VYm}yPy%(Fi=YpX;|ExDB!Z2a>W?mmP=7L$mOt}^4JxL@OQUM-U3i!gqQ~w<'',
   ''_~08521DRt-EX4&At_*+8|8B;IT%d3eFzh9k$`*HIz4Uiqa_4i71xKS;4{W?Y7YxNWid}?bW~5*<0F='',
   ''D=)4J~8uMv5g?g;`lz`gIb$$E-)Mg&vfLstdUj2e&m-r7yK(`G^`|%24YWa*!K87Qsy3tC|dfma-Ayq'',
   ''{LRg_S$jx)-#Y-o`A5Z1(KD@M{SY{@Y(2bv@?xlCj-yMPSI#Fbb6VCDK&9GpzEtN3UdFEa52q}4}BY?'',
   ''(D8Mz60O=~G&ZR>NVCuc<Dw4V^C`4O+`n0d>I-Xz9>;mf<$VR_2~>xlk5oM&p4J(7`iX%?w@-*`QkE`'',
   ''T>notsb5+{|#Sx_ZSL<HBe~Nx58+_`p)+^TAN^YAqgA?(z5`ThWykhmB#WxvH$%P9K@eC36z7s*UT|*'',
   ''RkXxd-{oai+vWGtIDer&pZ<sL^Xch-1QbKqui$!c$l7Y8pQsK7&T~vcFG8nfqWcPTDbmXY$H89fEP=Y'',
   ''t*LS=f>cSx4FofPX{!ZR*>#EqTn0RH9YyXP_6Ol~l{arUVQq5DCy!d)eQDTOO^mV(igD)l061ZpxwbT'',
   ''(wBslpUV*I{*<fONHzyMyiYX*Qrv-plHiXLAmen{z8xN2L?%Y)g6FJv1YZgM~1#HKYt>q*s`(66-#{T'',
   ''dLo16bUyyBwyACvKBIt24yG@We!raddbsb`*B|%0=R?k?ctzs38cvcmd{kT=na}Wcb3IZ_<(Kgc#!V*'',
   ''kfA~bvzzQVRl*n3-Bpo9K517Xg?oboZyziCH(I-h;d@i#LHCxDAoo~bPEpv94FYgCvqG=g!ho+fVkud'',
   ''eMe{L5lRmClvP-ApAq*>2dhoYx8TrerLo|u(6nLqDzM)`i41CHm%b8gH-kIa*^X*Aw4?iiyM;yZttkN'',
   ''h))@uw`G%5zFZZ!BxJ^i9Zm<*8KsV9FC`a9##hoYRKMP}R&fCJBw7h6c>V=93`Xx#lS{p3JCniwN<Ml'',
   ''F{$)3<7p9O!cBuOoFw*pqP7{?!K@Avm*`YRD6w{U--C*;k^Cm?T1HUsXYUZxO8A-+h`R3^cca{r{>A?'',
   ''IeN*vu})L&uvbZ@x4VC}%LWu-N|TKF0x)LgMb)I?wQu2%nr%1ak?}V?J!?hG`qvH_8I{WNEIkv@PYWZ'',
   ''cip~C{-b3!N^SJ*=D+oDTFhTuWuS}g?nZA8G&BJx74qzO6w}_N2NZZ4#Z$W@fG2??dvFh5~-3w@V`)#'',
   ''Pb&6r0nU;2su;?TrEupWOLZ|kRJiH*)uQpY>j7@~!>u9FS26eAxau$GoW~^|7%rj;80d<DcD`v=Rd&|'',
   ''<&W;!dPonA+rcSV+bEee~cE`)>^h)tpW!n`!dJ^n@6G^(Mt@xlR9~0kN1rwJ;T_R@Bj0G-q7AWlp%z_'',
   ''WC*2j?T`4H~zX{bRwkn`vS`eRt+9ebswV!ygGoCo$qexZk6ERxpucY(+Zy`3v?GM#M>_hyaLmoJ5qX?'',
   ''w#a10g`6I7GI=L+nNh+BCVikcf~V1ohAcy~&<dzOTg(9dXw~mu0=DRprJ|jDT^4(yslId$TfaV~f+;v'',
   ''d(J6`|<SRta-KwQWIcPtw;UiA)Ny`J1tY^_(75IzzBr)=JW>CaP*P<Fbx~YcZ&TkJ02p)*T=m8IqHq)'',
   ''p2?Z)YIN(gWqT#Y<+U9i(13w?bF=0b9r*LJseCN0iMLX7lzk_yjft0P4qQFb$q@W51y<8HGJQ@1K#(<'',
   ''0iZ830Q1@XPH)7&|_zPWSJyY@Jyr|5PcF)clD6@h%b@jJKb?fBcHZQukvI@hN8W0akr+LK6%eAha1R}'',
   ''(xr@({5m4>u&2e{JXr_aaq=2JafDQ-1YR<fAJa}H11<2$JsrPO7umM;t!uat-hxYG6bmjG3&vV}x0;e'',
   ''DV=$Da+V)EL0vtzW&&e1==U4|(}eiMuuI_Xnr*>B;G7tLhS<Dm)rK9rd4$$D;u(`opKshbK?R&-=&EP'',
   ''e#w54#rQ9Pln^C<Gy>I+vKLAYC_yo4D(lcO)*^jF1Hjb?<j6tlYRw1y$ARyMy|{{zoMW1ihkM%{d9Z>'',
   ''^wX~lpfWND2Dio%s!}{2`RohBRpy@oEcPpV@Y#eyH4y(jvAI_-YH?7%DlA9yzF5N-op(WUtQ10#fZ4r'',
   ''|5RiZ;gm)PwXovulE~2OuYeXzliF$K1Ec`~^^p*ozo;-W5XW3ssRgD*u<@4%+t9{~Vg3|{b+@#4*8w|'',
   ''A03}iOrW{SpD6%CID&yPRDa2`J$@P}o`cN|m{V$(tW1%e~*`oQz&0!RMY?vj@GxJ&x$>)7hE%j?+MZ&'',
   ''JxLzYNUd9mUW98Cr^APz|ehHJYq23qPa;M!<#uU3kH!eLr7#ksRJ(k5X6i?79}ARz+hJ$JQ=Sb;MHnr'',
   ''g$OYcu3iM{Bl7BP-N;I_=oTk)D;D~rcfo{5|J6RkcQD6JXp!%)ij=C{FN7lwzfacCF`Pi+hjywt3O*N'',
   ''gjodyaC=1JvDM8YGS6bZ)dt~4x!7Grk_$OrZCQ+;385osQK4=B=@E#vnf#xRh5WH%A3lx8z`|{?XpTo'',
   ''6doX;oL9_0Eg-5V*2#e&V%of>ZOGJ}YbzEj6J)#Zg$$PW*p<A1>eMRKW9@bD$D=@5>_z~eYbt`vu12-'',
   ''59^~eqHG;=I^C;g5)gN&f01xqf2OkWz7T()~hSaNwP^3bs4TY6Z5O1`BtUpp#!Ls2U!{K7%W>qg5Os='',
   ''Lc#7dcdnQ2@VuH>nxZ`IiYvZj95fkmUcCkmSY){|ZTNllc{ryc&{R9gJ-ajQ<KrZXu4<GW2snl2?p>Z'',
   ''44z8jG!52>7`BM4#A4hW<S`BBw+d3Ho*G$o&f7IEsu8mPOPjJRefxpALF+0Xn=4|TR_!AhtF8K5?NhW'',
   ''I6Yl#2UV}2zo-IM*X0-RIo<k4zXEU_`tE=!JqYBwWN+Ih%7t8)ELP`U$RnT6kb9vOiSfiBXVzk_CTJm'',
   ''--jNs$51L(%A1Ky|2WGB*rhr7%AN5teOZ-h>+Q)RA)xtt|sAy#LU9r$zb~G|N^y5JRwUrfVl+z*$f5w'',
   ''~^*@Vn#3G!E+(-JIh3rt{(>hLZBnq#cL%i^@y<l>m@I_8iMbQ;EG=n9^n5IBg}K;@##e4EH2*Kjl8-U'',
   ''HA{%PdPZgtkWrscgwVzI%d>N#$Wc#4Cu0LBy}4S`=~o`Ln}_Z%;--L$+IXPvf9fHBzivn`(nspA}8~D'',
   ''?|t14ea|qh~3Rc#*4)LHwODwviTM4yC!ZJ3<g#RvNn<I-xTfJ%5e=&pkD^scawhXGC_Vev~S#d(9eMr'']"

definition DATA_7 :: "string list" where
  "DATA_7 = [
   ''wLg+y2j1*?iT{O3hImY{?TMz#nAf75OS!sRo~*osiPzMbY*WU>U}Gu|$AYKLKay8{_(QhA%Lp*F?aaW'',
   ''Scc3Hh+l{l@WSXVDou@9Z(&23AGTG!4MA^|apLnBiOHclA@mt%$_Dx+#<JZiwuPbvbs8u~{pmsolw=3'',
   ''Fk?&DqI-1Sar5ufyNbKT#D%5GFy^s&lGV@P&gm2YEQBz5!mEk9EP26pvF&t0T)U1~t=ja|fWXLopdG('',
   ''4^^F@!RsYG#bk#IXzK?vxrJLpA+c%!uV@)dln@)kB-t%AO$XL$a#vq+rbce#B*5S?`2?e;R5Jf2bat5'',
   ''ifA;)g0>|Dw_<~e6_9S>#CY>wsHHmU(wIECtC#c_6-$y?hdGzRq9XJnVztF);X7pJFm^c-v0+sO9KQH'',
   ''000080P~d=M_?WYjb;G=00jd802lxO0B~t=FJE?LZe(wAFLGrqc4cm4Z*nehd3933Zo)7Oz4t3Tc1Sw'',
   ''WO6-WlXY7Pf6u>PWA+3^tK-$O8Nz+nkEQi!_-gBOxOP9WL0XkpM5c$Ux_SBDIYr6e}I9&soqBx;L*f6'',
   ''#3bvV^}@8egF=Oa0*FDR92$e>bXSrkWX;OcdYvRoIyt9N9BTztjc8XQ(Pw8zfX{R6fKgWCQKiQS@1cv'',
   ''e^Aoq}BDY6&z}YdQyw1+r0;As<+Sj570mTv^sk_;*J(p_WW8Cm=Nwf_yBLnX_6+QF5bpm*5a5OoF_Fr'',
   ''#p}b&4FzVLUdvYwhNr<_2JB2CnP^~wTA3jz7Qq23L7Fu0|!SY2dS?wn!#H^)(35jU`iEu&-BX0Og1*$'',
   ''gV>dmTcaCnSsZa4Hz_`9Y}<-#(}`KP|8!cgQA)*FDcEd4C>8Z6B?c;A8?-V`PP_J2!rKNupH=hkFhWP'',
   ''zcC|~z(tO1ep68v;XkHM8K4*;4u1xXx_w8R$O9KQH000080P~d=M<IK>3eO1u0Q4pR02crN0B~t=FJE'',
   ''?LZe(wAFLGsca(QWPXD)Dgy;}co<F*z5-G2q){4hD^Q=D9j4%u8ZyGzkvZ89WjZ^i8(&=M8%PL?#1ie'',
   ''q&B-}fG=FQi1-xgwi!xLD-l=Y4;Cq<nNl-WKIf@Q1Y`XN%J}ui?M1$SvKGABrqtVsdl@|HzL#X1Qbus'',
   ''d5-3YR$++Nn`j^&&<g$Oh{hj<Sbl}012k`)O7Y2gxD1o*#K@'' @ ''{C{jrV7+jK+XN<6?n3am~oW#YZ%s9<s'',
   ''Mz&n7HJ=(KM2uf+jAErIkW*Mt!c%G!5~^yU*GiS=CnwwOHl$kEun-R?nIV%WKVH4PyuQ194FcB-e$F!'',
   ''{B@yi36&IlFYDZ`Z0>yL%VrFzp3PI?DU@)f&6nHDR;`zgz$Rbr+Dj32fTq?m=m2&LWhzDBR1Yj|mlj+'',
   ''4Bxw@N@zg^s2-OUl?{nh;sH$UH#_ZPRf7uWY!mv`jmmb|^Wes^_$b#o0*-;;~$U&-IEuHVfG18V^v_E'',
   ''ZYg0L0{INtS4{-7)5fkQPQHS+ba?JO<VBhl)Nh@=!c7k%LC0WMac5dQ^gd3BqK2!xdF}XrNa(nE=Z|C'',
   ''?bHo*i2GUY)Hw=FnVM#pe4d-$)6fZxs%OT#W$?|E@;eFH2yr9OpcH!+|VbUD{?~4z|tJU;~zV<2GhL>'',
   ''&qz`*ng2<VHGKr<Tl8TVPJX)hXY~H!>Ygmg>EfF=-+XoY=d(9}o3Ir8ti&!jPN;a0b8>u~eBRE^Cj>s'',
   ''z=~VxH$Kpaz1;VFQ9;4=<GR07pisp(_#iTaEEkdE$iq$6;E4}!;k_x&Z2LGIth2)4pGXewEhUH3<l1g'',
   ''cUX&(Ygc1}LC-L?>kclDSIjUr&is?^3^6_8ioY1PrM_19oVs3eax;|UlrSM*6Q<0;8l9%v0_WC=FZYh'',
   ''s#Zm=b2<!{TFYHvFJrw}O_D#0X?T3UlqGRtf?jL<$LW&P=nkWJ#0;$BkQBuh<`ux)OP-b1(~0s33&})'',
   '';gDSy{2W+%~~^!+^uScie-`wmHdBc=f>zusS0TjXAnXi9}_u^PAG8{@tmtD3M9+Y`9M%2RZ%XliySt9'',
   ''E#=C5^^--Al@V2nZAum8)n>)SLGpxUbT>wY45O4kv1BiWsYlU<=a!)DD1F+y7>bQxm~CL52$EhX8^oD'',
   ''yANB%5iH2FM9a*%gGR3h>3mep-7#C0HZB*ou**>AN9HfN30XU9|htc1GeNQ3e$9#k3aKBp)5q#nh38G'',
   ''cd&La%9Fd7LNDCA#bT^gH)?G^EK!j2J*anjMIcZ!9>!i@Wo^;{3I3rqv1(X2rSsT=p9bioTy9ga0T1n'',
   ''VaEA=0P5aMsK?XuUJ^K!<7Ki0hdiau^aF<kUWNPTNOxfM@&Q<Ll2`<lAx`AsKS@6CUKMJ=QifUanr(^'',
   ''(cINx@>g(W(^NvyU8wfkI4PayBk6iXcE@YqU(0VWD;31=+Jl}q($vabb>V{MuIdSKDOig(;g2ND5ATa'',
   ''c32_qg?XZPvQQ7x6cwnEtR2*w`+pQ(19-r3(H`6e1uW2#cOWdQVH&@Tug>UZl~7V^3GIRw=o}ikU62O'',
   ''7;h8=gq<FOHG@IFc<sMcK42}m%m|j5x%npVIhLSfloQZb4-CT5N)Vf)Hkm<D-PRzKK*Kh9**YTrX70H'',
   ''aT(siMy3OB%b`tsD%FXCG-9b@dTrvm}T%itFY<8m7jX}tIi#PU?EFOtVzKPJvIvP%cpvLo+hm!2Nau6'',
   ''p%Yc7a}dv#V3>aCX(K-0Z?ZC%ep%4o;|T3x~HW%Gy_W>S-GHs2F*umu8A)Te_1#(4I8+$nVD)4i0LCK'',
   ''8o>lXK1lttajwG#ZbGFNuLEwpSw@}n&LUS*QB-LIeUbf{-t`i7`>5x&+E3}7@W>PcPtxjUv*fNf<e8k'',
   ''WN&}012EE;Cr}H8R4v6uS|`xybb5!yTx08Ng$A*Saq{hQY!?oj>jwPP2h9<IG|Ij{->a)u;(w+o-a!$'',
   ''4ZG}&IsaI*uz^Cgz&K`x$(V^8dFHALiIsM)hcrT_wK@mc;3^r6KL99(EpB9TwBy0P7L8}{i3^<{iqJl'',
   ''jM?{LxlE2g%LK@p?z+DPdWv470!B(^usmlxTfkICHc3Gk|{*9drYF_U`7=ebGa!P#%_Kfuj8y@z}B%W'',
   ''2<!ug#Em-0(8fHHJwi?Y<fhJ3;7Buzb_5W{&kSXf%5mOa60?YOZDNl0AAteMN#Xg05LQCc#(<dreMfG'',
   ''k1H@eE&)o?rzY^vluwv+6K^#gVyGSya>3!{tQ~=F{r)98)@#25!YjYZ}%KwM=UeG;AIVL@87j;4T)u}'',
   ''da1qu>sC4~&w-`)qOw-Xbx~!ByRtcS+Dma7bTE7^t!vtFO=Z^$^bMdF|7SVcaW%bY_(-#geK`HtMeeY'',
   ''D8HF<nyI8Zq<#OE~wFc1l)kg0$pZAYzmJM`XM!JqH306Y^wIvB~AjJQI8N?jkSy_2ExE?(1YRnp6FQP'',
   ''MC^+1{7oqMy>FUdvSQKfm%7j;hh38=m0-t-%r4>_n62Kr9I0VakDlNQ138B(a#kSVIvyYc6#KI@p{xD'',
   ''#;0Q0uv?@g^KF0$(56<FvQSIpj7dnw^vT3bc0#!5=JhK4bKoYTRI+kx|X(2+v)hfO${bxJSR8ruJFO*'',
   ''c?I~-)+NrO%>1=z~;^+OXg%%Df69ts-$_<O(pX(G-S3<hEX!iSa-F4p>rujAzJTG4zD+j;<7t*ewiD5'',
   ''UhrNq`Xx8>ct+|PqGF>%$BW_xX;sjFU+H7`VqRkpCDajG@3VTvi4N0n(F^%rjd_Jdrg?eR<Z1iv3>P%'',
   ''r$VJ}F6PCxcgzBl^8B<*oF-RzZbO0~+-Z0~@92iC_&}yW-5F6;W>Xg-m*E*{-Yw`C9xphQN7+#y`t2X'',
   ''FQ*LD9@#Bn9?2M$Rka1J5Z6N@Wc6SfMp_1k?3XqXR+l9Nn!QAh6?ftO~jJ2fca`(D;KOn}yT?j&wX+1'',
   ''&e9YoxusHMT`-IA+$rFX64H>$m^0zR;?()v|fm;$5XZ?s(sz1lrEUlg*1-gyxCnNNus|WNuDxD~4V(w'',
   ''I%eb(xl#=0>}H(dG?2XF+t2{RTBOb3Z|C_o%=s5KF+OZfF8toJUh^mbSFO(L{@kTR*E`2E#E%F2sP@o'',
   ''c7;4Azb$^B6Rqv}zw+Nsf1idaW?sEB_G5lJ4L=n;589us)YOq$1+HqdXDHVf;}={E-w#RAahkdB^o`d'',
   ''pdr8?ACp)y9@`Nb>C~6q;=9gl196s<z48*EDTr&_Y8g?RDa(hl+sdkSxo>U$mH<s%(`2eQ-=-SI+KKU'',
   ''<DO9KQH000080P~d=M`CG)PT?E?0N`@~01^NI0B~t=FJE?LZe(wAFLP;lE^v9RJ^gdrHnP9#ufS8MW9'',
   ''m-jOPsdzUZ%dOVk?c_`Rhqe)4p7WLy?fgnj%?(w5_|j|NZSQ022I^EXR|H2w-=ySnMtqAh{e4haa;b4'',
   ''6=X=wu)2sn8J0mW?t-bmTlaOrFkS+9I@M7wt=5h=0-kyGaL>FgKyY*ob1wIy~&v6jo9g{*RQ^V|9)Wa'',
   ''c=U(64FHR0JQZ;?_y(YFdAbdR2!Ko=*oLQkxnt|pjWX_!*(&9n#Vh7*+;q*yEQ_J59ZLwG#mmeMB4o`'',
   ''4=8_$d1K4Z>ghaf`9^I4^XRZ*j7q~!?`LUO8d6c;s_P7c{7^9VKI2$e$#&AU4_}mSF9<Yn8x{*BwFyb'',
   ''5}z(tk@9#R<tkQe4Y@}Zl<U>m4D5S_#!fE*Cc1&jl^9kXrh2P^#LG`J*RhJo0OnI9nWWu8H$z)Futhy'',
   ''`Q$PnZwELu3tT;0)1-OAZMN`$<r+nG%)2n#WDNt&S!@o>qApLARW+{1`+>z5c<y3~LZ!6^CK`D0Lw61'',
   ''00ulOVf7;t?n{@;4~yT?NOWo$C3}6i=>=l)g(4<7_uc-l7p^6&TeH?De@pP(1XAYSrVtzX??V|Wa7h='',
   ''EpFc5eVWXtY_?#x^P6917t;$ioGhR`9J5ceyAL-X?-)SLC)ansvzzy9a{W8|`|SE+%%;EH&Zmn7yO{&'',
   ''A+12gkYznor>+{Qx7qjbM*gL?yzPV$Uv#Z%1kiEO1E)}uabb;iqrt|X;P@KG*UC!=)9|NiPv%71g`~G'',
   ''ImChT@Hznh(ZyqwJ0?Z^4;&0-2HTma$g+4cK5^fSGhUf<c!FVwN=uTWr%50lGF><p+)KEfF0$R#_!x&'',
   ''3`U`{lzO`*3r4F@?%^Q{Zm$?s6(SgQ1;YPG(nQb}_k{{4yo18=!+DL_o<S`}ARomDuM5{+-{=Zmw}K='',
   ''Qr1Pb105stn<49`O|DM9ka=Nwm`AGpWj^JFj268b3<eR^Li@jpwO#x10Y!bxR@3s*~N5n3Dg#dEC;H='',
   ''?ZIG`g33D1D$nwiI}QuBs0pBPA`Zbk99bR=RQ)QCyey7Gp(_ILG?j`Nl+n%NRF}oBXv%g87lVQ0xH%Y'',
   ''c3ca1NVZ&*$pO&iX=Y+hU9jEKR4FT-|+CfJp-fR26?N{IqVK^TJU*#crQUKY3hP$cYOo4;3uU6poP|s'',
   ''1t?ZNHur$7N1vo*yaTE(AVePL&3>=c^cbT_{NQLGq%yd5z3LpKtw9U2)TW$Bpe1MseEo)!&ImJMDAzO'',
   ''tysUs<2=r;Ms46{=eXk(=&x?Q)l)^swP-^4ntee^bTf)_oGeKly-%g12(DbOo1H?aW!o9Sh@VJ!;|6A'',
   ''|~bJ+2`1F2bZG;*Lf7+`qjcYjz@O9B8HRD&0w;&Hh7;j6X?>d;UDgUI~+;=@$Vb<KXUDJ!$)@~(5nmf'',
   ''<`hV0!Y-gnNx&E^>oxo7C-&y`h<(RiOAbq+NTRds1pH+T&T<)Y^u8MxTr0{iURfjp_8(`ue7kc5UOL&'',
   ''R?2@FzezRh7;0DL|=kpa<Q^-L{Em%cXwPyTFIhb0+6stvZmhP&sK*ajZ8jXrd{^ao_V>h6cD_AV1X&R'',
   ''?hly5*l-+_QCm3u|h6qBU&<M#*A`tePTmd``>8yF_Z!u5RzLIMjN#~6bHB@qZ^CVo9yz~Do=7_?K2b`'',
   ''TURYzL{3<-@NgF8zuFt9%}ED{{BIq&|~AN4AZX)Nz5u)lJqicLgqoDqv1Cpqv$*I-0m6=?;vkBcme<;'',
   ''xjgW0e+-bIG64}cNbiEX{jEAQZFEs%9LV^nZYjpVWo|AFhu+@@z%UV1G-?0iGc}`QXXb#XGp?<VjMnj'',
   ''Yh;iH`DVn@xa?=F5JzYg(L;O>_T@MNyRy5r5(5&5IN+a)rpWSj2=Ns}Qm_&*_aP2^fx)YiG=i-mf&}M'',
   ''PqmuG%{7?Y-D6$}dWy7wSQ>Zxy4Um4xF~-m^j!CBCx)$q50NW56O{Ek;F@IMOXZcrBoyxh~Gl?)KAw<'',
   ''#<e>}U6qspA-uozkfQOWwqE~r!oVXiDj9Z*JrBk`s?!A7MqW;KZjloZ?eV~?F1fG`YWpjwY=ZcGWTW_'',
   ''y~-sHV0!dxfyDU{F%HJ&OC_hB>w?LYAYgnJ6{%yX<8wQAc&IskUmZYPRL_CJVH_9d5WZ$p)=GlPm{Yx'',
   ''HDB$x~&_`&ix>5t|mB2T%A7;6$ZrMaEV>P^_LplUjY!Wq=Ugg2}`&qklk-lMIBcgkN8p-9FdVsLHL+2'',
   ''iCu6Q0yblz&j3A51KPX>(#9Gjk=HL(Lo1B+nYM;%K=vjtum<}f>y!0GvE3Mpj*qrS?77z_9c6p{c8O4'',
   ''J)aC4Skq00>=58R(2SK$kf`3hK(1NMEY7Rq_R<H*<nYK~yA5a0&CDl5=dtF)Ke>$C+hE!Id{m|C1b6f'',
   ''hN!lx{Prz-%vb+e5OL3mmX6?KF$VOxNMRVmx3T^Gh8vEG4+;K@cC612^Spcl96D(bN1*k~n|-2zg`F_'',
   ''6M_`F48y=G7@%1(6RV5j~7uxP+Z=rY&}f=LuWr9OGc3hGBSd-emtE&vn8OR@Ok!>6F?H(Gh`!ds7)ui'',
   ''^;+ulu(_XaHj@Ug}IO7$4E7!6ZzM_jfutR(wH<l@ENnez-}-^O2X(6ot~~o$5+6#XlkX;&n2sWWkY)i'',
   ''|7%>>5n_)9Ll~)57}B8474&&Mm3`o}w)Zh6Wvcr<FfMc4&2Fm#Fu1F8jD+i9>At}>0?6*smt)niDyaK'',
   ''A-?fBusT;s1U)mToTSGDksp}BTgStd<#;_A@>ZVAIPz6z*KN32-^k8p|2I0cMkWA}Xjs3zi2U&?(r2|'',
   ''y~gCYEKM8=#4B8c#G&*K&ug%O3;Hl>m*{NEOWHGMe&I#S9-1XJ2<+gO#E)WlM;oIp5<>)pHSo*B@N2L'',
   ''I-gMwaHF_JKUJL~vhEHSJIoN#!r`?-PJ=uFg%t0dHbDl?7>nKTK0Rk`)Q}m~`2Kykdc@yyF}Ddj?!`b'',
   ''hO|9VC;NN2Gt-pt|(&Dj#;C?4J{V}H$y2A6c1E-<uR{Yrj*T}d644ieqag~MN+I2+&7u+;STkjKLAD!'',
   ''i@'' @ ''{D>oiNR=)k|O*sfjpGJr%;!Xpo#hSLBMKZZL3)1@NqW1=W$QvCxu2&oaIhX7F7uvRFr!jcXTJC<UZ'',
   ''?UdwI16g)+z$lKOU?~ykpGw7~0k|pF?5Igi1bjUWl!C1Uf2x9!ds2Po0@mE0zV<mWfs)~hW4)tKn)KJ'',
   ''2xt6o|w7tFUouv(}=n#B&<L6qc~+;1q}<o3g4G<6@H0#06ZQiJ}Y7INT9x^T8`(k~_jfIl51Qa4)jJ%'',
   ''e~EfaFCNDQ+wvEhIs?i3Wjn6Y+De4ZApU@4^(DkUu$p=5a>oNdP-pk{{ONg>34;Hr2GIvK<&71y3&mk'',
   ''7m}q_Tn()badCrDuQ1^IH^(f^?|68KaE_L4nTkUiu3)?V2}1G0Q~7D;oxaAm*ej-&l;pz1llEWb&gSC'',
   ''#2l*0h=%pzXcepzyjwyp<($g5vfPf4>{6~|p6ndFZiDleTW1~R2)Bl7{DmJItJ=UFKi_V5PPR!o7zhH'',
   ''_%2j|i5}PbbU@?jB1OA7bN(QkI21_hpvt2gtp&+C%@Un(1I#9QvgEyEmg^Lwb-oZ*<)Yt_`Cy{b4KHO'',
   ''bh-WDZ7Pr4^YG9L!egXXw0a@o>`$+vD0I@<tN*KH2E0-X>Es<*FZSJSIzHG<nE_#V1Z9CeU}SfPu01!'',
   ''+$QcpIup_^whz1PN#lA-q#oCG@URLxc#ZjS#|qxVyVu@bp1WTeF6yL&#zqjq_h-RfI;xJ_-wp@v1m&b'',
   ''^GXew}E#r*E8cXkymX9f95<VnE$1VHjtDjsnSclY=sfAch56X@=oPNH=~B1Fg!+&ugLBx=0LDJb=d>v'',
   ''_<<Y7<nu0yE7fMJwmx)x1g0eM9!gCz2239*;ib6J`C8u>s;sqLldHh>5+uDSxs!U*<gWtPM=%R0;<%G'',
   ''P8XaqUv9fytS3epHihWqHdeP%6LQZ6*sA-gyy)zv7l7_k{W;g0pAmAX3Q*RT;%1dYW=U8*DYZ_;m244'',
   ''nde;3;=J`q&T$T`*MIqK`e!0eU&eN{!X`xhzcDvp#gzAvs6fw*H0(x_W51Z=vNvC^I^S$-E+w8?<#A6'',
   ''8wvv-_%kcgt?CzUOHOeoQXcKw584>D-P^ZS5L_!jNltA4!gT>Ryr>LX(u`Zjyb(dfR%qOygyomBC7_s'',
   ''2DSA+h{#)!!+@Xutip=1wt13LKlTEYRlYjSC{kK^Kzk6gnE{`#~@Nst)ngh>dU~qPu4gEP*2+EJCo&U'',
   ''guDZ(Zn2j)Dyv6w@+M{bnOt!gVw>mN5@RSQ2+uK#UPc3a;zHi?F!*TR)x*P;dfi|kZ!(-!4^$dDF&qu'',
   ''r`Jz_M*l=Xr;iCh6dA1Ktj%g4_oY>IWwZ11(wJv-rc2J>z_?Zob*mHUcKxyuNi#2!85N2n`qf2K06fe'',
   ''OIk3j|)*qNm6`bgwI;vhN_)r5a8u0U}giJM0+={b*%?z=ddDO~R1XigI5;`z9FbY!Or@z`!t*!ALx?('',
   ''<Pey0C*tcSqu8g)ToAGq0>#2ai>NPeTjZs>SQsN`(X>o`tb@G&(@I+oQY(p_}r4K6Z)^X9W*?EvmMV_'',
   ''WJ4Ss@l7Tw5+q`I@pWZzB2amHRxFV_N;Py!opEA1XY1(dkksTYWeP6a49_eS_`g>H7g4)RUN+Iew<%U'',
   ''s{!n3Z!Bw|;`zm~xaY9<07Jct<HbhbxoS1~f=avEwvYBOwI$r6)Rr)N)wZ3l=c=vJl`gfdig=&e7W<S'',
   ''o5_{D)<=~w}_O%pOk*lh%sytkI0WVH?)UJQJi_ZI85c`Lrg9Lbo3hyC-r}_R%2;j|5oZC|XZ`J-i_yB'',
   ''dPX&i&U=2?=)PwJHXx!7~ne9XviNN5)U-r?_ZAbUul`?=sN7h-*KA0OPv509J(q&4S0vGY<o@<zpN8h'',
   ''c!bBgY2VPrH{eLMPoX9LO#BgU2}auhw6M#-||LsQH?6H{2dYbFvg!>UtTBFYqRLwt49wzX~CmuCGE#k'',
   ''MAPDTZ&&}fM16ajqvL+^-}!BO9<d`>WlDS#{aqNZTJgme2nN>y_brS{N~F%6+opNO8nud6$qfbkh@Wy'',
   ''9D@zPYkl>7#x%N-w|fx<TswEpa)(a^?!#{nU%Min!va`^eN+gmaC?K;F7BQi#ul+-XCPY>^uAD5gV%%'',
   ''Eg3JNotVrVM>z#aRdi8)-)*c?wf;9C_?-p%ReRQZJ;Cf*!_yz)yV+r7^wJ*W#4rEL8E>q}`)uFZ^(T_'',
   ''9+iM+=eIv9MuIcVMMv4^U(_Zx(QZ(4*VwBIDk+e2T?DvUc$Rl_J74!4atBH`j)K8JJAjjj%T>tW$Ql`'',
   ''AP6r*$QMzvA_9`fS}ZC%Iewns*BKYG8FHy2<U+!?sudlmeco+|4+18;VAcnv2Bsbh;KU_;!gesNi$x`'',
   ''Z4hm>fpzX5r`Ns-%3J38xLl;9Sy2i-7&a25Ko`NAf8&p4#X^%Jc%pK{b1z6I}mm`Plpny&MXq?c}Y?|'',
   ''k^cFFFiytogvN~*Y8diTGDX)V{gW@x)b(!tK2WDgS8+J9uLpT^wfe%m8)3?gExxl*Dy3Gh*1ORNq8tU'',
   ''0Q+?12*m7;Dy*WRp7TFD@2WfUxc^5{%q+RK?d>>`co7s)mYS53#-f&jE%yB+H`>mjAXVx$RY31IA=#J'',
   ''U9>5zTPXw>5o%ENrm)4`WQ9DL{+vy3=&<v2s54V6r`;T5*YMuNnEC{MX;SA_yyLf~5vvKg+bZN5CN5V'',
   ''BpDsxa#?Ub>+IQ3Zr3-_)rNA=uJo+X$cuFS`a{mfJ>96uO2`spuGkS;iH+&<EFlz(*w<d>k4R%FvspP'',
   ''uW0C|252>G5^wRsu)&~HJw3_*+|A34e$qu*0D?;JU0y8CA}l6FMImeAo#v#vtu{fSvcu<2J8$mGPuWO'',
   ''snBwIL-Ag|%^6X;6`}*}+ccJMzL<KdUlGcqWt>O8qtj+ss-nq&YLJud(bDEfT=gE*nM(3<MMYc+CG4!'',
   ''60U3N5x^^@hw$jVeiMOz%(uTCkv(9S?OaGPc)T?zu1_633wfr2K2U3le#4SdjmVRX%VfC6b=v0>?14^'',
   ''5ejAa2_>n}W$$-q=A!$fEFZlOw8v(v&WKmZFBgVsxuL_r!SOQm9>SCj#SUZg5~!^p%^9-$jUjuJ6+2Z'',
   ''pC;MKire9aB1x9y9=`;TV3U8&3n(a7%a7jjCYU%nUulJ>Lln-!1;j{bQR`0Xn`-Km=jLCfG)KC-&nju'',
   ''r>+-J(snQfP`wp4+D|y$Cpqh{zJeYaagA8q|Ts*1JV#%hX%A9L^r%_H!+CoZUkxu_^Q)6cv1?$7fg%+'',
   ''`l886Uphf0<nty;Lp*Du3Yce1Rsn)Ih40gI02{TrUJY5XutQKLvoO&Z$l>`i^P`*YY<%+2q$63{LrIN'',
   ''oA1&h4bi#c!EnrV4mVr%LknX2XQ}sOhpC#*Gdb((OsHG*EDkE(9FqSpM=X9d)UaMUfBIK<IRDpTiHn`'',
   ''Tq|5Tx}wpEhhz5c>}I%BWRO~49sf}LWPIxA>jJt>2oWd-9=dv3NOv(yq7zSAeRa)nIL<;pCd#oNm=U6'',
   ''@RZNiSrd{<WZ^x#-r>EOv;M;h4P!Jz559B^j(e1$+|~RYWZmuhf&gk<XuqfC&dM2r3}}S_9y<tW*gTV'',
   ''=C!aEfFHNb%~nZA*OCo1sOYI&Yd(nhX^2>{+YWW#?SS-p$R&tx3%Yd&7VqGqp}KI1Csz%uiLI@137=6'',
   '';`H84Wqg9^MKd?@-7t<gTe{x8fcR_EuYf9rpe5{-C!y<cD?RzgKVV;uKX8Gs$}1R$3(rmTK|-Ok@?uc'',
   ''a16@TUP;+c8TNsE_AL>89`chg-IosAUUyWJNft9a52MW!c{^IRjd|nGPty;zFoi@IuJVxx1sUQ_yFw~'',
   ''?}3td@Nn;z|;J^AysBiXAS$(5UV8?dC(?JdU`$|AEYBp(-2j9Rqk)Q)c~Rod0TM{Niy_rYJ>bS>n{h*'',
   ''xR`YDsw{XhRAktBzgi%NXv_of$Ot_4cxUI(snJ1OCK4$4Htc&r<Yj!61DEAc<=gPdS~MSXrW$w=v6>E'',
   ''oo$AI=0pXO*&IsmRO?(3hb5e83T@908`A$ye!$W?c_!xVAhQi$I6yQDy9-_P;*W+a!VeofY30a7mmsb'',
   ''=7h1Q3e^l6Q$WfyE^}{VlH~H#);3dQ1S?IkT>`6AB{PDh63;KGY#GTx$dnX?GYM|5^tPh{g<TQ5-N~?'',
   ''2dr1e%buxI6M$P5PS-6LEK~^zpoVjt&0&(CklM<$T8xl;5S6Q+~a1i4l1(TCnX&xwIZPCZuQ_96_y&1'',
   ''F9(c6~(keq{OmzJW3*NzO`-s+&HtZNFx)UsMxo{5&ol2H<EE2DpV5uXQiY?{CU6dOh~NMIGodR+!VK)'',
   ''6IxhEt+YDssdAWqrd%RV)rOnn(QcJCW@|E-}g@4-6cNBxK)H60%eKhl(Yx5@1ylwv#xaTqk%V5~VLPA'',
   ''7aOf3j**~U6-D=62M{}es1}0=GFpOOv?u@%XoncfyPE=<(5Rh2qLo|OOh3UZ`e#GEkfooOAzh}C|<`j'',
   ''&GL%tfJo+M3o^UTlx1+V0_#CyBNSSLnFi~MbUXAau{AH+UDrIP{-YZz!q6RLV<>A2g=sLe(s;e;3k%v'',
   ''q`6+;5mx%F4Z*~mU$BIIg0RS-OxoCQHBRroA)Y;T~On_4~3SQSasA&ujJpfNkfi<+qm<9kXXQ3&88b5'',
   ''bwUQKyO4yUG+L{e0etm;2$@pw+EZiyhL+gxOr2@qMu4+6L<bNJB6{}uVQk#l-Sx-oJDJaFUy`n5++Bo'',
   ''7=pa(ckXp%XdmwlKvY7ewGk10N4B@WE3CD7nnUh~J1n?`DmvWRZ7skhMSp*-6(Fi!^#~3KL-Zgn5WS_'',
   ''1`k(?!C!qH<RGM!yq!!zFWh8M8m3~$@}951RM6{l`Baisa8rrp~cvm>L$&Vuv%2K2``mgF;K2EFcHC6'']"

lemma DATA_4_scan: "scan_lines (Some T0) DATA_4 = Some T0"
  unfolding DATA_4_def
  by (simp only: scan_rules cong: if_weak_cong scan_lines_cong)

lemma DATA_5_scan: "scan_lines (Some T0) DATA_5 = Some T0"
  unfolding DATA_5_def
  by (simp only: scan_rules cong: if_weak_cong scan_lines_cong)

lemma DATA_6_scan: "scan_lines (Some T0) DATA_6 = Some T0"
  unfolding DATA_6_def
  by (simp only: scan_rules cong: if_weak_cong scan_lines_cong)

lemma DATA_7_scan: "scan_lines (Some T0) DATA_7 = Some T0"
  unfolding DATA_7_def
  by (simp only: scan_rules cong: if_weak_cong scan_lines_cong)

end
