(* ===== verification/Pip_Data_3.thy ===== *)
theory Pip_Data_3
  imports Pip_Scan
begin

text \<open>
  Lines 1370 to 1969 of \<^verbatim>\<open>get-pip.py\<close>: part of the literal \<^verbatim>\<open>DATA\<close>, line by line, with the proof
  that the scanner accepts it.
\<close>

definition DATA_8 :: "string list" where
  "DATA_8 = [
   ''&jpWQR$;485*N+&A!t!#ax=h8RW7m`s2I+Ns(_7AXT0+hg%NL5$BtY!&(wl@`1)%up5U^37td9gi%os'',
   ''4#X5i||5$=bewteoLqL)mF6gTs9|_)>04?+QP{og9d3Rb`ATF15Cr+h`AGL>yuS(f{KPuyt$J9-Ph5s'',
   ''j*ClB^l!8+ppS-D;RG@snwPUp^Kv6%gGjUNtK)NkVFiI1PWX+ipUdoj72E)2QrPB8~@'' @ ''{pQlDa!$~}+E'',
   ''{lt0{kjE?5`9!Jz1iz+fLvbDLoZSMifciHyM(<SlX9i+FH7qX5kggHbp@#Pt9Pxy6r{*jLQntBA`>Je'',
   ''yL1ZsI$t)xS2~rH=={Sw-hKX@o{$+_}oS90pGfH@39w34W(!m^vQV9w}<=zwn6xTBXwt0eep(pIf$O!'',
   ''p`#{&Id<_bSdsDZ8|v2eF!Q0oIkib@RY}xl8*dOkI*#RqLg%i=q?43m2x|OMTR2K2<&z1l05lH<@D8M'',
   ''{Nf-T(*-6In_z1tcK{Y31W{t+|U;nN=Q&QoVu8e7;A^F^k<+(IUkZ#GU&p-9gqp9C8Vq<V|8mwUhLV+'',
   ''B#6!*Jr%phidr67#u-8~IY{^`VVsKIegs(}_k9~x>Qa94bw`~6H8U#g~s$C%VTFhoxrVxdW+<Qbi0fi'',
   ''Y?dfdEdl3{L8SR0Hl2mgJPLT0jkjk#j1AD<44`D^ZgUVX+`w(I##FQbpwFcAQha<U3`CXzRYJEc81uw'',
   ''1rFwh`<7hpOMfM9CG+Dhxi!)m2Xu*M1UE3i)|he`)Jm^!LLc^489vsK%Ma#pW{jBn6&z3G_9C0=j%`%'',
   ''=HS@JiYI8QGGR!8zCwZLk(BW|Ny44}C`B<i`H?Qe{<R3`;O(?>N_L_;I*~DI{V|WWX!2Lwh^uh&=bl+'',
   ''$o*N-i2waiRfcvbuC#w7nf%R_%Ab4&rxRz>kqUTCW#TwZ|_H92cJr13TwO(J&`B_m%#2b)uBF<RoZkN'',
   ''7G*=OJC9JB=$U`cK1PV#K^-G7}_G?z#X<k#@<u29C+hg~q4N%cOFJy45`JmP~jMm}bNQJ?;rok|*vPt'',
   ''_%u9ym{Qm3sb|h>!y|z#-&`%`C%>$2--sChv#bPH!3JWk)r`>+gSfO&EksNW}w$m?T%`7iMpM{E_`U='',
   ''ajw1pHMJ>Bg0@vogIRpD3SxYCLEtt8#Vo+ZnKLd@'' @ ''{Ztc>TT%YP=5JMGp%@IKch*alK8*6X+RINe8bek'',
   ''fnb$jts;18Nn($lHi+oaSiWOY@sczK{H?InOt=xy+Mx4^$eRNpiUQ;#-twu#GLy9W(jAXfl5OtW%vyj'',
   ''VBov{LPUE-#kTkjMc*_CQ6)^clM2(En{78wY=)OoiTnX_j@Rg5Jec&lS5k(Intn8Q_p9}GpO(H3lp<Z'',
   ''}~`fGY5D5*1B{DPlB5Nvq`W0I>Z-8@4XK`+1{xUWYtdazeA-*QPCp{{xx?%m@^40=U(jd?Mq#h5=$5j'',
   ''<!Z($}yIV$jG_{Hi0~u-1|yS6h5k&Gd@O1JV=KmWCe{E(6bOhi&PdhmAw1;<;P-iGb2H8sFOrtCRaVs'',
   ''IK7Uo)$rk3CFJo1`+189%F2z?=KghVIXf(lOe-5UF<=nLz|S?w~9xFM}z+dP)h>@6aWAK2mtey7Dsmm'',
   ''g2n;?001-s001HY003}la4%nWWo~3|axY(PVRCC_a%^d0FJE72ZfSI1UoLQYjZiyo!!Qipa|!|->;Qo'',
   ''dP#|N6E}gmyicPmdB~hSgCqdD>SGE<w2|ARMNIkv}g|E*$$Yp&b7BEScc3|=lZB%-~&=V`|4Syj!ds6'',
   ''Ew-Bx-W%;-d8m@HH97~}vQ`Dh&;zy?8%jIzT^hf&~l*?M6nF3JNmS+>bg_;7SGF17phYc4i6;nHQHzr'',
   ''^mqC?f~>{;3PaNV}TeK<CeOsE5#Q_>ONBvT>S_+4i`!o4vW7pg|wy3b#`jMtJ8D8~DVLZ4%qTnL;BuR'',
   ''1)JH;6>PE(U{a7RdF0h3Ykj6Hn#hUswS1zJ#|{cvCJN0S7c3JuV3;X;Qv7j>B9lDv0qS20|XQR000O8'',
   ''^OY7yE)(3O#svTXiw^(*ApigXaA|NaUv_0~WN&gWUu|J>Yh`k5X<{#JVRCC_a&s<ld97D%Z`(Ey{;pq'',
   ''fa}Y>sU13evtqA4;+3F72vZQE=wm_B%j6^wHWKtt(JI2!gzB`hVB}YZSOh8~tyf@xG_waH6&z?MkLX|'',
   ''=;j$vi1XRqi>G?`3JrRBQO+``-WTX^x^OW<-Xw316MEi9S7<Jx3VH2?JW9b5_dFq=JmGkcKAf{@qXKP'',
   ''&yfWO)r)hLW3GuDRd1;kA+r16Bc(TTm6)TV?oh6ahZX7T;vPMh8Mkm_dAKvO^QYAtYvNvapd0S*fdUu'',
   ''cz?n<MZpZZ>d_<b<bQ+JTpx#Y?7iGr=UzG*^;ABSh=sH(A3OUN-u+c`|90<mu%-_|5K6<C6}zY6_WQQ'',
   ''!>4`8a0an#YEHRlcF)78K(NA~(wu{_8Y?`7THJAnkFxLMDJTu`M#vXOF_k-t@|<Coa<qIEm%L)D+UC8'',
   ''Iqefh)Wg}`%OVPq3zK$Yvt+WMZY`avZU3G~H@0h%Hx#8?i^9o(xtVC^v%!31rA*`av>g};RN~P7Zvj('',
   ''m8v9m|~zTl08QztXmT4`@WRJ#JtVDdLxvx(oK=Ky|l*5D|63AfD9d0?r^Rn4bxv$8<g{#w?dTFHWzS!'',
   ''WlMIUZ+{?wr$u*<5J}6CcLJ?eUu0qLX04U{0a~l%<*$mX~0#N3ny}Obd2Xa}(tsPTpN&4*!k&NR5vNz'',
   ''@6?~$HRt0!Ck{WYOUj=>z?WXygB{!#~d1lB62b86k%M-G_PG?K8e<`fZGB^FMVShwk1wj;E8y)$gmPW'',
   ''WJgb@ND?I}Ix0d{%qTWW2^(Q=`w>1qQor*<0*0L*1ETpk^?yGh0VSvrR)cKqwKhsU?)FiI(BXZBuIWb'',
   ''=Mqxwh<8bQR;P+ND6g^kSGML$0&TGJrTn;kzIf~E|fd^?D`N7!4!6&=pTa%<|*En$&lLQLx;OHc;@Kd'',
   ''Ha#$50OrH~x*IK4*vb=yc0)C41}(zXCH&^wR*LN)F}2*UpMdG!(&wYp(7)?T>wVtShqZT0$wc6{(@6c'',
   ''sfy22L*Df4mizyK`YXXXmQq?=_Q#(#v)5PQm2}Z(;L1F}$wuO2M4E)b@ImcCv1RE`n}-0F*^eR0B(H3'',
   ''|n9yI>nQ-vx|@O*C_1*_yu{5Y3v1h`B|y@qVek!i~WoZ61L6>bZ&K~Sm{@nR(n=I0MZ22aP2B@2A-Y<'',
   ''S0^&)U36;RyD&&{Us0a_<8^<v?eE+#PG$Ht?eDn?GH2aykj0(W4lYk+8g=Pj3xnO~b1ktby)<K4=hCb'',
   ''+@8ws?dW+CNqzj3}T-R!Y{ZERfgFyhQn?R6^P+1}(NoMLx7tXlPy2Pn)xkcOe?yg8;47T%um>(N_{*;'',
   ''G?{*WUF)<&LWh@0tG<&l%%i91|Ys5)0wg%qE{Q;7eH({y(kc-W7?I(wAey~O7o+P+wVH^@Oq7C`h-^E'',
   ''HwOHYID-fE5M8e2{y|H#ylssJ94CChj7c(B$UMvu5>*XQK2TGqRV4bz$#E&qjoh*Q)Rw*E;FW<!)EJe'',
   ''R%FmllY%-7)#TSkH-mx-6`Gcd=_(zC-z>+aF8CbMlhExxa4@@=03F~nfA%2Rrdjf>7@<Hxi0fTWI=C#'',
   ''^cl(`m;U$|eLoS$y3j|lRAQSTnc>wc?CiZ>QI_%o?-@E<n7Oi#`1^s1@w(&FBpn1lOk|&+-F6v*0UDI'',
   ''LsmI}>u`~*>VdD@xcW~*3x_%~Hh*#dKpT@%+_dDPAhB$f}B=`1WqJH;E8I43uf2yM6_`ST6NiUokU5h'',
   ''va<9)3KB7t7_cwyq6u>p;8Ix?KKi3zpa4Y30l?7=kszhZ5-Vbzq#G^U^Y{d3S9+=}BkMFx)_A*qwVLG'',
   ''tsydcU$?w9prtjo<#!7vwX4ilhx99jgPiK(d$hY2S+1>XMq}d8rEbFOL7_wuiXu_E3J%r$cnQM(O?sN'',
   ''=AJ5%cKXL)0RFNMEW04O9KQH000080P~d=N1Xbo@2&s<04@Ol03-ka0B~t=FJE?LZe(wAFJob2Xk}w>'',
   ''Zgg^QY%gD5X>MtBUtcb8d2NqD4uUWcMfW|$q#JgPE?k;uhzk=v1DVtT8lclmi^SVo1QHi)|9gM(M{8Z'',
   ''8ZK-6RgnMv9U`cTIiKIqLMyV%u1TFz#{6OMOsf7oybJwoj$)%RZ1U>r(JPs5?z7UPlTC1wUF=MGJI74'',
   ''w0XW@Yo*%uknfUaK%WpZ)sg>7e8ni;=IVvZK!V2(#~DwO&SFq2>iB-^V0XI2AW7}CCRUC=77fAsrqj@'',
   ''1`XO9KQH000080P~d=NAZw!T=@h50AvsV03!eZ0B~t=FJE?LZe(wAFJob2Xk}w>Zgg^QY%gJCVQ_S1a'',
   ''xQRromWw7<Tem~-(Mjvl=X(iBwU{Y`_Sfc*Fq@=-QylgF<N^zE26brNzQir>pLUavTVx<)DYseXFiQ)'',
   ''zHc-Z=SFGEj%{69rKDM{j#`~rBbvN;g}PEY*YI}>#+sa0ys@AS6W-~U{r>Au{#oaim#Vf}NeQ|)dgSE'',
   ''^9>e3_j-K`=pG0Y$S@-fNBwRFanixgO1211b<E!uf)oQgWB{ycYLKjXJg|>NEF}y_m%B85d74>s*276'',
   ''MKVLN8PW`C}~e%r6NZ2jr!x2OHn`mfE(xm0juMImZoiy|{1k6Y&A-u<p>*gBKZ<z5zG`Lo&Wb(=H^i6'',
   ''~s~OHc;1z;OQsy<~BMRtsZAxnyw5^|RTs+uN5*mjVaeV(PL)%C?MlxXHtYWB<V&ZMx#^{C=6zLjkjiW'',
   ''e5_j!~H7QMA<lU<e$D0>Lf+9z?4Mea0brp5|G&_HNytRDT`|t-ESw(p(?}eU=q>BpmaLQbn=;1;=_jz'',
   '';r<UaXS_Gf**62sVs5(!NZzB;XXLJ`nN^66+Bq^|0|5MksYPMd&dnEwBc{LeP^M9}agG;YH9$pB-l)!'',
   ''#VWDXsl2;7d?b!Ou(|-LhPhM4oC3e%o<iWzBW!?YH2nAQ006olDt--ds_V9;R$iX%Xd7gkIq_KQa11h'',
   ''}8Nx_@d$oYohi}HnGF_@!=OCPT)BsZ^IXFM`&PFgj{4htjaK9ikk-Zt2bAe%)uOP#7KL6zsS=zP=pi-'',
   ''M)SQx)D5yQArtpfQNcHDL|Jo+N!j@sRU4k)OFVut5Bu3C=OUqt4;V&in;?^dJXn0Ii`%f!p~I<^CiLy'',
   ''9g;6X{c?`KuR(;PE+{j_u(NMWudmHTzMV3kmE}TVMz(KveB+O<OOj|Sc8<1SM<1|P8*@Ujzd2*Qx)`)'',
   ''<i>K_8p8c}_v2g)H|#sGbBh@|@mHV?TU>-a?fLW2N?d+Q)nb~@!0QBvJ#mXIVT}+6fZE513E@&B-L91'',
   ''W&V(5}j-$*C7%l)@n^cjrU-3p@u{7qE$bg;~j=^ESv6>Q5B_O;WqW*=MaO-0H{vl>$=J$T<@wmmraIQ'',
   ''PLW<;J@O*%qXv1t?-GSOwZkI@y8X~(GB%%NR{xdv9@8ILTtCzlF5d|olRgW9N2j3?Y1WsEq;sQn)lmN'',
   ''Y9B7E(}6JeHSG0>E#>H3AwlQ2&kycx2F<1F-wMyC1O8XxJ>&Rf7cHoo85<8cIihn&uoK@Nt8a=e)E*2'',
   ''DH1Zf>KpjMl3AyylX0N`M6cdzRnUwiwH9*-c-C)0eRt96CI`>@9qP_SiT^a1bjbdLGqMLoM`=%&19(*'',
   ''vu@a9IHRcJ3~k1%=`5a4wijD>o+LmHfB-;pb&Xf`eRpapj+03*&Go51gL&?HV>awCr2!oH$1@ClA$U1'',
   ''()_*DZ9z_R1s8a$f3gvPFKQ0-I3_D{FGrj?0MNE5!>J3U3M><~<UnNU@W$;VSBjE!qZ@8udDh))}+pJ'',
   ''k0cX~R#Vel5jTx|bi;FydLsR1d`e4~YKa8~YTSaWj6TKKYqctGeK<}<A5=Evk0p+DA5ldG4+j9au?E='',
   ''{-eu9s|%_v3sG-yL~{tqBLe;56FZ7x6kC{rPC<uvU{85r8$I8dO0`$Bi8oA|IVB!;g1HyHcudqKm&5h'',
   ''q(Rw=nL<?V)qXJ0Z>Z=1QY-O00;o{l@>=5s>bjv0RR9N0{{Ra0001RX>c!Jc4cm4Z*nhVVPj}zV{dMB'',
   ''a&K%eV_{=xWiD`eol(7RgD?=@'' @ ''{S+rABBeY)qzwI8B1KV$?#Q)|;Kta<K3YXl-o0l?11uG-2N2wSzs|B'',
   ''uywwOwDt`L+4^#w?uRExG0MoP<8+2scaoC6jq-~9r>@0zaAc5+DQi~`n1mhkWY<xI_Hj0dQGMo#Mu}B'',
   ''qsb6ZVpOzi`~-m8-kLRlFjJjsa9NhKeAtTsXbA6A1SQXbJ(YdGPV2XH$<nuu`lwEOXjI$w>rIK{2uQ`'',
   ''!#y0M}@d@L$Tx`Zypbpq6vq^S*FJL*9GxY2>mr&QMw2)ccRr>h|E>G(#E}mWzaK-zS@xjkF}mqdOk>W'',
   ''-r$T)gpDljT}W<>|5*&EbjQrP(7L)|IZ8-UCS@bFHEr+D6Y%y;Wv6yrDcvj3e6Yh9$Md~fGhD0P)h>@'',
   ''6aWAK2mtey7DvLpK6;V>001`u001HY003}la4%nWWo~3|axY_HV`yb#Z*FvQZ)`7PZ*6d4bS`jtl}^1'',
   ''5f<O%3`xN&Cx45~R=tc}X!K0YUL2G*ueR~m)7!w`r)O`O*?^|&5waUF4HAXslsnyU?FRbZ_U6=;ITR='',
   ''(fu%J6t)=%SC6F^!EG7}04T|`%#ljZvvoDEq8uoMZ2uO=KCR<C#+(UQ%3Lsy^C{A>SaW=wc^&)Jt{am'',
   ''?61Ib))@W{_2_R3Wlq0}oJ30|XQR000O8^OY7y%Rm<*LJR-^j3)p9CIA2caA|NaUv_0~WN&gWV_{=xW'',
   ''n*t{baHQOFJo_RbaHQOY-MsTaCy}kYi}F5@w<KnE90P5BduS7do`d-b4~&n$XyOeuJ^%p1ZtO(81F+z'',
   ''a{aiX|GhKA$8uMa<23Du3P`-mof!`2J;UK}IQY00Y;DY@kc$(>i&d?pS(ln^YGp*umbGGy7VHjInG(M'',
   ''@LK~e9hJYzcgn>o>l<`7TIamJO$WjcJsxFx*xh&Gg$U-ysal@4sIX7Z%{uo%OjohU3TOd)ZG;F1fYBJ'',
   ''L(5il>f7MGP4m6k@'' @ ''{idQl-jzF66436XA@WTZzxQ|*W$qV^M0Qle+)L=09_5CHA!C}&@E;q6ei5h-NlB'',
   ''-YWhc6DUpN-GQFOtJUc*oa2kKyg=6FnvWz(==skfiu`I0k~bSlUC*8zmF?H$ERQ_<`tt!DY=j!%Z74s'',
   ''}(cAw-PIH&sK1ziph$-+-yJ=@}B+3>Lq*s=7OF6_4~7QKveLTXgFLcCX6>`je2{Sz>a1;VIVsNFH6N&'',
   ''rKrppPS$0`b3%Vts%|zKV1S*p<R)7aOlsE?3#<evp<;<$ygI&~IJ~RV_VIc9c-B6Ce~t3U3a&LHg<RB'',
   ''?QFT!WmDG#RA~UUMUgFV>P)nW(W@@GdsB7shkLh*Y6geY3=L~GKs!iHC42pd|mz6a0d7?$JoLK1D&vh'',
   ''l-^IRCd(zB1Mft6quia;DI_(N=GQZtK)I|j3Ig6Tq9(jMNvb-~*G04jO`(yc)PZNmB+Nv#y1-@H9uql'',
   ''&6lWs((o!dlC6V)z+8SvyCg`t|)=lw+m@_!^j;=1akD!~=OY0uZBKdjAcx!XKy%G{Y<<r>B-)%Pv_Km'',
   ''k?lH-)CZDWL+i0cUAGg_(Io3WAFf%;3^7uFN*q3<SCvQcK%Ke*>`mM)+5}0Gxv}pf{OGMH~^6F9H9E#'',
   ''<Dt8(;tHS+4~H%A0lOfZ%)wY6D#P#D0s>UdDyIgHhe8jw+PGv30iqWXK1LjfjV=o0as`&2f-wmAml5_'',
   ''^dXk<XjSnVgXJ=_Zc78FpA|d@SUgd1~VwireWtCh-n!6sOCU7C(gE@gR9lDd=Gd4UwJRHK`R$R~God('',
   ''hN6ck!2k65jB2r%7UX6p#Smo!*+tJ*e{S|XW^AI`nkg6Bf%t`mf3inXnwGl%Q3+|DR`4x%S<a}XlsyI'',
   ''WqsnFA^BF}YkWg#rhFCxsfi6*}FyIS>aLAliTas})+7&F$u}J|d>3j;T>>fg=hsQx_{om=PS$U7PHX>'',
   ''*91Qx`o?E2}Eo#bh(dL0pmK=P#>6NG#QPzG3F?%Iad_+t~%fGXPOOU)2n;T<Z_dYy}OY(?~xg#;&vF$'',
   ''h7)!?z8-IpS(52O)^-RQ&on(|f0|kRrL1y9?_yr>Vz=JUY*KLu8$C{uqn-R9aG#&qjFz9oPcRQOyreJ'',
   ''8XI*~BeP^-QgRX<+bLXheIo#VG=Xh@^ai373%G%UWTH#rwVd7qDJXqEG&xF<RtnMIW_xX9l3oUm0LGX'',
   ''P_c_CL~FmMc}@H~!O!~^bfdynEBKaRy!T}=@h9a<Ymd9C|a_1q_O%>3kIRZY->+zWOUa0Gjhjw_b@e#'',
   ''%z?3L|WmU4`Xq)cR4^nR>g$JpKs9FsmD5^NeMH-Ej>kHr*U#Nu2kMCP+J`dI|LUy3#c(gwei=k_57<D'',
   ''b>`Fh$8eQ=zh&aRX3}3q*=Z3nrKTE@C%-6uZBsa(R3wD5_CK6Xy#%qvYV)+yMw-i--_1wY$@1J!pOoC'',
   ''1+atW>Cy4TBjD-FQsfe>qIgKzZxG4rYGh*T5r6|M8mu+zMzs!s?oO5;635~&vjUCqp>$Oe`V#1bpoAF'',
   ''`6MRvKAp`AN>Hi|2ET|xPq!AwE`t#_OQAegB3!A!zlqiK+rnOofu1#4Ss%7?<lhfk^ZHt5HS^7LZX|Z'',
   ''FG7ZS5n#=$5cr@_ILuzE%tq3p&M53sm_;;`*PNUaeW%7xZS7mX%BF9bMNqZ^1}i4?(>$7!rY6k&?4*l'',
   ''2VU(8x}8B3P?UPk*+n+e?UK@cy2`cvMi>2>Z(st?tWt2kbXI9ReZ-*6WkjgQAFtLaf9s7{EecN1XS_U'',
   ''`%k`2>|2*{0?f>4iH8X+~9GJ@E3WMr4%{U6MUhn??7_cey8|fQ~=XCXQ5N4&#N-&XUWi+C%zW2qKxu#'',
   ''6s#MC#n2ogA&`ccm>f-rg(+><2?8JAy?S@fK7t<!bOw+q6pBqrg+GX$8)t&LDGb<MQJ^q+$2IT=awz2'',
   ''DwAGG{9Vt)-swICQ2?OeannqbcGkGVr$Yi9hjj9*mq)<5D)-ngZfU#CaT8{vmfV5+W5Y9uk$OJALKr1'',
   ''i^-Qe-zFU1pS(oR5~Kc3xoWwjhkK$Wr*HcVGSM^&j`nHO>?P@zEmXh-A)!McP6M}`iLcalY~Fy5Q~{0'',
   ''Y$B-E))(Q>meUfkJNFHR_#ALbOb_NsN0j-8f@`NDXn_fk7irhr+N7MkMYx5+_7G-bFz!XFu+*pgs0%k'',
   ''Lh~?y{Z&wdrUAoG&r0eY&)|Bn!7{yUC)siJ8#*pGj~bOIax$`kGa@9i`_HS7G%JI9xG%ijkf`a`j1pR'',
   ''-9tex**@i74fmAWl??X$?C+R}UMp3rCz3rHba|E4l;EDuEuhS8CXAR2WWJuwnBGx8GvuEeS5CN4$<PN'',
   ''O@!}F-+Cz4mx+tbTo3-R)En^+EhB#yQMKx!pp~8bl;|0%EvO|(T#QSvT9|Zk`L=Dw}7%4&KPdKTo!>F'',
   ''`!)mX(|Q(nyq!4=j)Q2cf@_~oqlXhw{<aZDPT)j=expf*`UtSX|gu$?rieX6TmQu|-HwpZ`%p}w}C`Q'',
   ''|#>6RO1ByseGmse-Gtx>Ea^GHOq$@>rP?adS1gTuw3mO@G1xGPXovjxc)t5hz`6?@(}Ure&SWr4;$sZ'',
   ''S|AGnts6K-repklJx-bzE1HGtzP#$_o=+A`AJCe6Sk=HhyI{AZgpS!D-_C2z7=h6P68m6DpdW@Re*<p'',
   ''p1fPr?A+ymy}>&Te{plpUXi=mOn!27HqxQ$!DxWreA~BGzO>dtegc6BYDC4WRp<qD-^!3bU(-9Uy*fF'',
   ''9jC68zI)M`Z2>(02-W5Lv9j8D-^DkQ|?YC{IS%%Y&uNoD!sE?y{S&R34qU%RuenkNb;~rf^wI!GDg7K'',
   ''mUyEBTG0H#f?uo1<|CmvtWI@S;w1qhs8(9(zoyH*<gFTH_+B|*)~zG(BG1zw8!qgyPw;V||R3oA3<P*'',
   ''v<kh>b7rNxCs>TQ?}kVjF_`3fapelsU;(@CY1Fc6VA)NY0@di9&ME@A1EJmq<qlFLOIS2pZ<q1A2mX('',
   ''+2ngPH!&&SW(wEwx!^4w~ffJuuXGEZ36(6vwip5)l&cO<uU#W8OUWv>me!SqC_P_dlbt2c$9*X#rCUi'',
   ''Y)wXVN1Zr?GY}>S*HCoj3!J7=H4LvkSz0;tdICEb_@ZGQxFg)*)+ThVp^y5ZSM1T4-HivWBl^mByq(f'',
   '';Ah%T?Bgt*hrzrIa%I%Q)7NhsSUe)0HwQyaVh2Cs}ajg`*(x}4t8W%qFh`5#np=pNEEylNcy2n-MB;5'',
   ''y!y1M^6abvmCY^Y5QGyliSmTs-`4k!MnN6%3cG-Clvg%v1^uuH^iM(?6DkwGZXL|i)9-EB)_=VW%6h?'',
   ''ByJEo#s&{Wun?rGDY#ETG1#UO!dCsVR`Uvwn`bL{qZ_?E@5$=vINosy0UWV{qLGFyD3s(M4!QySIGr)'',
   ''i_r2`@(TI(?-Lz{uHyfdp|5;gC+B}!|IPK_cd<xEeeot@pd56rdK?Td{L-=Ayh7CCGM2*$QmorJ@e{Z'',
   ''@uivK+7zJ{QcpL}r%}5#Jvj@*?C0rmOEn%GuF)D4T8bS7>1MO3wH?=kndCj2CF?5rO`KAqu`W6p#161'',
   ''pnWyZ>#-wS=s7=QS0!L>A3$)`$-E<NY?uYk-bb|wyt;4{Nb}r>=O`}H~D;6a;GGloox`nrS*x(&OH2j'',
   ''Ry{C!q5IViuai@O(<Lo8FlGp2>8R%ShHt?hcR`T7btwaV^VEnPn*HxqViZ)Nc*j;sM$8d2(G`!W=*_9'',
   ''k5Hx{jcKj-BRy5W)+G=HZBLReacR$7HvXx4PSVKwl3bnV5b*R)tTGMfg2Y{R@%2$5Ir<$6HNk4|ecxP'',
   '')h>@6aWAK2mtey7Dqt>BlV#J004Lh001Wd003}la4%nWWo~3|axY_HV`yb#Z*FvQZ)`7SX>4V8a$#_A'',
   ''WpXZXd7W0lZsRr(z56Q$$ssn7%0-U>a!9vbpqHk=7T7~k2oyE4xTZ*fq+<K;`-ZY5S=&qNgY8(uH*em'',
   ''&8Kw!oBjd?*y$^|gz9f#ny>B)fZB>l)Nm*Mdef(@Je+{bdIc$CPjdj|+YzVK1hll+6r9&j0#t>4$53V'',
   ''LfO;2Muom!(?IvGSIX5tSHm(&_}punmo<B}(pp{k*2I6RXA!l`9Psa1&@Fd!32TOS$mX~g0)>me~x=_'',
   ''^(Io?4vY45qzH>{2A(j5s5DvB^*0fS^(erUFI;ZKgi>vq1vT0S2KA4)!8EGlQ|3>+wI^Oh|+pBF=Z*R'',
   ''UG2TKvC_7%3dL&_5k0O<&G@s6}&!hW6l&&cg%3kCrPWcHZ?e-o(siR)&2x6W}d|)eEw2%LuF~4NoBc>'',
   ''Y@27O{yfQX?UTIZVNsS)fL?E%-tN|q(Xv+{tbd;5eVw3}`460g;6%Zxju)vPp%v4IIt(fp&fPeuP^kl'',
   ''>L)Jo4;~n%<E{<)Q$(Xo65s8#NsY^seDhOpjdQo$tkTojHY#-@hAIyhJyaWNazkd81K-QlkS?`a6F!V'',
   ''Wo!T?=6aK;JB<Rr>1VBT(lzlPw$XjRy<_8i?)f-_A7!|aimynven%4;xj3l!rT=^dlj0agw<k0>0)3)'',
   ''h+umAPpZSrUb1IkQx)%9$$$6Om^QT7*mGZAyK7+3#zwW6@&{y(@e;?0?$BlR$Tx_k4yyV?<wK(WcHms'',
   ''^q&LvNKI%;OGf6JLbybz6sl>@?SQHaDAG67dQ>U-Adhxd9!=&>>Y8Y9A`f}Y~igGF7qD?z)6=PyNG`G'',
   ''ZkCPDn)|fs;XO=`x!(MTEF-)BpW%_dGJPAOSV-Eal}5|qD0JQx%Tap&<^6@;>KePFWBB)Q5Yvb)ilSK'',
   ''S`dQh?vzD@LuQRH;^eUn(w5(N9b2Cv?4oBd3YXV!OI0YDYD`$3d8K${~+%;`?U-}$%+a~wV7nyDW+eK'',
   ''!WB~Ryex5zw+2w5>|GH`i_q{ghyGe$!ztZMSmG@Oh~lT1~1U%rD@U?^X<Fj}aO7r7g-(7QN}V4lcNf8'',
   ''^<rvm7umc!$im(5%<TxI(*SA4mDRPr<SEHs1(}rtuTr(%tcj%$Mg148x8CWm&Vuwv$L-7xaZwk`s5eS'',
   ''198c$Fvu1d4(h!?z#&lWVM*F+JIBzUxf4|0fO#)ko*2p+#!8`Q{<6b8&dqT`3F!-0|XQR000O8^OY7y'']"

definition DATA_9 :: "string list" where
  "DATA_9 = [
   ''n;li0umu1B)eiswCIA2caA|NaUv_0~WN&gWV_{=xWn*t{baHQOFKA_Ta%ppPX=8IPaCwziTaVf}6n^J'',
   ''dc&QM9g#-qs)uQF0yKQ$Wb=uvQQMIZ@kx3kI$BDDHGYqZz-}l(D9m3o?JcL}%&EL6vHqA>e6iP57MT$'',
   ''j-*3XLOq|?a+&k@NnWnrZ#lgNI}xX7_eu_7Z>Vj;=VZLGdoW&NaWIZgLGG9FUG6z+6ZZ_i)HZ_Za}iM'',
   ''l;JLcJ9A)~NR{>YXim=ZoGa^w;^S+v#*tk|A<aQbA&zDIx-6U}UT=-}8bD799jX{S3y;9~a(fSnypiF'',
   ''cN~ON))xkugJz>>^tFD@pwycs=X*{*J?G(4;*fxR@vkrYVK53G7=0112CE}EG7B_OL9gkL8YQez}H_%'',
   ''qOI29g4-Py1uZs#BrF?&BU$o7y7lN^x7+piAL}?Uy2gyAXnJ$w^idtM{!kGxEE7T3`n}o`NOH0z-Uv>'',
   ''=R#N4pP%`ZJw=0ly-Vv3k6#SZ|Bt?pIgc;*I=Sm_*uLzn>XI^=$RJn*E5M?r?L}eitn`o<Y7Kto*aWb'',
   ''1fldx{ei}7iA8qU#fO9VkXf(k-XZ$@#QWkwUK*d9r|Z$-qfVSOiawB?n6CzghHVq|mGpH3%ejJh8WEP'',
   ''PUswQj!wzbZ}D*4W7hb8ulq4V*qGtA}<}Z4oZ^u$rBFc>wME53AP;09Z$G_Tl2)E5LJy_s~^E!m5-Y$'',
   '')Qm`w-c$j*ROw)ZVH<1Ap)%0VeGK1Q=FppzD_u!klqn0xH_@|0^l0)%*gp9`=B2{^!twnI9!%&e?MNf'',
   ''QY^4>U6f0t<wIBSUhTk7{U&tL)afy9!lP7q?M9tucl!m{0SBbV#G-}9eg3}pZ7%wYJ1zbg97E$Q`L6#'',
   ''^kXLyBr%p=HngA9g2d|N6XA?41r$rY7F6`WsXbKZ*4<)0ejc!(fZxXibJ*B8!^)7v8EsA~XvTtys#Vw'',
   ''%PFxsK(Ngy~D|I*j5`<H{3np@YhJ=r}y1h8DWoDN1u6@2H<5P_TE!BF3QSv<cSv|ajm+yXBxSscxM`}'',
   ''rPa(`w^{7fNtuO!UiY4O6RsTozWvSH<hv?n|@K$ID_kgt<E$g0=rDB9+wq1G67;Obb1jHNBQZP@XnL;'',
   ''Hw~xX+c#S+x!oQSG$AUo0c*#L--BkM(XL~@t#yRPHr{K_ZGB1AB%^w(Jq9eG%S1)8nGWwU|E%yOlPuY'',
   ''jhB_;!1NSY9*D@!R*im7hR8EYPB&YH)-b;{uiVPMG1)tS+SkE5EY&$rX+}x<U>&?QV_Mi5=IX~$1ZDz'',
   ''m_9K)*m}rfYE5r+9eC(_nE0uH`fvxj{^d`-Gd;)dP!;|pDC;?FeG)cvD>tk3jmb}1gM(X{C<-Ru%Y{q'',
   ''XOPRUWqA#hD}YOA9$TL`5o5h~aRA|aBLTocCOZJ6_Klrd}qBE|UPQ<U;VMxV(#I$N#&j&zsk+5G0^KZ'',
   ''i?UH*HmWKNf^RoFtO4e@IAF5Va%XDuQ9Fc*0qv)uTe5!JkX<8Q>cxW%+FO+Y963qA-D5lX?TgXiinV5'',
   ''<ul-KHiG<NH*1@v5D9F7-|t$OvO+!s*<K<BvHW^Uppt0$p|hpeVOaa^AVcqceBZKgy#C)d~ynx=|o@P'',
   ''@pLjZ+Lu4mxOa|!{UP+T%6)GU0rkV|m_l1y1E<&S%>!*9wDkT-`b#rPf5wf8yGGJ6m1(vI5&x<94PQB'',
   ''%E_7)BKGV&W+vYl!c+|9I%Hy-c;qfUr=FDbvYTvQ*-6CAC(+=;lwKp=(p-S~WNUx=B&VG1w32>6KjA5'',
   ''b=8W%|=1Z+BEywPjS@l7xp8S$}k-3U6`F#(Nlq0x$~(aIp(+k!|LGn&;$OYbG8MSUVf5z>7DhlC-TJ)'',
   ''cb4yTdz7{JuPl`_a`mL}w3>w@uz+x&v}Eut_B{1D!kl)<@!Slbg4W?FJ9B*Fhg!KRSDz{{c`-0|XQR0'',
   ''00O8^OY7y3?_n=#|HoaEf@d*B>(^baA|NaUv_0~WN&gWV_{=xWn*t{baHQOFLPybX<=+>dSxzfd7W5o'',
   ''Z`?K#{_bBfC*!bMpH7#TqPQB^4{e&><$xx|#b`em#+s5wUdCEc6{+=Yi~RS_kkpELv7PH8i1k7~oEgq'',
   ''M^H6f%sMbIxG=BZnnRItj^;e&?s{8BTDw&;~m95%CBb#)4z`9Uv+TyPrYNJza+AcR;iyHilH-!4G)>v'',
   ''z4<N?2zx$yvLuJ(;E{lI@;UH$Z5)QzIS38Clr6`q})6<ESH`}(Ub*10Nhn;i}6I9p$y0sUH}#cFSQO2'',
   ''gbJdY=|(uOgvyDWmlQ6d4=qG0=P^oqEWqGvz;{^$5tV@tjTGlI(=!O<IC_%%;&wdhpH}ML>Baw1$t^N'',
   ''>Rz*u#Hvr33EeG7K_&@x_v{Fu__brJH{7%$TL+OH}6%AetBntd%NACD6rMAS=!LJAC~%I>$4MrEG;ld'',
   ''4U9cN^UuE7oK~Sc5=HD?%~fr%Hk%(rr7-~H-#NVhaP{^QzWL^_peftH><FL!6$Ai0J%x9xJ*c`mLWSZ'',
   ''W>pPHUg5iEUr1{xDa(D-Ys#gYf;(#E40&U=k28@EHRR>(0ElmpF2`zI`RY!^;mWtpyO$#oLzs*IyL-w'',
   ''szRa(jlA6n5g*rsm?Artxi5A^I8_v|)V#IVlpDbOHlz_R4(AtNb@Z0!z#VabiUs3;CsyJgF7mlg!QW3'',
   ''*hhc_)o_OL06QJ1(Nol7@rJ%i7%(+FtwJ13SIe-5!gCUo3)<<y}Ptgp4HMmVs_Tw0AVkVO)snK^*l3G'',
   ''?e97EN?|kL9pT74oOWxpclY}v>eRap=44nklS=L?39|@vY||sD*cX2@ZE=)jSSMV5Ju2|-$%2fetL8{'',
   ''d1K!)1ie|HH^xrp6MT8moPx`4Hh_Qel;ZB!$&B_6L_SNCDVN|rfdj{ETGXjDxYzM~;*zD>2-C5lClvQ'',
   ''&Vd#OdrK-cR{?Wo<VhC-=PCW`aghnje)Kb*OHt~~%p<@mTr;Oi>r+yx8KM$F44sU3tZH%D077n64f{*'',
   ''DaeXb*Z72R+eeGUoKJrDP!=i@P*(lCidz}3^?*DFR^-K4syq={F_YP_4g{cb2PHio;LMahrc_zN4&W+'',
   ''6X9->%)*8*7|xL8tV(Lle8}#I}lc7{a%9r)~Ux4&ukWN1e#E06bFpQ{zQqC12A8^U;4ket7>_pyze;h'',
   ''4sVxa$stzm9gdmQlEmuJfM9&g)7f$DR8#e4^a}OpOmcQ>v7MF@_h3u8fPBsGOMR($Mu{SSi+^Q{V$e1'',
   ''o0d@28qo@)TD^&B@dTpFh<w-75w`bu)SIie!+Ei+CkkmiBDlR-4_c&BqL^tBHX{%p=kPJ?MjY`6Tv2n'',
   ''*5No(2@lo3jxNppn8xg3|LWHHmyTi}M+3P|a=GXUVu-!}A#)lngQcpmP$ldIePp!SRT>n6sHRM?U^&r'',
   ''jebZgq<q((WteY4;{z7#VX@RvhE;Qw-L3?+Nj;oG)V?F@zhY%aWrLPvfS_t<M9;RuHrHsVwjB+Xf;P>'',
   ''<~$wEa=D>=971(h8s&<s=?hxh^2_9h&=T9|bA~6#Fy`IYD1vzP^FKc>AKU<=%I8;BVvYdeX0dd2Q1hU'',
   ''U&P9#;VTrn?zHFGIux!W+flrjg9a1-(TL$j|M>=NKI#we8<GXpe|%KU15)ArwUus{K_Sux99N<_vK9N'',
   ''CJc*voAS}t7QpuK`-{&}N{D-5VuD()<8d`i^Wj^<kXdJza^jq{o|D1D{yyMX)!JpD?CRX`Yg(BLoa?H'',
   ''pCSadB62QE@RC$JZRKQ-+8G}>CJH@>BXkl@g6CV+$41#Q0@m8)CLCr@|^fMJzd7QOMQoOt`yn24>r-G'',
   ''npd%CtF0(^Z!3D1(?4nk?TL`X3W=2XLEiMBliRu?PRVh&t->^FJ8M^S4ICN&tQl)jPzpyI?J(&wY~?b'',
   ''L&LUo_E}$Vi;K9HJ+E6CAbs3)}16eA^aX*GNbfte+#YxAjo`Y{jTs_NhBH&4rdC9sqgEPEQ7HkoeF%Y'',
   ''GdEs#<r4Y&$fIf4GTV38&g+VBX3*rKxOW%xE|E@P1>j?cKSLf?^$j7^XEj>GwQ7Hu8z$UHOIPR$497|'',
   ''-3-rop%x)dIlKf{?GU?99P0_3JvzcqN1~b<UZwEu>6*DV=JNqx(4aMSnyO;C)71`()y@P?^wVGSEQq^'',
   ''WS|Q~j5^8snw%#J;qVqK%GCJ>)xf8Hb$jY|2NemVaRztX8MQg2yh0tjw-8J@mk3BJVWofl0l};&g{KC'',
   ''!Y1;>g7$7(&-PGSAWGtdqHH&!XcQ_PIxj}GG@7Z>w1o60x)HODjii)Ymhoy<YC@=n&=Ven4mN0&NI7`'',
   ''V*hxG{gTWr8XWYt`ND0u))hgkn191MrC(k$M2_J*N{9SB-oE@2TGNx}~5XXU;vxr;~ury?gnLce7ISl'',
   ''(X?)_EIMR7kk`enrF%YezVz-bk=C5EoSb*t3U06mDA1vE4*1xc<F61CST|Nw1emHi`zKfSchrL#?q^!'',
   ''crS?Uw?=SfF=)|w!d^R0<de_*v*LoYOLK#ye`;|5t>URuR`AjDbjk{zO}|ovr>Q5GTsU4mWvc(EFpUb'',
   ''E@N7)_xyci2J$u@GHV*&)X>+{x7o0c0u#ElyP)h>@6aWAK2mtey7DtPF#X`IQ008m<001KZ003}la4%'',
   ''nWWo~3|axY_HV`yb#Z*FvQZ)`7ja$#_AWpXZXd3BIK4}%~O#dkgho0u5gO&A(Gck12{JS&NcIgX{Dz7'',
   ''hYRMp-!We)sNi4ceaPs#YTba?_6%iC0RuP}zadc8^(NO#t<ztk~0N3MgZ&hUU;F95|OTem=oKzU%;Z;'',
   ''s;25oqVIeLL8t`o%sRYnY7^1I5Ii_Y021T&E;}ijNwHZfOQ4(>i1$B6Z*5`b4k3bBe2UG%P7aNTQ!Sw'',
   ''sA-9LZ~Z_bX^F<ND3WZAdX2af6CecgI0Tmc0Z>Z=1QY-O00;o{l@>>y9aj9y0001S0RR9i0001RX>c!'',
   ''Jc4cm4Z*nhVVPj}zV{dMBa&K%eV_{=xWpgiIUukY>bYEXCaCv=@F>eAf42Adninm=^_yI_rDk`xQ39)'',
   ''plqQobx-X)Raqww#W<TwNinViqhPtWcpj!?SjpV$N*Qxt_KPeF}Qxo!-~>#J(r^FTk&x)UwJ&q6*bFm'',
   ''!R06uZW^B2nha5S1O_{pR`BbzS3M`{Q<lT|g910*#n5L5ua>6W2IloU-C%&(x-d=zePoaL8(hf&3cZM'',
   ''dfT*5Lj_$i^OS8fLh+Wi$iObFsoK1;gW66x-t)o-}V&poF6XH{?Dg4RP_25$>wbS0Z>Z=1QY-O00;o{'',
   ''l@>?Arw0F91pold4FCWw0001RX>c!Jc4cm4Z*nhVVPj}zV{dMBa&K%eV_{=xWpgiPX>4U*V_{=xWiD`'',
   ''eomXvd+cpsX?q9*VA1Y^t5_DS!7znT=O@IPv45Znzq9_DfIz@~nQXuI#9{S^VM^X}HC)+T6u_)gA^W2'',
   ''dZO{=tJ6*pBaRukcu%1kDuRt;-Kn`TcS3#HRq<?B+^z=F^<uCH+Yx@6j{3!(S*KGDZs*=wh1&hx4lIp'',
   ''+p0=tIA&q}8gfL3bi<`=b9mnM?{OS!N*LXvkCxGTUllAtBe2H!x>qqY9WUCJdi9>>iks^^R@1w9G2zr'',
   ''0K<0!Z6aBGou(;V!|>ZgM?EeOU_PN^9RFDv0~{myT4uDTz{Da2kz6w?d91W`|cN)e_mX(t*C2Oa#1r;'',
   ''qAzf+7_T+(V#nZF7;Bv8t@jnIc|8}+k%aA$Q#0w1jA<bk<<5t{f}C#*kc}=skOnJ*+uS<0lmhLy+!%%'',
   ''`_$?T7J8B3njWYdy`bu71)*lp;%CZtsQCntqO)ccwPynq4<cG!78c-5V6SNIq3;Do!C+Xq~rZBi*hRX'',
   ''s0@YrJYT@^U<lo=w#dLoaxwK`E)!s#-*Szax#ub21Jfcjw`okSP@QnGu2B;Fcy{}wCWaJ?QV!8q1dNU'',
   ''nFUcs&1jb9VdXb$@=p^L7rU(hdcelG^A%ya=}fYCzg?8OTB9a-ldRg$bq*EbRfbdN+7Sry3gdH1xsD?'',
   ''ZI;nt!2r_<)zk2&)M>`dx-*n!|pnEHXCCdtS*9%tQ|{pF4-eVn6+pbuW*k7r<5?*-X0OHFY`EEVj9sE'',
   ''N%v1(6H^#V&x0||a|}YsLRg_BBGRID>H)h2bVJ7bGB_$ZIFW76Guq-ZSOO}6_q77FD-0AVqSQCj#)?|'',
   ''}g;rQU)toU?sZCwP{pzEjFgw1Z7%~N#)<K8`!WGZgn0RQg!p{+^TRgRhKi%*;1XzRJXi0iy;WY~+;&w'',
   ''HSagISflOau&V>@XmaIRsj6cYh*^?^nm_qeOoBjh$FQ(h~BTq<Tm08}L$zj;lAgl4)M%}GDQ1Et(}&V'',
   ''&>;%Mt^1IcIndpn0W{Nz?~Vpii%OZ769pLkXXrsFU|6C-dH0|DbLs@GA-seKP!(5iX}Uim;{E%!TDXU'',
   ''>v;}ge6uWY>3_@<`^=l##@U~7%p-42d_8aS|^!aa7m)Xm67#5i&i}VwJSpOT0mn@k?!gK@fjHy2Yndu'',
   ''$jqSy!X)h>L6QD_EE1qXf$+As9iXHA@Ot1P?1#7U_9)6>G4X-^W-PZNZ?J%>=y?S)M?1;$?4U2g#U?c'',
   ''sfA{X^<T(wZvsqffb0HqU*d*ZK7+T6ePB$y##<^MET`q7YVr{+quImZ&yyEh~9S_v*cxvp>9JV9P1iU'',
   ''_^ksbeh23WAl+SV+Nj~|4sHY>d4G{-o>G$wuQ4!3aaITprjz#PB-sW(G;0SydSvyjv<-sx$%wyuUavJ'',
   '')@=b@9u$8T*la^~-NBOp%t`Dt%PKmm!T>^vD^EYK1HgwOYe2Diwv%MMm|c-I%9Tug;Ud?<9N0jzS_D4'',
   '';<ZMq1?fe_~H0guinn6>Sgt!c3Gu#RK*CJIO;ijqW=B2;3M=t@ipGH{4oSWi-e0?FF2af^kBkx*8x;8'',
   ''NtZk>$equAKI)F4VE^Hy_GovfYhS0mcJgkhScek^Z;<|Sizfij?S|K`c}FtN<_i~WvgY!cj|aeuxX^>'',
   ''3cuimX0UCeR`QMz1r_(|4!!5|Si2t*&(RF53M)778e}W(U(UV8#)^s|(^<?TV>;B?NDr|+Poa=Gg{Qd'',
   ''Si_1U;7Q7G_dM}Kb#`kpI4bmrYJCWQIz{j2f+iZYCgV)F@i%<jS*%JDZ)O9KQH000080P~d=N7IPLRH'',
   ''gv{0L=pc04@Lk0B~t=FJE?LZe(wAFJob2Xk}w>Zgg^QY%gPBV`yb_FLGsMX>(s=VPj}zE^v8uQ%!H%F'',
   ''buu>S8%!1PE#-Ih8zm?w98J#FkojvvFKW@ECmwNHvfL4qxfT6bg*dhy~hvJZ45mq)gI{>Q7N$fAw&XW'',
   ''-)yqM7ey-oqY26OIEM3kQ4|JSpg`KGgiY`!m1L@i0{E;}tDh(8f`|Kh2TkY?n)Kc}OD7Hu5ZgkhlO~E'',
   ''x+rZ62=_c#QiO2<dAX6`sRmA}56Ff?=w@nN=HU!v~5UbbO4YvX``jlV|_uu&Ob+_GC#VkwN3u>UQ;md'',
   ''Zt-c|7VY;ebo(<#9(G&X(LO^0RJzhFaL?4Th7QObHtN|gy+yW!TopY<ZnT6|oXTodmZDN|nY^l$egu@'',
   '';~}CTf~fH}Iz25jTJz2OBXxJ_V06Js!Icbcs&>MRj#LC&^;fh(ece$;m?8&&9eMcck{=y{xXMz>jm1<'',
   ''#)|G)tG#2)SzS1f5$ZGX3%m(jYAy=;*7(a_ygSmBeWr&A=W>Gb`GdRNsz#L(9)0I>x4D@P6+Rox>2Li'',
   ''N8+F5(`BpWh#HfHJC!ABWp!=dSBmC+{=4WI$0oUX|9HlK08mQ<1QY-O00;o{l@>=YN2j8v0002t0000'',
   ''W0001RX>c!Jc4cm4Z*nhVZ)|UJVQpbAUtei%X>?y-E^v8Gj6Dm&KoCUx`xOfoY2p#R+CpPQMQkEihC?'',
   ''@I@p2pXP9^`|_ytzOJl@O*a_)MeOA}$s-p0mySX+q>dzfYuqhV1l!HjcfZvny434Op60wU}-d9g1GsL'',
   ''7#LwQviXJVmmO2AA57CBloOaK=x{JHN8^fqvSGWw>3~(=~-M_HHQoO#;iG8~H)rOn;O4fDU|oA*HJ7j'',
   ''uMD{Rly9BOdD+yrJhhr0|XQR000O8^OY7ym!pF1Gy?zt00{s98~^|SaA|NaUv_0~WN&gWV{dG4a$#*@'',
   ''FJW$TX)bViwUyCw+Bg)3@BI{K$c14_i4ATu%?=mFxCtqN4v@)qb~_%`96+s+8A)uy+pi=$7>7}3bFsb'',
   ''vOP~IuqvK!F1w{Go!0CD;;Vx%HZU}>0!exdB=z4yy1B3Yxdher*>;*zbQ)B|$AP`|ZisH#Uh84}Q<G8'',
   ''NtEH+fYHec>Dgf%kcM52IjG9N*@A)KTVIi&egb;=xeoH9w-TJ>Z(H(iQvDI=NaICI2n*hsm%zPv=%d7'',
   ''{7Q4wsa4a=yOQtxFv@L6MRjCOW7|!HLvleQ^KwdcD6~XF88wTHjq~5RZ$Nccn%;OI(?35}7ADKhe~!*'',
   ''0lrb;VAc<fe!Z$gyaQN@9tJ>(~JnUG$v@I*VD{@'' @ ''{KQn2S{*n^D5Ek-ngX*`yI6IJ^|Q)3FtSCU43@Nr'',
   ''e#-SjSHN;<hINEgUqw7oxoNtI`)Z(m{vp{O)#}zLi7e9<Z6j`-4Ho5~A~!vz{i+fsT&q=I>7I+6pD*>'',
   ''{>r0@%f0Ef*1(_~iBWxUn!|CJXEz&_H{XCsLhO^;Y)KR4#gwdC`NQag5>vUc!pZk6r4!@TljQo#A*?c'',
   ''z5+eYC%^%W9H)n03w-@5U%bJf_c(HgG)m4Qp!W=MD<QjW-)YR6%}YxC{4^ljs=ajMNI!~d%M(y001bI'',
   ''!4l492REC%)=K&of{a4{L@~z&GG#7RQr1=o;`X9*?JwHP9>Pc!*zx3JkapZ{o=!JOv*Nh`xoBSBj4YJ'',
   ''l>8LaUEQh>CWRt9ei>Oxq!t6)yYRV!irFy9pDMG48(r7%elm58-DDi*{3_TLm^**+@LBSVN1f79TQ|c'',
   ''y18ALS|#zHCj2L_0;*O;w*h_yOs$TJZUu^38KOY%bdHC(jHN(OfwESbDe$2Jx>l9qV+BmDj+0;23@'' @ ''{+'',
   ''+FPi}Zn*jow0Ro!=0-FH>n*jow0Ro!=0-FJX|JMM%XLEq>*(~6DHV^oo%>=$@bAj*KY~Xt~ANXF~2y='',
   ''PJUXFs99$f}7J;Txcv6@BVlj-a}9G5-as_;oT))%wqIQnQ&Z`HkeJaC}pXxp7b)7x@PD(AH5ZaKx>^}'',
   ''>sbtmXU*P)h>@6aWAK2mtey7DxVZxGdud001r|001KZ003}la4%nWWo~3|axY_VY;SU5ZDB8AZgXjLZ'',
   ''+B^KGcqo4d97M)Z`(K${+?gK+kB9mQ;fWPI3PWva2#)&ZJGi}id-)Z1VyG}ZDmqRQcZn(``>Sdq$G-x'',
   ''72n<&D595{hcm-xhC{0RWX6k)$eve<{K8qHRtY2T6QOdtAty)2r(<${dqGYQXL(XeO7bkFOwx!*O3Bs'',
   ''bY<_(^C(A6S<GpNMaG{8x)s@`H>XOU7y`|u5GESJxh<!SR>z}y*G`u=b(r@PKR&8>4sQ*~Cmy9VY)|K'',
   ''Xc#_r%Y!iyQtxzJah!s$sR4mXQD-`m@(U?$|6Gca^%Uy)1_#+810wnyOCNZPT&5$G@I5=7%9R%#PUC1'',
   ''|o98F@ifDHvHLGEqv{cM%CPyx#;PlCT9aPsiq&22ArrO7Ik)-;1Ous0jJfuQXK_HwXg#7hg(}SO^lzG'',
   ''F_2G!u^7mY7~(qRT+E6M+s2^!dxVRGDQl(e{9H-3z9$x5DE><o=QbQC#5ia0-}oOxUH#L@dXK9M5bss'',
   ''3L^5d%3vgj&w}RkIZ<>$6eqkC8f(VccPb!KBx6z~ECnLCW@EtOIAfWL<51Fk34q$oMMTm{*Sd<oeFE-'',
   ''0<@B&*3o2v^>>w1RHfn|5!N`Sxd+-Y*x1tgzO05V>)^N#}4o>YQJZD6$Xf<#ZLKEh3t%BB#<G7NVRPw'',
   ''%nH5&ptX<XQIynUt$2d^DQ;~W<)Q>;|j9@a`XaAqP5kfJ}71LWH?HnLi(rWWSY9lytH=qJ|Yy2$AoB8'',
   ''tSR=e;6=p8W_T2oMYYB4PeA$QOuVR*>oS?IlT9i2(9ZLkLNKD=E-G8a`p%(V$54AMy>zT9iuJ$posZj'',
   ''fJ#+pbF$UQ@qMU$m3<nfZkw53M7_oilGtl4F28BVMYWUr+i&NMGAwjN2jM>AHwkM+1JIt-;54M;X`ux'',
   ''uj%1GA4iaoh9*E@C3sG5t=;4j?-yli{n6;3Zf9H29}#_w;BQCa*B?iJtB?))C&=eSJA1p43jCV!^%^3'',
   ''vw`+1tup&h!-1a&tVXmp9YVvcEOWI1FyDrT`#>E<<w!wNlHsyi<dF>q)V$^0-Hvyah<cgO$(1H?e0+<'',
   ''QKSK?HHGf9~vi<VdpbkY(_NpFPO0~n*ec1KCUawtzo9#g)wB^XAiJC;J$zc#Y<dE!;nI;to%YDVHLel'',
   ''fHL6)wk^dt@>p0aJl1MAv1GmCu!KRFT=i-TdZb0JKFI%D!iUv;Md_nd9Y3<J;R>6EemqKml$Rr`l)zs'',
   ''$&eUWIa}QLZx-}-z}z^t12-)n=wUgdg`of8C~i0nq9r@HQdhCIL)~P77qAhN=mgFTRo3z%~1Br^>mS?'',
   ''0K6o+CrSB&Y9hBQju{0ONT3Gr+6$tVjkWt2N_+%$J$4?4BX>ktk}<F~olOG1ZG(cV=6MBKWh4Z%$=ar'',
   ''bm}$~0h^`_|MW|{d{_aFcacW>CmBcI#Z~>LO)YXAex`42g%OzQ2U5POL%))6%*%)b(Oc!mOnkQ%^mP='',
   ''S!^zsFzMZa;FffAXNrOrTJ<G4}4qGWrp+9Cl|%LLkVhbC*(XUd?W;@c-$1L-=5YZT+`(5_RY0IopSvx'',
   ''XI`WI47uyub-f@_KHQJX0HJX}>j4O=*Ho4#t28pczzR-&0Do_S;J$o;6djayzxn4Ypn6TO7oq+hksK='',
   ''M_MlP@h8Hq+(5Qagm_5U2W%?HRAWyL;TfE_V{LgJHLykS662wv>0P;O$;MPWE2hPp5I))dw=IBO4GMj'',
   ''owyYk#JITpH~?_{>E`3~Y7oGP{8<d#eT>hqrn3(Y!cuQZs-1;-J*0m#zu2w~FNbvB-OT6L+qL!UA^k7'',
   ''&tE*4<+X2k`VedcBhn)XBAJYCfeK)_pn{EfN0z(+HFVle#;M*bX`}dc30}en0zYI?vBtS=fNaG4gtw|'',
   ''Bj|M3cKB3*S~MFWxyV!`_zku+fjv9!dFXofw5a7JWDJY>@=LHj)45z7*55YEc%h=@!ZghPQHu{0}Rn}'',
   '';uhV0a$VsZCG%kYuOYr1jgi$<y9mo3yT9n>_8I+NAY6waEh*tWDPYR&DAyzqK}L?QU)I0ETOm#_(#B2'',
   ''QW~Zw6<THx)Iz~o9yJZYm-qQ(%4p;`e^ey`TA>9mqa@v_0*<5O6`c&SDShXwj*A*HucbLN37o3)K9)0'',
   ''5xcdihl)F5_0*;wV)lal;WxOrg$j2&uBzJBcKd6aSZ`lzc0B+ULvvf5aM_csN{B+!->YW!kM3dER-t8'',
   ''H%9Yc?S2os7dCvfKd#n#|E61Cs!`*rhAU64?-w%Uz5RvdG8o6!)0`7}ihC93C<~-UF7`+-9um5*_=|;'',
   ''YHLf!q&J*w!<;&b*Lw~Zib&xySQDSMcuH+~7*=u-t}|2uGcSnc0n^JneSr-;>Yq1kcPP|iuAZ){o$sg'',
   ''G}u>POn%No%HJE>n*`c#6JG6rP9My`6LTI9|fe6QUqOFHYJql?ZTyGCWt)5Mx;+EbQebMjy7X8H*7qG'',
   ''!ZaHM+T`!t+E;qGr|Ki#IxXKA;VEyymlX~@sIunht4T8zIDms=rml39JjrUz~|)e_+qCNe$WbMApW>R'',
   ''HaEt#f?^EQM>$AA_Kc^j`Z#vibTzsaPrxob_>Rrf&|<Yl=$oe|+dU1}a1Yy<-aA6ebSr`M4Bjt;E!L~'',
   ''D$Y}^U6BZ-X!g+<Ozd%Chs!EPE(+h-gh62XsnF@n9fk&v9RhCnOVjO{)J!y}Pzy11*xcjcQ&0hSKgvZ'',
   ''fPt?zf{6|+5O+g?=ftP2wm`0sr1;{VHsb<h=R*^ZUIBcThv3p72SUA&5f(ef8(^VUs=hI_q?>L(K(i2'',
   ''JVSK%-6*?B0OXGX8OCzdv{~7whA-Nk`*BV?A!w1C?6+;izBELN{{9XZ?cqkZ)odoccs|(mtT=PF`h9c'',
   ''!2s5IXEy#-g@5Ri5J?cC!->fG?uBLH7mg_{1*3`F`Xek3=WZJjQ)=UV6D+__N&#U;4;%+><&rtBzayc'']"

definition DATA_10 :: "string list" where
  "DATA_10 = [
   ''+G_%KO-3cIRIDw3$`F$)TMQ92PZYE#EkjscbbQk6lPM^bMMTcw?}ERuh|J&$xDRs*Npk@=*g3bfeney'',
   ''gkiQ30umcjD9I{bFf^&PPZ)SJ{Xh(R1_J)W0?vDrS%VTe>Y@CwCuccHW4m1>_?kb24O>ZZ+rLQrcJ^v'',
   ''4VjqR@VN`9tQ9-+ePTkHTHdn$W-fv&-;j>fOtE(h>4tfeDPBHn`j`TXj&RmWW}etPp$H@o*?fjq<y-s'',
   ''~9~(@eptrw4@q!(NJ-PZXSCgX+li;T$(Owf2Iu0NVVr(En!zKhyMSo_H2)t-8o(9gm}vEvtu{gBq)<0'',
   ''>@65W!Dm%tiAsLP)h>@6aWAK2mtey7Dw)4%f<=<002D(001HY003}la4%nWWo~3|axY_VY;SU5ZDB8I'',
   ''ZfSIBVQgu0WiD`ejZ{r<+b|5h`&SUyp*D~jTXP%W!<J>(hM|`h+hH97wWebMieymovi$o|@|Wy%O$`L'',
   ''G`0@BiKI;u^OmiZ+uN{0dTDV$h_#((DJi*P|ck3KJ-hG1g^+t)-A}INU+Tsc<B7Fb4+1}o5p^^&oL>?'',
   ''ML4ur$M(hVnjvPn{rIY2J7mChWcUf)3P{lKPs^V6G>Br!~5XI*Jp2ZhhfyTj-}qRGLBBsr338Z4j9ih'',
   ''SpZ9m`#5G_vQjP!^d%i4_o9bUUF`n!QhepNM1{QOxovvd@)Tx>U5z1XmGYSMX%?A0$`Yaxos9BiZ!to'',
   ''?>xNEpn+)OIDzb3w98?<lia%H3E)MJ<9K%p?^q7Ue6DqTHF#DO0NQVpy1Og-kh^=l&<!uU|fv^g7%^Q'',
   ''Ro2ztEAuE6%*VQd`6vgb)2u;S@EuKb&KBd{!HZ02ii<Fc^Q4C{Zop(8p*X~gSWaaH(ZGC8wjk`)@Dkx'',
   ''pEiV)9V$PB-6Xv*A5RR7-Nj26;WS-b{MpoutT8EU563rGNgYy0Id-0YS<lAeCtHj?U&&wB`&uq55D0&'',
   ''Id5B$FX-Rz?1@l#wdS_tGasd>UPFt4Mw(0|7+-fs7Id9kxjmg4i3;>)H7ok?oAOXh`&Ww~N}n-)JdPP'',
   ''wg3tIC}}rqLY|`VK|Mo;fxcLJXm6N%tW<g?~^>0|XQR000O8^OY7yv#FkMF9iSq0TciL9RL6TaA|NaU'',
   ''v_0~WN&gWV{dG4a$#*@FL!BfGcqo4dCgaCZ=*&K{_bC~N^~_`3Chd2sQKVHPUFgFN5-e*bUGmnL!ia1'',
   ''wY$XeRsHXsWic!^kh4yeiXtn_JoC!T?CdES()E_bFOeXB(9{!=my!pMi3GOf^8Dh;Cb!NVxjGvrUdDk'',
   ''Wu@5N+i*Nuk84pKOXGFp{0lU{bB_X3LvWe5B$H9(z&f;$Nc|mT-*~Nu?8O`VU%Vn=8*!H?d@QGJz$^`'',
   ''Mnb`3nI<Vw{0jys8$%wyXL^#Wiy2#o|ug4${<Ly6f>ae6nIm~HA%Seb)2AJ&2x10h(v%mj=Wqs$`X9G'',
   ''AbC*L8bSnnF%-Kn!WhX#xv)6Qu@(B;INnc;usdt<aEgxNh@hxn&Sq#1Sm>MaD3*zUxOGI`KFgPZy(kF'',
   ''P9w7X7fALy>s1mbBbd6iN`rYrp|0Ka-HFPG@81%pYQKSb9X$wpBbh0A{zOeoSg8SOyX3k^=WEHHd0H3'',
   ''8^(|X+(olrOQL*?lVIb--{Hhkewo$*dzdj!*(2q#h-umi+?09ah$(}6YQl1cpEaNx9q4=-OeXGpG+Z?'',
   ''J@X33NSJ_HQwfOt3{4aozxGtu|bqx+lsHI9i3^0Ew=^GyctMkw7lMlqG$;wBnv{l;dFIMgK`2bw<>uJ'',
   '';k_ZY1zv;?<7c6qfIbiGfSKq&TUw^Rta+NaLt2x$-G;9F?19P;Ynn5xR%-$6Jcc<`_jLA3(5r2QAL6q'',
   ''2h;TW22%*dBXPji*<0Sx9%X<WyOFYY=9@B~EX^hr#r2GOAoFhJoWVfb=#CLtx`Hq|J`DfZtR0P7unas'',
   ''<?{@Vzf^Nb3f!Z!wm_zoy{gi`0cZBKlT=6r<x<9u1%3zd~N!FG`M=xbw*c*b}KqEzI=qW#I>imJFxpW'',
   ''Nea1HCf1o4;<@Ab0@$D-whr{W>W+-CH~~AmbT1Qnx!2+K67O>I$ZU0$c{}($Wj|l+|8>TW@0&%8>*Q1'',
   ''SG?0)%v*0@^nLG}i#k{4@m4Z%3qkP0m<$ssT)#iF#KLrd$)wTz<(>B16TEPBMM&x$UK3)x6JHT7Had1'',
   ''=EsFsgtcit6#el4-p?&9-hjEIg6&@8b$^L^kl+>Uu)-(QqvOYN$LG-g)%ip5A$t591eZ55|QJS6fX<1'',
   ''B2o4RT}WsM6i!PJKY?{;UfcN(X;tT-+>Jrtiz^YV7A-WPIFFs$86saY#f26*%UEW`fX=FfV;U*8)mXD'',
   ''xx@ju}iTyECuW@<hL7gPAIEL&pD}S9n}mEa;Hg%f@+cC{noIrH934PY_bG&h@79viyP)*6XA`H45rRl'',
   ''25_Osc3tYyCh)cfUr0&g&DxqZIlL@#Vr;E9vyxMZg}^<?r564fxv=!u@!ixjrIggOQ49YyhK;;h^*P}'',
   ''_qj+mu>&I}}2Mn!ubU@LF<%U}mK8OSz|MdoS$|d?8<a2?PyS0|mIq+-+SR8ESq05ZQF2&sbWP|J#eAy'',
   ''xUZfV`pen#s3qAsZkq%R`ERbF^Z96Pm810vLEZ^$1T@ERI`p^X=1K%d<C8D%JXg-f%QyJ4{qkRF21^%'',
   ''k8{JhDaP3H-t8#y_+ioJqq$UO;*M8m}C+1YqLS!^@N1G(S6*iRJ;?kh9%X)%-skt{T&R^^y!aK340nZ'',
   ''U0#Pe!oi(i3*05PkH@LiSulOOnGTTCZ#M;ePoeee3=aXRD2Q>Z5&k`UVXc&mK;NJ{>SyPYr&3$Hr7TN'',
   ''@DCM8(@86L9Ye@p?b|jSnfXps0DJ!eP)h>@6aWAK2mtey7Dtq_Cm|~Z003kb0018V003}la4%nWWo~3'',
   ''|axY_VY;SU5ZDB8WX>N37a&0bfdF@wQkJ>mCe&<&l326sfCW4u6w_1rx3`3{Wox%zjweu8(#6VhOBgZ'',
   ''Mjsy}{xOJaw>K)18nhvfwy`}o}aozG4k`gFZz@nXs010?}p1_a&*jAOKgi+1PIgR99kT%PxFkR}Ll93'',
   ''qmS79<G4-EDs`oD5(dW8~H5jIO|gc(taC!zLz|7qwcg4r*SAAtm0j7UCdD;8RTc6jRoqvo9#*&EIPve'',
   ''ph$B{vYDM3vDCc4?xKsCEtt(gQ1cyl-z&l4fXn^lE;H<(DExKf9%~1hSQ#qe^v6s;O=hpNv^-n>^*4x'',
   ''-wp&i;aiN{K!>C8$KD+{KN0j}yA5@S;uUc8$XjYO3&O7pMpF{$l*YF=@23?z--w+veGX4-_OC>hZpNe'',
   ''g;kDWP#&v7VSeuJvriiVIT$I%a&B6C$5_8{gBnZz<lJX}-&leg&in;KmPSv|XyiZ9&F`9%7A##<@=ZM'',
   ''{sIc;c#$@F@3KW%!O9_K8cr5q)$$pmpf5Nk=p@zAVx?9VAf!n>Z7!X7=Da;_(ZJ$i{e(p*tVMJ*OiY*'',
   ''sNC;wd9m6!6k=1uvlUI-e=obn|V&w*aSTr_Lr#wFtimP`b+|yM|tW`xag`E3~rQGAoS?!k)q2cPPzRf'',
   ''NB;YGo*sX*n~`pFdZSrx<g8KVn6OcrB<ks(@@&ol6LN0mclreL*=t2*hc`n`!2wefr^0CgcVV&_d}e3'',
   ''+*d5fpMxbEVAY4=tO&y@1lOWn_wU_ub@x}GNFX0s6_BTGDj<g^S3seqvI0(**sW8IH)rKXDq!L3M~k6'',
   ''Mn`)@BDaXMI=y)ni;1YmC3wzqBV(o<RElr(-M*k5>D8=d|^pZ)UV6CF(#9bb#;B8j6jpv?S!@K(i<8i'',
   ''KGCi6RBDlVOz=No#jNwDd%>Y64ok0~)V(5hCt+4?aTjoIu)n|{g?%KkKab7OV5LZN!I2slP`lR!u*i('',
   ''>J{K?ww+x!dQnAVE>f+9HhZ<mcK4^tcw6X969)+uMoW`wTC$7mG9h;Le-tBwH?_ML8{3EEA6bPF~DP?'',
   ''9^}1RzN5R;fNu^@fJ7}jUJN)@FmK3i*}=OLbEBMV0y)Ktyw3RqcM-Y>FDaT|7DE2XPARD3(>-<DSQxp'',
   ''NfU0${@8-;p=v)*4hL&$;GZk&cv0kAyBap~WCk`u;jwvYwRU`DQ>GwA5fKxu;U}tRO$}ExLf!VED%PP'',
   ''5$&#ixf)JyC>G!w<qdpVh3W<P3kJ7msY7d@eqH~mq8Ct}INUZNQbm1D(j(N;7-In5t75!%0Zgg6m=ce'',
   ''B<nZ+j%q?M8YkjjIks~KW4^>7)8rsqNk5ys-0Az85`C%{ZuD?Cdb@u6T2Rs<nq5ez(u|3U&&FC6)y<a'',
   ''xi>8B%Yp%&RHqx=iTWy;e5-xIY9J!m0tPS3cVZB0&mW@kv#BG71#=>h>rc?zwe}KsohQ8^|rC!kt&;Q'',
   ''WZz%KpYwX{n2QA-4K1%ZXOduwMT?4pBF#dXP&nOh<S|hZchpOd<iogkgrLJoZg8I2I-@euT$R7K$O$d'',
   ''8Jx9BF|@4k?M@(cBX3#F1q$S6iF&c<Z&e7wP(2kEc>7cwyDy*ebL_aF_Mbo<gd3a0HtISi2t_DzG>_z'',
   ''Q!BWs^?$9-k33^VlmiB)FRhP}|Cu&#ozs1JSNHz{3o}WT{C(z9vnth58o`~f~iRd3iqbv14IaLJZe3I'',
   ''~(=bx`?Y|+8aH=)wiTD89cP)h>@6aWAK2mtey7Ds~_d-q)d002b-0018V003}la4%nWWo~3|axY|Qb9'',
   ''8KJVlQ7`X>MtBUtcb8d4*BIZo)7Oz2_?|aiE<>1!#w<5|?#MLqaf7wrdqyx6Rfjm1{Qm`?;k|+?GRPz'',
   ''dS!bCnK2LO(1odu|)_+&L@u@qDE>2k!#Lmiju*Le3(yX^NDN^@L{YzL##hd69{c>QnW2*zz(=Xcsq0H'',
   ''EW|G7A591^?r1a3MlcDGKubT%WDZAmk`;tlqvcL3Muhb$T5jTHz$XT6Gl;gE{ciR2zTfWR4iug;b>oP'',
   ''kaz!D=l}eItq*hua2`ped4d%gYtW;X*wuNWYa%B$7Q;JPz!~2W;P=TyQSV}RSFKJG$zDmQ;X>+WqS8-'',
   ''DzDeTK()!!_M9EC7~hICQu5Ui8&#7!@CF>q7t4Z6XQ4-UGOVGd=FdM#G@JrJgjGC#cdyQN`m_+L^=s2'',
   ''SHT{pzVg>5iZhK;CHMEGpHxksn!H#|;YPb&q*TVs(v4;t!-iXW4a#+kt#v{Q^)+0|XQR000O8^OY7yx'',
   ''xzwfPbvTa)SdtU9RL6TaA|NaUv_0~WN&gWWNCABY-wUIV{dJ6VRSBVdF_2$d)qj&;Cp@rjyyS{9GQuo'',
   ''nZ9^Oy_0sFY44=toY?8^J&s3Bi<HeaMXGtRqsivKZ(RTo06|GfPk(!6zvG8Q5`jXYs!%r+z#Xx-yC-H'',
   ''voaWbuqN(S5U*Rtgb{_1Aqhh%#)9agB1V<xr@MQn#9{lr1@k5$ND{&V6k}gAN_A;F%d6mSXE<}Bkh}W'',
   ''z7rpU!vF|Y5VG7&F|CXb^!h2P*qQi=%1%j+_|YU%>MU6)C+Nb(wCoh6BQd2)38>g+hI-`66_V{vr)>i'',
   ''o^gw{Oo+-<;u((C)#!EEZxqoi}w;Cex`%7t5lA=2umbHFYxO?++fx--}9pDiigoT2=6Tj{k>uNm&7Y('',
   ''=?wK7f&w5pT*NdA$G*FjII~ap~wqB85%th@JC~x0si^*$*CGyeWw-`eVNv)Wm1WWxQeQTe;U){I(c8y'',
   ''LwMHYDG)zt0dpq_^+lQ`=h!f+#2h|TFKR0rOs7{(n$>9zG=MhpOJz1WD)M=H{W>ZuBz=Xnhwn@J-VPg'',
   ''1ucFy4bx`!VY3ej<TQp@xoz!#neT<))y#4%3k>>QFT4rf2AJb<GSe9NXPyu``6QEFX2OxfJikfCTrB4'',
   ''7LS0BpkU>Vgnd9+BFl)gXJ;sBbDar!j~*LhK#-N0DKWm%MCLFgbcM-K>2oXmOLpc)-&$RHhQ1>~%wd<'',
   ''IX(id#k#VmI)y3X>ck1w&dx!;x+Q6Kl#`P6og~Fqy-2IB*Gbpegev`LzMzp}7~!1PJ@~%}Y6n@6OL(^'',
   ''T%FVP@8X~DxE!R>YMLiIc16L`8ukq`=X4$zuwgU%<5--d6UFxnapbSV?Q7i&3KAaNXn5(f}6SqW?Y#+'',
   ''y<cSIa_0Q_A5GGbSp13~T8e#l{{2fS-Lhr-i#^UF13^gZ6)>AuNEzM3l3zA8Fi?MPA*Xdx)<u!&<(R@'',
   ''6ta%mjr_F8WQC1~w2l~nqFl_+AWm#Oq;IE22(Q-(#i4TLDqN)v98w>{RvmyR_akxY-#+QG=rtl3$z8s'',
   ''Fk-rhIDZZI5+q1h$`U>fjsR$N6{i;=kiS~Sy&@U&&WRjcN&=G@98oE3{DXs=-S_aNLI{RRK|!%!{+{9'',
   ''8oz>;{_ZZXx}`^EZ*9pAXfNqHp1KSv1RFe=H6<YYx#J3xx9EK>~!|pwrW08*L6>yJ{SM^ualYCMTyqm'',
   ''eF#l#ipyoeOkMtrTeuqtdr2v%)tiLtc6JG+BK_|{!IPb(dm{hb<rwWdzpx_60;P(spGcL@9NLe^BY_L'',
   ''Rz+xl`KRbZ`PWs8CjAoB?yXu=>fW#cKJ(^k*AP@Gv_bjvC|ieB(8x4OmPR%Jc~!KdnNj1iWNx9FL(<J'',
   ''DEHOfJt*+jrr%hc;typbOl-7Pwm#f3Je^q6wC#jSvY7CM=aRiV-lh2|$VbUh=XUVb_C)AvNI_%RavkU'',
   ''~Q10nb!${PM?sCLxS4_a4b8s`-vFl9X$=d8sTr$zLBdJj@Fi^{l~?Ar$7d+Y$}N<_06$TWTexBShEBk'',
   ''{%l!JlBUf^ecI{zdr5@M)`oQ7#T2KPD=MX;RO_qP%{LY<OJGXV`T|_T1y1#*oG&YE+OHm!`_ji(16FZ'',
   ''8W5Me$g63?p{*=I1fps1jEp9qq1aPFACHWWwMA;3M3}n2R!z%{Iq{~*#gu=f`+O)*rFx}(7Qv+u(VCT'',
   ''vFU3gz9UYm3cQe={V%`%>dB#q?us-9j^!y#MHFDWlkyJ2A#t?=H0Mo)^j{Q?b=-k4Dar*HCq1q}`!Gi'',
   ''-!azufXQFCK5Tq3Xg=HCCWodPj#15Qgk)^Yhh!zEmb9VL;#W<s2isG#b%tdhzky%=!6kLHL;s7X<s48'',
   ''-Ro`~5^0hot2qoNedN=Jk{T5SM=19Zz*1|id2%-W9P`KvR5@_Q%-;t`CyEJ3VCh7+&@h9m)8n<cEF1<'',
   ''XjyAZ`-(kBb(lD_A{jlJW(Dl)?1NU?e6Jy@1qj=Eyzk1HLv_pj{SXKQvmOLy#*q;n{bmZ(lwauTIZJR'',
   ''71lh5t{v(2-HGSK`UfHjOuKjq9)A6{Y^T%F#uxJtR-P~6P3{n^%c5JB`^R~qR67FBohU+ELnQ64+`}j'',
   ''N;N+YP4Xy#$Eky~yK?;FO_Jm9=+#A9@=$Kmx=OP77-fd$LBr>;@Nsr45f^oqRFwlxi>~!MDufVypF9q'',
   ''R7k>{g9~rAI$qXz*5OG+)_i23-4BzK_d*H-^<<mUtK6WRxk%dn~r^jz%qXX+6_>%PT5lEaYu97$g2sj'',
   ''0h0AS#=J;_rS)?4*pj?GdSxXfueM_Kw001+3c|7bDwlN-G5q?$#`Bv2$CnWV20mwu-xTK6eBiYOME^|'',
   ''@xbbcDwu39mzOe}BLGDWijfvCJX}qs!sDU5rLh9zY9Q>oAIAA|k7JRGvz(AoxzNbI_#1(lWa5ykPx_%'',
   ''S#)G!z~cRP9_r2$_`op-)BQqS;KeXFhmbJKu9D0=|6{PkiwI{zB+w#eDv(>xD$jxV<VhFu8j;!Z#x_T'',
   ''YRuNw+ot`8q)g{4T>Z7!#fG~gfZ4_g<{e_B002Ypi3f(Cu2#A~7>BcBcAM1Uby9<#EfGL48fiu&*>}~'',
   ''zyI_KFK^=Ux{}tun)aq&{*JLOiz>j&6p+=3z;LCzz^ctB63#O8fQB8v{0!|a-Xb#d+-8C_|X2|%&U?#'',
   '';pO0x#2EKYM+&H$_eaX^IUO-^gwp?QU)q8AjJ^mB~|QoykrWbRrAEf}!Q1ANf4YjGSqd=oiXF4U6)3t'',
   ''s1MfHt}!J|Iy1hN)195=k+LBqasE3Chv&oAc@E>+_S-SI=G|Ao}6W@qfHMd2{@H(2AgRBOR}-0<|)s>'',
   ''7XzKL(q`FfX;lD)vus22y|fR3S`-BvKos!BnvJt=<ehI=GcM^4On@'' @ ''{)W`;oM@zuGf^PAHxY>E6W~CN0'',
   ''0UNpORjph_hiYHW7^SSpvlZy-1b7mo8YjyNa+{(MiTKqS(nNp;Dpw95B!xve>p9X59xFG<qBN7ZJ7*8'',
   ''An=3zQcEnFV{nT~xal!J^AlnZf)eJ=z!bI|@I#{;g77erq53zwY7kb+mY-R_Iq{WY(Z2wtYSARX+SAU'',
   ''zO07A$>wHkqAzwcY^9p`qS7xhEmN*u&RQsqPG9H|uxw)$b!ZTwIKZQO=NkL|}IS_bF=kM$%*qfy5*GL'',
   ''Z+O{~p*sEH~h+Fn|zit^d%64J;vGPg#H;i$OpuH>kBd=-CSj;`Jm0y?URJooVuTfVR_)-mMLjGYWvPZ'',
   ''?yzx1Fa!uNWdLP{IUCn;9d0%3c|}a$olg$agF&KSZ6cUfz~pqlSPx&DImp*x*}5{qcLTuy+A1sFa<BD'',
   ''o=yXH$#-{e@1yd%a`zwLVK|+}=?t2N%`yg32eM^{T%15u^x{b5QwXzz&5Rh6p~^kKr!q5uxD)7LwgAU'',
   ''q0S?NfsKOW1)4z%TBjD3d@M%mLya^_0ZMyz7y#u;MBrV{4aQ`v+A(43f?EE|JiAom>^&P@;0xQg+f>T'',
   ''tfjmc|*i@?ySpsh*(HbzlIBv56Tx*t4^78WLM4S(flgz_`aGXnO~2%Y(b;%7w4ZpGeh1z$BR&>aPCAK'',
   ''j&8k&~SmAYOwJVKxI}4WfedFH;C1a`qH}I-szTpGj02c;bi#o~A(Uh$A#}>_A468aOXCMns;K3{nVFu'',
   ''r8R*B$}BK@Uu8hIU-TUlcD~M;C^QM;TW6@ElMzH5t>@@BlzXTePw`BO)&F^Suh$G=)uS^@X%fq{Afy#'',
   ''f_cvJG4iGW0)Rv$N#3VbT|w&+$&ntQ?e8@-*cPXvz@!!6i%_hv<piWX8J0@IA}Nf_CrtxNQH@1b6t@^'',
   ''$H%s{lNLWTFcveOr!Z>D*OlRv(a&HhT1V<*tEXyow;zSY(+m=ZN3-d0K(q;giHNZ`Xb`7pjC>K7iW@W'',
   ''l;B{H4s2}4^BOcwE|<Mr8`&`aH8*CjikiH}RP{bi0$^z-gF(UXaP!Hn@|kPvLsaR>27uZZZqHv>FPos'',
   ''*D~5LL1qStw%J00gu(Y8W)ngZngpdNA;Ln;p7~I=V%1hp!2&=viVcjnE~s6h8n0{n01v&O~7zrg?>7-'',
   ''IH<K!@!y`LQ)<7bWV#jLH0$6P$8FbA0h}I!xTU10Ul6)Fc^7=W{-{q9;|0g1!QI$3Vxcr2j3NAMq&vJ'',
   ''o#a@eQFXI8Fp>K-%S426DEO~9nd*i%(b96(q&3@N9&WHCO9lEM8MvTe8AD_AkQkvc2M0B7i;#Mw?ZiS'',
   ''QN?^^4n@BFSPIN%cy4-{r;zChLNFZg*X)Tzc`f)_g15#UZ8$SA?g*4;H4&Yr{PrLq^+g>~(_}y_@K;9'',
   ''%#E>n<7@++|_8Xy_EluQc@yDO2Uw~3ZCq)!42f~K9cSyZzGRLy*zzLz-zV9u<;oHvlWD#R}snviWMNQ'',
   ''Hnc*-IVL+Qeu>-6X+Sw*o=6L)zZ8l*6p>;Y6!I`~_3d0j(y7pSU_z7mU|nye{SO*D#9XK(_4K8bk>QO'',
   ''QcA7QB?luh<y7NIf^F$<XCn0+p&(amRm`FZLR*KhRn^V(NftDcEo?C%NK-oCF{CSp1^I3t~u9z5Pr#-'',
   ''A*2+2|Kb6cZ~Y@(@_gA9Re-=z_!g)wzfy_TO;km7T?WSQ5KB#`n3OH2)8VM!T~$yg7SL9<doVeEUpvU'',
   ''iUmh6ILHlc9H!?`-@#3)@Y#R?A+vy(-HO?UA+zF=N_rWKfUhmCt0{ng|dGld2%L)*ASAAQB6|gi(qX~'',
   ''{5Fc>IiWb9(vJ|L}(!C!O@^KmF=lFduAf6)mlRB%gQp@ETDZ}f(2w#74C)7M7_Lk>x{+>lSZDN?@K1W'',
   ''xU}!cW=R#`$@H1a=_zhVhGJyr#BKR^-yQm7+F`&`H$}U$0)ThNN8EN=>gka7)LFWqmmj!(XDiXz1_vz'',
   ''X%Vjr!khb`E&w)52NjFK`CHH3s-3lkJN*fLv1xGm;8JRANndcHLP}+8F)vu%{$Q_)kv5vQ9=LOk!D4f'',
   ''@!p!ww;U;0S}qiH%$OJyk`yq?DdG88_qX#D71vU-nN#27Bi`;%kNBIK$+McPijxgFjH!f)ayTJYgC|Q'',
   ''icU9FWiTq3|2eh4L2au)3)vPjP2_NH#=zt7S)@L>I-u9vFW}rq2R2#exHEb!UCLAC}PM*}RNL3BMrmV'',
   ''nA^$VnGWTzLsP;^DxdPu6&)u76_o!sU$Ayzc2{T1@^8GX!lU~wIJ3J<G+c(^t_jCi&r0z*lO=IO{JB#'',
   ''XzV5OPZrY(dN|SQ1M7{;LwwNwgNXNuK^gyGe0U!;n*j`6nwbocc^_l5bDHpT0eR@f9aXnx&~6OXWPkl'',
   ''Qfx@iM>NRU<57>CztQ4-QZ&H-F<lZXf!ZHVG0X;ir#mW(e#3%Os^4j+hCn6QZPb5L8m!dA2t0loP~B;'',
   ''?Uc5VFmQ>kil*kB$+U!^W&fZp126&>7#9_oMB(Ca|KL&wgle07FvW;^Z(t=dsN+NosK$JNe1>04`@~P'',
   ''6msjp&KNliQE*N0aDBs)1LDQ<(`|7JdecgUj52+~QoeA0*U&Gn60qr@E0K*;>jlo^xp$OKp)e*s<Ork'',
   ''hT-F&kCjL8_c%Sdk`V+hm8b1dA76A?=BQwpHEDVnTJV#y6N?m~tsQeI6}H03Pe#IX=3D8;`vX^G1-hh'',
   ''`;}HDC&xQEp2`Q_f9SD0lbK3S$ubuH+9errn09E=nWQdm`OYw7(iCV6%wcr;BDmX_fnQCiCb<;#|)UC'',
   ''!)axQKkL1kxad3DTp*xrK|)(uLPBM(7_W@cIXq|Pys>|!!&H{n530GCMy<9-&2hZX2JlzJco1z&+vdy'',
   ''uG?#PtO;;rxy6aaIS|e#%e^NDUpz&E&!ImhU=a*YK=mrscy&v43{m5>qSHt~BXPC@fAl>UBM@P6zlJI'',
   ''j7`QbJ2^eGG+~DI~l%-q<R3*r2QrZ@1fb|MbyO3<9_S69y?Rm90^4XHTD!rz<Ewz1Q(it-nEncZXAIc'',
   ''Cg%jJdy(pnx@X{V@R`WBEj2<lIn4N}M~b6`L)bb&b5Hk4i$tq+)$lm%i;i4ySOg)ZtPpsg2Y^-vR>sQ'',
   ''Fo;8Dcsu%4t;>%fL}Xof+bvTrFybPS7Z4b_UQ+YFw9{_{4y5H5}S;;ylgcDa%jbsIFdocEoe3Y$^dZb'',
   ''MLEA9H+80FrlT%qS(?0lv5TlYTcUj9bJ>iC6}pEb0`qY23E_nv!jy}+K$4iKv^k3BYS{hDXU_DLZDkw'',
   ''fLKmtTsWa`${XsOpfZU3mJeX@^gSYke~Sts4%G4kq!(#LmAF1~bT^^Xc`J!>C#$;;VGlO^@R3q@AO5Z'',
   ''UI1ITGD}YC14XK-!V{KsQ0_@;q>s4NS(z-q&3JmD@z#yPED=GW-N}{!3h{Ww;>bOf17?uHS7Ef~Qkg4'',
   ''Rz1q!a0p)aXT4<}`I|0=nO?ou$Pz{o{9tE}7sW{E(V*G@^MB!tPxO-vj#`E6d@x2uLrl{>aa&%m2yUj'',
   ''t8z$f5Y~aiGLRM+|G7bUzXCZyPyE=dBX;mS+*mI9Kv-T50xG9{nb!$N{%wOiRq6CgQRzuCiny4=WG7{'',
   ''rXw62BN_p2JLdlpIYyse+MNs+9Md6Ot{be)xxG9av(8rjF#!bQw!4xSD}=fXf({|dD%GSYH}F*|KjPP'',
   ''y`kjVQyYJ&aHy-l5TCn`u?W#;yG<KNP~4!0m*YBu0c`4N?fuLOnruJm5N&R@0dE&}5AqD_^RXXGY>bi'',
   ''os2B}*#0xAFDe^n4z5<l~UHp0P8}aYaV);KrQqMvsjK@PgDzN6<lP_{N!u0FZY3@5Te|UhW=7XnW@kc'',
   ''3kP0r1MMD3|B2yoT!?k0?hmu}<W?#n>lL}~tgwET?pLkHIPyy*zgmU<0Z7LGb%<(_ePy-a2e5aJGv^O'',
   ''6pEPVJvK6WBvyxw_mwsB<zZ7@G{kFm!Xx!=bG`&>y0JkdH0gVw6GH=-9T+JTX{Oc2SGG1rB4#&Umgup'',
   ''nw;BsQh}Wh6(Ugss84z16h{SvdMFqdZm5YPAe)O<3qE)?H~0=)u<wkxy_i8HnhbM^lpM;7dj!(qOo!N'']"

definition DATA_11 :: "string list" where
  "DATA_11 = [
   ''Q`5|^{tZyH#|uOFhxhtQEtrZGtVKbdnYR<D9jv}u2hl(bB3nE!(T|)Cai}!S<B1(bxW^CJu}slHLF7>'',
   ''tj06?UT_v*!9~bCr6g7CJ(GskC)g)C1oMbM9ii;v{GQ7cKg6yMRUW)>>&#M{@ySTTI;$pS|47FGbgEO'',
   ''CNfpC+xP@){{3Ln7R0L*GR9D`fv@$Z;361>eCZ5%o)(cEoSDl)M3o3W~3eT!$houDK2Ra?1=ThNsVKx'',
   ''1(A$ASS=BTzRmIkR*P3yHwq;sqW8V=mmO=lyKjeY#7Ndm~+e2|2nGCZjz;1(z~3V698e>Tu>M#O6`WS'',
   ''t#%tm(5j{&M31pGqNtah!L>mfn&kvFzJK~3{makAurBC5YV>dlc!f<4%onwW0XpkS`r)|((+^qDAQ~O'',
   ''4Y0~KVud3UIc*SplJgZf5nA&5GOd$Jk*VSYU7TbI+a{_(Dwdd7&~>Zi188Ux0|Vosn`LkdiIEIln{on'',
   ''eQaWV@m}_acTA`jM*FuuduBVmrw?lkRL|F_4H~S9Mb3E3fA>@(5ltdQm&}0fWe9$pJ=6Bk^M^q?tP}K'',
   ''oV2RVN6;p1i7ZbwAfeYAq%L2Qz!q6#iV$|a6W5NP_Kn)GeB{4H6ri%)vg0Rk%l4;rokf;Lx@go}mbG`'',
   ''dQ>*H-AOF9^y7jB#l_-@(No74=YBJK1>16{*sbM51?t6!ucoH2o;hS#=LivWTUnB@)2Kt!kFML)~1FY'',
   ''NB&z5$1;Hn6xrF+r-5}Lrv7Nnu1$8?%=}2X^lSqMv<ZF?=ldgytVZv8C7M}<inzI-qj2ojpPK&q`^r^'',
   ''-E|XHH>&I(t6B?~oZc*N$4xgCx?qFekzHu=2tu_^m}Ol?z6z9xuxwgV*?|mZJzI+>0`ztNi|gHv9LVI'',
   ''Wtb;uK@B~DQWM(?mhWcahVgKVu$LSqu<@x*0-5B&U@uUG3V9|=$!Vvv_pi~viGCYWiSzanm-1XG+43C'',
   ''uk(;8G(f=i``D^D89xZMCzKtpd{0LBflU#Ky0k#M**E0!xCJ%_K7`xY@iqsCr>L^6lx*ctseBoJPQ#y'',
   ''dvyild7qU9;dtQ>p;Tr&bmKNJtogm)^=Qf-%rW(Os^{W5N&id;qQK>?X~mvw!HaTK(;C>FM)dqWroT@'',
   ''(CU+tz9<NjT08wq%fvW3{uBh(fmbJ=9OT&t0DsUndHp=!$)(nrkG*L7zFDpYlh1Ri^Qu9^IJ1RE4k5~'',
   ''AW51c`&JX^<rFX4s%!7$$wgneofHFB$`fwqLIkI0g9Y{4Md;QY!<TICw`-1hAHpZjX;Ho`HM}lmO%Ls'',
   ''4KcebT2pEF1@vg!*$)dPR%&pjn)cgX(AT14E!NL)5EacEfQVWxA762E@VduI{ENe|F6uqhW?Wy&uKvq'',
   ''?2s1**o#4*Ljt4Jl0cA>?tMG}*4DMThDOkFz7Wmj2wtS0^Wv<eJd|KH2k3|v}oeq?xrPt<(J==$EtNQ'',
   ''G81=I0}@B|T0xDQkk=DFI3sOMO9EG`mTr`0JD_9X_>yv;zRIRk%Ut?y9+-%JXiC>*Jx*Sn_F}_UyzkT'',
   ''(0c<d~6{8O$MjUgcK0|H0_7vC^kB@fLZZbOUv%wL))zAl!VghmPfM57U|B@5(3X8evaPzmIU9~5g$H$'',
   ''P**(RPEQEj2Vaci+*z@B4DMOFOsdC!`tpk}zJB^x1m)MG2Rq_hRagqXfH80|l8FWK-OGl8RJHeW5dLu'',
   ''t|NII6`2zp>l2+?-wOru^udmtb=f?053>clSshYHAeVFF6qFiD=15bm1<)uCCh+4@IIqb>I);C;v!lc'',
   ''saK+4JLZyVFG1S)P8i`8^HfIZkuqbp>f>J3Z2`XNp3$9%zr{CooHmp*Pp%eW$psc&)wT^2K+^SlkInM'',
   ''uh4ub?UMz#uLlDrLw1tw8RGXSj2BlVCa`W+#YZY*Ovu`EelQUWDZIkU@TB#=~P3TaB&ogcBXm$_3fp{'',
   ''=%*}rw<6-y$G)qHamQqUhka>l~S%#yzPQ=+dz4<yDq7U_<5OJH(6A+$p<`B`Jgj7x_l?ov2C<8vlSM3'',
   ''vNXS~I9(MN%~eJ<Qh2EZC9fR7bTW;G?=%&>lSjls4X2|Atewxn)k(6%zG_L{Y2iEvR~A-3(zoJl62K2'',
   ''?+`6r>;2vv&c+)n@t_$Gc&0=JNJO=elXi*Un$Fo!urmDbzqt|pyxJ>Y3&5PG>j(-@7SI0k{kHz1P|Mz'',
   ''9MJ_FUBYlt^wqNJos31iZSLY$@7d4$(LBZ3Zh9p|>oX+Dw!tiy{Ru^6wRONR7~HJ}iS1^g5{SFWifH;'',
   ''hLIzO1!GMK|SDT9=67`V^MD;elL<?$s28wo~Fe)F&dNns4{mZxJ7hYpnH+hvH!icZ*UDDc5CD*vX(Rs'',
   ''<oW%xX;S}U0k}&=x?W$&|H=CTl0n97l#-dT;RvC;D6C>U-k`*>v1AJeC#?h)2Tc~WeeK&G0d3cMKzdE'',
   ''@NKkrMYf2|r$IUvtC9HgWb%zD;*0chva;Ea2Vps-${{DY{+tu2<WIErxGL)!kEBMb95q%)WLarAaB+F'',
   ''EX01Eg*+{a=%(y=3k0Zk5AM@rQ1|glJtGCi;l{q4h#4`W;WD5VXs8W&wZl?F~#r|d6q6G)6R<YwnMtO'',
   ''6Vk4~&-vaK7LZV_@y&dVo?^SYsz^DP*~b__~^^{Y#l@y{u<kDSMIWxy@U1|$DDb=XQa7!@oo(7cw?kh'',
   ''+)eQC(+A!4jn_h`DOVLz^X8WgF9(Zz`*e)s_X_Zxts_3g4uH5s+JL5c(8TBV+!UC-0dj7UNXx)YF$au'',
   ''KRZz;jb(Vy3h7GRA!KTE}26K)gm4_S&;SeiwFOdWbWHC2aL)1oWH6V#8%xEvcmgpsNKauSNi1u^mzZ$'',
   ''oneXQyh`GAvozYsnW|rY(`=vo-m`sjxov0*)0DBP*!zZz171}pvnl9oqd(35H#FTM)SpY?*QsxoSd<W'',
   ''Uc-;!&7Ed;07l+-sZJ`N2)7<IE+<d&HweD=(kZLn%-Jic2lWLw|*;v<E148RW5^^QD1#LSTx0$V2YA3'',
   ''L4fuV~%X67~g!d{rZ#1Q!M^5n&-a<S%YL(t~~WH5vM!g@-#K5uruxbn+u#hg@)Z8$02=Is7&;I>4$I}'',
   ''+*iHO5fsI;r>8wrQ=VU(y`yX+HNCOPa{-_Y9o#jUa@ar;Y5}tJ^I&jA3U2Y)WW^1GgqIbA1ErIeRh_7'',
   ''IG`y=siT;%B2|u?(K1Ajy40#h%_$vlEGw24p}a}Efp?;Y|bb)+1s-h746;hC^mXVD@esy6kEaqC}MBE'',
   ''p7y>yD_1J6o?(<)GY3+el)Xb;v^%QumO`a49o0<=xNm5FXpP)a2y3z6)*6@5W@O5B6xYuQB~HO}9UW%'',
   ''Qh^HG^Ah%{aEHLcHnz1F>`^N6)3QfD;6KBiIWb%+?6OXt-FIpDMxasGjh^9iK=@8HxzWGd#Y<P@~UYK'',
   ''6NTY3O^$&4Q8fyZjsR2-98df^y~lQ}$~n@lK~rB3yZ=~5tbPfkzn_z=DPThv|0Nb3%?8%mm}wax0oh1'',
   ''Wup?bZN2B`bF<5BTW$6msRYpb03j$-&ar{U^D)!4gmY;1MyrQ>-#~KMz|JCA1f69h*=;CEIbZMYcn-b'',
   ''tLb~QaO(UtfG*2&k29=zlBJf+6f-UT(LC5BuSw089R9rI?+wn*TK`zLX=C5+U$%7o~V)Sp{OEdLIb(R'',
   ''eMfwcWxV(@oKhE+-6!xHmKayfV#(VAeByXOg=_XvCaz_hh@f*isAa`u;^T$tNq9MS-9GJ3EjeE9zs{D'',
   ''F12**g(XC;ba5K;LZDw2oB*(<!rpm30_Km8R)aMWGy-cffRqvKl>{b$YL7}eGYs?!A^lYQ6tQXc1^9R'',
   ''fbC04<e-tdwwFa?A%bX9_Mp^Kw3wI<j_RNj(I@I9!(`rTYrpQZZsg$%*%#W=nsoqab}F+zKw7rE#hR;'',
   ''CLnt7VbX;S1jPb#<;RxzyXMfRA}v7Dbp=qj{B^xw$S+`EJx`hTGxWL6-I0np>SF%7OJiwF|PHq1Abu)'',
   ''W{bhp*Kb|ecrFPBCbkm`TLf|cgR+wQ_EfW9ZUFb$1#M35TF$Zn~leW7;>vJi>?>3na*~-Uq`>Hm7-?2'',
   ''?c}YZw6U0)<@9}X*L`&IW$8&XN%LYsJhZ=dliGMBW9lAwnD(7`Nat+_Al-ERc?VTvhX+lphgQD}1re#'',
   ''azd5n8Hpn)IeF$2POtM{mq^tbKy*2UJ^<lZbGcORSOl?TLM<{S*_RPI2BylrKdUA5|{wvyN7irF=9CT'',
   ''+gXqsg@yUnmH*XA6#(-U!V(R#+0wlD1%WU$3_M;uv$Qo8lB+RpEgQ!{Hn-(zJoTvpVand(THZq+MQ4r'',
   ''9h5U_TYaS9kWRq`rPz);VILkZ3?*jHqt-dQer`*b~lq3K)M&eJG#c@@b3V@br0G%z1VJZCO=f&0crEl'',
   ''Q(L($ckP+Ye7RJDPzUt*9IJ8+^rV@Zx@)iPZK5^EE}Gf#Bx)Q@US*f)AOvGekVt%+RlA_ziJgr*4XPR'',
   ''$Y$-1+GK(|z(>Vm8I@^;*_Q%{z<%rLb9$`<RSQ&jX>9EtZ<G0JySLsZ)&=?s2=4MqFq@r%u5)ZGwEl~'',
   ''cGkM|PXfnZ%ObXtjG1M3O>+I9YAG{>y{i+UOUCQUlTFR@tKcx!SLvNKGqk0WIw?dcWq(*Vjmz|6l9tr'',
   ''Bp(F`zMrJk#moYZ?%0n4tatT^GVRBVgMI9T0Wm@)9pNmb%_Q)lpdf8IvnW2VrsK4AkU+}w*xTMN{OO>'',
   ''eSBA!8)fK7l&a%ZrjONm3ZuMQK@aeT@~Je8r%?zALH{e$#YA*&@<?X)G(GKA|-5<oWTd^OF}R$8X$s$'',
   ''6iEx|CnClzfbnQo?h<$LB4v)e4UapsP!i21psRy%l9!=R>>gUnc+M1W4sS&_=>Kz=Zi(uWe575V29#i'',
   ''iN1&dSCW*D+cTD2taGG~YvXHNRA`3FMxOJ-FH{?f$|T13iOJ#g8z!o;geUj<SM>5hx{X>M2B(Xfu&|D'',
   ''g-sxl_2T~FY-Xot#NZbz(bt@1RUr$O00LPTG<-(-8S>k=md=M-xCDyTogBM-Fa9o%|uSSd1+ruikiLK'',
   ''tPW(=ubU{xk+bPdpWhe)>KfNw`WqB<o>G<9ta-9#P9cj&S_wnzTNO_9ZFcRZTaU@zP0x9wqSbl6p&t*'',
   ''5I%tz(s%hrSZL!C>&rJe6<Sa(Pk|Z&q@Y^5!#S*0zSfgR`iOKr}R`7)tEiH|G#B<PBGv5h^)R!NBu*Q'',
   ''qtXJ71EhDP;ny&YwuihsC#iy6{4~}q2Y;lB`CV4kROle$~v3=V}l<ru?A*iZV><4KIbUWz3-vIQA0kV'',
   ''AxXKeA;)R(uTQ<YN31{Xe4E97f4BeU|Gy0X*W}I|-uLfjdieh7Jl}>@zXuOC(|;@4_tM=%b60sIq5)d'',
   ''AHOiYdD^0bn8h)zQrdr_t*4qEts}}$4m7B)zCwu$rcy6`*XYhJkHvJdp!4?aY;0Lucin~PV`9Eci5~S'',
   ''a6k^X<eIH%#(i-)=EhKuXpuXoNmt#!^RD3QmORg#M?q^*ht-N-v{GM)IcuQJtNj!s|wfUiw`{p|ew_{'',
   ''}Tfy!7|)!T)^y=Vb|S-+zNK=jEf(;p4~nBcIj!CfptU!93OY<LR5{y}<BZ>UZ~#M)1F}2mJiBfB1Kyz'',
   ''t735=f^+w_qs58y}NXVJNfI$ngQcS)_h1vr^=MjrS%`|>=&4ip*W=fRlA`rgTvYUnwr4>o+cm7WYUj`'',
   ''SftlCU}vMeR^eCF8ZLhO61}jDa}HU0)%q{=3++&1wmqG3CMuXt`HANRD%NonmM-sWLO9Jaal<{?qpyR'',
   ''d4%GUwFn~o-WOs=~z^!dD#UKCPaBCe!;|m9A$yD-o8=WVR2^qTaSjD_HmULBNxOO;s4R0mi=QRwS$_2'',
   ''{nP52$;Xxg4^an?lLJ;)hN$uPVWDei9Yn6LB3LHtUJu)zBiLwrFuw)Zw$d-0aSN?p<<w~Xnv;NDJK7T'',
   ''c=7ZD#vfxTxF7u#NR_-62BVW-RI}!SB9MFUbi;csRJz6w6P|6xb16TBXESJjAqD#anQ&JV#wb?{Gr}P'',
   ''fg)24t}Z2XqMnhOX#i#LZv%9O1(K{{)VEF%f@%z0Lb!lxj(M8mwLe#f&ev+Y0<iv6<O#CzPS&iR;cgf'',
   ''h@sFv7Zm`p0hOxu?xif$A~H>m%xPk$j=!<!zh$-i%Ja85r3;NT;=^(P?De=Z{?ZtUH~x3Az(d->$Rk#'',
   ''<?KeS7zI6<w@X2Mj`OXsbUM=D=!R<WeEggL1Ux}JzhRN-vm`S<*g^d%4H=&Jx8!n?&m|2E>BW|1VqZT'',
   ''n9JGXFL-@e_m4=ry&;)Aiv`VsMuDFbcS54N5z>Tj*`HvjNFe;^`+BOZz>>CFjwgU6ob)d~TX5aRYo)^'',
   ''iP_e=7O<iO^(N>FT<`?Qq^esr3xrZk-WwYbo8`<>;z_&6Sq=Z}<?C?Q$zbz4Dy|*-2Iq{_REcbh5&yi'',
   ''(_}ke+#W^eV3k_+5w@xV(Yc!7-xmOn;Z}VIcU)vTIi@9?|v9zXq3?r0J>fw6lc;~qdg6L?;^b_#PJ!`'',
   ''3sG0bzJ<Fdg3g?|FQU7|#d=3hu4rRhT5`m8XL+x=+p4FsQ-#WoPwX)fy0zCKHe2bs+jY2NnA?Y|lf&!'',
   ''Bl`?+6Kdu~JBeL)OtEb!9O>*?lfs-P?eG*+9IKrTJV7WmF{%L#V#Lv<~^kCGl$>P>P#Z-&rZN-5&Y0D'',
   ''vh9{N>X>t;zb-7uCmO&El)rpZ89_gUlItD9W_E&kktmW!J5@OAXbPx_6Lk^tQ_;PJdAAfC&$lrR7(=)'',
   ''Ljl;$F}pDmRlD<qh&43cSU34=-}euts+t(HpHh&g+bE#Yh<A!(rgozRLxqUl%y@$l6RXQF-Ds8wP6d$'',
   ''{8pe`q;W7j_CE)=zH_-eY<UMpNZu6Y|5RM-~ub(q=$N|jvHZ6s;VFCl7rjPWlxH57WiM`iPu8nEP4*6'',
   ''(wpRTT{yMuFAT@ON(vSaJT@VCMa7rbj;bjsqV*>BZJlOmy=t!*mv4|!g#&Cyu|j~%Xh%Z4%4dTPulux'',
   ''~CHVgrP)h>@6aWAK2mtey7DvvPfCGLm004Br0018V003}la4%nWWo~3|axY|Qb98KJVlQN2bYWs)b7d'',
   ''}YdF_4ubK|&?=<oh3m~l;!a%9bZU&?pRoipRzo4TEkH=a%Qm3K;}B*^BPBDExCTgkis{q+aF0aEhpY%'',
   ''W)KtYpU`fd<fMG`btzjl<;l=s20zi=w(dNjBZ`_z(Ez;PBuud0wx#O>uqGCE4>)^2KMLe{l@|`6_vTB'',
   ''a*k<?xwDii+b7J=Z#3dtvA&o?~1ybK+OvwlJ8$WKYx93KItC1B(E09^Ea>GzkB(oAKt%tcY!aV+`*G4'',
   ''Pu`xtO}_l6Z<1oQF2zbz9Rq<c2M5chUM17%a?@=ZF`Z(Wy6KWlRX~Tuv@AN&<YjwsAV19VR($i7`h{i'',
   ''Yt@%}T;-M>xnR;`Rw>Q?$vcA3sB&eUYuDPz;;$fY4H|j;Z)!+VFtobk5*@^1oi=xH0&L8GtjRP7djcD'',
   ''slGZ(EaIj>g$RF%Kz8fg6G8~O20G%eIpU#~?sZRa<DpK<a-)o#}KRxJL^rOunCZe+!k=yI5cT-AIfe~'',
   ''*(_=kL#6oV`Dre*5zK^Vesu&Si~FSCp!Bw$7VYOdIjbrf6t3#>qT~h8NRyQ?EtSZN~|hsq&SW!n{spS'',
   ''H}lQ_%tG4OvMAjZpX=e0~2O`KEL?$JNPad`tvXNu^Am4989NqS;B0eCYLFqu_<O7L}5Bk(m%lrzpUC0'',
   ''N{EH~(QZHODU+n<*ViwrWj#>U{`3}RJ^cWELgEk&bV*Xl1ZL!WdY4TZ6;tT?`HyekynBD4F%0F?^>zU'',
   ''OkL9Q*Key1}!Sgq-UY)&u5iJRHu>!oRq6aTtUc9Gr7f>imU%tM0fA;<N=kL<Ul)?btoj-r`?nO#}{hu'',
   ''GsFW#TONd38iPZw`~c=!DL0?PTFhME`ue)bNkjkxibufKgWJ^%4N_Hja8EC7Shvx9k=w{0?gjuevBv!'',
   ''BJh8=X*FxP0;7v!tbk%~X`E^7R_9mmtPk;tB>}f=jGTx;j}{GtfHV7Geqfps0#&I?Y;9E@g9e8GK$si'',
   ''6SqHRzM?3fy7YF#RNGQ@T#Iss=8SLeQcAu63Mb|5&`{7{HdQrfn&Q9904HYZ~y7O#xX=*UyBMj6|7kJ'',
   ''_APKMaiE7YFGb!AjpaEONV*$|!!bbYIz(d8A+n0DO$r`v0>kXYj!sXw!BN=n_?LmM=Zgh(d`vUe)BUr'',
   ''>BFUX8#a`>-nBJZMU&&Wg@`Sb+zYa7PA6v1cvW)zy2A*1(QJpxnuU}v48XsU__#-Sw=mKoRSo2NUWmM'',
   ''%>01LeQFq!}<i)ukHM|v&z6ck?-@5CB*1K_T(25>r)dg&59lPvNtAW$enBg?w&x|kEy!VW}zA5Dgr$C'',
   ''zrKz6L5E1I&53fo)S<U!T%U_7NO#?ao;^3GEczjd4=bhDQBhkVuTBxX$O>gwTOIO8d+rqi(bA>KfkZL'',
   ''5h((;D8Kh>WB<z>@fYC7RHbx#$a7blr@0cx+z3ENnS2#>f5!L7t2B{qWe*zF^5b5ATEN2Ei9cN(D%&-'',
   ''+U;(N)}Z6QC`;H0>RVzR$i^BNV^c{i#9Nk+JI^qldjY`UUy!GOU7-j=lP=|=UW!+Pz`1p4T=F0_(kO!'',
   ''pKTOrYv4c<o$K6u`Py+?5Uk6@6X7;CQXBfpkODMxds(e-w=ZW-&<stZHgrh8#OBJ^+LN+c4{O-W>xvi'',
   ''YMNXr(KHVS2&+~wuQUP<x(Qz?e#e^P=~7It(TX?Emo9sG6Y2GSDCEkFitVCnk2H`pl{YJ5j9^QXUCc-'',
   ''j`CTudD*AL`uy#p1RU0ITU4EUF2B&*)7rr?9~sCVvr0B><toDWG@rTU;aeBE1vPX#ta41FdKgJjqKGO'',
   ''@Wio#5@N+04vUdMTNgFs?7tgqE4*ZBomYC34eGYW<_2-`(d`Jx(&>11HZa<ga`)V0+b;e(sorA)h(>@'',
   ''n*sz35J_OA*H|)H7NtO*LK7pZyP~Npl(;7rwxQ#v$Um(qK#s#}zju>c7S)1;RXyGbznVhjDVEP@^KdE'',
   ''wx@5g5Qz6O)6$+3doDbLzSENR=G!5V)Uv3iUH~ldw+9^WH3lJ>!Z3H(-zyxVMSu@cCbK4?8uId`xn5a'',
   ''$&-tR6I9|gtiUN;kiZ&8IHdwVSbMc6BD8PxIwM2PmjfElqR?NPiDrQ1yv6IY7q<mbAmcqkF2ARHY&tZ'',
   ''jJMa9W7hlbGS^@qRi885{{TuN2e_*8@mPrwn<Lw^La4B41^ro~=Cc@HTLo@;;o#N5Hz=WFcmo>ntV1M'',
   ''e?)-O^7EtUJ0juf&%YQA>w_&hVE&Wrz8@}3S&LyQ}xIG!$S6ON=!7UBFccmaAS=SSe7DBW!>!&O$QHw'',
   ''Nk=_2`dcHnmYa)*Tt<$)=d;$bdw0B;=gfj>Q6UHMBs3Vnx?XQel!>+4k|0Vo3>MwGo4iBz4?tkl@qG&'',
   ''Vr35UJR;|5OD_TxrmXhKV>_MO%IfMfAp<9K~NuVbI<D>#=Q;BZlktqk@MXTgu68^_Y)b`RtE;a&?09c'',
   ''#yO9@a`cGjoi8yNm3q;L?ziB5tqb6QXW?8Q0~0HPZIMpO$7;HF+^V#QwJs)X(}sB&iWvK^C&1f)wguJ'',
   ''zC^sz*my@QCQ)NR~cINR<&F>$OCXz>MJ&b_N7MQof7E2o%6~5yr7-=lL4S05PmUTbzgqK;0%+SLtzjb'',
   ''p=ut0G(@?jaZlY+@dpF5m<PNg;~Ub6~Su@tt>!V@YUFlpcHmmezt@j>^vDb@DtftNd3fL$}C!KRx{u-'',
   ''W|B|zh^fX23NdEXXgomUNVUkDg=<$J__M7X4%&ZXWJV7nquBsUsBsIdjzOAR!vHrc(G+tVJ%kBp5TKQ'',
   ''zM4%suSW5#11z*Viw`32FjZflWaEJ;|3}upBtaCIx_jUyy5QI^<UDRlr#fgC>ET<6%+cVZdkeMLsH^C'',
   ''g~2J-espfMPcq|mtnovm08AqyU^iDO=fs?}pAEYn9HlNwV#GFjnkPqYPLOIWuGV0~53UUAawN0uSE0y'',
   ''3DzaROv-_?A>C;R8!%m(F7TFiL)(*y5hqw@?GzTXlNd)OW>#?5GKygup;}6GGEO+q0L+v750HOFFrVa'',
   ''&1`1O;9poLch|sk=9sKanZxv0tv0`l`3(odkjT(^Z~jZ5XOF;=`)@LJ16VbpJ-ELNyV`#hC3KT^yCz8'',
   ''+X{QYyA;X%WK!7GzQ2D3f<#!mr%~F~b~GGoJVw^ibb_m*hqk}h6r58rk89UPWV1-?JsRnjn`$o0lv_p'',
   ''ZRC-x7Fe*?Tf!VN(M)t(2PF8gzc(by1A{r-hS@Ez2E+H1m$aq86_g2BUx<YjswljFe?V(vQAoyV-9}i'',
   ''M=fN4OCYBq{LIm%Pg<fGiHtnY<w+WE~_g|gD$ifwYrorqJA?t5UBSI-Re!rNcDws5?N4sU72yQRD27b'',
   ''VXA;qtQ&PL%<rEYc>eto_^7#lyDczQeW5@>|P|qHhiAorw+#`i|6yUju)yp)d&t?%o2MF`5vhq09XyJ'',
   ''0N9MvrWTt$}Oq2&?RA26&;(|XM*hX48QCIABFJ{+h4c%L3Ef4XZ>qvxOXw1BVpI!03Dr8DZzmb6E#TH'',
   ''q*|PD5mgH&xslZ5xrN-p0h7g?&~1smgVK>avxh!_fP^AENzi=KhCc}?^y}^U+v6|4`WpDgUUKK4AZ61'',
   ''BG%&v*tE0nmBwNw`3^Chc*K9-5H}Gt8|3tpd(x+{bJ#9y6@-)d@UCGrSr40IKoJ?|*h^(?44~l({jVv'',
   ''uHAb~=z+1i@6r_C7t4^8iBMhQCTSaTh28cKj3D^)8*^2do<+@a*KMxd&AIO_G3d$mRn4muKwxpidgsB'',
   ''u)yPOq(4mg7c-`8_@nk;#8trmvoU(?HNV@n6|-rlX9;-Xq97s#}hzgBmrP*=-)%h!WJ=JO0wcWZy9Z@'',
   ''2q3bTwC!;Q;(aKq)91CK}3AcKF<Ufn>k(yD12?!v{<sVszZf&0o2bN50{?{U+zIfo7ffAdq#+h1Q%`W'',
   ''A|n=4G+Y*<mDoczcwM7q8ygzhq9pc6ab-5GKqe9-t_VEFZn|Q=Df31H5BRkH!iUi67tTm4@@9Uc4;%3'',
   ''G*{{sJ6!r>p9L-yj>IZ4R#Oawb$)KV{$Jp2&&nOzjA*Ab(Fa78t;aN$z1dzcrm#WZ*7!zPwhWEcgE}('',
   ''>-2p3Y1Txl%RJYtn2UhW9?4!y)Qau@a1=<{E~1NnrD2MYBVq#Z#f63btsVRIFpsyrytI4`KweZD2ZX0'',
   ''>V2{SeP4(Ilb|1mGtTMcNV(%Rlj0Q`*_E2e7?E7dCVDwN#y@KW3W(B=N2Q7QPVZog%9FR{QPP<GK*!J'',
   ''cO1>vf*Mow^e;ljy5yF#F{g}V+5F305h}=5*VC$?p~5FJA()E;T(CrLkUH+wkMJN3`nl)Qjo3Ck$n_)'',
   ''aVcM2X@53Qwe$fJ@<gCP0wtYlpnsLLT;12r!kQ)KtMl9ZTEJY`UN*BWN|}w_Pn<~<LY;Ete_~KEn&{C'',
   ''*d~Z}IALpdz^AZJx8IkruvCJmw2<-|w(awQ7*?3x*C2v#hz^T7=ET{f-3rGc0eVjN}Gb%yao#j3y)lB'',
   ''?;$m9#_=@>>Ks<yzLAR#~4rf6%+C`I*^%xJae3&K>ctmkA%@+43CwkWPe8|cCGNj!87OecTh_lM|XR<'',
   ''L(dvJ^SG9k+&V-TKm@*amQDpW}n5(cA*jp}y3Rgy!}P7F${8i|M8*+u)Sn>U_)og!Jj(l(UE?Ik~w4k'',
   ''RekcQjQcNaPLC2tM-#0-hEFKLoQCc3B`7n(eq+@As2%+I6Ajip9x8Sf+cv5W@>hU26`<E7*fv&1BrBC'',
   ''oM#F8o&hlJRb%wgb(wElbEbg8pw>z%lnG$YZh(RGc$g@guB~@yG9Nn>JL(&XlGTTY5OD~!9A;%3MpZ`'',
   ''MH86M5*nMIEKcVqws<Tg|R@XD`b!o|#dcw8Vp$QhfgZILXs(~gF<*iALczRArUI6T5*#`0@efFHZEVp'',
   ''$fJi@DK-gUN&zgqaC(VyJI>+htWtqqp<cFiY22?RF3m~=I4S+IWXZvH|m7y5<mXRC$PnQ$?6P+$^_fq'',
   '';w?=2WK^*V_C1UO5gZZZ+zq&1O@n#sm6v9OQytrgqh|w*f@j$F|_q?QeqRpO0+At=!)T2qxXfw&B$6Z'',
   ''(<?tKDGtBs_g~IdT(o&HcO<>H6q{QDs_EdC7>i*Zb}fo%63F5s)icKFYt{;7po9TnFPq@Q)FtQ(!h{H'']"

lemma DATA_8_scan: "scan_lines (Some T0) DATA_8 = Some T0"
  unfolding DATA_8_def
  by (simp only: scan_rules cong: if_weak_cong scan_lines_cong)

lemma DATA_9_scan: "scan_lines (Some T0) DATA_9 = Some T0"
  unfolding DATA_9_def
  by (simp only: scan_rules cong: if_weak_cong scan_lines_cong)

lemma DATA_10_scan: "scan_lines (Some T0) DATA_10 = Some T0"
  unfolding DATA_10_def
  by (simp only: scan_rules cong: if_weak_cong scan_lines_cong)

lemma DATA_11_scan: "scan_lines (Some T0) DATA_11 = Some T0"
  unfolding DATA_11_def
  by (simp only: scan_rules cong: if_weak_cong scan_lines_cong)

end
