(* ===== verification/Pip_Data_4.thy ===== *)
theory Pip_Data_4
  imports Pip_Scan
begin

text \<open>
  Lines 1970 to 2569 of \<^verbatim>\<open>get-pip.py\<close>: part of the literal \<^verbatim>\<open>DATA\<close>, line by line, with the proof
  that the scanner accepts it.
\<close>

definition DATA_12 :: "string list" where
  "DATA_12 = [
   ''{$*rU)rT?Z1uRSUxdpzn8ePG7r01DjQ^_%#J+MC|`*75)?Y~FM{hsCUH3(a5i0p0@9!x)t3B^V+BG>T'',
   ''9h{vk8kJ3w1Be0BFRx#HehCXq+Spz^?zj|VZT-b-nk3aq>_vGVMy%4M=R^$jL@<p#HQnF3h(ktMXSvs'',
   ''#bC3~k(HMPq=Z2;YyR>gmijxp?s<X{gUDSyKI3GC+ua9rQ?-isi%QXF`YlsO2+R>XiWogP^0PMYG4>V'',
   ''l6pw6QOy+!np9?4vAg#(wp?KI>W3>o96f)xD3|zk<@CsqHazL_>zP;<GIOSYiq*W!(%1@+gx|f}7U{r'',
   ''1D0EPULLo_t?`o3Pqj97&+8CFWM}Z#REz($>r1b1IjO6d9$Fx!zNuh4TQyiu`LXV6px;^e;ksK#uB3K'',
   ''&Nc<fL1~qw+4ga4AvDK!<i~;~-<Bj_6eI~sz^mzPJo<*!G<JNOB=5;e02~LV1U}lzmHVicyb~c~0nyz'',
   '';_AhOvJ+KrbK{41&O+?hSwhC+DySEEO9rPk&6f4sfz4B<3CppRyLJH9Z&6J}}nh~Rvk)AQTny{*5VPd'',
   ''GBrFZG7=3O9$h6@x!WQP~%b0CXNCn%Vft*iIBQo59=K$ch}6;#Yn1RB(^5RyR@`pTF$N{Mh@+9Ohyz1'',
   ''}#{EaH@?IzdN>l3+ZupRoYBbet*Ek_uy%{xa-<>|4OF&*q41m)U46<E>DJA3B(QtQqO7+F?bKDl^-Xc'',
   ''>el#X-Dg16w<k^j<BRvKEqIkLie<fYT=QgW}bnsk~ToZh~qM6M~m?s%A*r`0sw`z%OUzDqTht}gT4wK'',
   ''E39#;6J9osh(7(AdjONf9ne&y5rB0SlKuF=fex5xGm0w-c{*Aq2V9L|rv|a7cOgih>4_#jZLM^TP`v?'',
   ''T<b^H2!sy+z9KAZn36nCD{tz91hbHM8$w}%Zo5r~^3ysdf4VB8v>$-vc2;Eherg!ShB|OwIc2uG*wsl'',
   ''k27QXW!7oBZ8%g7<2@K_iQOS0(4z#P!YVt`w@6qnFSBNGnvioBLn&m=j2$PpH~NAfYW<&SW6m9{te=j'',
   ''qi|FEB3h#TQ>;A^GdeKkzU34}Sal8})6q_*(ko4ukvp^Doe2mHnU;I|I73j=6Zz@u&Xvg=P?n16AvEh'',
   ''YO%u41MraG^g^<FkM@q$Hl6sSaX{RjpA|g>c!VP;Bj0ggCi1D1Q!S$Et7*H-cFL(gne9OcW}ju2T)w*'',
   ''MTb$mL$Rvt<-$jT3|6_rfB+2QA-t7`h{6Dp4Mo5$>k>`zM2G2V>g(OE&h5!W2ASb0pWf1lCwR^8TURc'',
   ''O36P<yIMGO5(K-~bG#F)TQ|nBA8TG(?+Ma4j-|M(OHsJRe@kMEmx2*KK7$+W?pea9Jis|f|uSA9EM=~'',
   ''xknlwnv>ud(72RMShrFlCqiiq3r)Angg8UpuqEZZ^CO<c0+W%Ztz!|~k~`5Yk^KkC^r%|56N&TIi8So'',
   ''$!s1`+=yEBw4<^aieC{TA$hB*VKfxy2QV8YmZZ>I9FMIS2{pYc)oO2&=Fq&QG=%fbdEuI8pm!24$9;l'',
   ''J;qY#~V?zJ#IEt!gh=n)(x&-T+_WmSt@yAuVCiIadA|AL^>mi(m|Myj>g;(iK(*EEN1_V|G@+W)2_)8'',
   ''5e^LKm<$8E^W%{zrb)&$n$M9)QtLp_D|bn$6G9U@xjvdCG*KrLFX(Vbz~W)@Uf_^(Ai-mrWSMI~?ybJ'',
   ''jWWXsYh*echhcT-|P{>KfIFyl(%u^|gAxh=y4YRWh*}4WFA`rKaw0ccaqshFiQA)}hJ92V_8yNqHc-R'',
   ''dDVRD^u7*OenmyZ)IEse&4G)Sv%w=E)6$ww?ef#oZhZ<7)yFp-`qi6mmt+H1+ts<(X{8rwH!x7kbEjG'',
   ''{P2>nYG!-oYPiK5~svy|yGJ!#n0AfZN-FC(z8(_Q~$^P3zokj(!$HW&$PLtJEDvpXM<5n2r_Nb<TACZ'',
   ''lh#lrYKei&@NQ`RZIZmos7p+AHt=FC6g7UH?yQd>ItbH%D2m?loSe(&p~txq0u_48{VVX;TZJRj8*A^'',
   ''5`7dpsmG|#076d9nE1-_>Gu8lC{$4GC7H_iWa#kMF$SuwGjnBJM6v^_#FIU3=zGXi4$1VAkWYp*Jo3>'',
   ''x3KBS9R;q_Z5lX6uC`wIr_0y#0EG82b9BC2s-gWa?OZ%+zJ*<yY-_-Zy5H~zZd{#wEYAMXtYn4T+pt^'',
   ''Z=EwWNn82}rNlP^c1LmNI!xs<G;-5{?;f;^=j{9ZwiRy>qW)oOS}3j@qNw^Daf5}g)?YUt3lXXzNhv?'',
   ''Ai>>(^AxQAnGEO6Kcv2+C7mp5$k-QIC2|k*$iFbyLu3?jt=L_c%b{<R|P0kF=p3L-%%`zyp4C3<4>n)'',
   ''-8{9MzdVObX-MqsutqKGP|8qt#gdkx1;DBPcA_|aUgte@-hS_+m-x^gEw!*mIp^pSOeU~O;)yp+4!mA'',
   ''9C@?pF?!2=(If)Qb{d|Y(u0$mFVs}9MMqi>mC<kl0*H)$a3ZpP?W~qjkMQ4cR{u+;@Yjo&x`XbF@@}$'',
   ''=3Y>J2QU#O0dgy_2NXkVQ%qq`Zlrl77NLwyf_*nYrmGVvIvPY3gFFZp&`%%j>N*aif0kR+>0KN;m8Q?'',
   ''#?PiexJ9;G-_rO~wXJpA2Q0OfwNJ1pY$oA>7@Y*;^g`;z@QZg7{?!WLzSwU)TW_F-?VOSClhL{u0%$T'',
   ''f7M(jC&UyeL!c)?)SBWU4a*!lsO{Ggjsm)%FfukYwaeG|p+6Ip7S&r49*919Xx_7SDl0g5A=kN)-Bc6'',
   ''fmWkq*wYPIZa}DjEe<&Ev3zBkLvg!vs3eQdg@JP@6@Q+7Sp0ZBpC(%Lu`#nAVOujO`0=M>C(Qo(!z2('',
   ''M}4m^at2w-RF|aHJh*4Nah%Gt9(4#%epGmhl_&sxFE(~+hO4X0=v-2MlX??{{g*{0!p*jIBmP4W(a!Q'',
   ''r(;iZ|K5wjXdh#yEcf|LR7>ZbK1xBR}t<84YY^uTZn6$~XKIRapI;b*7l`Tev<FIF?FgDCda#k4?Qas'',
   ''SIyY`{cxeDfH!J`74EF4ECDhs#LmaPseFm<jv?O@9)yt(H+(PkEXp1#U5?g;t{HFjP%Ivn3iH6t})L)'',
   ''K0W9^Xx1GGL3K#8mvD7rItA+&)MRO(naGZ)>4;EPd6mNS4mg5{{_n3{?iA8!pF0;fuG#3Y@S4#o9QPb'',
   ''!Nk(M4$9JjHXwXSelw>+`Lir0M)GMC9<NE-)p^{V=5B(x9&~Qb(kz_&fvD`SmngU&I?f+DUQGVr*ERQ'',
   ''$svRjBb+LQH4T~AK*A<j=P5BYH87Yt{18b?=-`&b5at|dGn10Yx}RUWy;USaXVc3y=_J`GY)&RuwMi7'',
   ''ok5Hb41U+zQ8h?D?lKy+<%TvB#8_-7vV_GWV0GQAw{7-$KS<IHPp|x(ODn-8#^Ws$_xlo6QbIqYkd#w'',
   ''a`im3tiTJ?uweT|JM7>!dtO^Gc;lnGtPN|=gPhsSJ|&&f=|mPCE5+-gH(tAsk8%hTfFb|O&rgp$?<RU'',
   ''8xJK-+g{V|=GK+iYF8Z85`G(bc-!j+D+|U=^)&tePa}xZ&!ImvrnVzj8HoWGwe^I<Dj0MuU?hkl3Wn2'',
   ''$^Au<4cj`Qyg@f<a0!*Oe%mL(V!bGs#H2-Yj7Ds5EaXxgm5zQHkcW%!#xQB%RdqFXsjZ2DZ_#W#LHG?'',
   ''2+QZ>{Yfw5yO%+WYd_t8ulmRxMX~U3foYi~Dx-Pp<S{nAK7(A$4yRH@la#9mxTi0%*D0oszFt{`=^Fb'',
   ''CRdF(Hmae=s4W+Zs5w3gMVOp5Vodh(8EV_+E8N1%_Y#_hmt*qC~+cPR!A!A9;7Q9HyG&(~by*f#Hnj+'',
   ''EcDv6KdJi&#fPdoq_C!YtN@un|*d$R-999sEL|5n@&R-%VaV}h+%?!<9_4G%*$px>SDg(-acXOXy@yL'',
   ''PQM!i~j1+F_h-Z(s*lXdC&Cpg-5p#C7#43PwU>bjq#Rvj3N4_88EYviM*HQl#q*Y^}u%x%e8CM)@b2l'',
   ''-A7KZ%8wyKhbKM(uzna#t;()THZmF`=D+>rCQe&aeti^E3~c9R+3w`u%(qfF0it*p}Na&Y3D?{4D2wQ'',
   ''s-rxMBnu;*(54{wO$`e}wG)aIH__$^MX7U|?z;lrPUsqyV^l{0XV)7FkQz;rmz4txBR<q7XrUmXdmgC'',
   ''M_Y}@TyQs3?x$2a&6_5$0t~*W>so<%wbD8ivIB;+f&bf+cJXBQ2vf?@7d@fLp97|hIDem&BbIvvjJMt'',
   ''o5nCzK+t&8JP>z>B3qtE`fW=Z0)?MUyh_H{DWI`&w-1!)wq7x7h26Jk16QRF=-x)bpIRi`Q4U)9TukQ'',
   ''7ilPz;CpCB4mDrbAvP1t%?~?;$Xv52ag>&BNiovCT(jKC`H7C;^&%^N4@x2wytz2(^nrUILsC`ZfadZ'',
   ''NU5<<zm`yvbVj&=V%VW%7{9TJPm0^-MxMDe6G#r<_vyO&o|l`*WpGdn1lD^${$_mS+10S`zjC;N9Ex*'',
   ''*%N>}fHGax+HS);NX$<_KH8R}o3l;3wgWpG54kvCs>j#+BNyU;HN;+#A7u?utId+daarLafa%HfzLlh'',
   ''MgR*udYp<dW%Flsij<Q>#X<uj!4JKSJB27{^)w)8TQ0cuzOU`$^!U53jJkpK^GE8PI=W&wxYP<_x7nQ'',
   ''A4t)+wS;B@zUa=Im}%31nTCDYGRA3{mS0w1R8bk70IqPK>pGz%HSZ|*6J<&^5ru0}98)2G>tkm^tRt>'',
   ''gBSK5f`7id|-Nl@5O5&)sf6%!pFB!x^)0a6gdu8ge#3C>=Wz3>+rUd{qCWX|WyFJX?RLjz%XY^nYm89'',
   ''a6;UfM1aXYtY@-vPl>=Ly00x45l)6M^DHo(;**@<rqHjEWNrqmf5|9oOb)HY%t2G*D0CqUvlNKf9?kZ'',
   ''Ok6rU7j00F<k3YfTC{4AQL7)2J~Qn1mPSJC2ar1<K{oMl9@*T9lH!mQMy4AaKkU4J$QCRU3mJ@AMt$Q'',
   ''IIMN<BW-}mWp7EDD6Q%SQO8$77eC9`xQz9w9k$-gx`RVS*j%N}JQL>54<1bDE-tN~Y^<Awdzy9YR_D='',
   ''U0ovYMkNqA(36hb_2Cd%66*ku3AILAtDVc%y{5&ueSQ#h0w0klmqvojGMQ2#e!#6F|z6H{UboDSFfwC'',
   ''9_wYC6Z4b~KsJ#fXX+^t6*EQ0Ypd7^;p?jI#q{Zf#UvbiBB+-OTJu>~@`+y4t2a>iw;p#$4%n9`19%%'',
   ''FF`!gJk4&BZD+h)hrbYp*X3(r*+dlgD_(bLGuBzEAb2l*Gp2(tV>R)NZ&0d(bFI+j#5QoTQttMCEs-2'',
   ''`sCR&&{$yDbhq-PZmyq!j4T?orawbD7=u~LLrzpUQPJ51MEyX#d7o9#P$aMTJ|RQ9qlHW~t-CMN`cOe'',
   ''b1WsN2`N*Iltp@Q~)K~>s7fZ`+hwyttg0}K|$xVO8E_lk+Zka|195r!u_4Yr$JI0$CU^q%jqQed)7e('',
   ''_KQpN$AOuEsLgPuVl#9(;96sA@LzJVvKu;7HuD@ag$71YZ1)*FHpi8&&RBP`r7TiQ6O#>t(x7+RIeuk'',
   ''v1V{=Uk}+xLjHeGJ0n?Yr|XhO{<%_k$lxY%T9chcW4k3ib$P(q;R?nYf2Bv^t^saufIS6k0(hfn~<(k'',
   ''72v&r7ifY=P-FKbPy|AerIBddCPGizNh%F>9WsX_l?b=VY-+#F*>?q6g3oKMURLX(s3smTTv}YWx)#0'',
   ''GAI+DovEpv5)?00CqA10*|*NB?4Kw|NPlAmh%US5G|dj2BZPf)qPSm2spKeX++2=(46JgonTtgXn%61'',
   ''M`0|TqXTe9AUpTMSuP}7dXJz7~DAuTPQ-0UmaC+%mZ8ShHUDOYiI{YOdCkc!`$h?=d^PDoT?{{|{0*a'',
   ''p_#nXt#vv<XzsJkKe8{KP4gEg<OtD;p2WUV%MNCW*Hx>>T3=>YfZ36*uT8Ir%GMQnJsw4ba`cZI0r29'',
   ''b*v6_O^r*~4Dm^>h=-R~g7S9nND6+jHJB$?b_GMIAjo=Y5ODX!oKoOyw8b3TX0JHj+^y1n*>58_s`e2'',
   ''f2&%a``28yz$96jDjz@4DE}2LDt7{m_1lbG}BmM#Z(=Whc%Anvd4EzHWy>kJ$_p<i1X!}ee#j@&YjXG'',
   ''v`?M9>oV}vh&bfM<7=ZPd5Mkl?^w`8q$r^?vXWw9x(MM^!;ggNMliZ>S8UpdLsHx7Aep<<6J5WD$+s_'',
   ''me02`Oa<wSc<(jQZc=Oj{t&UTWljL`KQKHxpfWd;$8~BIgbSL^R(e!u}$}nfBbwMW0mv7?c9|X-#K!|'',
   ''mXre|ilbTS7Z>p!Fs*N>qnYx(aU^A}xe_(;%w9o;dR`1DVxmWu2_9!E#HYyEi*IR{1L91~f0d`;v>F1'',
   ''{TE|633_J_AkmEb-puy<=rZ(#-YP_oz=~JQS7G<28B{dDZ%O&u#y@Rt7##Lm{6~#!+0)L1iGwZcODv7'',
   ''aOI8Sz7RpnE8lC@edj?|Gz${|MPrM<NnXV@w_IAW11X~H(8ud`eE7u2Jx_haWaMfJ<1PNHl@s!gFd79'',
   ''4CyEP`;K}<^*I009?!f_6&)3smft#5%IE?+0;L?aW4c;=9YZimN4~%2Zb4q!DJ*{}7idwThf5?nj{*W'',
   ''k7S)xkOkbI7U^KZA4?4A$J0RoD8}&EAW4<o$xCH!3<qtmXveSNV)_Q)-QjF+BcKE_${MT$_O^>hbKE@'',
   ''h+))qoAQ6-5reHbF+L|=Z0CzEGS_~u5we1{Ai^6HbB=<Yf3r<3ia2U1SilPr%;CkJS}Ru7XIxC1J*&s'',
   ''4{9zv$#?C;311B*c)7t{)wDrJi1XsS!aZME5AmE%_Fxrrun$cft~MpndQlMdN|4NFPJZXvdO!z*Z<%-'',
   ''6*hjI5iwH=2U2OB(XEBzwbPEtepl1-3fmkht`L^Mvk@)eIIw&Yq9y>GqAnRdX2k`!T`A&9;sjCt#WmR'',
   ''n;)jFq#o<kkg~f2G}kqG)uOj0^_=rpz(7jZNn?_{(R4THiUWGay_Af|Hr0oI=Qd<LR&r!9!;}|)MYh2'',
   ''G&b>bgi*Ij>wLHVq?>-UR-odgTVOuB9;mNZemti>sHxs%2>=M%uKu-YTC)z5AYwmeYZ`IMXGRRfs!G3'',
   ''R<;h+}-0sH@}T>~P@=s%=mKqc;p5l`7c;56>ja8S$Jy>+q3_{^1x`fj}MntXi|zg6*_av*eX(@U<gik'',
   ''2FjOzV<gQtD<?fnA~C^G&hl$QYA^Ek{i_U;LcUvFH@H9pFl&Mz8WUvy<QoYa@7r>@KIX%x9uRxm_lmW'',
   ''Ah{wpzkuranVY*DQ$jGYNJ?OlO9T7lq1E}75xODbeUpswTiwDdQ4Gk8{qhuJXm>Cj3&uh+16v?FLZmg'',
   ''ST2isL09WEIYP?IvEJtdyx6+EySjS7y~K<cW(1g>XxqA>^yRl`&nvh$S62;!z>Hr|`tsoe=72t{cxbc'',
   ''<c(8NCRvn-izRc+I#=MdS4KB(v3R}7?!C8~5t&;`KITgXFmRD{A>bBn0UtP(HI7E|zPxeQL3}{*yq66'',
   ''o=jB4ED^aIZ%aP}>1*kitT(j#3(`xaxdygK~Mu`bPe5jUJn%S=Y(vq?;6JCdOJEpq?6{mPZN&SWt7kz'',
   ''M3S`S8$EwS^c?nr;<6(H^e&7VqV2znCDiqWll>Jl}&H8c2NzVuUMQ+2a{P@}=GJ53aHopnRzCp*;h!g'',
   ''3f&4`jPYSFiy6T)kKoy<6Pvu>+R@)rp0}?J@OJ8X?RD}%26<R4<9pQNgc^H{?XIK9ohb)bc7If0_+5e'',
   ''sLLZbP3Yc)_3%M!Olp2D`RFiNfo@cwSrq4%`C87I+UYjn86Jr>nBLkpK0GK_-;g%9p2KsjgzAxf#SoI'',
   ''CB-;pQ7~5>HFNPIqRA<FJvML<uz({u0b2-X?A0~35Zm2WP8<I4l2yt(deA;T<kjF<qdZXOjjs|qAT48'',
   ''|>6tmgT*$Gy%W;Sw&LZ=vXP(m5n`4ofx3{No#WQAvf1|*O-&{=u<xl15#n}WQZ_(o~af@$lp5mj$GOh'',
   ''yCzkv-u|f2pT#{Fp72=_L^1=H5D36y_FFs{t13osy_;G4P?A%_TfUnz}M9lSrU7?o{9bYWEU+l_p1wu'',
   ''H^TW!hlBV)&f*%%*bV|kgkv*0el`*q#K1*eHEGdQ<X;hB_2AuWEHAietz;HypTXgl5qu#4!U}}s1;qo'',
   ''|4@xY%!0aE(OJqVYSk`5$OKw>^5V^VHTRl9kOm-S3@uxc@#Sb~vkJ721dWlQq~)v4jlG19dC-#PNM#x'',
   ''l$#gl3bXv&l5|ZF!@*K;W(Dd59VTPE)@&rxX*uHd*f_`A{uda^E;#Qy;zRBJ8xneLD<Sl3&>0vH*QA@'',
   ''JGM+E>rSrm*;M{@q#Pt_AQ8i2_bmQdTXo+bco6-!uxIgYX32=&*`NaInq1a~a4<)go<bwNuYu%7tq9o'',
   ''vhZSYgY0;l>xOjh*xf9@!rMF`<7iS@OcaKm3FtI)j^t%^=M!ZsGQ>o_^~?v^PIhJ{LBPjGP0(D7I-Ha'',
   ''BA$AqvVf%w3cpL@nn~%{uZzcU4hYjnml=7Rd~{0es(>t%bH^^7gQ{mX5yzsl?;=OgDymp#!<w_$BKjP'',
   ''>DPZcpS;%=k6T0UuZub6cY!56bbk0&G-zqXlR#4|!CLB&TPjYff|ZMy%nM_AIFA`11YaeEHH{K$1I9a'',
   ''q$N@8?E$vHa^SrS(O0)v7yok53Coq-kqvBXN*%SC{o^RNO%y++q;O0fcmw34<J>BY<Nc7FO^Kw_>YFq'',
   ''D0UgfvwW6<7^_?*n^^;V%=b2B$@a~|r?6res%?jFSm3C`s$C04k!;uQg-ux;Tk<OflqUGJVv35Y-#(W'',
   ''<@^IyFeMaicOijKroAfeWVHVeCeh+x;9tcY1l{U7RE7#uQt=jhk~9zyZ|A{e6LM%~Wt=et&=A8<k73q'',
   ''(#p&krib0=`fmM#I){FfqFt8ZoKH3Fr<^6xRZ{gKuomlMPJ@O!}wUUe3{{8?jz<~W4!01LJ+V%lwPI>'',
   ''@A>3A8o?`&ZuoeKDVh%+`!}9T$1i!I1axyLCiTZ{K6->F<vm@h=g4ksQxv8i%0{EzE?KZr-$m}|m5eV'',
   ''g_PY}PN6I6vknIV~o_O6a*dFj@>9=A^{iTYnal?};SZWN~uPA|0#Eh*ek(J(<HQPG*qjqe^k5E`O+A$'',
   ''RLGl@UKP!dg8`B<gcWGm;s$v|`~tld2b@UHMvbP&A~-MR#wQF$61D~w#@D>8Airl2vGl5Eh8?uaUKqS'',
   ''4NML<iE4uTEK{W7up{lnYA<q4V|v{sXk3uYk9s89lMZj&I;iJ}|kmgzFIdTGj5kJDeA}38~xf?r@jUk'',
   ''R`X)oku=1mj6%3ZVM7a4lq^EHbHPD%k<!(SRY|kuovTU(nlffF5FqZw=4p~cBuVtlmExaBHwrOGQLA$'',
   ''L7LT|`a;}IL-$k8HvNko72{4u)K9AS#`)m(`o~_P&e7HsXxSa}MRrRia8dZGe`*vV0qy59rz~c=s-mc'',
   '';O>!*LR`XS+Rk__AVigPx9~n^!-=x7Inu4$wT`a{1#GjZu>oGPJvEs*~x|NilYwR?<;FN5Xz(=iyP;m'',
   ''e<(9|r8HFlLtgb@*}@ac8b*Ily)ME_<%u&Dh!mS+5>7zfc}cu^mg>IY)j7@bt`#;h<hj#Git0UaCNTP'',
   ''zgir2HuBhn+K>Qub=@m+p<++^L-0&?z!PnRbXLw`ym%jG-jD%r}7EI{~WIwW!F|sBcr|9iEKY?U6PkN'',
   ''dd_+BT<PXXUpGfyEi3Iyt8Et+g;5B`NpXB`SwfH;qHaZ5y{s_$lXfqxH5x^l2m=>+Y>_&$}q?|RA`Rs'',
   ''&dwNuRLX)l>WKQTc6(p`(qbq2qOf(B5}9i(huG`tMU7$w5le7-N7WVTQ9z`i{q}}<Bybk=1Lrnbi9={'',
   ''stUUn6H<NX3JM2Jrv?<HoRNBp);t*rK`4CvusI;0M5%J2Qww0U<g$;VBN1u&wbW&rax#lB7u^y8XLC0'',
   ''5xpg;gU;pCBc9F6{MwRDWoH(ji)6(l#s#ou88siyE){eRcbCt5!!+n~0^<RKBfW9h_BRzBh4u_Xi)9O'',
   ''CO|E&V#;T?$tam6sC)P={9#7S;$-L7}!HNC!oplzen_3zF4!>p3=^p`RVhbV0!<m}9bDu#ZlD%U9SF?'',
   ''Jza`j3HS$3nZv)NZ=C(V!K(b&{yR&;RXq9seDV3qj-_uO<k(=a_SRfaJ8`G%5<;gH=P6o{!y>2>>ZY5'',
   ''2_H;P)L$5w1I@=;x6x_qjoAut{r>?_O9KQH000080P~d=N8$#~TnQBb0Ps-&02}}S0B~t=FJE?LZe(w'',
   ''AFJx(RbZlv2FKKRMWq2-ddF?#?bK5qSzx%JiC6^)9%1oTzcJ{RAo5{NF)-!49vEAL<$z~*qge24y$pb'',
   ''*k+ME5~_q_*z1ixf8$=q~1<z!-t1RfsV_j>^NoSlAg%90`#`Fh4Gy*m9pJ~?@Q@|;~1<z9;QMzio@!d'',
   ''|~R`-=Tp<nf-}#y^QNf);N@!gIw_rVFMwoL%qrrpVcCvC_L(a`tUe<!P)1JcAo9SqwwvT8d?*3;4B`o'',
   ''Nsxq5!Nl|?CsUX<-6O<NIz;8=PA4R;oaTM)gOPn`{CvmA40nmu`LU!*(O$-Of22ctXQvM3hrm2+@0D~'',
   ''T4eRFYFWx6;i`VG`L<k%jGt(^pPewcR<hW_Y$T77D9pCIqX#GaG2x|VSM=~w%0hab(rUZi&&Rr+P@Bj'',
   ''-{YEGa6SyRRKq31&DYj*-U8C^3ySwW@#!4h_D!us*Xp(U`WjFkPE3WjE;p^*Isa+w{@7Holxb&_{W@R'',
   ''iDpR#2ovUFaQJV!7JIFYaCdS7xivEw7P+~`T1Y<M~cij`dI{gnM(l=D<T&s#1ZxV)Cd<No9XX%D<TcT'',
   ''9-ZT)(Af;e4LQTRxvpPENkL{PxX{Z|~+;@4mVGA7~tGv@X@`<;!wkil`*Xi3+)<-$C8{=JL(k@3Fage'',
   ''3E1^U3MKO_wkxvflxh$#quYf=!s#(vuDrf@7+cyW*SRgO0Gc66v$s`dNP4snW45=W}NMW-hcpKUrjwx'',
   ''CQx=TMx#abD0H(V3731oa2cG|*WKny&EcQ^jswAn(Q_Jc4jta5@y%c7{~j0!DPOTUycBvq4;9Z=Q{>n'',
   ''AyCUayO8&I)x`MVM&V=HiBrp-B<2>QfN!?%u+>W;hW(IWN?8lq8tXR>s2#JVYtyo@wI+Q#SE5TDUXKc'',
   ''3uy+kT7p$3Ji0(FlD(L&rK7!yc={{x&B%iHZxBj#WWR$^UAvJl~<X#rxl1!>K>&WdCTJkuNeA10-y3`'',
   ''AdoEUsj{HbaqYhi>==j9A$|hzs??8|nvt%^*Yuk+YD*F_>Dh3_Q}~C1a#^S7pOM<PX4z6h*910&LoT#'',
   ''$Kp^y<mNG=t*gnb-ppW3^PDZw;L&y%|X48Gs6wm<$CP-d{e-zhF;1tK~;X-ci)oaqfH146{Y+kud)mX'',
   ''u?r?FR!oWfzD*1i5oL%51HMM0!QU>)@TzTU_mT-9(HP?hc#+)ClQ_%5_rPM%B$&Sf5(gj9Or=Go&k>O'',
   ''k12=v_UoIu}oecH`Awgu$*{fkp2}ncpVWq%p2_k*pdu#p054WDL=w2ujo-F|DIY(nB6Ht)t7UYCvd&C'',
   ''(0iEGkbv@&SB6|<d)O(NG^#)(F6R2w+f(mT~?^GtGG$$UltEtp|lH}1|22~G=~z311+!3%3X2iqe8t_'',
   ''R|Db8%tDtGlE?Z6B6r9}Jr9eqlOkXgFY94v_E$T3eeB#EBD>$Tp2g52_Neg<xm7Z>BP3z%C?j4UK?6J'',
   ''d~P{C{8LJXAE@yJ~B?JEXpd2HCJr00Bb7ILoOCm_~ncP{Hnn%7BHD?yI4>_1U+Pi_u9|}fY@+_w=o`O'',
   ''+jGR$6O{%{#IJ5f%84>RB#R9jlBh9zt_PskykDWlB+;DMVZekPd*}#&4ObL7gn@e&jMz@Ut$WsOOGNV'',
   ''<(gQSA6i0NiAg|@Mb<=_ljUlhaOT`cTc=5W0)`!I_Vt*|vwyhL~wa{1rlYH4=zFzoZ;>*F3uTTrohN8'',
   ''A>6tyjfASU%9gE#9~<Wo-qpiyN5_*!6f<pg%z&s&2nc?xkA1S860?B|xUxdK*jCqON+nYJav<53^M11'',
   ''!40#(-hmr+b^;#GWPRIr3;q?@eeBH@1$u@Bn=agcrk9gm-NP08XG+rqHA%?e@iS0Z9!GQL90aXe~*wJ'',
   ''kc*vK{^?PNBDUYfX(ZFha;|X8^tN8x`h`us@T9f%)ge94FpR=`A}GHTeg1<RDq`^mIf7wAq9;`ZNF&^'']"

definition DATA_13 :: "string list" where
  "DATA_13 = [
   ''nL+9~8&>2t7pRocCe9#Mc@Qb+iUZk?xZRr>d&6dwe9RW#+h>b9Qb#l)-UqNCZyAq)H!(wMj0ZQ!O&bx'',
   ''hyxJ}SVRY}#@z-dBsx1$IakTM6_}b}Xrhw#yR;q-!fWu9~#RJTkd<>bd3f^GgwiSwyF=<6_L}?P#k2D'',
   ''}Pfho8KSLwY&>tDauMJf{QzkMIfFx<hw5tBxWqW6IpIS^jX^6)$<Qa-m&!!#0_Zvm4jd;h@?H!MADFG'',
   ''wZRx{v)kjsg)&e=-Ub@f;Ywi67D1*5YrKOv6LaK?tLl)tC`9WeO&%Jh$TI>KNcqz`+2kNe*H!aK`|%f'',
   ''F}TT#bsY1aCjqGS+N%2o9Ky4Mh#jlBoBlG+5!S-U$&n_U0|lU0cX3y;Dj_HX2YwU$TFtESD+`{W5zGa'',
   ''QI!BUobyCC6)d1oS!o9z@bqWf!^qInP7pK;p~NL*QYM}x)C}=-F{}%_jmS8=lU2vQE0hmHf>LD!61Ec'',
   ''<VN>{iPSMXq2pXhzC~Dv%u*w%qB8i5h?0_{>ip(rR)qZIzJpgD~t;67ja>;IJ#cbjkaD#l36$&x0#S?'',
   ''wK66?H`+dwuCWUxTsB^9Tzk@Elt^1ge%r}*Gd#pK4Q5Assz7^^*gl7u6XH6|?jLhNuee8yq~39*$Jd~'',
   ''58kK|SruEzQXE7G&-yv3E*9Z{070!2p1o6b=ie%8iV{Dmh1B00rY2s<}!j9>Am`-B_)7mIS?#9dVnfl'',
   ''Zb=U0pCDzKL~KLp{g!KmWmL;PUA?>m?CGUz>(Mhc(5Qf4#c_A0Fx+J_3-22I<Uo-pg<%3&avK!LyRRt'',
   ''(&SoFMqDZ~z?co^=si1ejn$OJu*N4_bYbsZO@WFXFd1E`(^ZNI3KdjNPxInb>wWOSj~E?0hGW9|?RmQ'',
   ''zGz6jD6L5<7qehK?4?|-o;4t9fnty0j)mrk1xFGBL_;jEyW1Vcw+#2b%bAA<gBWNU$tIJ2*`xNi}#Bl'',
   ''}h3l*U_Mn4rI4>ib(d$0tksGp%z+X?%U1yQULFZAu8mO?<0Y))}r2EkZv3u$g4XpOT|3|NC<E949ov^'',
   ''CxXlSa>^c{6L<Pmw<q_q6T;RuuXJmNXkcZqjr8@DRazac<SMq0~g=fWaK2qk{&q%4sdeNWGvR;E7V^{'',
   ''Q8sxoE9-~DQ0irGKAYGY2Q==3P!OUXmrq3-m@zWmNQiSmfB<9YV#EcEcTk)bqZ%>{9?<%MJQT(47S#p'',
   ''>DKfHtic<mtCAc;u0a1O3b6*d*6RRrJ0J&o(W$c&#j1~tart#%(u1;Cn35(|eaPy3A}B89V#M0q?_#+'',
   ''|_y2z_*nvSHnEBDo_0{#|wAT!PA8Pgw-!L?69k&VwqxT3}m=L)G+Y2EOM>Lin{AYkr`&rq6L8WX`hA+'',
   ''M_qxrRozd*_avAIU~Kw?_u=!GCiVH?PdKyH#4U+p;C#(PLx$;x+%8%f5&f0>eMug2<CPaB(d21uF+JJ'',
   ''f&@*XO48VWM@A13>dUbbJBzi_EPne|r`|pTWCW`gxCjeKdIFrv(qUQ%g}F{Ocb0BUwv8MIP-WBr##rV'',
   ''=~yP6&jisyI8blb!H4=3%AY_YaYwU+!)>TNC$KC3U}zZ&@LYtbsiO5-a?n(V#oj2*wGC+vX0qAhvT3='',
   ''DQt|Fs>rZ;%}|d8FfFtrj;s*bQNY$mg{U*Kz+&9JSd+BY0bMtD`uMDA@NyjUv@7W<lf%UiKM>iUIaCW'',
   ''zTLh^y)0W|p3H!I+>fBiQ6TvpQT@2(&jZNmb{KkS~unZ6vo7l>vUxTqsX{-vw4Mm*#cEuH_`WA)^Nrz'',
   ''45*&u4z9k*wk2MX(aXt?*b4hWBmN`jCdXQh55BtiWo$C6`XdzxJVzld_CXA%uv2aMu~QT2832?+nfX4'',
   ''Q#=85HkY6JK)VL_Kj+6BFuSI^AD8HkKJ8s<cWl{=t<I1V3dw@=)qt5RD=%u&6MB#bSv+=3owa=EtXYB'',
   ''DEx&nK*fX$=GdV1_@J0GcpT*apCj;Idu`SZ((rK;qLAp%wr5}n`i8bDoYPQ0}+BLk(yzwUH~p~hn5Gj'',
   ''0P2e^kRs6RtLXK>B!9(D@RzYxV9TH``-cQgY1QQZ$GHuJu)>{OuAo`>ue*QznuO=YTib4IA%%B#g}Az'',
   ''|t>E;_yS9h`i4C$Jk*~{Gps;I{y7&QHA62hT4KNBWgLWLwGsXMRyD>)-GJnQkqaSEAdytx80=YC>kXD'',
   ''`jN6^A#BInHPB=gsf(%;Qfu{J9#c9UoX55v0GB--#t)5Pb}CVu_9ulrri^QU^JQB{&qbkc0M5;S80K`'',
   ''?f?Q%DMcZ8|Av&zG{T&$?}#*@u_zwhLw7^snzbZ5rx8qvl69>-TAa$-n>GOZ}VqBT86hcpnC6$v{nmL'',
   ''lwDc!^6pkjzW;IwHe+BhkHLR9K=g#H6|Z5wr+`oHnGj?NPP%zH|peojJq)>?V-%}<4A6`<UDkc!TPrW'',
   ''`%&hR%Y!tDk6IzL@oHKm6>h$6Hn8}CE4;<6zK5g97KmS9FxkWJ(Bk-LuxLp!9Bm$Q<l_OCkC%<n)W!u'',
   ''AZLk=7jRI<g4U2^#{YGzbkJum){*`>WfM8OFeL<vw4tR1ex&nVL(VsgYjls&hYY4UpSeAy0!IN=D{t*'',
   ''!dVFW#oiY<&Qbn@-R8RkXP)wHPl(N=w91MRN;nvz&YfRQSH7>FCQ)LL-ow15=Y#rmv4;|CMNje2IE0T'',
   ''`t)a6YKU*)#BiUc$`7q3g9iYzYm*pJE2Fnqu~cbk<R7UodZC5yY+ec_`HR^z~?i)S(sWK86SCi_Nmh;'',
   ''WgFfs=@b7p-+a-HKvJ9nb}g+8SvM>0NwEVw<YMKm!Las?Iy1y6!)_&#Wq&NT9A6^&tOB2u^@k@VbOxr'',
   ''C1x}ozZr~QwZV`TM-6H(E$qNz*waFQ1ZMT@TZpUpu<jo$FN{Sm{>)jGH{}JlSc->Zjw`Nvz1#aS{6&t'',
   ''gTmB@6>|LL*z|mckaOcKeP1)IzF`${%$1hJju`pqeF*T+sEp~Z#WulT9&<+A2lSP}9-Y!buu?ML)MR9'',
   ''+~^0<OB9p!!Cx!{<#nUe-&gWRx90Au%!=6Jxck;-?4+~O8ZSBu4co3!Vn=~AbY*ruq~pthBi5I1J~CO'',
   ''|ICUVp@C3;CPPd*D|nA|5$-2@JpFHF7q&siDOAo|f$<p6x^fV&?_We!@K|nYcIk*=$wi$qY~90QIHd4'',
   '';&IMcx3kd=Pg@+il4?3w}LKZjAs|^sW2+5<Nlf~D|X5<gR0imV9J`}`GB;d%`k2vl>QO{jO~o=aj<5d'',
   ''s3}dVft#>+N~LiASem`Blnfkqe$-oB@rDQ?`hXlWJ&<BIHse9WC<~Nw{^|10#rggHzD`U#ZlhUV^_hu'',
   ''y3H4Ntk0*Bq5_}^36FZSYtO#P&lc+U(m=G@7MKrZYnl5(v1=zeUBxw8A*!l3#Qp#e1wYp%jnAk%oG%E'',
   ''ND3#-e!&WsvWw)-6ENQffc7!uu%#12ueBgCWL#Y*vDcxc}B54Gae4#?gW4p7Yz&t3FO*SJGPIUgI^N+'',
   ''k<1j-DExOa{)UI+oT|UvqOrncQ;roJy*}*d)Q1p??o;F?njcO*-|+_SC=W%-gL=7`XmcCgkj@K;vN&h'',
   ''?G<S)JcF;*u8Han<KC5U%1=ZglDsawl+B4GgTNXvNJZ*SR>vNkLQkHzEJ?_f-Y-spL<ibZ5&Rpvt`?K'',
   ''Rko@6oW&{lj8%b$@$42O^SKBJ^}%lCF@9tKY~t(avC|Py-f?p_3ug?@SIhm&mB`V(w9B!pa_|&~{h&g'',
   ''Kr<vNk89c(gp<Pw9tA15Rh;-OD2+OQU?v?mECPTkJ`_I<{WomkNdNxo-i!mO0H4HPawu3K02cFrw$|<'',
   ''matvAn5u`RO0XOAroBG;j9_x{<1h4I$F_|TskhCq#l83f$C4;|9eh9pxOxDR;jI7Dmymh4p6uOW_}?n'',
   ''XJHR^#WphmUTXSpXxxJZC^oGt}@fAk22t+kr;4ZS1c2wIJCRZawJ$yjm6jzrG0B5uaj{ndHx9l~t{Ql'',
   ''@}mHZ(rYY8=yI}vMx-FvfC6Hx7!K;Rby~`S3<)1-yrJdpe6F+zv$sn@pccnz#76B>`RVzE#n%33q%JG'',
   ''9I+QEo_;~2_9CT?$EqKYzhEKaVTs}!V>1IXLNRj=2n;Jl5EOPr{@jK|!5+RnZ{%QTwXp>PcSo6SeRhm'',
   ''xA}{J-b1M|#Mv(y?=&1vXqtZDd>kB*u4@9(QfoiAfjQ+8Jx|buOncd_FpXt(ITgGu7v(AWGHs2&f@M~'',
   '';eC#S91-N2_VwppLCK%Zldc9W1&E+%wSPjJgB{Qw)rHsP5obps?s@u)?bW^E=MKoZ;D*rt==Sj`@)Rq'',
   ''f5x?p$*B>}^}PT;KYf*ie^A52*iPlOq87%^P6m>qYp%9q(gC;TH}<FE2I?A__#1+l@GMmK5BcV1Hp@S'',
   ''TruFqgyngWS*8bP>IUIoF2fclg)AzeJyEdb1?Qd%(bwr1b9_oFh^#w!>$B9oqhDrDH3*WoQxka%u|&W'',
   ''TE8b7IWdEdeQ@GU8kgEFC7O>f0d=Of3Ws?I@(62KvDeZAfZyYpy?luTk8ok?fn%wf<A<_dN(hllu3nz'',
   ''~$JbxI`r6w`9!uSkYwtr%BwOxx-2i!aZ|O^4x3S#mT3ssqG^vJZ|8%Nh;Q~(P?!!r|39b83k&)i^`_q'',
   ''(M)w}Q8Xo|t<X~4d$r#j5LFmUl5_yzjT1#Q6t1h%JGD)<Af$ellXp`L*`A7=mkq`PHzc&ueGa%SqGx8'',
   ''--zW(42+duNF#h9_B<I8PAfX`=iLg8ZSzX`DV`3-`$plp3Ux(ep`1rt5ijr-irpXo}GMZp$JyA1C{p{'',
   ''9A5UH3*bfeAU!oTV-0{tC!x?9sF~Du*QYdc~EEHlcT8Jv6OUo7+ti|6x?D2SuzFLfUYMC&FLa*%x^qf'',
   ''9Z@k8drTcBEngqYWMhpwL{j+aF#L{PtP9z#Z?>xkwsGt0cx{=Z7C39O{5>-dT1TNepWGTOhx9(n<$YG'',
   ''qo1qq4jvv7KDta}%&|QOw?4&!>#of38c&T7=@=s7p0|XQR000O8^OY7ypI>kZFERiCtHb~R9{>OVaA|'',
   ''NaUv_0~WN&gWWNCABY-wUIY;R*>bZ>HVE^vA6eQTH7Hj?P~{uNC3cu6H{+U`7dMw52d<2W1NlZV%KW^'',
   ''+%wqozbk&1s2LNXl(xod1671rPv1O6_Fs=ALtT61PMFg#u8h7Yc=w;Pk`OU|yzqv77|kW^wvwd~<Yib'',
   ''P_x%H@hldUN=GXWE7k|czAXS|9l$!Jui}7@G|*FzKNmOH~Bm(>MRYKGH9-|;Q6k(E{ou0xoB>aDhs|U'',
   ''w?&#XIlO}pSrsJEUeQ$fY}=IZZCPd6Ix8B4^)kzXZ=OAQ`rXT?ar3qbk|GVBeE;367tj9o!>jLKyu_D'',
   ''K?&v6AZ_26(mcQhiqeWG&gS-sn-QRXiRzLe*75PV97V7h=TrQ!b>T6l6Pn)vN-)@rTTD_>Uqo&$Tjsk'',
   ''e(RdZcs369fI_I93an&26|e_B;#Wfe@f>-BD`iw8+<)Ri*7tn%3rV;-w|U*>fKub&ch7%usFUakQ%RV'',
   ''dn4tACVvF%ICvCaLO-K5dKk^BH!eNY?O8eL92JW5TiX{JhP!Q1a((*<ke|tLMoEKGiTo#d6y0Hd#FmX'',
   ''4`y~PRmVJWK|EKuV1}-{vu2BDw{W7!^Ev{s_WoyNu4>bdjP!10GGNM6C@heaqz>7Z|KuV1_KBwnE^y|'',
   ''%!ra;yvEkI=g{?Wuug8WX$r5U{yJ+CgrVwxE8pd3sJYT3Jx}J>SvuWR(Cw<(;b_7TPv=#Z0=eeN3dRK'',
   ''}e_LhKdX?1I-fq>KRo+Y&`6}ZXS!NAF{0EH26dP7hE9g9o5iSHT94>`0rZ9-pH(6CvmtSTTe12Y)Z+B'',
   ''{p<Tuq1Y_W!(VCz2sx*L3(rGMvAG`dpp_BzXS_x~HejDx(MG6CkZRd#fQD+uQGTrH&-pnpT}qA6oH9U'',
   ''UEg{rKhAPhU*&4-~C3qG1?<DEujUef!bqJi16u7Y|PVa{19H934IR`tggGPhZ(ZtMIR{>ksGG*zX2Do'',
   ''x}f8{NV`x{3#q`$!DXZuU~!p%@i5L)9+qQU;XdrPo3tP>}_-Zx>>K@B^#KCIkBPpZ=>sG^u>AwO@I0H'',
   ''tH(cl^J@C+yDy*q2$jR@rrAvH-`@}ui_2;WA2)e;bd+Wb8p>p~B7#zMM!l|aS)PAa7TJhd!SV6&5z}<'',
   ''Dt%?9D1!kpyDg`%1d0Pat9q_pz2j2KLrb-i->|~8gc@n$=jtYw)C>O+B%~BP?o&=AB6@bPP*bKw$HWp'',
   ''iW<qHH4vl}4N6HRgW@;tCcg?^i_a-dB3$)Gpv^EhbobyjYh^N-^PBPz;hNsSm$n{JZ%O|pbh0@|3vQm'',
   ''F%nBSao9;f&<tfNO%3xh<=kAgNHUfH0YDmoO|rU9Pq4`8Ym{-vT1548S@)KfxibvaoKe;=mG9Q7dNwa'',
   ''*5y(AgLB*@iL}2X91M?VYV%rZSZ}O<yAf(#lbTe|KOXFX)L$~exFrRm4~Db2*UkjHivc9K$H2Z4rbXr'',
   ''*&;)0f;!pNgbXj&APl8GOw+7fZh_yx5(R3SH(QwM9o4xmx2rTj2w1aX9vaqC6G;bq(?X3&$jU(Fb-m4'',
   ''klZPLF_Lt9in2^kI4NNm+4AYMvoJDoETHu2Fc^oV@V^kJ^ldS9ISUOpcTKWMIj^kDnmDE9$7xS{hNnP'',
   ''zmiZa&QRg-U4nLAju0VS%-0NCU#nL#&epx<Cw!h*rB{P5x#jCSw?^mvh1K=@oc*0qc5mdO}NTffDsH`'',
   ''xy7I|^6QGBA>GTjinA16dtXR4|)#Sh8+JN?bsN%TB2oi2WP=7Qjli&bn(Cj=2<p4>UEjp+tSe)kh{oR'',
   ''V)^wIR_>d+JH5#qB}$|m&mxMi!CrSco~hxfeTu|Unh0aG*u+sgz>7f%_^B^Q-0$P9X?Vvwo67ZLjGp5'',
   ''Rh{)hp@9Y5xuPy5wB+F%@uB4F*Fpv#Mes*d*J|h?(t`QoWB0|syD!cZH>8D7R#7=ay`aPRh&ORbq~aB'',
   ''qu7gup)*yqCXCw{3&MeOFu)ez7RxlkP6G3gkp8=sLjGLs2m%rdrppUa(&eUi63o15$S7m0uggk#UFa)'',
   ''Yy2VS;ZQo-zPMt^UwS5g5K=hZd^oyx7UNf+T*M)kxHXiWmW1DQvX8&v7r>wJD4ke*TpyK)=cCLonSB&'',
   ''?HWejSsv1P+z}hY?tBk`-_`0EO#~ivb@=mPuaJ4Y5UPqt$VO+q}7EUb-y`RM{C2b4+6MorZ%F%2(VLE'',
   ''D=yx7{@8W1_qa?NmC3R8c&LOh7gjrw_D(fz%(~IV4mY3ndR_LHNPH7zq=hKa7I(Y^O%!^9<VAwyM<2K'',
   ''1Ky>Bk8l!jp423u7?@7;0(94@tRUtu=b?<Rx$qT%;qwgYfNq=v$&yyX9c{U@C^rmk68ufXpC;;6S>6z'',
   ''tuge<kusP}-BA8)pVW4+?3%AJF3Plx&W>Cp<VU6$;G=)?G{I}j@^L&wKbssbYFyDgkg7%+3eSQk4lxx'',
   ''t>fqoUhQ<A$^SK%sKCi7i*b=3zfXR1*ciWUwF0;V1b+gi0qG0%6;pT*t*#@UFcWSqcU{_|J+2PFjrMM'',
   ''I>jkp@Boy{FbXlW3OL%sr`b^F6Te2Bu?Oj}2J28TB0KC_rtK?ZTi+Xc+)EDuRD(VfMB)_6^uJ7Km*`r'',
   ''Ovr!T1Kv3I2swPK3kaPQ#3*`ItN7v#*_>g=71>75OH4Xl_o(05Kcd=QL3c0CNaLi(5l6mp}?`mq*SFp'',
   ''BXOETalJz}jF^BbPvZh&Rgt07X@!%uPGPCdK~t@GPHD9nYs;AKn2JT_5^aq;x1I<{t}evT)~oG$W9D6'',
   ''*W;Hd@&s<->Q-*OgHBC$dw2P>kIBpTGk{%xN75asOW&Q?~U8zKtGrR;*fNKQg4ovW7L;jUFphzQ^(`*'',
   ''7q-}D8v`jXHB2uA&mxdE%uGjc4fh!TJZaEWYZBzdhWK!_&YC7M)}{yny*`!)x|Y?cwxA;;H%Q~{-;n}'',
   ''mpL0z^{10IiAS%WckPf`W!5<Yy68f<?b8n`doj$k30%=VTMLy;Sy(>St(78qS%=)O85WY}hb&5ooW;O'',
   ''RmDaR$TvI-itpl<sl)}*7`sgX{iSht=%zsLW!s9KBEDPYylBjB|D&^5(jqUA50KHrr_u?Kxz=|C_AX6'',
   ''IdC*&x^T8aQwFWFyfDEIf};`_SnJXN<ZAv0<A6^GFu8wfrTsBHqDXnGiJ}IxG$Yf8Ndj#WKSlf}&;n{'',
   ''QXh9`hPt>uN;gh(SUza7&<fh6Npy0zhu)SO5V$mfm<)H9SSYz6KmdS+X01f_m>$i^8%czO*dt2JjY|n'',
   ''#N)wY#`c|B#1-?;`EgL+e=0vwrYyU>p+Z%>#7-|`kl<U))T?2$0VR$U#rvjoVCbooGBaWz^H=z)t{k6'',
   ''cKrJub2a*hkljQ)rG2)W*7p24movvWeg!d(eAm;R#PMS`w%o-Ig@RsDJ}e%z#M;xZweGk>)AL12)%EA'',
   ''3H#`9%!L%oijM0N?%1+p3OWXESJ4aaPhZY7Sk<wQ^x_AX(NlbwA!m?8SHIYByT`*tH~CvC-?7jCrW5M'',
   ''5bx($<JZzJ3OZCuxgg91`d{!R+dj&p!agb>DmD1|DsOf{1oYF2Jt{FGp4Om43kN`2B(~Bc4-{*_8FE}'',
   ''84{f5XA1V&gE_5vAu#Yousk4p~1i(Fl(p?{giPA&2mi+huBiyabzVtZFKpl@lkaGb$Opu}9tJn^`hc>'',
   ''uDmk0PwY_Km52ieCetsM+mD(!}b+RPXbs*jr{TW?sSL0~}Ksy;4d#SR&sS_4QN;-!>VeN@4Eu8n06eu'',
   ''l<f767)vIiEJ=R2j=)@-E7j9URm>vJP;?qO&z;u`C=w*uH|U-LZ-8bkwkeUqidb?LuI9bMo-cvJB1FD'',
   ''%ogdvj}k41MHM#HnMe67}*@wpQWk*K0HEDpQisN+ttA_cIS8;9Lvxiw>;%o4c#$K!7+@&@n2g7bj*$v'',
   ''1FU~qh;nd0$duj>S@$|~e1_&v=;_0+@v6K<`%hl0ukIS7vgq@qQUeRrl6?617tcw{b~9Oyz@)>|5O-<'',
   ''9Y3R}`dV5M3cn=^{51I^=I2I3<KcXSWZeAEGA@0YW2Sl)m0E;nVG}7Jf{^ap1TkF~aZ@I~p87I<}c93'',
   ''b0GFjKSOPp0;jx4HV*{hzwtl;lz#$xU)D;3#tdG30QZGLsHp6Fo$)s{4S1c%~lLcFWrZELPoMzY0f4f'',
   ''q<{l5Cnqb{W8YZR3`#mgN{oVhJ`K09eP%s@!hs$W(=0GIHwR=#K3%E~|Wr<BAF##vB;!(`#IJ_~GL8;'',
   ''U)R=?>i2Cqw>WB3b_zEYMfnNM>d#`QUzIQvvo)VyshDhqUGv!UFZrqV}|@Th*hB=cd>8vs>i>Iy8tX!'',
   ''M3}}t@z8^|!0B&Ducd$XQztwjwh~SP1A*c4vJ!L^we3G#OR*GPO-sY!da#V4N*hfQMJ_i`lzZpB6NiC'',
   ''>;b^o68P@kt+Yz9>1lqpZ+xSHoOHp*KM{h39CYPfTN!~ZeP<T|x&3-w6$FJ5e67{3Qb1=B2U;VmGD%?'',
   ''DX!n}Bsta4t^gaO-7!96r>>}5t~wY`36W%YRSM_#6&H7l=m*j?9bSTx#_?`f>t(GIRqxM$_t{0i`+vf'',
   ''b@ce6;QFXmlco4q2`RsM1aUVs-Uy*~7ts5b*bf>b$dLKEv$CQfL7T(i`-yt1LLUTU-)D5lrS~3pqzE^'',
   ''*smjCVUis+RrPfbh|bW;!9M=;7x~dC93r=<V^V7nLFWg5=vMLhR7j*s!??u(oX`HrMM3+DI}8N3B`ve'',
   ''^}^+n=l~-KUI3kF1R)L7H&AQwdEzcWBb%}^69)IF7&gLh_L+`T_8?<Xv8m9!>T|S-mzDG;@v9q#4Cvp'',
   ''uHArsPhOHRcp~BrM4JAYj6~cyj^g=>#lHlx=_F03-RMbYKwqiulm=-lV*MleQL0Pq1j)(*9k%4W74CC'',
   ''e3kIz2+Y|L(qZ@>I>kLRKjk%BmINJ@R303;N0>-1AsW5Z|^&;vVD;hIAdwSuEOU<*mlu@psDba|UiDS'',
   ''flM-Jp%DVi75vQAb-~(ZT8dfhxm%2wKKelTEzHi)5vKByupF!6P<iTbGhioegZ+-<`Mom%X;FZGBy?('',
   ''wb1L)`{hvTduOCXm@wCNTui_vEU2su~IHP(_!bQ1Ch(vWV|Ui5%b%2_?6*f7Ew#vGE;Pjr<xUewh<HU'',
   ''3crxTwzyrVw2JFShr|w;Gy+ct(?*VDlh6QT1A265WAs)VOZr3W{TKE@l%#8MI1>>t$%ad3sa=Fztqw0'',
   ''Q;CBzlLR&A5B@zO`ePF?xIQW|-1v|riZ2iug30_tTKLAE?oi!3f5w$~@HPL7kCuwS1(=<M^O(re7eO2'',
   ''=-W85xK*_G4*P&&XEUEeA?^8Bj==DTk@EN2(36^vmyrg>4RxEd@<dmILix><u8OAv_hBZje>yPpPc2c'',
   ''@AbgXm%WU=-pK++@'' @ ''{tvgwW6pognGIuD@MIQTp`!#^M3*N;b`i-s{86ZE59U7@'' @ ''{sbv4F4xbhZ%Ka~P{q'',
   ''i?YFro@dQ9{w~AzHgmpcLs$U3I(}_U2mHa|2v^g&&id!^LVAV98o!fKB4Tnx?&wOsJHX$ZoAgZ&ee{%'',
   ''>c<^KTSeNw6W1OYpDk`y^=wDd{;zu~f<5I)z*dz-LH8<@i{4gr(1H^%(P39km`3|aqG#nrRK?zQY}-N'',
   ''#qZtuI_v%qNRshE+hq6e%jp8<VUP013%EE5UozN<_?H?FJG^$jUQSc}@n*`{DM2<uHo$y0eoRFx162T'',
   ''_4ZIKg-{K1IsdfXy_rNxT1O4lnE3m3Lzc{5+t?Z_#Y#gs_2V|m`72vaS2ZOj{1kBD`Ga-{frkI{oCi}'',
   ''J$bEb{uiqzPPK3SIUK-VE4OuD=q7Hf=%h_KKe6oA<FB$x)_R60TkZkK+o6#d$q#e;u|IXolisvjH1D>'',
   ''Oo~cI^9m!H#rADnCvVZ1YkW%sljytjGm0_8$D{V-?(@EFMfnw_Y1|^GGy8WtBp;teY1q2V7Mj*Mp0HC'',
   ''6~Sfqu#1&iCN&+q;i6+)hv&jl;A3~k5lijc+hd3nJ}RCH#-mfM)hnsMh3PU@k7nd*HFotzZ83JD<*PV'',
   ''*+f<2X1#<=Y8Ff<m=+Td~>uE|{tHlI)pXLDn{B=a%9nHzsSM9(^nuW9jP_Yt%+2KqSreAnb^YSSvU#E'',
   ''V$OqCv5^Cxfrg-3%P*C&r`DQnwh5=@Sp^e>)2Q8DH6*9j_rWkg?L1WO(K`0Y2RP^}GobRx-vXA~|CN^'',
   ''e;)3iG5uzNA86XkFD5YY?n+Ty`~Da$u~Jwal-`mLe{VV$%*!_rx5NI{o2?H?W+oZG}Suj$JL!I!?u*z'',
   ''%<d)@lJ#?H#!NP>wr*>Fa!0I2O4?-1GJs@2Cz}t$es`0EJ1-U9o4<FryM=DQ+;Z~{_ViSSb9+Zr{nlk'',
   ''Bq}?BV*kmoI|YljK22r|6IjBAa)4jk<?m`z(!Ml3RdQC0T2%epxzJk%ejP;^l?hhB5u;FcvcsM5{Heb'',
   ''Zxlp{7^ug70eP%V<Yj#V)So{w7`GS28m;QpSpy0CFujntn;-lYEoVlvJ3wuxjVRu_rX>HX}FM$<bT=r'',
   ''C~x9c@}cg%Y7&S^`$6{ay1DKH&D+r!U`Mae6#zIf1;l`T@HSHS0vFmZ|x^=?>|dTf97C?9~f{@nsd!P'',
   ''K3+=;<sz`+L9$-K_%#f<E6zzt_VDV4p|Fk%p}>{9iA>|L(5R5bK3?fK_2snygwRAX7jF!b?~bJ5ajTx'',
   ''rB%>wgvkhG186T(FVRcy@)ars2hYM9fx>tnb%4aqeJf@PRt|gJnDZKLD3)ZO*X%dww8k%ExhnwCq3+w'',
   ''lh$C4(IbB!6HK7rfifs?ka9ct9kUbK-lzq{XI|(}m;8m<WBC}9M?@n~`|<E%Gy<DsK}O+iN9#poVpLS'',
   ''?sLSri4STTk5CqbT5Er*A0@D3LB|TJ}q<0Y{>D@(0`dfuZ+ATB0mqjZ`71Q(R`WNl!csaMpwKbeB>po'',
   ''QQnAS@_w>5-Rt<9CgIDJ2tZ#%l5-S@Kk1F$#&#&JtWH8>zysdb%U)z~16S_W8^2Hb(IuR$O68hM(a&k'',
   ''gb(_Czsm$qLu-E=W!LO+Dq^7N%5D3s63Ji?j<+K6Oj^2)=YFUY9&n9cf9s+^dz)Jp2~5q`V7}8x`J*('',
   ''v4oe&wh>%%%S9d(l>&v*PXcV-EAv#96N;%(op@i9Gd79IsjFC4nT5v@P}B<AgH_Yn*&0@#8a2G+ZLot'']"

definition DATA_14 :: "string list" where
  "DATA_14 = [
   ''E;0%=0!1cE#b;-%?jDB@SgHQh0DORq3RRgn^lLh$!~x?vP~4LO1!e^|x6mnCuQ1CO?uaLOwL4W|7FD*'',
   '')-twU{j(SiV-QvDM->tyI-SA?5jmZh};zn(?V<<cR(x`yy<LfG090yrW96DdGvoued3|ijc-eQ`i0<W'',
   ''}xWmKU<m?|eY24;QSLgiEcZ6kaNUruKUJkXq0Nu``rX}Lu$k`y)!;D*lXuk3ACUrwbbARJOW+b7^~5L'',
   ''Q{S1X!|9nZ3o~Z%-*qv8RERj0i_R0@PJ5qc0}M(HGA@hc^!&UHo)>`QhmJT_|tP;7tf`!guoGV|elCb'',
   ''^W@4m!sG9N24!}umuMep6ak+;Rz257QC=v9Yp}mi`6F`tUh(I`pkp`C_xuFGgI&m|GeZsKQe(&DUF4l'',
   '';|VH!j;{d+qdOPj@#Pm0v~~RG@}rRpv_C@u=hNyx%IEhKwh148C~{P=X~nceE~k{(ZD?j6n4|nfQ)J+'',
   ''rzEYyikO$Wwqwif;-&*q_EDL-N<4qzBbtr7zZ9(GJqlYqfQ#?psOe=Rf!i%4h(_bE({^d{q_R;wM<ge'',
   ''#n{6~CpZ~FT6yVFaZbBiGShm#ylPYJI7Lo7xa(ORXgq9uiOIb8-#K~n+;=JV4qL%u+rWL9p;EuB{`TN'',
   ''v}<y9{jibzZc|LqGweQ@RZ(WMEUa`k~Svc*gC*lq8P;F18h+L@ZXD^KK{AnSQqG?8!NPm4hO<-5?FZ2'',
   ''*k(s)cxl37x;)E848$WbCp6{_r^MUnpgf>ZcU%rZH%K43$^jqo)X4I9xpJV3rvea%TBnF+CFBo#n7%O'',
   ''>>O%A!j4#Ve;8gO-{vo8=9iD@i?4tD`zL1MPt7l%g^n4?ONouKwn1dD=9iBh9d*!s(3v+WElC)=^J*{'',
   ''*y@tWKokgo;Jxded13`H2-o3N8=#T(&I8rPB!D!SQmqbbu?;k+Ft&AK0ozb?X<R;*lzUz{<elf<Sq7P'',
   ''1ZP$#VAMD3jbuPho5)$qosf{#0+(w$}!G#3vp5if+Ao!icNzq<62wxC|h`W$xrJ=R`7Uhk|p)ve-GoB'',
   ''Ls!LCC4TPP`xKW7W2(+Z<<{`LmWY{WuEG?tlMRjA0^fhVloG3^u4@)X0y5Wm&Qs1fMtgCPW30b}BF!3'',
   ''wNs}2~t_z@DVcnF9ChC+yZ7veXY^KUbYG!O1-K*uAXMeiW%#hq{^}G6P9?VPYccmE4-*yiQ!N-R<#vK'',
   ''j>&*lFgD?YGMbWyYE7C@%Tq#3(h3D+PG=L!+8X~S{PPt`9o!KF?e<*qwniza?d<R}U=+ZKEf_QY@z-8'',
   ''uz}gSvLs-RjJ;h;zUYtLC@ZKAX>UVcvu`0{P-CXR738^KRaZUL$W=08`M~az_D2R;mR`QHVZjrisQcy'',
   ''iae_{<0$?2%C2y|L$MQ1)rM;)w;5n{~X#SAk`ECPP5>DkOh1%wSmJuF2!s6Bje=N;FfT~_a^|6RP}R!'',
   ''KF6=V~<VpQp$(dUG>PYdp>Cib?*dDW_~3p0lzM{}=w-DK<;e>2=9L0v<3Jm_vtlD&PoMhJrioGR7Q30'',
   ''ppv~6mY#8?59dy9KV23y@^cmVB|&m<kJaeg;EKwW+X3i-l)D+XZ#hj1yVpZWI&>$u-w#`(_|8Bf~6oy'',
   ''4C2KWm_0Bflu2OQg$=E-7F7cnFituOO)GF-f*i~X&L4*ft7tn1W6KpOpAv4Q>djFpbP>aFD<IHJQaT%'',
   ''CC~ksH?@+bO$$>GXA-@v5D3=5y#32+kj%K15o&SpS!?3Cg<u#}oMQh+_ND5LimUjf2f;qtO&ey>I0Xo'',
   ''bYE<*rEEDu(65aqGK?}$E0k<Ml;97h9|kLsx%AV{ttimOSArG#J_B<LPgwFZ^PC2C*+XAQeYdCk~LO@'',
   ''l6>FOzIt7Llzl$gg-F**QsWVXQ*E8gu?`6JQ{ROdg*2RtAkB{Po-f(QF6p6`UFzKLKTeGRq0La2_=*Y'',
   ''*RU1*1~A((m&?t{%$hP1leYqyG7-t+^~}aR1N%v7f+q+SdlQ*G(wm2OQ9n@OHd^e1g$A-j|-|X@fe_*'',
   ''r^TCX6H#(xZs)x~HhiG7!#7PTYp3h?-2>#%CS$RCdaD6C35aw7>r@|~+&|n>z>UV<O~!UKP{8OcaowL'',
   ''==`>Wx;Z)B0@x{^FVTmNUIM_1u7#+skne=f;Ifnx9p<_ZT4^CXwTDHzE9xOUz=K8D(e5G<APSXrI0|#'',
   ''GOj+575g5|~b?P-+1PXGMbySIP-Z2H+J?~-bb`Oe=R78_fIx6r?j&)%IT>-4ivM(@_iysY1ze(^f}X!'',
   ''Lq!dtivnF&4Ok+uoE`Ut%g{_C5r3h=tRTDoCgL=#;W}zVL!EGYodIP!20Q!T=ZL9LxiqaAhyDD!WS2r'',
   ''dO%Ac|&mkI<JbAQ^lJUrOK9Iu4R?!Mp9YhJSWi19FO+7GwpKfoG^o?Lee=51X`xd4bg~kPTIUiKCE+j'',
   ''lU-J}2{aQ*P+pd3<!f+Mb5DXdKTUM~P!i*0MU-{}!KD-js}1GMAvV=vbbTiyTr!{|5~q(e%aEgkX79R'',
   ''(8V$BgOc~#ukmSRy0!epjGG|Kki2DFN+@kM5V{DygbQb`=G*fF*D#<Bn@j~6aDI$sCDt5E<EKTuOVva'',
   ''fXeI`_!&mHn{M217*_vj@hZ>4=05)*>w^X)3>ctwpwmxN&2W2IW^oYy5e<^N1KBqC}}nJ1TlFZVFZx='',
   ''u3bkNTM=)$nAK9(96kSSH(M5an6$*-JQ-7_NmKG4s|~!uSqt@WCyf_1^;?Iz164ort+E*BKH3or;lV<'',
   ''Q|I|8~{EN)xv8UO7yMM?k(W^T?e#>`w(Ru2+HL^XzrrEMAXMwA);^s2tFLSv6+~!zN8IlN<BombI|5o'',
   '';oGpQBlO_l$HS^%C8TjqWf<#UpZwyrYw$S568f&?F_{Inxi?K4t4Kqp2_LW*2bF9@s|?6=rG{JugsMN'',
   ''j(@xMaWgbMPlsB!HfOl(XlSPSPBl96HB_|PLck9G3d4V;PY{xXzI}EVBF4^g|EllTtpF@Em1KI%2Nhd'',
   ''s8yUVo_xy)Sa&#TjNY;a#blVxU|%flV|-Y^ehgv&PH5xzTNCr7eCl?0?c9aHM%cfF_D@LA|xcVrKkpA'',
   ''0wrX?6yWn2}hK)!$kVdk&PfRt9bw*bKj?oe0}driG*Y5dh2P-P5uuTe;KizQz8m8NGIjTAq4g_D*IOC'',
   ''(DZIj!3V8f<a-oc;idTv9aXwP2QAwii==b2b0si22qpLH&cu$^JK<@QTGz?i9HH0l>-826}R~E23=)w'',
   ''*lnD%LTHYoDSvMYU6Y|m@&sT*V@yy~=NKccG8^W_={j4Npn<cM+H!~=fBZ3c_5GLMlSVyJ8P_G1ae>='',
   ''Ittw5nEgrn4aP6e7w`+8UfEKR7QLr-Z&EJ-&g(J%Y`3y`%vYX;&^ny;paxzx!xl};|NYxrzks(=&8?D'',
   ''+JDIwV5J(cP`{<0I5cXb2f8#mdCZW`DYd9y<k^Zu9Fn<p3yUEP10)VpVh!fJIQ=T}bYN~lxdsCQS`wo'',
   ''cwY;|dwvl?jQ9mo;S+j`KRrE6R_mZk6NR<B^Z&DmO;Qoep{h-(iKfa)rhwvT=mY@l^~ah;EB@kJY)EP'',
   ''*HB0>z$z+His)}f0HueKN&AwB{;gT+N;0MwenIOyv1Y3Te{H#>N2#p8~F8*OtDq=GoUBe?y&(U7u=lx'',
   ''GkiS9$hFf<HUlxiQBL>XHM{WFE^p{PUu}2bt4trn?eh)E*m<Mm=@uWgsb_A;_`!JE21YR4w2XiXy(in'',
   ''&Us583=!(QZUj)U$<!UeW73PMbj8c87LFWoPIf8CN9}sOMUS#iz5MCmguX<3%r+cuVx2T%@zTT;w;-2'',
   ''0~4;7SQ`7Ha(YSz_u^M$H?86cy?$VnyLC|%PqOo_f?Se_FRJ)I5dBGi7T9foGfrG?7PWlh)6Xsm~a!N'',
   ''9_Z+UhIayXw?q#Gk3-BdUdgk>K!F35PQ-IK4wF;R<)$P9KKi^Iw3-nkB|Io%?8ZN#U*>%BP9DAJ>i)&'',
   ''~-eQ0XQAh_l)+Wa>NJeH>Rk-56**69(=MlFN6{C`;`;yYl@ow1PAKM(*dM@b5r=Z-m^VJtYs8w{#_Ac'',
   ''^k83#%-^L8y?S+vvZEVldI-q=!kZX!xfd+LW<gOIw6f`F9HnV-11H1J!EgnO{ruvmN0%QyiY|Wo{PLs'',
   ''G=YOQTRQw@&UPIRQPMHcCC8vZUhvn({p&%zc;D_opOlEK|=z;AC6*LCBjTj`;))O&k1hN@'' @ ''{gTOg^CzN'',
   ''BwzNE{hz}`6Ed??r8Sg_i;u!}qtsRD+vrI{0g<%v*Ywfy%9LPA(Z6p}=x+Za*)eUetcDc3=7oR6&j#e'',
   ''lT<5Q7A_RgG!$PLZO}XT$ma#8kptLbfx7c%D%hM8EK1aC8p0Dd}=Pa^;OVV1oAG%gyNu7W=9ljec-+F'',
   ''&K_emX5vCA-e&p59cy+oT^X158X5Z9HZn?+X3N8k~vq|V9Bh;zfKxoS(&z>Mn&$DP)iSwN~C2s(ym-6'',
   ''7)a)FP1@p^kwn?uOCl1C;pyAq<1Gmz&*F^2?`yC(@XSWyy;5P|R+TS;$8~T^ff$^Uu0_ON6>^UcsBU;'',
   ''2q?yJa2w_u|ZvcZ7E0x>jHG5QQK80dl4rpJmGMEEHC;LAv!SlZ?paI7a83m?4#Y<fgFXCcAL$}H5CbD'',
   ''MRAtUnTl2?|hd0nTxyJ8c?q8L-7J=V;kFbJKmsU-{-g<pTsjs_j#&Q1%owhqk#tUMWKXfnBr3>rQl4K'',
   ''P0;H%qC5{d(k`_EGm_qxWTZRZss;rhgMtfNCeLW@6nY4$2Dq$5eFwKf&|!M<sZQ4tqa>H*`NfJIc8Te'',
   ''t!yQP3V2HiBP0SvI>Z`V{n4b=0lq!ZDI?#_?555%6YF%Zl}-bsFXf8&;)9Cb-qIk%hgtew4^NHCGV)d'',
   ''S@(#$L`f@k?&9`LgM^A|sJT8vsSi<Q=?5rTcjcB~t?|?-NWWy67bIGfM%AcS>grQ7(aHZbYxpCk7ZKN'',
   ''q0klm5WodZ$w#$}ujtHIBf>;!1!SFIFULzYyT7OCR>~Y@uK%ikx`8J(A{Z1hpp6zpddbcL&@K8#-D|L'',
   ''gErE+i>Hz?_4z!BS+U%HzO_oUsdndRs-kmM&oXGOMvYU!4OVcPZJ0nx6I&X1ks)@DW%$&%h?E;)cdN='',
   ''MJTsYc%Ca)R(VUhRar%BANzZ^<F39FR(4AUSti<nT;aC%jF^iSgYWP3i$U3{@t3$pFDDj{wUro_r_x*'',
   ''og`vN|!%&YWjK^TdYk|tkd)unS6cOAa$eJTfDT}t}E|)s!4(Ysy&qM#VG5^YhYHlG8-84u-DO1H_t)F'',
   ''-$8Pr)1_vQ16_6O@pzE-fQcdPyRTL7B%mlK1>t9vqx$i3S!GK)jv+`~?M;b=P5&luiR<rB0Q-_><50B'',
   '';w0(|~?g=Dkhz~IC(b-aARHAAqYCGy;;~3(qpb(R7jPDmw!t*Rpu`8ZEG6<^;Umbji%p17%w|hs8N&F'',
   ''M~*5!M;O}j9z6kdBR_qrVY>Zxzw=>dV=g?d)CU;EaZEVwS2@AoZIws}5UNB0RQbh<OWkIvDo!cb4j^^'',
   ''1C-QtI|Doex#X-)-$Efb4E`5&A<o8F{qG!AR~v*Tcv@p$agsw{r~L0It<9Ou0KMMrEg*tGdVLU6|;BM'',
   ''AzSdY;GgYB@6+zTMZ0PW)b=+BAr`#O#IjZ%?zEx;<2zDmGllo7GM2fm)Dq_+m-_rAV$|E?Ezk=>5_tS'',
   ''csIt?`1gS|tJ)@g8<t}u@8;rRtH6fSu9(`s6JRW7u_pGwO!XZC^z(1P!vREP^gESNL$M1f9WQ`Ak4;?'',
   ''P(<b@#JrGY@VzBNZ=(?#;Nc8(hi0*ovA>@!zJ9KWw?;b@^rOP%e^=I`~4;~SCOF`b5TylXyU$<4>WR4'',
   ''Ox*57r8C@(~5pPg=zCwCg5yYO|d*Xh9nLRU8|2Esq^4uvtND5e_y>FXT$bg#k?=oasbo6F!GQ0rjP{d'',
   ''Wko!1`dNY0qT#j*_AQ8mFGr>kL`X4%hH(UiWsuI_UiH&&1?W5TL5S9GgN>_#{RK=7hSbtOpudaq9383'',
   ''q26^4PKp|@y3-pT7|c9P`FgyO|{3c618tyGZJy|m2p!%-%IW8JN1B)Bf^~VOJBJo!PQp3f<-S7b??p@'',
   ''RK@;;Alx<pIpZu!0OJ;n{i5V<@teBr0Y)yRdONEzM6GCADJk{_=A+528+M?@9$2@u(y4E1Gsf&9Wz@h'',
   ''DbdwwA`y#ugua_JyK!NmlMUvfXb@Zt0`rkZw!3dC(MD`tH>&#d#cg?{hHyD+MN5Fdk5p(6+octLgG#8'',
   ''fJ1oqy)%T)c|x9_Uz-NO}jDY*q^VD);iKj5O4gS%lqwg=cjfFSMjL<i>e4a4C7pW8w?OkMCsr3ut`wk'',
   ''F}}rW3i!`o70&+ihZF-Z12vW#o^<RS8BEsG0MfQn~2Lik)7xl*&lQPauOAr#w~WssK!1D!{yh9i70->'',
   ''B2G?=I2kJ2cMjM7To7gpFD_<oM3PmV2_dLr5tn5p~vm#&w9j%xiGSPx5;C^EHo~w<$b=V<NlpIlIG<S'',
   ''{(9nW40)8$Yc8pi&fQ3OrX0|HzkB@c)9K%zzIgfU`|qYNp1S9%G0`BB#iNVYx2KmMjb7Iu?m0_cg|8z'',
   ''_WO$C51V>*W0GO*s7e9@#`sh!HmH5Q8!<aKG`EzW3Bgvmk=OG<>vTjGwRr>63={IE}x|0Du=CtwViDS'',
   ''I;$C2cHx3=`#g)J4TPn0gtnkBnN?;UEkU1QiKNt)UorPiI-GX{^-)Cum;$-`)lV)mC%iV9Zf+I%kk2?'',
   ''B4gOBK$63pQywzKN9XP<rL^PE-NXo<nDLaJl$8t=bg7m|8b7sif)XWV$hONor4AJ)P}{5nkXw9cOV{?'',
   ''n3SfG5uAePI<c2T5Sr(Y7A`FX<g<SsEhk3_6{^!6+;khY{qPNALp&ngG}+8WBETEyBA^GL!!H-Dx0ov'',
   ''u4%ZuBO8iAY*n@fJMND3_JS(8B&Ux>?j^d`J8GmA`0Yf;eK~~gsN`><Je>x^Lw!Ak{G|7Po#tfjXtLg'',
   ''$@RS!^0dP7_Wn!L=F7276RD?lSEzyJLv|;Ic>Rw5v*ed(Ek7D^0uNpa}%X3hib=j&zYzR^!MB7qrAv('',
   ''muWq^*__w6O4Zj+IjL$~zUr)pzG#UluS_*({W)#J77XphDnoUIsYFXF_Z(&hEhg?hW$P+rNubE_Ve@q'',
   ''`W)qOOrNr)v!HhdGo>%_tEPasXf6d|67^vK#^H9R3={+4h@>rYb+SWP!|QDl}8o`zb?T)@$$7NswcL7'',
   ''uBp5$io~$IfzmWlkxyssWZ}{JvRlLcr<-Yn7wjF(p)R{)T`?d#6HBU&~c9ENsVVDYmBLE@;Bz~dH#@i'',
   ''S)?vwXgU3Yo8mYI<~r8gTbE3z`7?|2`tLG|-qSqn;yHINDOH@e>&d#qB5<2vW8LS$r4s(iMhKSbuis;'',
   ''LkogP4fKg&qw!z2;6)Z1s$Lv+17c;O2`*yP)H%+$QG%QRB5N7ymr-L)56a*~R`3Ks|;jR3Hlz5LqNZw'',
   ''eHCS(hs_|fTJd84tG9ESQz>((rd{uc19)XK5;M3>ROJscT}@+%7YP`gyBGklHr)s^bc)fM1SV?+&#hw'',
   ''j>{jlSSAyt<;ELp529b(aq)*vt#sk>fnFFiWzzuf`XLv?F$?nGS@|2cUbXL8f@3<ND3LwlTXhNGp>NZ'',
   ''c?-Q%|itb9g=UzkzfvIO9c|xy&5<ukOa*Z=UeRs;^`DHL6F@+pF-erjes69vCa7#8*`#_&I=#)PGsjH'',
   ''m!U-xw7Y?h37KTi<>7Py16KDfW!2Pk+2TSA#YQyq`tuymqvcUjSKxB^<<Fo(68KhTZVTpZsn_j9;U-o'',
   ''0O56e2P<ypAn}Mo6X&tu9-85dr+-fTtLjUHf6`WyFvz<1Dy=u@Zuc(sE8=G`GY;VB#0gUJuyfCYYG-4'',
   ''x1M?E;_&WS|~`+6YL+BLtZVsF+x4;fHD1}5BS4QiW)VmnZVu~>Vo%#KgOFR}cYetIMpYHF>1rk3iM;v'',
   ''1)Y-?5~iHtzLiSN)JK=UAo46p*z$fmkXM7#)>fWlrJK(dopWv{UXS#|j<vvtgIV0a+bps8at4HDfGLL'',
   ''sW4i_&Si=p+U@DV<_mP$zbBg!DP10S76fZ%MVkRfqCvmOAkHNBtWjNa4M01QJjr+ce(cFQtINt#+3L8'',
   ''PI+D6uG3ijzd{~H%Y&e{#R{Z4T`GbCk;QgGIZIS5vN55`$FGEfFK(@kS>r8HRoK*Snc0}Rmt2cMcd<<'',
   ''tM^mHn7~(}iZzzFqJLZ^SZgM5Wm0p<{=dy-Vk@N5)=Oh@o@zrv9<#D;XG6)n(Z*;KG)fFwX5zQdW$9_'',
   ''bJa;E69p0;tpLs%Je(K-(?KXO?&rxFCo-W^N(6Z!98?ToJ0JKFJ7`U4$vt2s9{gJKmz*T1?7w?z#t*X'',
   ''Z{R0aK+Lm<w4QWD{|Z6Q-(YNO*UWY+CEpYU~PS{!Jm<^Jo}HZgO+pE9rT!+)AF`iIemD*5+$@h3Et38'',
   ''(=!-6^|H8Jo#`!fy5@0u{DME2j$J7N;cC!2_{&OI1Z>tThNb?25_$=pXYc(mK^O#`+(#A7R3yP%*617'',
   ''jIc5Km}YM#7_4hzZ^VCE(!*TX?hPrdPpQlMd>$QqoSd7yl<r|lB(n-2R@$Diu0r56Xu17)<H5pxknMR'',
   ''MQ!E;vyRk*R0jT)wKZq`SBz(TrKzPW_$aN%bj5AQ=;gowBvd$i}UiYp}+mvZ3FDX9Nq-JI{Q?;C^Oz9'',
   ''M2%Mqb?X9<6xKtH=%jt7|D4fsc7$f=f@CeB*WJ?dFU$?AGu{jmclu-5RxnN2$TEB=Ej-V_$r+|6)?59'',
   ''_7p9<)4OT<H$i`GALEAbEu2grK<Nj_bkpljMq(F;#5wavrhl-?axUrX806wQ1F5>E$h$se*MUjiFv2g'',
   ''-u1>UQ*0Ow&T2?$fuAuQKOVhG<)Ob{nV{va-7M%dV=f6+(mHk$Of6Qr$6s#R}sat40U*~)&n4o*}cW?'',
   ''sj-lef2W4=oq+Aw737A~H9Zjo%G;`_%JIQ^+*&FvhAMMN7Od||qa_YcLF|AnfdS$7oN4Dt5Az)##zWO'',
   ''}f*NtrqM_r*B!~?tDV2zZx?}IPK#X?Ax-4H;P^c4to&hskrTi-@@vf<}_ma%rhN61~!~i0Dv-`*dKH*'',
   ''&gR<d@36DJs(CcdfAVLgAv;ozzQgFer72aut+-h$Y-YvFV~LI|TSXCIEIBGIzn&nul~3O}$s<~JtZ#c'',
   ''P-%IuB!K78JASfi2_H+0K?MdrfJByi3H4o(^|k)053e?V0Z3BO=2$@c{F^tHf4Mk7LF1sPv5DFs<HMP'',
   ''8*%k@_I8o?|7?7)>e=JQ4!yivSTysL+}Xw&5*=56|}ZvG2cELjcf;|B4iH%8v@@kS4A68Q)!W*Pw@Mp'',
   ''>`N(mPZBRv<x|RdYM_9@r|~|Tr^fqf+-{HJWie$fi#(4~EnXDrXFK#q{|8V@0|XQR000O8^OY7yp$jB'',
   ''<Ko0-_9yI^}9{>OVaA|NaUv_0~WN&gWWNCABY-wUIZDDR{W@U49E^v9x8{2Z*Huha#fyA33=}JtKzU;'',
   ''VhGG52o^)$9Kw!7_2>{TEVl2}s&OOTc|(~sYC4geCo$Z_H}Q$55IE(hm+1G2*=yAu}4ILQ`!tSaY|f8'',
   ''xk!XSBl(Wxgqr#j<4nVZdH~|KjBY{`rA@*py3|u?smb*SrwyovgB$mx;_m*mWTUdw+a*bb4_VmUkuNS'',
   ''<DX4PA|`o|Mm0b+4%(y!n)DZr%y+RDOZXWA}@pzSqV6>aw%AvsFKM!n<uGIEXf#WF$@*StkS29j()F_'',
   ''Tb{xmR!W+LnN)?i19y)ZEQS4duwTiQV0j^DsaUCy&P`UiEMPuc@iJQ4pQ&6d00sL~D*LSvqtU#OD;6>'',
   ''{@)piWliAT-ByvQ_Oh<B+^U^Mwt5^VMg_%SQ?NlVQTTzr#SiKyLM$;)z)9IA$vya{h&yu-NrFT6VAx5'',
   ''HrVS`$@5aoLs^QY5{uf%j3jDY8yU9q`LQ@Iu~n{717D(4Z9{~bFzdq0{Up1ps6@ZsWU`r+X6^62~&fE'',
   ''I!f2A28W)z#H{_bT(oIC>J``jeBR)61i`)Az@xN1fF>;qDv%&Hhyu{Bf1RmwyCiBl`pYTmVv|h-7Q2@'',
   ''#X9{5tYH-h`|SBaL|$RtV+@naR<#3cX=ucs|_^2QKeXsF2T=I6htS%;(4BKaP2KG5?Lt*JcR|BLd{q&'',
   ''K^$v@0XqR0AZHO6(U(}v*>sv@NjaVRN~Ckp9InLvsmz2y)~>hTk704b0eb=XfOe{qXA!`y7wqM{;46Z'',
   ''&$1Z^a{02%|00U&PLA*4Df`Q?PA{;yhkqK$%KB!`dniBGv!oR-#oylTF1GG*SxDZq%TE~761Z_}YV_*'',
   ''*etO5KTu2&*&F9cQ8BH3rih4!SKQKIw%P4bTZmwl*aX%ex6565P>W-xLepb~%EOnrxPfhnT|#10ZV;f'',
   ''LaegV?7}7N<|2kbAfQSRvD@Y|ukKph>7kr{?IGhPg{736iUg^<sK_aenmgF@1S^e6GK|KmBR6l{?PYk'',
   ''Jt68Ldw$Ra<jeU(G9M}70vow=C~XuL-^i|S87>LfRc+WZcte-;b1-2@Y6XR0Qo^{LbHZc2@Mal(Z{vH'',
   ''sI_ViI)p3H>C%oibXroSDJ^N#@;8}e1Z_;4Ixw|%9Nfwz2E7NDq%`9r;GbfX3Hz-=N014&PCyf4IR*j'',
   ''q?1pV*^`r-hw$jn~&9~SDy@f0AyqbR{ES=)d-kM}?<?iEr(5DtZR?bEWzV++P;r-Jg3eBx5Y1pLAnJl'',
   ''ed-FG6&-XX0vBp%1cNhRP8xA>=n7)**Rz}m{nIN`pJLNMA#S@Xd?a7+k;i2@mAY$m{`rx4$7Yk;WN!*'',
   ''&H!BaH|b1yq!3oq&IGJWz*ZT-jBn+I9?`11=~;R`lE;t#0#c3dC<5rm1_m){aRJVxMaBPdN;Pq~^;xh'',
   ''$cu(0Ta~lTl~^a2#D95sYzAf#Dvw3HP6t()&4u4s%>%XT$ELjnT<`Z)x;@TfH!V!t$$eNq8q`3#w_m0'',
   ''6-NorxNRIdr3qs(s}{azU?42O;hFLfP+LFdEM`v}f7-VgkOd@yV>Wg4Nabl#cF)ESBqfk|nLS!pGv<4'',
   ''6u=m^>Sl%L1?{fSb<gHa&nt0e~XMl4%pg1=Ws36(PH&0v(vEu1-td6Yi1Zu<_(bT8)8PG=3vH*UeLi+'',
   ''QLdonoxu}>#Dq>ws%Y+2$iew~(8o`M5IJeuEtP~SOgC2R`;zc!m2I)dv)d!tnFVjw>_#BoXxB1msRFR'',
   ''iAAy;P~4nY5<bfx12vY66T#Q?2n}oW^?U-&+jlgWg9~iCKvOIa)H2V2+9MFlC3yLonIsBr!F#PoK=-7'',
   ''!$ZctmLg2+HF?#oluR0c0>(M;A#ws#+$39tkM|W5!F;65~zO$0}#`dOae6%LkHfJSb)jN!Rhh4ql?Qh'',
   ''$$%8XYp);j>9Z`$eDC@5SVo`{R5pgPSUj(xJy)_SB7widWw}as;9PLGu^MDN<e0nwpQ>xb3<xF-12@U'',
   ''4e5}n)RfS%lE7z=A%|IgH(%0b5lmiO*K?T8>0<+P6+9*<S3l^$(gp7GS!Wz%REj(TGjSB`82{4KG00~'',
   ''c-dZkc$GahSk1vtNuj+ilthdXe}WdVgVmeU3z{KafTVL?O*FCp<Go&)9pGStfEfUt$nnEB*Wfh;=|ka'',
   ''FR$83~%;qXCbd?En{6k|CHuo6thR3IcE}rm>ZggUQ)XkO|5)R$e#wx5P56Ap#i*)jQ;ah$Ado@>>#`1'',
   ''7c8omKVrS@+bt@0EJ9aLB;0+!Qe|K0PG|+UO}a|;wckFA&W`06wwWq)vj|k(DwJ4mt;{|#lqX`xns)~'',
   ''up`U1zFRiAkY=2LH8sn9^B1)*TFPSovZ%IYgC=CId65CKzL!b2zG2kEzykPL;nh-f#6hX3LlxxUkD*E'',
   ''*YW2YYyPvFnIbc{ru=+>rY@r$w$XhJ&)6K-N)8;MSFpSQ}`#Od#QaR)4<XdV(H*a%44_Ai)whVCv667'',
   ''^{LY@6JeYP)Q&No#m&7HrER=FJ4gt#1iAdoL+Jow$JP~dsLjbiHJZC{6mZ>5>KAJkMNuEE+c^&l2~8}'',
   '')4S=x?l_LwtP@tcUY{QSf=$;rG3ohP}p`g-)W<XVd_XEGfxwRQ#N>Imd0MC@-q4t3fS_x_a>_iiV`#r'',
   ''}DFA<h6sHOK3wU_Ngg>Ecjx@_kbkG|8Je#lF_tVLu3NxA#cNu82Dv{Ie1fEM7+Z6ty3ZHFq1x(VwI=7'']"

definition DATA_15 :: "string list" where
  "DATA_15 = [
   ''6jRLO+O;XiwtDw=#qUuGshLS2wS0g$_RRd~wxx^Y7S0;#OZT$bht+@o#gh@FQvfz8<O8a*TLZw^r0b7'',
   ''8cEEITE$8>=<yOgt3niT_?>p$}QoIp5C~hh;pB4tF-Y;}6j=w*Cf88`jY;YMjiQ{L@srTuoP+t$>5jg'',
   ''Y%=A(c-h8yG?$JV8E9KsITpV8|DoCGS63M?)wQ~HAHa_r#LvT1GCRcn%Ao6G-x+^lk3oAqk7yz80z@@'',
   ''(H|o7N($ZuU-SpkVq^ZRzPmPsZI&aZ6=iv6p>6`cU^l=R-6UcRARHVy_H&FJ9MQU%qBx81}r%0G~d(m'',
   ''$`(V?sicJ0Jx%g{9^C=dN{Ta;|7#-NZCHak{|v=mVne>e+6S|t?6+EcyJv&j)^btXX5>K)n?X{{XbKI'',
   ''I8zW~!Ee8EjOF!KCbcbU3#Zxv`XONw@?~tdWcNfx+O2zC4~j2Nu<RymI#>=B{B_bp8PInBn5bzX7UFK'',
   ''`n&LuWyO&{6lr0qV@rg*a;<I!^$uC{C1iClsHT_?YIzlxZN`62cG>)Jdoc)|7cN0}^sIi&G5eNP9(eV'',
   ''V96sN=b!73>B<uD}vUL~b=!V2%oFz<m>Myy0u>X#Qd<(YRSjbC2LxJn@t@OC{4v)&ueBA3Z*qCklfp0'',
   ''a2OsY3)Of-H3X_|!}}7i@}Q?u5PDiS7`>*?UZ-TrIIZhV=c2-EtHyjp_#Hj7K+iQ4Q?v*~Rl;k}Q^M^'',
   ''&_pKeF)}+N9^pvVa4$r8wDt0>VuXbX68H5C?NIG?K!L3nnGB;l7)K@jv^(jpYDeF=Bd8-)r+6brKB-@'',
   ''zk?jdf#)+`;9!Vo)NovM=BPkpHj|}ouqxqz?a-mMlQya<hs;RC278&g`o-u56O(6Z9@>31EI%nx^+2m'',
   ''^QcX+*nK*lD-J{<;+mw`!CwMJbu7zl%0T`^tF4k=tlSL-+-AjT@rn^}sI)qt+szo$zAduc!%2A&UJW`'',
   ''K_sTN;qb}KMBI1y6Ty5Eehjs%EqtK<n5EHFmLVvm_SZia^F-48ZrA*(41o~e}E9&k(rlJ2?VS{S0Y0O'',
   ''p-hgB9Wq*$<@qYLY02Xze9n!uko~9w4hP6ajJP%DCBPu0GLMVOY@BH1g!07b83D*I$2Sc$1;Y*N=|)O'',
   ''oF1WZGYRfWP<pn-fw#d<m<Zm7Kp8GFIXmR?SEPKI<6gPtN9*_ly89eRC3ZoEG6s(7~XHYxm){s4ET>8'',
   ''d*H&^zTj~Va-WK{!1SVSLu04}FQTPS&l>vCw{yKe{I0|D5rx+cX*B1AtZqgA*M_Wfy1RQ=$a12UHuk;'',
   ''+I{JD>mPdu9!0<r2>P8_HhSv?y_$Uwb(=ARf?d!@`%p?yTC-X#m7l<#B2)7zZTcaH;sXqW^HpM9Y7!2'',
   ''P+;Il*~!bQkP914vebn@cx1ibG|-&xZ%guKi#jOd2rn@6Uv2wR=$;i~tqwXo(Ca~qF*bnpBhp!f6pm0'',
   ''n-|!m39peV@9=tNs0oe`!y|;II^FI!TioC%>}!0BS?++|lP(DQ}ugkV}KXDE+|K4xTsnvhGH47j`2ag'',
   ''*!KvX6<06dm&(pH5@`mM;;%<MHjd>x-}vIaZ^yz+_o`@`8qf%yUmSu!Pd7?7Tun%B+5P{ZFCVZ8PFFa'',
   ''b>}&5ucJrY>=g~p=2miVFfe27Jp;yrx$?A>Fw{S|e`pJU=QSsqm#sjCP!Z3CzwHH>=LM~{m3hYsBEa;'',
   ''pAFm()CYVV=7KU!d>Rz2&x4E>+%Z*ct^+@zOZ-Vsc+xVd$xP9E4V4>N99bC7-D3O~-jLz#@L!cg|mh;'',
   ''t>H{>vIZ-JBdu=;-<`;M7czOX~H)vwY2imp|-iy)g*f_@A6z7MsvjPM{E1XIV-**GIMPx+$D2t76Q-f'',
   ''J77%}lS_?b{2I;J8gkjxB%rAXkT*+iuQyw|l+XP%2$#!{FfFCi6K)drTRc{J>O~VeRK3(CeZAatW+3V'',
   ''=1(8n3AerUN%0-*AJI4pQy`9T0c*sEpDvE{ysAOi<BLzcd7o^HJEldHWLxPck)8BENs@DAC2|nDhJ&0'',
   ''$$!q!0jvuN90O%?;o}oMucX3GD(&SpA9VGb=n{GCfTQww1ClC5M%f9RyD_&J2+C})w(wHlrnTU0uy%&'',
   ''(MB+NAb?F5gR{Gl4#UP?mH54{D!d3@ReF(jq&if^X#(?=zRp7(KbhBq3Q<DpE<TvPVKI3b4*jjk_e-x'',
   ''Bk;t{G@l2^tEXmqS!-mpwKMVp3!|Ji|vHqTyd7ouDzkr?oa=+|7&W;sSPFFyY7nYzZNmP<!VAu-viW`'',
   ''5!M{+m}%uC4+f;RU<FRS4;@fi`yCSl3fHPUQbkO9KQH000080P~d=M?Dd)0*wa%0E!p@03HAU0B~t=F'',
   ''JE?LZe(wAFJx(RbZlv2FKuCRYh`kCE^v9R7;A6aw)VS!1#f~ta_b0fw&7kF%Yd%Ph5$obEZM#Ufy!94'',
   ''%~=+8Nh*mq^uO;MJ|t42bBo~$NK8@Z{U%Sz`KxoX5*2SYOVa7}`G0U{b~-yH??ro%e6!Uge?KP|Z{A*'',
   ''<!@qCH@4TT0azp>%Z2@4v@D*zmtB4jvZyEV?&|A@v8?n|;R5J3D=$eXZ4tua*l2G8+XvrTsE#Pe<8QZ'',
   ''f)Bdr_8$S>FLuRh#d75Z5d+EnEI#}Bu^UjO*p?Z;nla1-EWCnqPLs8m2~4J42&YaY224H6=IDtAmOvg'',
   ''a!)&THCiI=W$`Vr$-joV+2Qu0D}(zWuHMI<pzyw?YChrTtPUzfy;O+16A8xBYCkmSRtemDsmb6aUp{U'',
   ''BX*!v@r@Vhyp#EO{otpQx31wy!KeUDIY=d*{m#SU6&=fBzGBaG?T4lI=i3EW~-ViMXnxc-BGYtE*}11'',
   ''D?MM%2s|i1{=OqM-*XMhF%M`g<9xxMft*qxkt%vTvk)zl2(5tgUuFlNjQuxTlA7)xDoUOg<gg^q<nod'',
   ''n76ZsePeFbdL9hf!Ooca75b#e3QYRRFKY~aw`aWjVh>*;Zz&n6O-&0EeYeFR@F%lc3{$foF4i!(VD$y'',
   ''ZqWM2rY(#I2!gV(~p2HadsJwhyl>i{l0Q^lFe$eF=#`z3GI;%<3yKVY7c7P12ZFQQDiGLlMGbNW!T1%'',
   ''V92<bfnLpNPPhfXWl(Ib`*QX~K$4K`x4a7Z<M=CM`{>LmC05Ppl`dx1nScP1YR*`Jhe!TBx?>I?qV9A'',
   ''aCb)Zvtg9p~{Bt(Zxa)xC%|=bSqsZAyqAN_m<D+DOfN7qY4T7t-@'' @ ''{PN%%qH9^P%G;rDd41%rg}ZYvF+'',
   ''tR0A*+V><}l!5I@3EFdAmbqf}dSR+7d)Aj9M8jO2z{l4Le69hW)0!&=zJ$<Knl>v|%zA(&1Q6YOQcH5'',
   ''ZCaPsCzUHi25OjhfSlnwNcHsH0#rW4-2!=gvTZp_O$rlAI98t&!zk*8j*OwSbiB7H<z@Qd`st}6hTG9'',
   ''=g!>KFQYsK^tMSo@'' @ ''{!Z9C!&DyLT>8CAUZ83aTv@^LvNh<~9#Xc>&XIs{+0lD7383cyc>`Y=_=7I2cR<'',
   ''fo2A+I9}_wyc|uSpUFsvP_eDF#YfzOR9CQ50Ff4PB#?4N<Yhwvezjlg?m`sF>+UFW8I{htoIM-u>j=&'',
   ''8?w9kVe{8P7L5pwf20oN|d&G^%5+Md*_3+u6?mU)CE~{umgnLOA+lFB*e4#uWh{;Tb7D-^5@T<+UL&@'',
   ''0&FN!6^9x`4+zAhgqE0A4ZOvb&zRhj4!iu=M^P{%c=UM(Bhtn+hinhuu*RbavM&)7@bps0)CUrGnTN>'',
   ''kft-JdptU?q(TyiBar!B+X?T@hy|Q%Y5dwQ&u~w6t0~Dj@E3^_Il7vvGl2JWMSXQ`Xoxn?qwJ4yQLyy'',
   ''E4>kHz#-hkMLkh5x0mS$2aOIV@iu)zK+^8v?)bRe3~j3FmNM|%V)5*T{Ru~S0lCSklOvfM#o|D}(V*V'',
   ''usPS!~=|eYGWx$}3TqDT7Xpc~U_`(PY<%C$fb<XzD)G$QfGq1Z!6^He8;n`Fxz+q3z~z!NIIAckB?Pa'',
   ''gZ0_CWgcBIE^p{-)Va?U~?!K)W6s$g)tUJUsg@Z-7ptf!<dn);FaZEAelfwC__Erw1D7RGt$KZTC!Hm'',
   ''4-jFaOoy+$0%!e1!H@lysZ+r$p-X#HSu>_6A_lbAsChz8gxm43Iab6FTK<n1fmz%#98L>Mmv_J^%8P_'',
   ''RBkD|bwf1T{kUK!Tf59*@Qmj#o>)dV;BF8=mQHwV1)tG+YX$IFSm^%YKRVk#eE}|U@45m89z(*Ov;!O'',
   ''Mk@Vlm(#y>I;(qV@N&K*JgvtrK?Ft;eUYX^DrCAK2=YaHoFsMp)&{j{<iv&XbLJBb|Ykw9L~qZ0Y&K{'',
   ''C4g3Llz-wLFrV2%{*BuZMEAWvg9YZ<Vbc(k_l<<*n@EW*GPJo(lTv2Fis|DFBdTfT@n@0)WpcoVbh$)'',
   ''BJ{-7h~C<mjoFwNAeil9dJpO8pl1sZYPhR$fGEIl|pWCUPcmQOCKph`22(ZhEJk?UAy{a<A<xEeyRCz'',
   ''vT?fmT&>w!hu<dYFtJsiHc?1n+KIN0LQKFvd7Ha>pj;=iqL~Yq@tpW#Oh=%i1?FLmIX>|?^8<#vqA<G'',
   ''kmp+M_Fg0t}sIJA^Dj5AOrtJ*oyd&Dt=#j8sQi-_u^b*~P_8!$Ys!#M7O3YO9xVjA997p5ee<#;hRHU'',
   ''IJ9_uXj)HUrZ528B6qX&8_O(k7FjM^1WGcUK?qlGTriyh6dA164)P52)%9QE-D-~ZEy;^<C>)Py&cmM'',
   ''^-|kb)ER4B`9B*xcSKFMu~&b(jNX;-bZ$6t6uRoJTF9Yn_Gz^){+l%bLm@Q=9M#+ug*tTNq1VNp9g7?'',
   ''ufwv-%DoCsY`Ph@}Qt&NMRzgCFY084zKUc-~hpC?sU2~q?$l?*F2HZPP^f*dV)6}(!)wx;L*9w;c)Rc'',
   ''P)h>@6aWAK2mtey7DxD<?~7|A0063$0018V003}la4%nWWo~3|axY|Qb98KJVlQoFbYWy+bYU)VdF?&'',
   ''@cigy*zx%IX<K{_|otegNdUti}YrV;2>)XW1vz`5@*Hz>ZZL8Kuvy#S+yUqW80QfCZnsKsy?e(2syRj'',
   ''t_1VIo4KmgiilP424ud=+n+GDHsa`IpJWNUkCn?0|V_jP`C-Lm-ki0wYz*=48KoV~qoud9-sRF~~tT6'',
   ''6ZYT9sMa=2ba`PA8nRSBKAMM<=ss`=MoNnX%_@j!usczkGN4=J*63Lc6U;j~*Q^mIYt%vZc<fx@0YYf'',
   ''6dzzz@_Z6s?}J_bbgaw@rJ#fy=|sjTPLgKvZ~vLrA5IOR)<9j596Kb(=pqb?%;oR$ArS}^eN*Xmb}hs'',
   ''z+yB-47M)oYQd7^a@DSCo+K<^AY8U8b07&%ioE4@S~Oc*@&!JfH=-L~q<NuwEO^rZh6%n&F7tw`9)E4'',
   ''BQvF_3S64u1^=HkuwgjlD0`nqo+9JQ0eVFql5@ig?-SWDDUz0?(omY!x+NvHWZ4Dp~-;7y9za{Pck~d'',
   ''@4@((TjE_*G~`UU{0Zg~kaTh_dluUD;^3-qkhd7E6^CpY|l%&vHw&@(ylsl-UN$M?<r8kTa53-s*S)8'',
   ''w1k@yX$vqvUwDwS}|hHQQIypF;ar^ej%2GF<@OM?i>qkv5H9{nvTZK-*beS9RQ_%4lzk!4E9p0TA)WR'',
   ''bKPVutDCih3Jhd+y(r+DldzC-mZn*wtTT{SzEynX~uvV?`mKNi`{ZwWDW2vEC%j_xrDq*i)m=&cV*4z'',
   '')m54Qjc4Bo3a&%qU3pVhccmFqQNCO)E_fXr=CHg?i#%ITIRi8;RvgKei>?H9n=MxtFdcUA_E2n1q-&L'',
   ''}fVGnZ_8sh&eRdY9VWTmN-hTa6a(MLeO)@)r{^rHu(O1sHx5u-Wv*Y903&kDLISw-`h4f*o238R_JxT'',
   ''%SHNjpC_foUvL58s-l2#F+TJuX@BNs>lP1&ESCBIx1#XY;rK}cM{`dp{w70;kKtSJZvR+V#(49kA~>^'',
   ''C_5Mo1Na!U4?v-8F|D+K)b>073>3NM0Qt&8WfQcks04v_}E)IQpSv;^&9IN29G|_t{SJ@^JR*#R;^FH'',
   ''Ss2rACO*0up{ta>(SdHZBe*I<1Oa?L?^2S?Cg7N^@2C^I;Uk0H2j+1-&J+iV9P&M3qDzbxWYdURv=<)'',
   ''^V@'' @ ''{vS^&bUe9p^;!!)*%U++Box#uBiKQWE|DYJu?&v8HHu)V3@3)p}~m1dK7$FK13Hy2G+@Rm0LAaCp'',
   ''HHqSVraV!K=qv`ef;P`9c93q$nq^DO0kM2+%yl9MPzxg*?lh-L6Q}BPW5aut{!CE!1?}m#wK?xaN$-n'',
   ''Y>tJ<q2lFiLJ_4U{9g$CnvnSFq>w@eGYYBp!A8z}(V=Z)_4LW7T8`uadZ^tQ=@*gxC-kN@Yn|5H3ifb'',
   ''-k5<z|sQND9?#@+A@dgtx2Z#N$K+TK0g@*w0XN)Xd_tdIt}$*SL#{&!uZo!;ueOy)tat@HQUV&!(#-F'',
   ''fEU*(>eU!oO(U)wFC~oH@gLpntgYAd;kivt1#426p^m|L-S;RAN~_RiqHP?==_V(qrXS+TLiyFBWQ#w'',
   ''bH*>3G7ol19W7w`v3w$Rz5G&Zjr*jrJdO4=8NmQp)g`lLPOo_3_1X#aGW6){wHxZCsTA(D8^qAij$YM'',
   ''i-thIRwIYQg)&*}`MX^{Y@J1zm0c<vJN&Uoj8mWvgc}XfN{DE(!=8p<1so>b3z+b0LA`Gn<EGMwSq}4'',
   ''St^FakyJOy=Iz29^A8t7qKAe=pq?Il%C>lN=(>Lu8#U|8Z4?2AhJ`IZ`)>^Z6LmvSCcuxb`fY~hFtqT'',
   ''0k~=dhjL9esWD=G!CKSw~gLM=nBO__TRxVS?jM(<M?3=`a%5EGrO>7X?@JC)9`^$AZDef@8*l1<pmUZ'',
   ''NRdI#Q+%)fw5KJqxRl#jz~%y40ZRiYS}UcV-!pkz)(38<WTnfeWC&+e2yS;XD^WFfH1@t9{w&Byw}s3'',
   ''FRELx0T95bZ!}AjmZR-_?r1v$qZu7hj<)-`qwV&OW@!gB+V1C4a+fG6`J&s5_z=$OhW!X8I3B~=9Bh;'',
   ''%EO;4v;72HSc07^ewL5!yE*KIWUhEe}di6tnYC&}*mg|OyJVPH2DKk^S`;zIAyH{oYBWzD4B^rT}m}H'',
   ''aeBs<DB4N{vH!<SXIkuox{cG>;_pY*~qYORK~n>=Ov16<Gt%hDT0Y9T=_i^Wt&><jbPuJsoTH)8+oEb'',
   ''Pz{d|$1E3nDLthYfK<FXFFY^1nj=p%9m5S?)NyPH#C0n)!7FY9TrtpN`R2M2<)J7y8N8j7{(@bb*Poi'',
   ''@LhuC6kJ+lw%jGmVx?u)3Cd|y(Z^oTUABlK-j_c1{s*%R(a;U*#$5kc%y+LI2^6W+ZLvhW)-Q;Rv(;I'',
   ''nq}zNso_}TDY`+$I=~?41Ysq=Q#7Y-E!YcN=s$PuKY{9o;6$T&wJNeQY5_ZFmX`OdS@JpT&$(n^TYL<'',
   ''-Th<E>xpDhpXzrm|cspLWbL=*|p*Fjb-~jam85)($)6?T!5_iDmKT(TF?PrB>w8sKQl4y&rP<$^8Ch^'',
   ''Sb)@i*|=Fy&KPet01mDsI9rj=?h%&R@i(h_en%i7ut8DG(jvbgqa>r1@51`8}93vACZ$Hd!Im}Gm#IJ'',
   ''2K8!rs~o8f?+RSZR9!JJxz{;P|$jXj@2oZm(<FMRQ}%?FHO1Q6??CWL47$uEi(XRLbg0GBi#0dhEbxD'',
   ''J>t}tYiL(R?^#TT7_)Fs6m@3@!AGWr4HPsFdg^$+zh5AR~F@7(9CpO+l{(2wkPXR%^{f86AfiWcE@g3'',
   ''Ey%RAw_Vuk)gxue#l1b4WpAQECXLBG-{>_fM|PXDbkd65`Uv6ygwcz`=Le@V+hO9_t-j~R<pVG*r7Sx'',
   ''M!cmK5+S$$Y+(+oMJ~_2s+3ptCk1^!%wB41q8*>w1$EI$s4o`KU*dCJ}=TR@)2NBYq2it`})H;3l_SM'',
   ''WLnLRqX8D_6$uV+W6C+ZN0Es2Ql-yI!3fAhiyVcb%#->Jvpg+N{(o}7pakm>@5kMZHl!&kGDgO?p=LU'',
   ''i_*gUO%M$={w%emgz?!uSmE#*S{@;NaHgFg_S7jd_gb5?y5C<9#wJjir1nPCit8P`K1Ns2X%F1#N}yq'',
   ''V8eDNqKnbfFlhCOxLkGLQ|$*O<=a^Qd|Trv~iug{cQ!~B`8@J6^uxLQ4vw*0BRcb3e?I9RhM#-7R&3j'',
   ''TrGGFng{fXrjZ3_ex2f_Cti`_WnRtU=$r!{LK9<nod`NqG>N8+9b{RK^G)%335K!2G)w4(H)*!{DX(V'',
   ''P1&5X4&cKBAKGO?0ZB`dCj54M-#<J25l2B7cY>9LnF=U)+G#WX2%HwA8xQW<f<}S6le0{~Q()qp8Ph!'',
   ''DeX4UcXzn~_@PN~oeuX(}KhRem)m-AY$SNHL>JgBF}aK=}YjQlM;8%-H1-}6+creMLfY1!r=tc7Y#xY'',
   ''0To%O3Rjw7y#5Wq!kASk2P-B_`|%sPETL#?&2uC4Jexxh=SAiNC`{pRlVORC)1kQsg&WZZ9#g?h5KOn'',
   ''wc=H0<cJzOIX||$kZup2M`EWchySVkIP1yE$AVww4$+8&QIUGc*C-4P7|bQ$YJO@7Re|*GU#_oS4E3<'',
   ''_m*))C3%^*NfI}_xEvD+_R(=OW^%gnF9}rq<vE!oe*2LeBXV6tX9!k9)WFU`{H(wNBS#VYJ=^W*=wyS'',
   ''P-Y>bdyBsJqH8oY-hy265ST(RTmX`r1HBF=w4pi-r?i;P4(ABZ=f0?erp~uU4PVW&@w}o7oeMtd(*2G'',
   ''TI;e;LC*+~S_EXH;QWpWd!Ij-+bsK>H>2a2N3Fcj%>mW@Y#1JDtZu5}WR3=0L{V^50-?1eb<?V59xR*'',
   ''uKj?qH3TP-KO8E?HJ{l@wLzj<mg~;`Nj|#vs}D*yHAh(iU#i!yW`rJ#=;IZ9x*&Gw=vUXc`LvZ1ryf{'',
   ''e9GIFpUJGTG`MtUJPMF#7N}vAm|2y2M8%n?$|vZ+WOvQ0)Xx=kAY`)1E;VM21*L;#n47o?|f<~Z`&Gj'',
   ''#^S&)-CbMNp0w$kW4Eu3gwr~R1-dOH0@jU8&~2c_F#brw<3HwD#j`d_qS3Ud?sy%Kx^uN$0Gfl;L2i('',
   ''i(ljBKSdX=(r{giF9y_{ba6XpUQyPGB<6GDW*J@IL=9yp^P5wcm)Wg?ytc%b<e!!bMpTB_sY1`I)?BO'',
   ''hoCR=bK*#FGsT)~_Ntx!F=$D-Tv9DS=}nB?QFZGoY40DuLz1U9;lNinuxjv4NH=aDr@Y>hES7W>helU'',
   ''}+SGyZ&n){H-gmm1`QwPt(Of*L;&R`{FF$AZk-L_9Zhv1Xh%j+E}KDGY2~OqnGnod+Y!j2;E*ijC%`a'',
   ''?aYSoh|L)xPbkY4`KSL<C)E9#-rojtUew5opnz$p~E>5cMYRxO0kNhS2!zoxda47yy+C!vy2sRkU?l8'',
   ''av3+bFXP|_4uh^<u{3QjbFyOG_Ls})yr>#(>jS2{eL#Q0M1@}LOm)#*!Cbu%TB!hq6~7*R13;Z=uj@p'',
   '')f6mQ@+GgKg^OB|m#G~L=;b=Gay6Cf(wg^!J#IC$&95_Tszr#lI@(U30uWh}XQm3cOV1DmyiJ7={ARb'',
   ''==K~Z!!USmmlq6i*F7_upDyhmPJ4+GoNK_;~T)~j-QgPyf3KrN=fr_B;Hoj4kUJxavXcgv#rxd%$?PK'',
   ''1>_TpAZ|4&pULB59~2QNlElOhTajq0QB|nX4fI`^COFM8hNq;@)B5b-K6EYF&{6^7$rTCM$7K7&>0Qr'',
   ''SN2D`>7D+N`u*0#N2&?h*4@h$ru;mPmnkkG{+_Y>G2R^m`Gwu4`4(X@(1*ZqqS>97&}tI55f_rsV}2C'',
   ''u@id7XtN`*M}aBr`8rz?G;Aw61A{fr^xxgV@MpaU8qh2?bsUS$UKh#ru-T`7t@1LKTi2I4!+59&f+2C'',
   ''J8)MLr?Im3!o5U|ht0(={1Zw|1@'' @ ''{u)iO^K{w32w<x9~lG8rBaV@boYth;uBY>tFTLlf!JvkY@Ay9h@L'',
   ''#Txl8M-#@$~hybYi7xaH85Rx-++!8`Q#1nxbtt$<}IxL<NO&GL$(7|3t-9$jeCfAM|~6=2n0+?>CEk6'',
   ''{7t-{bJtRc72)(CD6gMnzSjE(~T(O=G@)Pn!|CokKU&Mw=$TDmlI((DKz(gPMUn8LPLlk2RqRaC#q`S'',
   ''gH{=kuUAJeU0%~lpm5+cmWRLXMXKEB9Ut-<sogwu@2*4-pRdOW|)r#mw}lA6Pw!WU|yoph3AfimZzb}'',
   ''@F)AKTFa6iK0=TIH5tRYTqcr3;Latox$w5dL!=}fsW4|TP3cD9u0vo6OXRw}VDZtMj0wz`?wy;cGee5'',
   ''-!U<BNDK?1%B2bV?a{1ZKx$R)<Dis70CaR(KgS&MJAvnDsn%oIq@LeBR>69DvJpn^J2YS{O>9c4#w;s'',
   ''DqA7Xde6N=-o^Fg~MP!8*hw-IudGbs@uBE0)^sT+=2jHl(8k-j(@`7G=Au=CskbW=*++3gftE@LTIwZ'',
   ''ydaQCI&9tCSkvxyz7o$V1be^FLwM_{#(5Wv{Zx)|=+dtVD5^y{zh3CGLHDaC~%l^i^kgbsKN-l5#4zh'',
   ''nM!Mn}osGa<_Xrk0!8pb#4^$L6gK?_pn-kH-CJ7BP1~0*@?pp4-)cO1bazAClCi>CDb$_0nh9BR`J;H'',
   ''qS4vYkQ%0bB)LHrltAIQw;ldOkLx}5xK?u(9u=W4!sAgOI^O=VmkA_C_kvN-;^pCYuV*6HujbgiQ5Q{'',
   ''Paz7!FC?)t09S*aXs~e!O;cE5J6r>XHKHiQeBDy_rwDnN4LonrpQrB-AlP*j_u`hip28r?W&_dZE|B^'',
   ''Hax^|tA2T#oDV`Er-SE5QBQvr{4R}XO<MdUeFdcWhmb<R@hmfu$a7Vfe7)#sk1-C0Wu$HvqnkGk81wN'',
   ''qI6#8HjZ*zWa$&z{nyDVsfX(cGo5DI6L^kX$`<H%6anx8Vr3qb9tE{A&>Lv~wklKhmrkI4U~Jw%*E<W'',
   ''2rO<0PCBT;e#1}w%I9&+Ncpl5KNrWx?yk}IB;lZp6#5Ef=dtWw|W+3!1mvKT^_8w*xX`iXIq{3fsyrY'',
   ''rbArrXB=(bhP*=0>8Q^yT`yUVF&zsSHZ9vJ8k_<EKBs#OQl-U>Q+{bSe8o`7LGAY&6>$VQgNz2u9_&!'',
   ''sX5W4H9c!*JT3YKQ+yv3Y5^eHY-C<aFmBKiNO0wv|m`Twu_<Zarc*ss@MhU-BH#Kv#hiK@E3K#b(JHE'',
   ''TZ1j3SF{*p>$6klQo_k@r%rg#t07M-hS=PoF5GZ3j3Ua<$f_Qy+qigzMcifr0pd?)bVsVxB`jQZ#k${'',
   ''_W1_0J`S)If25nk6Yn3i+YrTsUwAN64ZkPo49m&(%oYYBvXuh#_{9$1c|KxlU1cybi$io~qUaRg`u5_'',
   ''|KwMJ85u%7nC#SyK$Q_xgx-HE=1y89D8=hI6T+UMw(OH)r&XkwN4#=;Mkuvw2BuDtg3c@hBO)caZZmb'',
   ''b3H;)Vj)Hd-@@P@W|;={V8zyI*G1pf6>Kp97jY)VSj0m*K2eLkhqnqce_NruQXM?#q?e5c0s!Q#Ose7'',
   ''qEsx<#;r#}=+?cv0LYV}q2V!8=h+B<SnZatztC~+J7-gQqi>AFVtY9@@6slZv$*%90aE475`3HbPP2+'',
   ''sZr%Wek*p0Q+8-+cM8=Yn{@GRM(oG;g|js3KkaUd<G!`iV(kWm!{ytfvpUI>i|t5y-#UK^9N;?xlE+N'',
   ''GU}0(~tKT{yr=Wbs-TrT~eqw9;*3r{i=(!@F&7tWpR%4BczBv;yUg@2=Zw?j!_Q=>a~5c1ldQ2!hqxK'',
   ''11-pbHX@vrm__TN6FHfr+iBi&kbw)F(s6A?|w^5Awkyw%7bOc%WZVn`U&s&V{qQ}_JN?7o2KJsLIebS'',
   ''?4|1js)7vn<5oF{KwXkhUpGO?PfQ8*=_Eh-i6MO>>GYm%&5=<1MNi3&b*;_L^isn*J>3&(Eqm_vt2Up'',
   ''(q7n?=;h<vYBti9_=YxD5>d<eKcEOqJ%aw4kuhbmuLC!m-=9>Mp)4P9mdiKxKN;}diNQ2z(R%aUITQ~'',
   ''pd^SEN?AI24%2`}aNfyPFENwZ8P3Q{hG)MV^OZqVif*H6VPMe=$Rvp}?!^8{47Cyes5D9>39+jxZ4`e'',
   ''mndRxtl8pb*+O^kExK5Tvl^=VlF@b>#9n`(ocAlgbKzZ4x!)6H4ZwENCP*-4s6oU9(1igQZH+b!8{QU'',
   ''alEAz8?}~;zZ)&fHDlXQ;0;~2NQ>dZcFcpW=?8}xE|@j^Gsi~_kg!NHsa#52adSK*3d@l!6m@P%fK{M'']"

lemma DATA_12_scan: "scan_lines (Some T0) DATA_12 = Some T0"
  unfolding DATA_12_def
  by (simp only: scan_rules cong: if_weak_cong scan_lines_cong)

lemma DATA_13_scan: "scan_lines (Some T0) DATA_13 = Some T0"
  unfolding DATA_13_def
  by (simp only: scan_rules cong: if_weak_cong scan_lines_cong)

lemma DATA_14_scan: "scan_lines (Some T0) DATA_14 = Some T0"
  unfolding DATA_14_def
  by (simp only: scan_rules cong: if_weak_cong scan_lines_cong)

lemma DATA_15_scan: "scan_lines (Some T0) DATA_15 = Some T0"
  unfolding DATA_15_def
  by (simp only: scan_rules cong: if_weak_cong scan_lines_cong)

end
