(* ===== verification/Pip_Data_5.thy ===== *)
theory Pip_Data_5
  imports Pip_Scan
begin

text \<open>
  Lines 2570 to 3169 of \<^verbatim>\<open>get-pip.py\<close>: part of the literal \<^verbatim>\<open>DATA\<close>, line by line, with the proof
  that the scanner accepts it.
\<close>

definition DATA_16 :: "string list" where
  "DATA_16 = [
   ''==1L%H;n%G-=y)2O_h*hlO$7Bh*FF>C6Dkr8;M$4IaIG_rw1<%P7f$S>*(M$CgVlRdp!B3SOqllN;P^'',
   ''JR`l<w?VED)tKd~m6+G>-sbCQ_l*k|d&&iu3A(M1>s$r<p=E=E5l~Uw`F{}c+tJ5W#B5w8<!BKuZfRo'',
   ''R!VF#BPrqrMT0t+w^wp6G7>QqmLe$iA>7U=7P)8~Jh9d|Mn|MEljMf}4Q{yTc|OI2b4iP+cv?CIpU2a'',
   ''`Xa$MTnCIyrx$9*+L-%Ls+o^iV?b2M-h~#fB&EUcWv#{=R3_=}$Z3-KWp~^P|GBJ3Ce1LcINIb~HOaI'',
   ''DLa)qD++HWbxx>ge+(mb``J=j$UBn?~|`*-=F9j0{Ek91H{$|WYq?69-Cx-uqkLsqp^JdQD$Qvy_kKc'',
   ''1`%eJz7LXC2$N8lWpOZJ&#)-4F&tZmDbs@~>%uZLjVaNDAvqR=B=d{e+ZiBz^!$5+wx~#p8J;@Rowb;'',
   ''3r2o2D<wa)x42>p-<hQ1o(kF<o&0{-Hd;pXzy#N|^d7IZ&Nk@a4#>w|brw899-yFO;q?PV0a-dj5+_!'',
   ''zku;})xD+aN*%-H6D9?tQ>hPzl?)!8DUE|Srbq$w((MM4Xfs8%dWRK-}~Vv5}3>fb(fQ6|xbG7l4J4R'',
   ''4;4xGk$NFSCo^;eW_Ag9V&<?0AXS<_&r=y#^`r|6x4^2}I=;j#(&l!<&q3?KG0PXX`4s^<kt**vVN|Y'',
   ''|%k*e-KYKy?7`REVM9^w8#fOq9S7%!>U!*#sx-2HLOqj6a&co(LhXrWVEpJ0(;7&$UuL*OqN$&;mgu('',
   ''b_m-p2SPL|>AkEl#kye=^gCW){h*Bd(J;<J{}h~9NU%}2u5b&hT+tN=!#r)NRt)vi=c?b~V~1=ZV^)_'',
   ''k($|!ToK-Tt$D=GKiT_M9j&bv`7Z|U8f}6>s7pjF*JnR}m!3Se{cw5i_>feQOlYN7FTF-XEpKV}@mhY'',
   ''|Ij4Z1-Nsk^Vc?s$!Xp|HPYzAd<j#t^KU){b3j?gycRj9aG3j($r)Gh#2p{?<;>Vg%Xtf>yHO_!=^--'',
   ''Mdgd`=f|DBHo1rDP!{mjYEHj_}9$>Mkw&poq}2iqZ_zD_FyUW$u$}>hM$L{sq5mc8}8;XILO=R4k!Lj'',
   ''ev*?P*!D4NsL4_9(l|6Zn?2-546%Blx2$L8t4KGRReLN({+}4i8mwWCH^J5;syXUOd?|GPqr#Z>TkEE'',
   ''Oy|NZaur1C5-um(?Px2E&`nRqYT~G(J#8Efv!{(va|t)EL`@ehQJ%jK65T3Md6M3tNOe_jk>u7}Tz}X'',
   ''Gy|0a4Pslnogt~|})vBIzS-&anR!S!It3#%)UK}blZT0)86w1Pyslhvtr%ZXoTJ6N}b|WhV>+6a;)1F'',
   ''R|wMDEWLGbJP-WFf`B{iidk!P+1FK$qIy`j%*i1*|#>7M<zYzdx+#ZA9zfIq;WBF2nvVo964v7-6$oE'',
   ''4AaheSDPs5X9dJ6zmslI^E1l|KO~w^C_rxO;5&!PxAmv9o>Fid|<n^u{STlP9g>%FW++04cXcQN^^N>'',
   ''s=W)HhasS{pPnlA|BJPV0&0)q}E_5I)pVNe;TG}S`$!@@CS9${+kB5K<HIAl4p?a8r4i7AnwMd*2?x!'',
   ''RsE2Xtp~N`+2FXDH)IC;J1_d?z1jSGW;MheW*$RVIAN3(&;Jup&M#FD{056;v;I*u^gwW_wWWnD?nXY'',
   ''zuEUa;N>)2?`{if92<t%UF3G_5_W~b9TkFu$#(-Tz#L!t=y`5s+<}9H>J$F<muLCH<>vF6d8KPo$xM%'',
   ''RxiKWW|M3EgmrdG&+4MfagRSq%!l)}H_9tM)O+@eRuI&pu_myse76OU<qr3{JJkwLxgy}q9a%?bdh3W'',
   ''?AagIJ1B(9r!KWQuMnBB!`YFzK&jI0{|~?Z$s?{U-TG>o&wBU;*pz(Q&~egRZBu;^y2FLip1aL_e=?u'',
   ''}-rv(nMVdhcN6Zov^V6(K+vd8>OGsIrhiwr;ojw*9HfBcIKVo;R!ip-|X-fC!mdZ=j;w6FVO0xY(I4e'',
   ''$23gwz%e&D^z^PAkQoE#ltooj>N&Ki503iBAEm*|(0`Gy*{3B8Wbp-HQK)bj*06#UNcfZp42v2^Iy`X'',
   ''m^=(^f_(yfD=mQ{F$th5)tGDWtxZ!rLu*Vb`J?a}$U5j;xdboCU)`=WDAK<=_mgH<86Z~^#<#D5;5<P'',
   ''D8U2ET*-7tE!i^QNIL{uzsGpM5dQDKFswlcHbqoIFZ50Y|_f&szMrKH7ShHBxoxSoKZwi%00gEsOCj+'',
   ''eJx4bzSj{u1MiMUe*dexmQxEv+WXM9{Y`FwQ}KVpMg<&%C5<-dx_3_Z1X1@%aKcpsc%9QH}LOYdpbw%'',
   ''d}1x0^vP&K)xpg-&BB04(IFyUA3UFILP!!1K0!C7#*S7w)hDkdGm}|S(tbjh-NkldIA_w0EENZwHI6^'',
   ''w(zF4i#sSN<t>2dnY{HeA&%=Pzrq_@jm`EcQEij`*b$DBB>UF4Vq^IXP&|{><)-41A2*kYZHFrsI$DG'',
   ''iG*bIB6JL|D2w`6Jc}G?yFp8?$96n%5Fh?>J{LWXE`e`wMVE^GlS1p2E6T?&!V5{QZURv|A-$OEt@G#'',
   ''OYfK0n=@KbHVICC~*XTGxM`e{<L3=3bUn7N>L`B>&NSu^g1B^lgcX{~#|yF!0NYuI05XrRA{9E*M=--'',
   ''7Dv;Oyl=L27Uog9@wt`{zF2OUow~HxXzFWc(KY!P|q7dXI=kdyktvJk>BRFMu95>la2*yi*@l>ha2KG'',
   ''yJyld{tuv1DFIwF{Tg7<gL1x19C0$603BB<~QdO=^kKMyXS&a;XNERGq-UAoJJBM;97j#m|GJ;2lx2z'',
   ''Uk{aj<Q{SE;U+oslMQz~7Lj$<>Iklah4&IDo$C7ss#tbzES63bt^De=hKju?SSRAckXUO%hmI1$%Kg~'',
   ''5d#jDVcS66EerluIRkOTlJW$p8l-XD;Dl2Jq3v7jN@OA8wzQlKslrII_d-q@?Oaur<QiLY7_G5`&DzS'',
   ''Uc>i~DlAE;c3ZtP;XsF7=`%9#bvdsP>Iy`RuR*7@L|O+xWHm{%+_fvr?<MEqw;Dt725i$1CK3=$~puc'',
   ''KNmPU5W$!_IZVwoMs3lp*f;twk2Sumd}5Vx=dj-u`lQYmX@6?CDhi(wgCk&}#*)hxL%VVv}GQFO#{G$'',
   ''oWa4S5i=daY;C!N3RoqCRVqvl!JRSV4nb;xui`4(%y|TQ8~5N+2En*26cU6FxN&wTqby{SY%z^v?)t%'',
   ''wkdDMFs5AvS66~t7o%cjgl0oumS*nfzyhKTM+3Bj0_~>bmF#g!mN%^9ynKKeLY;5CS7I5@O7d0%erGp'',
   ''EqTk$!XX1FVzMX9=Q&h?h@jr{APIU(A@06LRv5cb-$Go{S<B5=+IFR({#O?%hvO*s<8+$Q4BUkQLAU?'',
   ''~R@OO0aTbgRsXd@tXs+)74ybcY|ezL!6Ci{H!iQqU{h?CV5vm-@7y_5TD(i7e1fers^_SM02jKhBWR('',
   ''uf3PZ+R2CP>eFKPX6Vdq0IoZ+kxzNN?AEDv(;aVM6{l^*&m%tgU(^ne?U2d4qBGZH;=K{CCuqv&w?#`'',
   ''ht-=gry`p25c=9%_yQB<JfOj-dc?YZPQu?ym8wq^jaZiRDpt;_xc=AY~$EUgcE*4*XBTpX_{qm{V7gy'',
   ''ZG=btm!tXRIwV|3lEC}y(c|V3DqQqn5PW&N#+={G>UZ%#FENo(R)c_1)R()5!y(oOS~vp%+zpl|`kho'',
   ''d<62|USI6nc)~ed#obTdeRnF-y_L6_TcOp&AQ02nC=W`@$i3L<|v;pACqFw_)$l@||OiH;~k&uNJC~g'',
   ''h1nEl(`@-(oM|MP`F#)+%6?BLx#Ae~Gh3C51{^a}1wLmn0-`#X`EbOO+a3FDv}RCViSnCf2jj^8*Gsc'',
   ''LuGHC;ps>YgmYE6a~GE38E<K4%6RXk!f!R4whI^u1X*g2zPdlTML#QrrfzaNOjZUpQanCbY=hGEv=eH'',
   ''2VN}7x(I`aP(y^WO@5LTbyS+>n7j?@;xw4AfV!}z4Q~$6Hi@r8iwVB-_;y=p7|9{G0`C8hp+-43J4eB'',
   ''-vBG8n!iev+5mL$3VE1_h5}&+RzJ2q0!ohBn=nHe0NHA>j58|>4D_8<&6Bj5=Q*+K7=#tN;P-cjj8xo'',
   ''k6xFit8_r>@DZR%2?t=Br1(i`UkSOG0|H*iVaM!#2lj;Jjzqy=xa2<$47PBqqd+&oCGs1TYr^Q`*?|t'',
   ''$Qe@GpKBZ2(!Hk6(VsleTn=q|3Noa-QZ5nf7-5VZ+5xu|)1)8%a0uQ#qq!~Mzm2D44<PO4Ow#?!n+bs'',
   ''~N`mcTY)>>96fg|;m^IoBWT@AM|T;x6WPKkH0`?oJq7IOX3i#ahY|jZs`yqE4;RU(GjF?U(>+4ULth)'',
   ''IAqXB>@UA7%nHURyo8Ut+Uu}6<y+8MJoI+P)h>@6aWAK2mtey7DsQxo_Tr;004I>001BW003}la4%nW'',
   ''Wo~3|axY|Qb98KJVlQ%Kb8mHWV`XzLaCxm-dym_=5&z$xg3aP!`RY|ScP&sDU9?G>92Q8ELmmZM!%%3'',
   ''8wwaYBL8N!rIox;e%<v&nlD*!$8bMZ%nc;ArKa#p&m)~EqRh7$fGh=(bzWggb8C{Gn*sH2OG;*`mEO|'',
   ''9yKU_Wkk^Nhi{J=i)ud+^o;;meXQi+`Dis`LjKOgkAD%r<st?zjw*qdr!=3Gm71{b1X9EK`&BbR$!!Q'',
   ''G}2Vkb(CvOWsI-rl@={qE!IR6l6O%bdM>|L)U=o0p$Iz5nnL9|GNI-Bdf4W$V4(HzLcJ+|^a1LB51ph'',
   ''^&xWG`vuwk$th0O02ZIla;$Fs?7!_?QSdOuIk&(UdzJWs%><4@O1i63xD%X*5+zt6il67|CCA>a{2mU'',
   ''C2BN;eT_05$%?PGBG2lkszsv@Q??O0qlej&D=}p?*V{~2_E|2QDSL&NqY+L5%zEu+lLG5odX{8a$#-C'',
   ''&$!IhpMxc6Em4d<Vf~^|CH8}2mD@s-hk&7JZ3a%9UAXK$)R)WSz=>N%VgnYSJgXv`{b(SSc6zeHN4X;'',
   ''tICBdIu(_<zTjo7|0V}FKMB}B!YU<zWP++g_dyGrK3q4q*Ch?gJIhZ$4C$J7PH-=DA2NE8in4X#VkLh'',
   ''08^mPu^8WHQAul5u0_bV={VlZh9k_F(lSnltdg+$O1?DvAO-Iul5hDa{LEP2gl3M+J6x_UxIzzEPAR#'',
   ''uLQN){p}DYy*}ky_CO?JkPA=4d3}UGxiCnXXK>W7pL(TwiIYX6Gds48C5cjc*UwU4e3NOS+;5gyp4eD'',
   ''DuJ)r3v_3zI{1{dPX}jtVFDAx-tj`()CU&Mw!Fz1g!r-$J2ty)?Qe#nky;Cb7dys1V%DDoRElsqwi1!'',
   ''D(-WqAF<?kp!qm#updqXQF{jQnVyI@_h_!q$0Rj>0IMcPnvY56(E6a72_&J9eWkd|;6fo=y4T4d=e<K'',
   ''QYj4nzUG<0ez4PBa%u;4(cNzC2E26rS5UXwjqdG<+S28yX+4rQf1sZ=Q4GE8DU@dtD}ek*`Ld8$+L!~'',
   '';}X<wowyGdXu{0xf*eH&aMX7V!z+N%gKiMAVmc!R{MqOB5u_gT?~aiJ&lQp_Z>Gae8v@C1!9fN;}Ib8'',
   ''{aR-6UG%=_eaIwI;D}l-YE^=OFkp6*8pB(1+A7}p?@B4049W|tm8(qn|TLTG#Bwp8#?%>H*ylHV5Pcz'',
   ''dch2BBOo*tpa-me9Lh|2S@YE`--w_htNm(=_TdbQ5eGe>azQdf7D+|YFoepg+3}({*aDy>wZ`Rv?G<Q'',
   ''`umbwrUb6;#4iDf3C*E!ac|)`O0!>xIs5@SQE-G?#8qEa43gHl!B^l`rz!uTQ%uARIpr~Ad20I8hxs('',
   ''8I4sDU-7?se+cjSo^1u_aXGKS$x+xlotLgwJiK@p5gOhP6h&z5(x+T(P%#(NVwD6ACsR$yCtAds1syC'',
   ''db$hFuUNR06}<7}fsK!A5@W=*SFnusionQ7w64GAS&dzI*knr$a|E?&&3oDetZ`J*FTfT35Lv^A2bqk'',
   ''*ef3ai-9gv=8iD&<&+oCnyO4oDq;mRd#`Qt}#0FJ>^Z3#bwFGmZP!th7cA;3c_|R+V-#7JRI5h0E)CO'',
   ''xCWM83RR%d3d?OW{>tz8I4o?pvaVsG;z7gO2g<YpD<$K!KCH%2kl}Ade@W}HiK4j0oFgGXo1J>QtMYx'',
   ''(tF-1R$T1i3%cA0@41;~S1~_bpV5}@N@3IU=CKMlYb`Z8}?*nouAyLX0!F8)V&%f@KZd0`fl5H5cA)o'',
   ''>jL~I&tD+udQD8~6R>olGVfZDK#U>AS6n$gMzix_o^1{NH+Xv6Mnz;NkS7qHq01QZfVo>M5JWD<2)Or'',
   ''&y9F^SZenzWzHj2yMC_C*fEKx^4@@OjBPV;Mu&VB+QYPvaBF%@Bn&HHK(_B}su))sT{4p?VS%rl2sSW'',
   ''pXub9UE4-Azb)9arWvU@kf4jXs>k^=HFTFwy3S+><%72x)QL$FmT)VB)F9osB$c1EGjn>YvU{?5B-l_'',
   ''(omE1&J-hyqHZVrij{{1LD_}uf|6D>harKH(0(Bwn&25Iw<qy&L53x@Hj5S<9W)twGidFnJn6t~>qsa'',
   ''l&2rp{jkaM93X5=ZPt*Whwxh4H`s7JxFyBZ|DsJN$7>GU^xFay`aD!3_-W5f4FY;vF3oRNkS+hS}W95'',
   ''amL8+3BY0nH|^T<*_l)33?6mk77G#N;Boy^y!jp8a7W?4YK;=(PSAjWa4?;_qSSsjVeBUm6#g&{*m6q'',
   ''vZsjpS-4pp@rHw7v`#!F@qsc%&A1oP6CPlM|Jo-2*V#xsNV&l~*8a?kE@0TUaU-f@lVl)2V_4X<gOH)'',
   ''ucyukOG>FBksKpluScs3@;eng5I;x@@z1kASj4fwtH8p5A9*;Rv$DJ4Ro9ef3U8|!bRdSy5Z7xL=v=6'',
   '')7|Ec>Dc)HqHk6ATY-b}C>Wfu<2<<BK(;gN?SAB7f(Us+yvL<KK3x+LB*w$%|H`_9pyS&!khFI$x;*_'',
   ''RYr@tlUelh1SZT|(r%`X))iQcM-oTvhd}<o#n%bu^aJ73_1wgKA_MH8Z!Bt`@TY(pV|9(EOyb`J$Yrt'',
   ''qAoHN3*u&@P$i+Ig%?W2ZRVGq?F7K6wD^^t}B9UQ;qilA|zA>v~aIi7Suoq-TIT0AH7@FX4#S-pyB2A'',
   ''6GZG$3kj=e>wcgf@S`adBz}B3X&Q1;59j>jVG{fWy4ws@Wp6BoWFooazyb6>aGaVl0w{zN29;pD(a?L'',
   ''Z<+r+)t%ILkJv06$?bXPRB~A`IEE;9oiYx&EW*}YI)~!5iULZf&`r+u^S|Q-89ueQSoAFH>nF+&D)sE'',
   ''oFS#TSnfB;m^{bU9L$~1*mn*58=E;zqX@Oz!Y9l=B=^2*Zl5Oi1g1P^g<yBhPgjiYt~>>aD;idzAU0j'',
   ''Z2YdQYf~O(au^J&4Zcv`Yjb~zLS*0&gft&XxEL)8{&yx`DpmmOCZUp5hYv;(ZnE$wVG7Ns=&`(Kplik'',
   ''<d^sY_EAje1P7o@8W_6DC)3Jlhh>~AE#rJMB1m0w>TEerj`UqW!)#yz52T;_FbuXbK3&!Jq~-2-EiDS'',
   ''JMdUo9pK+azsa$lXrlxHoQ~MI+)93W?@?{#fG1=>GrEA%2ImpW?h;4S#C=ex!CEsoNbZW(JNy?rdNkM'',
   ''vI?ch!*#?5_1gS*(sgU`xYStaAwv=g`;0bBR^I9eL}Wws&Asq%xxi;W)ap=W!@u8KU%?scuQq&5o|QP'',
   ''X-|aCkc2V}$AAoL+2n@E$+lDWLYvP_1l`-{ssRZDA~xI7I2ep-22UJRv%26ekmKs<N5(b`lZ8LsGCZx'',
   ''1+_AzhzuF<~NcNDb2e`@6!C7{Iyg9Q>25bAHeR^gNr^AEknAja*_fNdtd6nDD^j{=I0{m&!+C4{97R_'',
   ''?jFO$*xxn(rj8$*RaES5b4d<SLsvpaw<vk?JH17}44-fw^h-0`qMX&KnRrf+QeyWk#&4j#L6s2aU5e3'',
   ''J2h%mM+Yv!U-3B3JrBPp;wYZ%mapih*&f-EZ3152H13l#6aU;R+)>GDgJwB%^#T`I5Fe%=vZ{-+%?#c'',
   ''dX}AA57t>y;b3Gq#4+NMbk)%&$+XFzuO%$A2jqWSNboy{e*L;kA^Z!meG+$ki!`$owcVFPt0V5yyl45'',
   ''9uWAGZ2Ns2?HAa?*}>0veotmQZl`X4r}_edw<ur%TpmpDZ>#E7(PwFjx!z$uwP}x8?N@VzHXTjS0ez&'',
   ''>IUDAhBg)!y)t20UIB;fk`pBI13qs`U&g;}2Ty@Vr?0)gMTVT>QvFNKi9)8x)iPtDn;|Tm8P)h>@6aW'',
   ''AK2mtey7Dtv^Z6!Pr003t<0015U003}la4%nWWo~3|axY|Qb98KJVlQ)Ja%pgMb1rastvhRT+c=Wn^('',
   ''zqjTqGwFoyYFfoNJUhPsXm&mM3w=&TRIQ91Ef#3o%7<0noOl_Q!8G0FnS7vS)9YR3Z_LMx)=|fDXy*y'',
   ''BSG~70+)@NTt@ZAMnlOaB@iA7UfRxn~fsj+lah+@$&Ty{`o8UjpuYnuIM*j#sGG~Q<h7%BB~&2!^q`M'',
   ''ZHk;+6>D`*1taH0m9MDc@D4sOK`5-3E5VnQD&X6VU~J2Bg}AO5BNvOeXYa1gV)dX1%~#~@`*+tL7C(Q'',
   ''ye*fVLUjp1@Es8DS1>xJW5Q_Y~Q%o-2PwdyMxVeG-)L#o(e-f<zB$cRA)qLB@iNP7C#kQo1v;#ovn%_'',
   ''*xiYb<=gyn`=Q}VyOJm(p+^8}McB~m8qscVj#wWF2dSv?TqtoJ1o6t+JlHw=(I;0WMWVmC$Z+%fnHbZ'',
   ''n**(tpepmR5=`Gd3kWPwrTL7fmL(bKvm2W<d;~7y4b8Bstx(Bmt=8m$UQJj~Ca;ucz-8=Vw>fFd+zn$'',
   ''&WuhY%>CDOAyxl;AQ;cfYke)AAGz%pZ#zEoCBfItjO8?V8`UaPj4naQYqPXne7P7&*l7}68VWtH*8Dg'',
   ''Y|B$oNKl3uu=a$?ZG89gfNW{b*G#J4+{NBZNP}vz0&Z}%^T@$J2NP0?0vIg|aVpXcN3m1_sQL86_b`a'',
   ''NoF5!X_^5Uze7xuR>sJTIZzh2K*=$A(=Jif1D=o{6r$##^a8%%ug8j4NLMx?=$!vynfxbw!$k)Xa_xM'',
   ''`xrbdaM5i9JNtu6(>0~NSo(tCZTB?^RGusfEK4F8=UP`SwOid!ZQNX1W6-1q!oO*6@GOXSDn5wyqd(#'',
   ''H+;Agtq>#cx37F&F|bLr{uC0-H&1318P1%q2-_mVsr%7i89&3klZ6b4KpD+Q2&i0o?`NM-ffV7ay*!l'',
   ''Z(Z>v*g1W=#*gEoPels8T{Yjv-rDGW4{0C^NZPk$6vn-Ka(%&Yy4gG(|-lg<m&B*#pQK!efI0+#p(5#'',
   ''QOd&+2L)u-8cpT^nIu~Zc8~-o+G1M!oubw2cPj>S&`z^E7H*4Gg|@S<@-#YWtSm{)%p|c8Q8NVJfh52'',
   ''fn-Tfh{QtFqD5+2qU=U|4L9tXA#6gPz)~+%I0AQ6=DS=B&&8)aA%J4<h!mhzJmSEXt_{4JqJv`<GpmN'',
   ''s&qsT3&**`d!77y-&ikrL7FTNT{$!ZyjAe_k*6heK8%iaCIzQo{WP&iW%#nhb>O<GD}w}7JIY;aVwPU'',
   ''5_yP_tONd`K;m!iXG_ci>83qlyVoB+z3*C3&G?*+a@oMb7kpXrVB|P6*5?a&R`XDp6FR7`4W}nUh!X_'',
   ''ud|*0xvA$doTqg?MQz4k_Y7Ih_DVlFDLaB_5gwtX*5BfIGLmw7!0}6Z26UfC5FZF8~7ZnH3tU=`u|g6'',
   ''03iyd5I70QFBOa`Mhr(K(V@UZiRK+bfsLUbH|v)y<!kGaWbCbA<|K-3%M9_(NylO)mTPrn00_-oU>K^'',
   ''C+^{9hZ=_=l3C}s|x@6gUYH3SW9Kw<UK|`3)pXq9qWEAAJ0be}778M%^ODnNUM3v9a(Kmrzfz=n~9M^'',
   ''Zu3)hL;Wze3QFFsJaJ^-~}d?1f7fb+ilpum6>8KTMahtjNAE_KxO2M@_Y8BN=Q*d+i%nuGF{OrbYmWX'',
   ''Vy4Ik|j)wfGcwb_oP)pg9Q(8KbMxj;bsqe+VL!y!ZYay`uppJVOzG{{v`}E`FbwJ1RKMwQ~Zx!Vs-F_'',
   ''!R#mh&q6YksI2l`2b|P`ATTT963saqM;esZw^}NBqmm?+)Sm=b}Su@06%VDVy+SfHx&okv>+m#{<%EL'',
   ''Rp5KVRSue#1GNB!>5}!j?UIoPu0hv1Bx_(nDfj~ukB}KQG6ntw&z9;nz7;$V&B{H0+fFbHg6*M8L4yS'',
   ''i+=4qocaG6BG!l=rKPv^j+0qk|qw|1_r$MV3%w+<$n`J$QMm{%cM^Qh&fIAgi4A(#g25{?Lz{ffpgBV'',
   ''V&Z}Db_n59EZ#o@zeI_yV#m-FIF{pduYC|T|b1s(ai>;pTDT$dmvx(Z)KTJnd_f{tKxXb9h5oe6<y^y'',
   ''0n#5cQFooH&MBB!^HD2IrJ#rdmO=$Pq@VF@<pmGQPnV%$h$W-?ZZFQ~M50s1n-L8nKRo;&Vv;UWi*Nu'',
   ''!_=d{BKQmmKTcTjIB(DcER)N0ksVRgp7N5Y(|7iH|Y<q^+23Ke2A|!3N*({0W1<~7Y5b}10xN+RIpcm'',
   ''jv;t*%V4Q?EY6C12&hra@>OjWdV8371cTi82tN2;K;8}>8-QGvz~8?^)m7ZfF(HmnWk-YKN{Ztp&yS&'',
   ''+Ld76QJ%esMo{grpw41UJ{I5z(Ix}CQpSA9-8wy$e&#KT-90RKB54Co*>z<5zqz<GH*x=WiYq<v*N(I'',
   ''hTXYThr%g7SGKy=F?4S`y{Shw_{q)@|}8aM`pHEuFlRy<pU(H_$L8a0f3ytZQ9i@|fZEfI(q--m(Cp@'',
   ''L|zNNyhM+Ko7UJmzBp(J>6pKApMIkO9x0N?dRG@l}3ay!&PGVSwa@N<(Kjj^eko4_Ax#?;hLsUNX#PB'',
   ''UkIJnm(p&<I#R7&QCnO{{IBR5o(4#@Q^#lLPKn6#=#a+Dvjglx{E;>=P(avjG$eZ*jh<&NGra|17+jv'',
   ''4)PZ-`{9r_(jA&y&ajZDVh3T!K?P|)AVI<$LXZY&;;1Ysc9=pmOUQDI?bh>po;+*&#~dnvKis8dkCX%'',
   ''Kopd~(vsv&Tj2!;;<q268xYY_dDYg599ZH@<mVM7irgx%x8`LcZwV}%7BgThfEL$<aph>7CR&=`3kB0'',
   ''^0#1FG@7-;ao6${Uen2R-8h$1%?BDm)aBp~V9FoxwC<yt^&lXXGqaxrw3R>!_H<AGu7?9<7)o)~C9iM'',
   ''4v``#lCX;8m85Pw6;AXM{YTlVw2K1>2<EauCNMM<UN%PCfT=00`8+4vTEnTvCC$Yb+A;B22uRoY2Zcc'',
   ''mF`?6wh2HD|GZaL$ocLhldBS+~StAm|Qy|-cXGi!_CH3D5s|clA^lom}=$dV+4Wb$hM`604sY1@oULI'',
   ''M6l>p;i*=;ZmVHfh&vec)>>8TrLh)OtPu?8n$1N&<{Za=(NH=W?R0G@x}M)?R+-U$*a%#Pg-0T)lRTe'',
   ''vV;ee}8Q1}DWMzl_Ic*_2-=!q2qyhwWwn9QQU+PTnGd-IAQGPn>Hw&qvh<)#52cCgRnf>_O8Z0I{lBk'',
   ''h%Yqlqe<7py!qF93AiCS7i>_99g%p0_A0vYv6N(<6WKkH`DgKAPx;F;q?>gl=}(P<qWL8MBR?bFTm%('',
   ''xT`qUobah5KL+&(4<B8fM#oUw8MhE!aJ4X!n8Js3F^;3Cj#;7fbZvZ7jyG2octhgWGM^KhpCZ*6BW=W'',
   ''u9FV(a0%jBw=~A#4{z+$FdN>YKJheoTk@Qrz3tpYM^`3%tnVNS!s4=zl;Vmn~1wBc080rGSXso^?9?*'',
   ''a}Q)slB=sTWg1DlfeNp?W37wz%P>&g{z-3vCm`uIVWfh91i`mH<_rB{of+A~xX{2(2_nHR!|&_<^1rW'',
   ''5I~ZWY=G-8L?fSC!SNWZn$%-n9H0w1mr@lka(IKZJi)OFS2gOpOZM*4^{ArDW+(7G{Pk&J<qfedk$Zw'',
   ''e%rH;Ci9akWHAUR^)P8xa_yJWvHg1X}6@yNr0n%$>6?~S)(!I9L3KiI8(*#jPo3!3jv`_jlafl3}yZ2'',
   ''hj@#Xb?^(>-z+Uh9z9CK9fL{@hFS$xLVZ`s9461qqDrH)QY`?@j3)_();vCX|kZo6ZwpY==;pF>w0~m'',
   ''*Q#A-!VR`wIhIf#y%<FgEgbo752cTlA%E}q5=2-ykJ|X>uS)3pYOoG(G0smdiQJK0|6}^URk5jQJ|4('']"

definition DATA_17 :: "string list" where
  "DATA_17 = [
   ''gYOVrr5K<3=V%E&R&*=2tUz$5C?cIY>&~((IFmm=L1e+xgf(gb4QpHu4?;do%ke4kNQ)p_rNVZRQD)T'',
   ''e8{jkS6Vs+AxO}55ZYb2@5yP70xzhrSO&y~i^(CmTwqMdn4(E+5@9Jvp)fzI~qoCn+yT*ET%gYjFt5M'',
   ''<y)FIPQ9(9`dU}K%<RbNB@9PO-Ii1i876a1z0x^;S1_}MP^wR472Cqyy!VDnWQAKEMn&&&KI%U*49vZ'',
   '';}_s9UjOQQO+hSdR*#9tK+P6sbK<7731nL_UA*#X}tFGsof!Yy&s|yVNlj-}jmA(~B^pX<S>Yw^>i!M'',
   ''Yh0R`?%#%(@twpnR>#*<P-#^6c{DMT8~NGJ^yZyXbIV)LN5yqbQ{S#Q5;G{t$M6hp>G3-;nN>Q5i~7P'',
   ''tNS|{+dDyc521rS{>OiSe>S?n$?LC!T~d?VkDXg~yK5*YNT=^xT^{N#TPUZuqh;$?EG_Z9iltYpI0lI'',
   ''~5`2T~&2gxvt8bMq-a3cnwbJ!dPxt14dwtCk?C|iZ32d+6>tU*oC)(3}&z0A%EoXSbRByL-RzCCnSdJ'',
   '')=Vd&A1Bnhi>rivM4=`3nW1m6*u+OutTAClATp6;YMVKi5#u&uSMR2?`m!>I&b7tHbM#7tDVxl=Hkd9'',
   ''4(x2w<9$dlo?W1@;h{rj@`Ve$CiwNzIk5d)*u}ojbq5X6W71-dbzt$?}FrfmrstTlRdlS1mUDwig3Nn'',
   ''k>B)(e3Xuhvqy@*Ge#<bN@12>+|9MsWiqtb{oFvMlAt;Rks=Eq@5b}Vgl}`1%CWA`AD9ilHega)BxL3'',
   ''?MxOBN}C;k&ODa-Y5tibn(Y>pSYPG{qbV6wHqFzH!r`-}D&3&by0`FR{WffO)ZBeo24BP%y!xQK!cmV'',
   ''Adg4HItbK!bYFR&iG}I{K8&Onc_)_0^!Fb*^V1u!zSObN-&d+48;C8KDJ35^#buGS&|B)2w&rgqPh`z'',
   ''F0o#Oer2!q=5pffY9v3_Xw#-x^ZW1~vdaixPA?(J^Wa`z=Hg9qM&x#+UFTZ6uCpKWRG3`EOu&h=*XC%'',
   ''LzSnqV@To)5&_&-qs;)*9b|#@UUwoo(;cUp@3crM+I!#Az!D9Sui1xgDWdO!gZps<MZsU3^obyH(xGc'',
   ''pZGeEDhG&UK+iAbx6+I8n@|k*(0>r0lR1$qQV|vY?LbH$?@@$t7VnmG8Gr%=J*bOR}f45UBR*B+cImr'',
   ''RmYu+H(tZg?CzH5tAU#~`ksHB(kzwycgTe=%@vj(PBd-b|78X=^aQ2v^}&X}|4ZlA(Vzm>(63+l&~1_'',
   ''0wzWbebE>EK8dD#wzHUxdH&m=Jf5*T=m$Jwzg@?iEExlpHq^gilbdaptD_{6?hm0zI$Le2ZK;9rA>93'',
   ''J^Q&&*JW_+2{3(TAA)v;)<GEd3N2$Jqj?qe?_n;$%c9Yj%#?@b{P``u?VyLV0bkX%;FjHl%EazWMwHi'',
   ''eukt5{mrDXe=}cC?^$Z>iz+-R593ZguLUq=IgJgeT_s(qH3#!y(4vsTx-s{ZkgO7LM2Hyo2N6N7q|EM'',
   ''iPQ(wk}o1K<Fc=>N~?asM5w24WL`@9z$j0jaj$8pPUtjz$orAsjk7vsXjx3&v=cYXiFpg;~o$jBDF-^'',
   ''upF<C!mxwRh#v7|pfdXO7cyK&)78clqV)-{a*hyPsWy%nl<;$_oQB==-Vba-PXe7g6F3FLi#pUP8@03'',
   ''a>L_0|+Cpkiq&HaH_Q-f+q*wIUHzR9M-zbtTSP(C>LF*Xrx44YFHkwn5!^fZ#60KX_eReQ|?R2jpNms'',
   ''-}_uKzdZJ7QMZO|9sJ=4QBflud1A_vhO6FGabi0)_5@$^q_TS@&JP)h>@6aWAK2mtey7DwX#G~lPI00'',
   ''0170RS5S003}la4%nWWo~3|axY|Qb98KJVlQ+vGA?C!W$e9wU=-E0I6nI$$t2li7DzDs4j3#F)aU{wT'',
   ''>=}(hA0FVVs=R}0iPJRE43JA09yiyvuiUM)*r3DSKrfCiuR#x-@_jWR>55sv!GV_VKEBTXj8q*L=6&?'',
   ''1w!U~&Yjs!g3|il_w)Jw^+hvt=iYOFoqO)N=iGbF-O3+6#F!X{F~gs#GR$5^`{!W(`9A`G*^~a1&Agc'',
   ''Y=gE5wOa46h7VnSN=dWw{$(;?i{W$;j+wQ*mCw%_D+>zfP+@1fUyYtI#uFC)MPuARVZB|xBfnJ71{y4'',
   ''AV^n;5Ne<z>1V)2deuG(0z*iGLf7B8ajsf*{pyYv_17gti)2Nqjt{A3+ISAUPB@8v(b-HYWV+UjyL%o'',
   ''0Ni^UDuMR43v(7^5N6kijs2f{$NoaYv@Y!-@eN3m7&sObTP5>4`V<q=6#slkEn;pQD)qB5d-Ve9?cqz'',
   ''G9fU7$`C@Pr1GYnGYG5cUgvMI?6EP{}Ix^xMXagoesn0!LQ}-*u=xzw^wfv_SHNbCZAzeU)!+eHvTq9'',
   ''ny&YK2K?<G4hQu*uGPSpgV$n=K`Zn0H{e3oHmq;B9m2G)&}U{jyw872c@1~0{Rse0$<}Z{%Ufc&6mG%'',
   ''gd-(tV`+xJVTJCD@G6O+u_Zv$Y+v}3EUu<L<!5MT~U8-OS2Kq0ks#gUb;YGS}kzc^biwASG1eZ7ew1X'',
   ''jUr9)iE;UdpxW1_`pP;;3h4o0r*xBZ#ik;X8GBT$oE$$D&Ru)N>J?N141molzpWN{|V5eV_)UdAXn-O'',
   ''dU|IUcMq$WFE}94ss9SKg7Mt7@?Xv1^9M>wqeQ&VHNfT|ExUkQ)1?#%}T!)M7hqk8+QMVdguSWh7r!R'',
   ''iDwL3jJhY1h6-Fr@'' @ ''{L%$w^ZB2UJx&SRhq*NzS-E+Gvs*<5g~ejU(7Q8u%+_AjB%@jKGptvM`F3yNON3'',
   ''toimRKSA#HrPKr)-#z=Z+{hM2P0sjZayOJ21Ac(B$7*(y@i40;XO9e(GEDb{n!)-KwcV!G=EjP8$Z}d'',
   ''y4^;F9v{CN1h3tLYqap7a=#wOLxyX$e?d&Ra_V`ku#u@;AOlt#HO>O`@Kx@Q<GYW;yLZPGZ?7c=?ua9'',
   ''wKRlQbP74*qNVio|z;@ifB`r5rMP`-<FU8Hykmd#V^Rw~)`vi0SsAfetqf={ckN7sL$m?UR67WD|UT6'',
   ''T8VtfE8fmb=wlD-5}K72`Ad3{W4C59?BM9Y_b=fnLF)=FUNYc&cD1m)q*J0YzdPx!pUVlmQY*_c4$o5'',
   ''1?!zhnC(MZ|*w9B<S;?<S%GvuwoWQ%cgofQdz-xHMa;WX%ChaSY5t#@Y>|^rB|uB(;ym(wTPPwtm}jn'',
   ''C{!`pLf${nt{R}L&D#oEa2gabOic~V$!j@T$mxBH!oA-QWK>q?hQyg37diiZO8*jHFioB{6Tp1E>IoM'',
   ''lt|2`zGEs9u7tQut$OdJ8ttEQNds-r^U}8W^?9md}l0RvQ1vJsCB^tbqBOOe%tl(DUvuf^Ks0)DeFvk'',
   ''p+$K!!P^r$>EO3k%E8U%B^4qC!hP=X9lFtH#uZwI0mIyGK{0(_NWyHzcmqm>KOoqpzH&)3jmKDvMnfo'',
   ''Q8Xo!^21Sq6BQOXeJPFt4-#P!$ZaGBsGv0^{KJF!g}#Nn(5oKi0>($gWI8Yak?80IXkqkCMT0TPV<r1'',
   ''pNrD<7ZF@kZX<D#@37Tr_>0OZJ~N`-V|>;By*31T%-mdY@wQZDOGGU)`(G~4v^mk0FMH|9NJ7}1Xfw1'',
   ''SIK7rFt;Za8YFxsJ1tTXu#mcylvbO&3QR*89?tt*GxV=soHK<t`|_0(-xM)qu36?H`%H;0L<1dw)txZ'',
   ''5N<na)QLFCljBlw<+KrGJ^Vp9p%I$;UE1(sW;P(`sm39+=QL>@|eE$nXio_^CiXXPa^^#>lFwhNQSDV'',
   ''Hs34>^g1L{=hGEmCeE=1nE^U(9)&#@+3Z;kwpJ-$A-bwtzoEZ)*|K7&sywI6EuQZdSB5;*tMY-yOSrY'',
   ''acdxrkMyGKGC^kB{}nE+U=HpcB>>vYoV_#XP%cp5y0m6zV0vfSGD)g1hluU;G5V_%YCT#K-=09Um;<q'',
   ''rP~e@EIMfE4`<>^wE^hQQ|hPQnE2aFp(j{)Q9-9M+8E%O!itn*R!mkSv2_CZ-Ea6x)4=v=?Q!j4>U*$'',
   ''bRs50#ZTbd>-bzJm8^4GECPDhCSv>IfLxkGJeU`(Fap;zMeFUyh2FyO(YV|#(+a+kAO%k0JfkD{&0L3'',
   ''MN-#keB;-Lt;3Om*I2tz{G6gZ8C&*vVy2(BmyX3%ncYcnzz7yJ`QX*0*nW($F=#%#46o9zh9`c$Q`B0'',
   ''IEoPg1MD^>u#wr3$t3&yjN*Z`~|K8yFr7qB|#<pO!AQe&qrB-gU`kDwxZRLCJaa~LMdj0W~c7DLb$Qh'',
   ''o*yf`zU(u)KW;15rFr3m+qQjlgw`g`8RBZkjU>aw>;m`K>Ru3;CobS)6Ym=<IfRu`xs*P1kp2J1hrQc'',
   ''NMvdN(ffT*%@`>BCL{h%FjE=OOQW;OYI?$w`(G@N|zOZ1)edA^pApKN7qS3<Vgt0ZAyW+iNUqZ3PK7Q'',
   ''Nta}clnR7lhJK`xw-AbfHHH=g%SF9hZBf{I`y2d7F$7bUtq&X)y6cOrJn$183>PE*8fXH{*I9WZOJOo'',
   ''p&=o|;bCaK9iQU>7<|5PKt42yqRIp6Eqn~kuP=YcO_Q8AwLZe{QE94bB`}t9%7_uPYk|HdrvR`6h5j?'',
   ''EruY!RQFLZ4DiQ6NVV9kt>M~t8d_$HDiV?p*(ag=Vof)f8p-YiEH6Rc*g!G<ouSsM?i!c{&?U2)3hyi'',
   ''$hGsv@aS2C}bb04IA#!Uz_T=jaRBp^{TY{yq)>$P*)R>_8v@Dp*+?0cD|-iEIyDi@YnR4)Uk%MJ-54w'',
   ''YN2<$!$9@#b*ZIJP}*8<Ee?bd<zqOX16p8(}-hOLW*zfin@sH*vnY1lCmA6C5urE=Zgo-&F7kcP&S|T'',
   ''4b%aI6(BtFfp9!UHV2wu-IC9XpG^vXmMWXm#JI|{_BP%OMH;2+A^U>nbL$|(=C@bbLUj?+nhzRONg3j'',
   ''gPa$q-gE|ZAA`^hphL9BPpS`<bO7p;KsC(mB`R&3(;d3cs*t(1yn#?fGODzo0SB;V(w&lCkTo+(>2r-'',
   ''HAoW{{&$m$~hF&T;1(p;gz1BlZihVornmcbmf=k{>Jq!L<TUh`^;x>Z#R!_ZM$(7pLIyO#HsA$coVEb'',
   ''?4V<0w53ZRAbg1b++v!K!bm0xDZB-%`NZPPX1!VCg%63O+x&HA6gLxZzE{K_mwL1}#=NEfRCXNRNCW{'',
   ''5RJ05x%UZkCbt%VEN;-6FD4^L-=ZC1Y!R!XV~6+O&u86Vmc?DQEl(w2!6~M49$Fpd{aL_UwMPVj|s=D'',
   ''5VSzhs2o}qT%fLu1Q!gf!skW$?1v}qV9=R|WGv)pa~UU3(NyFSd5KxsWd$U_46%UZ(P)(_<5F#ZK;_4'',
   ''ZjX4aT1Jn2l@>ed&%9=PNV!GDLLSCR3q`yO|?O0!5u`_4GWbuN^TdI7Z9o%rOrg-%7;X#0nySe{v%;_'',
   ''t)Sb!~qRv~}HvvPSJ$nQ#8)Y*gDDKKjP2T+j?#FxqCK#zP0*YXuIvJ3Y122fw@js4uuUx5gZIvZslAx'',
   ''`FB!!TEGF&pL?8smi@0S~;ov0rZNjs*b9Ufa`ftJv7X@RME!UbfYC%>Mp{bUEAyia=ONlOq_26dq7A_'',
   ''hPcWeWOv1*q!|wR|3O{!zu#mdX0;O3KPoI&v34+F*xIe?N>Ydl>#?;vj9LacDdNt&+t>^%DC!`w-}&%'',
   ''i&fx8&Yr+YE^w8K%0*7>Rn(6fL3+e7!Qo+v;Tl>vxhETOJq21Fdk~?PTJq&+A<XVR!5Z^xF;=AuR-bN'',
   ''Mef~Wgg%e5WEEcT%b;UvsKfPGU6Rx49b5Ob)3x8^cR(MW!av=9);Xsn#WYc9KkIX}{SVCOp4WpL#sLG'',
   ''NvWJO8QRuqM1`)Pl2>L;^-=nENtNLP)V+6Xk&`Xw~=ORVvvRErB`BWu5aOJ4+v*qW7W)D#E;xx`+ltg'',
   ''^V)LSgt*QX}gjkE0+8#M!&Z;t+n~A>S+1Q9e$L5AdVqBjNKY@*(l#N#T!EO_oQIyD2FzGv-pJx3plZa'',
   ''5aLCLC_qTa-)t(;f_?3Ij8~drGSotCO(IJZb`Q2Aqa|<ooaDyr*Nf*{G|{V9@O4J=C*jqp&7VrcY55!'',
   ''Ls2~b(q(skmcHyRyO2cGvc0$$SYPa91z1iG!+K!QKG$2hJx*56TANzRaC^+9$^=~Ve1@Qtb)nL~LR&6'',
   ''PlTjPMze>xM;lqh}Y^j0?3|z^60gyU<unT|A)R1}y)B=)C_tn@180vWODl=%xtIR$_m7Dx*4kZx~*zF'',
   ''N++XZaC2bdcRnFO|QkvTRMMX5CTW>#)5d|#^V={;cL=gKD#={XeH;-{0spQiSf-C%Bl(Ku>9vfe6pH~'',
   ''k<(Ff3ePKhf|t<iWWijFTfV)H40YHhoF%%S^O0_H%f^*cv$hi?nug;F!QpuI`CFji0q~S%?>gO$WjkQ'',
   ''lO^b_$RPV5Se5Xt+fbhy%%(22ARQsQ7zH}Q&`BC7qP(LOox>8ra2jcNp-RgSSil-EwbR&oZ`S7l!M&+'',
   ''eSLc0n*!)k=Fl}6MrET_zS+_nW_h+RjGHvPNnVskE5=&QJQfLS5HJGS*<*6{*R2BP2t;3mM1MYmQnHf'',
   '';N`|4!B@bsL2WDml9T;UA(#L*~N^4Ng!H?;<pni)GcP2xpCeyiLE3RB_*(nNETB24smV2kz@uk>kHAv'',
   ''+aA=^#<0yEhFi`^Yorp8TdC_<H6YW$&lS+S!ZV3g524gAQRET8=hc2h`;mggY~v`OtId%j1x;PTnH69'',
   ''kBY`NTaM4wkBQbdI~QyP21E_qXZE?mE-8X3ducE369{;(&oq5eJOI2ekivdjH)z<C&yOo!`WQlCERnV'',
   ''&5<<c*J*95D0U~HG`ENVHqYfs+9GXTSR`2o6Ln+w;U%S7;HD`ybAZ+x@S|NnGXCrsxne8ACEexi#WfA'',
   ''Ce)7yE>mw|P^6<BU56c=lCJRu6zN&2{n75ez$R;Uvs!nvplS!7MT>yOUyF@*lXrR(-6eC?;e(C*Re2Y'',
   ''Rb(8Uf9TZEtKvgw@;B_P2&|=9ixP;{TTMLSV(6}7$L)f?gi;F_>tS3P@6EfXyp8<rd)xbRVR{jt<O$z'',
   ''S%@+q)tD6_ZEg>ds;jKN)e;q=RylpD3=L5y%p+{?o|d&6<t;o@C{L6t5nRd$j!nJ8|9EI*#qV*AOW`F'',
   ''ezvETIu+?7$j@ev&Z)6Ygbw<H+N%*wm=Gw?a#HJdT3nY=GI(3H>7X{6L3d$p(ZXr@ya9q?0=^!e=0Jv'',
   ''6~>ErU4OR)b<%5itZ?ahfAGRfO7h*e0Y+jU+I+7Q7m){sV?#XFkxbVEXuXAvrA^>bgA-`YZ;k48}SyA'',
   ''?;x`C6o8A3oeaW<5WWMKC2dG#X9wAk2IEFfK`&#E;ufJww>qYQn71R&0VB%l!DntaJ|}eHa~8p8Nhdt'',
   ''(x8+)`_{uWV*MtrlnR1H0rnb}9HSfaf@dr~_0Fj-{j(!f`<{b=t!wRs&g7H-AjiyvUngRaXj)^<^0fW'',
   ''($Zg{4fnNT#PC%cp$q|i+mDbNmCwztqAs>W*WIvfB86ah$mdOji-RGhWAGxhjU2L!#ikywHN!21EF8D'',
   ''YFwwzdliLh%}SC08En_W0OR#&)a<W+AR1Qgx419ha)R6%%e$i1YG!+)fbVxA8?{yn(+`jBn(xAor&vC'',
   ''(G3-$TwoQ0lRs{060~$Y$wIaeuI+!O1c4OTE9`-0<s-0_0-!BaQ+hz9lUqzpYZ%5aG3Lthi`6ANQ_r;'',
   ''5B?G*@~tAt=ls3M3rQxwyn<gSl05zzk!0|bLDc2~+YQLx<6Ph^21h!M7!%*L#v<^}{3!M+E=Lgu7x*K'',
   ''Mcf@'' @ ''{A!MYJF_83hxa)E~^PwE%{HULaieAAd2h5pA-c@`VvjKC+$%~$Rg$u0a3MUu@sD*zABs9cexa)B'',
   ''`b&=+AsfNW>x2g)K8R0VtU9sTNSFx1W-%&%NeW2dH9_a|Z|>3K#pzlq9`!tJH<b33T$hZSRHdveQ+3!'',
   ''I|jW;et6pTzxx{8iex6wl-1K9k$~6bw2kU8JvmTmbiM#kSNzAQ-_CK}cpv@%{mFxXHS5J&TYjwq-ywV'',
   ''A)VgeXMscO<p!M*^0?VMw#ME^S(usZ%8JO6Wg*e*}x2;7n_QejU>03l0;%g!Wi#uGSD?C=)`?b)<rtY'',
   ''=$5g*Igt<YwVKj_XB{ARS6Jjqi?qos&5<^-(x&lJg_Y_qKC5>Za>|t^lu7CK4bb@vy6sTgj{<dvovPY'',
   ''g@C}?usOAREyNdJpl`<ncaJ8*?2GK5*2FovsaqGsB!E(?ur;Vf=0-XPmL@ssaE;pHS2KU(Lw`|_k>wv'',
   ''Y$;&PLFX>_^rupEa5D7X9Okjco{<SeSfo1X*Ocd7SDPA>|wY8oj|<v<!IjDiZt<6l5Qn%+NtmohF1h+'',
   ''49ib?z>xL0V<8U*JbK-$~VJko=@otTahlHD0{gswS47Or+>2xgVxtM5bt&J0iJb1ai)f9N@9K@~APuA'',
   ''$z@YEv&+z1g2GyC3Y0gpGJPg_?86e2A~gC+dPoEf|QMEoGBP6x~TDM%AKS@2ktNiPvP^?c6>hZE<Sf3'',
   ''!RNlWa9?!WqjCBQcG1@phv+MCkiMP{(bpeeh1cT`2D&dI12+dN%~B9|Q=_y#WS&xhVA_rSQm_*PKq*0'',
   ''Nmt1Lu7}}PuB){}Aa$IAQLE3DW#wLM$tpSi&^iF$zfWueWzsmOKmE=uDRgp)+`n&%MV4iNDk-Sb%#y~'',
   ''3@%1G;U1!`6f-E7*dovWB?)s9QGvHynVyk!fy@E?h48dh>-Y=`aUKR*Ox!H+5x&t21SCRp*gcy7eTY+'',
   ''u$27%=mnA2H&{rIg{xU3QKA(74c*VKKzkMo4rPUA<HH#!aP61mYs(#Y9xU7G==|E%FJjh?VRzi6!^pN'',
   ''-uYlSK%!c)#<w=ga5p%uW>MI)LD24B$pLfrL_gtAp8|}RJlErY_50q+g^7`cMy=kfsg7$C^_RnXZM;N'',
   ''m@gt%cCV4LFj%t+Ca?VW+GUA)^z|o?ZePgjS=%fu(<7(0IaNkyl);}_QR&N)mzquQ*er9%%+t{Rr53r'',
   ''I)xHbx+sXDi%=H>GhVc(p6RE0SUJ0uikt(~y3j_SB;ElinR?186&k2^@Z<U<gGN>Q%z+uoQ-y>KRRB8'',
   ''x>HaWH~lAUq69cmTcZfaB+zCcbL-h}63S`*x~2|pm)@!Q#>^)7;2A$0Q>u-sgH`}!Yufbv@MtBJVpmh'',
   ''Z(kxqSihJlq-K<Z4)=m#euLFCGM4#{x0r5d+;hD_&vYM|w4+9G4G~f7PPp$~dydOIkJVl2&EXR&~o2E'',
   ''Oc-><iv9{wYbW{`EQ1RUhJEs6p~_NkTUV~>Xrg440VpYq#&<)xog=nZ_{;28b};7mKCsTq^UYp6v-=C'',
   ''fSzF+Bd@cF0|UGr%9tshAK=aQuQps8oVg)*>kC#n6Iv|(%*+UHc@5Z$g)F&YA;Y|kV~ihV@S*Hl^B{`'',
   ''PxW5I+j6kvGzEX24#Oy^l-Ujut&>`C)at%>|dc1k+I*Yo_s;<i+^E8d4mcl?cB;#J(#fwx!F|2&Gde3'',
   ''<Eo;>xQX(U$%JYZ(3-JUA>G#=;Jj@f!`s(N%KstNLG`HUO}-ud7H6l@^%Fr=&Mr??yK_V}3P-m8l66n'',
   '');W7zSF3r?G1b*yYRcn33!r(936m?RarnM*+=`2e*e|ad|Yn19zq6aB>e5h;W>*!**;%-x<5pvYsP_C'',
   ''?)DU&b1Nlzbj#SoB`d)P;Lu}105Sjxqa-=y=|E2H;5&;t<CV`-Q?O7ZD0GC>;$!lPfZl1WWn5k%2J~S'',
   ''j7aR+db_CDxJ~0*x!zMpDQj!dzEgm4sYhxPn?x)*gj@q7wPQ~Z`Cq_u#RvqBW@t-|n+#ls+Z1l{h#3{'',
   ''Nt)TC^$$^C!{v&<<wiKUoDIM#&K_w6x$stpgv!R_v^{CipwhNYqu0&hKl85L-8so(`89Sf$l+U2;!Kf'',
   ''PY6bKaF)zAlT1xiNSvAKwiTihP+6}LgmS^(JVfVBN(@TigF_O|t$oCd`h)gxlmY#(SiBbGdZ^{lGn$9'',
   ''XYCcFogjviKOfO_7VSI6A(3?-7(m-Z>9!nI->;C_v577IGA)EP)~7{J34RqXL4hPU~-R172*jFkAqoI'',
   ''dxVGuJ5yO(NIsw?NaTLz)9Y#&hn%1aRMcacct1>Qe(ULr5VEZ3k{3O_G>}(P2)d@k9q3%F&lXRqNFtS'',
   ''xK<uUC5kAnJtd?RJKOneET{H}<ZP#<%C$$7-$$LDYXAq$jh*Y@wSEMsxH6+7!r5t7K8-p%cnZ+5NeAc'',
   ''{1n8gun%t33Wo9cQTpgvo#`y~9c#TD!5vXP#N(qq8qmK9t#zx4;Ko;7t`WS5+^}qG0lZ>V2C66Uy(R9'',
   ''Mc5J~&SPlzBt)jw$-5;JJ}^$ob<XbLu6c4;c;`<1NS@_Ne$ph0Ii#Q5ljFX#!E`SoodI0ogSe#7uHaN'',
   ''M476Wo24<F=DE(mpfPX}`ev*8-r=M8=fU%}fL5PtzjUa%~D`i6wY|0|{S1OPUAz;mP@D1CaONNg&Z2U'',
   ''{SBR0AC)`;7p3}XpiQ_gX{hGL6W<wen)FgseVlU$^|1`*(Z4)fdZ=B<Ohj-yd@!8Eb7DgmI?_DXw}>e'',
   '')7|785Pi_>v>@j>RQR^fbo88e8x&CZewB-G2^n12=k-J6er%T8L+)Fc5b~c^cVm|!?(SsV!(MB?f$`3'',
   ''P3?8DCYDbxMRroJ<FA6C=YVJ&WUT#0jmx}``Uup}rS{AizOJN7_czpaKo^_Pq+S@>?f&r|+6%1gStEK'',
   ''h=$tuMiD?I{4u7@<Esa16-on7+@N@sxSUzcg9=X2rX;W7>FlXSETqrHf6GIap$v@kRd_vVI(!<+Jw;;'',
   ''=dkKav6*M;RZ^`4nn!Gk6l(wZt8Cz6dPxag;0_zWh2jS&QegH6X)<1s1n!Irt7f!~mi1pgWzjczD_mt'',
   ''e-80QpAc2YJJq9G8s~Z2?CRtj5fz)_^`E9Tqn<>yRjih&~>4?4GXZJX!vuLr@pxIQ_i1FB>-X%bAA&B'',
   ''^Td!DDAW|$&rnmUxc$S;M)||y30Pg@U9b7!g)Jm+8Fbr#Wnv1Z<p*16jx>9C{q=gA#MLIIY4xNgakY)'',
   ''n+6T}43~1bSjLbokOm9P@>_;1p0hiRO*!){1Ri+`E8aTP70YxVUx9V?2;lu;O)tcTLHt?0bVOGcll>J'',
   ''IWZi(C{emY5xhT|#WPg6}ZwbM+@ETw`V*~+w(o2lv)EVm?8CeDvqy;{zS&bWDz>g=~)*!+O)q<j{Opl'',
   ''CyxNaZuJ?$oBG<|gHywsLcG;G~e^>s_H_1Q)7(?c+jX=xdiwnsHH8`2_)$pXW)o%{CP&MVcqZjRKb9P'',
   ''}0S?Niai@'' @ ''{YIPk8PFaj1Hq!H$O#vU7fjqXFN9P&=CD#wldV-N>kdb7N3mC1>^!z!WK&~5MxIgwO33$$'',
   ''Q<{MOHcSFie+m_q`w7fKyB2AJoN_mGPIyDx$xIf4jFT!C|J8>j;ne)jWkoJ2OE0Ol6wNMbuu(ILofiH'',
   ''(mKN6cSgqb}ToCu4RaJUm1aj2FCQUW>nN~@S9rhB`%^Po#`>1wXJboANOeofzi+E1s<|>S%Np*ILYR='',
   ''|q!}aGU6KXN)&Z|EfqB}2AwqLs2+z73Jg@Vi;w412X_uS<}O&^<VC!5Y01;;aZQo<L5R^gH76~+VVmK'',
   ''h#U@$a+JP4g=&v;&E#z(GEL=w43jxQKi1X?VaVzNxN)jAFeRh__CTtgIcBXFzC6cN3JJYn1EUWHSmQ$'',
   ''Wf3GCiRtDaQ}<Xag#At+{%6s>Z$2#uNfCYQ@lF5C2Z{mTsC|KxWsJ^sqqwaW&w6aY8<}PAr9T?n8Vk}'',
   ''3`M9Lx^Y_vGCkX|1yXf?0+(`yr8g|{*A-W@!Uz|+N!5`)5s<EoDQ;wioZhez$KyIZNid~5K@#aFz&Dt'',
   ''3#cxw(p<{5D#78TMBnDt46$n@Z3<7VGou|mzGulY}fuYi(fgTZ1X%Q&zwHBZyaqib;X5`uvg66Ls5R&'',
   ''H5`KA_$(Y)k@v%pePu=zOf<W+SMv48@iaC=5ptK<nt9Pa%X2LlQ7dX%`uY~Zsz>TwU5`BxAWu42%fu6'',
   ''bZ}3UIGe6mpe}wlV1lDVSX9@xk;@>sBV03U%h|2%NAe@L9ZbaA@A^#-Uk+7DOkDC!kC&<dHQX+4v^XD'',
   ''XA?x`+E>MKoG&1w86y_d9xf<e(cL5pX1RY2%#4Qj@-~aDEKQbUj|vhXcMP+qEJY2;Yr{@xWYqjKZRTM'']"

definition DATA_18 :: "string list" where
  "DATA_18 = [
   ''7r#tog2|?2O7oO752?VUODDs+ZXALPa<!T~n1GJCgIdqTd5ka$h+U&mf%T0b&)_+SI(xW{huD>0<*}X'',
   ''grP)F?K_JQ6j<dfnuFZjNucs}cyM3b}i0dHTVQsYH*0TKqKgNDm$R$e#!M^;0f+=^=qkGBOX^(F-0WM'',
   ''Wxe9(#eCsAkD0&2^YBMHO><gQk;)I=%=go;`A$mS_(W#^_ekV{+glo61}RYhjdwGN3nMRw*W9G*pYw%'',
   ''j^T<(>$M#7Iy0bepCe2HNxL7s>Xl(%MrSsgi50RP2Mr!wR$5S}a(Ek+x9mSpW<4@@aA-GFmIyn#@d(K'',
   ''*>+w8(Obz{n#&Tm@dy*SmpN4_XDl$qmpVKZY?Y#<yh66DMAgI3n6Ka;*#?`I^ZK3U|ZQdl|kq+AUdnU'',
   ''6=bBIXDVSaPo6S95W06<TPg*zlCz&<ThRJ|{OjkmBUCxnRkyrLEJ@C3l_adRaERRGp-dDbEO@rK^FFB'',
   ''YNm?Wl5M^~RqSpa-cRKhi5=hpj{H@A%a;JeGE!CNKS~))=LSD*>9RpG}ut_Kk&oU1gAq)^e&d;EAh%k'',
   ''ff`T&{`%C~p(7V;DgJM7&;7MiU+yId3H(%i(2L1321qdlA-x95T1%JYI11}R%!npYUVQCe!YU)VCigC'',
   ''=H#UywKqS1QFr`A{p8*u8S4MLdW02ItV;AS`xFl8=VZr%*G3M~9ganDhA@pRuZH89C!(m@5we!67wGg'',
   ''<4xH*%nqA4Kv<@=lWP(O0v4*#(rQU8lDt9Ri=^zUHOxfO+M2GY#%yyJCOi)5_F_uEp(&83w@BY?OD^Z'',
   ''OBsHooYj$8$^<Ib32Ef9l?;kS<z{;d$$-Ss*!yHUOX5{nju~Qm9qWujj##nI2$dL=44H+J9cD~ytHTY'',
   ''Ce=>oeSCTWKTG1x(tHUPnc$mO>L>>gYRtI~89<R{33KJFPX){Vd^Eae}iiuNONe!Ck!~9N8Y#>F~(7E'',
   ''h}xx4`9at58ts<R_8oolI0Ee^o9%ymaHk<N81o$K{d*_MIJO!jw9C)?g|`kzhq|GH$d|00<=CSwWro&'',
   ''MIzt~?2I_~F6Hej}+ltxeooa`S0A*>9nfodS9X(5@Lk>!l@I28K@eEA?F8BV$g}={^yr`vkOs&ekTp@'',
   ''pN*+KOMVd!t3HkF8OOL+2bY%#?I6EW7#Qk{x2Dv%Us|yd>cV<rn80GcZi43@<5xYAi^A5iXu!3(3q5}'',
   ''Zpc$Nux_#@jY>y%rfT$$re2&M@q)Gm{`>Hdt=w{-unct6G~L*z$W5-*!UKE(sMM3;19Sj)a4yvV$O!m'',
   ''`iCKe_GOcEnJ|kNl=7Rg?-Y2A?>0v(T(Oal#gOH2e7;f<Za+I8{E;Vy68A_#WC5OuU9ab@9O$RmrA{y'',
   ''Xma3LEnSJQ#_4XluyT~c)?aG!DHH3F#2XUJ0|$@_r98&epj3hll(vvw-kH%uar5*!xtvm_vyNVNH|Gz'',
   ''Bejp=%yAchPz$r-7o<x}?Yq8j+AgR%n^$B{M7D=JPmLHZGNFd+f(Ke<~CLLKqjg2>mOrweYiA%Zdt&p'',
   ''(F7Y=K!}qRN*t%@M9{3Z23Un5#+z(Cj(NoRj##2wcW~3wOC;c`QkHL)4QJ~31K4ymD%!vqeQB-+QSVd'',
   ''$!SFbUk&22+zt{)H%x_z<hP$CL<{mP4YE2i?uG_wyD_+ulrM(Pa#C6LG@Q=2WY3T})7!nJ<_bB&|Fre'',
   ''Sl%{hTd;{J6S*uoBn;Hk0mQ0xoE;Q(y{B32~DH*&==319zPeouS1)kr+%A7;XfuKeWbZUk$m4aS{pkp'',
   ''a$P68CbOd8l#89pXhNtQvkTymN^GgZyqsjHEjOn6K{0*ASlAEPEyY2|*t2IJBUl|8|-RC6!W#Q8g+X;'',
   ''8C~^XK4}%V9pF$(|vkG_hvI)RccguI)yPp@>uq9IVIQ&WT4Ediv06m^+s9|2KTh&EhRBriG<|<JiMg2'',
   ''J5M?A6lOmEH$7tQ>GX;LQ<P4LlFS~%8ym272511)M!i{-fAI3Gp~jaV21#9<g{LBY6YLu)Tn0gFSnVp'',
   ''<h0gGwPi_aiZaz++YQPqCOiq_q-sWezrK;0%Ft*tz%PUb6+5lmedR!QO0Jxy_1%G;G%6{r257t-DRg$'',
   ''@06-_X0D3<n1`ok|acidk@TSy-vHPjK>fl~FtZ-u7ymb^*-jKbRdnwb=^fJoP3{P4|aWB2W?U(Q~a9G'',
   ''G9i~f%EgdUa3PfP8G1hc7KamZY6+4az+sS8_fxjqFH@XhJ1qhzk-mh7nuQ3p?aUA3^VT^ZTe{+Q3O99'',
   ''^l%L8_ryLC7tv?LJCyU9M7vZXYwmZv(A3L&D62m3mhvsx_5ect~OgEjP_YMjb^_+}Q=(i3`YdtEDF<Y'',
   ''H#@p+hKczdo*kcK|#`z(M3ud&_rgv_>YN#o^}9^_pstQAdB~L0-ej^N7PH1V#Fwhj4<-C-IQ{A#PEPU'',
   ''ynZ73ONhl8LKfZJvHCJ%58$#2MC8ZZPODL;5@XOAzbuukq*PL!ppt3zVq-jmf8Lk1qFyo~rNog^FmMh'',
   ''6Q{}X_vec_Gl<7!0X&P{VlFk4k_;zYwVAbN&wL+l%2?8361T+TbG@otmO+^CAHY(}$GNXaPpa4sY{Q|'',
   ''WS+CE=OoxKfKxYEBRIp>Xk!&AtZ50}mOkGa4PF>ps06T21HM{WPaXZ5Z?rR!e+mU;yY0K2ySO=H(ze='',
   ''?L^zl4-}auaK(yHgEgN$e91?Cm5Nxd(#EF*yQkI>DmPYIcxv8n?f!$Sigk_%_X|*l8UXa-d0^Ud+!wN'',
   ''ib7oPZjC9UElUcbQgifsms|_<QL}>hH%OiWcgs-Kh(-WE3|}~X3^EO!=K>3cr9B+X091}c28~8xMaQL'',
   ''`Hyw^MRr&R7yTSq^wE^!HtIe&ihKxAns>;3xYyLCR8WpN8f2V?5pLQ{mOOliwtX8-S~Oor&*3Z-_7#9'',
   ''#pG_XYlBU#1tb9g!-Zy&1r6<PnEd>@lvkM&Ke`E`_mKCu6kTAOWJPPa$*<#7s3Dox>7Vv@`FP{_7n;W'',
   ''k0dtdz6#9IoFwxo$sgBUXiz4D=O2WtxB%L=bI#7|7&n2}FC`+F!jLxVewa8SXj2t3V$0*{-#gS*9KZM'',
   ''nYPxtT0^Th}otRyZ>E?S!7O8km-5Y@*w%3rnj!KnU$)KpCFTyn@1nkY7a>ccF=28lZnvupATv35B2)Q'',
   ''h6STJW7^4U)sV-^Q5{w&}~3KF^-@%_KubM9?qcm%=b`;#!Vk9o?yAj-Jn1<*IQIn>gw~*J5;P^nHtE`'',
   ''TWWFesp7qmsX)EayeU&2(PC5$+)E+F0_*-V7peG4mwN?MdTK;XO`Kdb885NuuxQ6>9=Q=oG8lYnh&4t'',
   ''h^#*&9KD+7j5PcH*e2YF`rBAfYAag)CAP;_o-;cmI&{-jA`Y1_`S3<C9-!4dD_zXGl2R!jvz3w7T#_w'',
   ''lRS<oTWf&7OO`=3y(8)E&9hTn2`cp!yZfA6N+m{ER%ntuPsP}6U;`#zU4#Pr)JA3(crE^v>EVzm8z&V'',
   ''MI_T1V+dC_!q365I>VmPfyYr~eq|e;|Wl7TS8HC(ziWcsBxa+wO(P;DV01D>ic6{sY|prtXst5Jov1M'',
   ''{d7AY&`{hD=i#1*GPeF=usBtex46`)PlgHD*!TxXan4~Pz+PN?WXwLO)<HfVt6-VG8O|C0Ck8YpT9{Y'',
   ''CVsX^Sbl0n1=^IExWF4|o*G1WHnu+*HpiY%h7GabLAaTQaeBr6EtzDD$q;TjKV6t1M$OtF%Uk=Ueb^T'',
   ''J02f?4SYjWwy@~x0Vq`k@cZD*z{ci-z*drP(#O6biv>SUCo2eIj)$n48UTiKcmf|3mP75TL6i7??0xx'',
   ''nne<NSrbl%ICHJx9}=QW+*$OTTYiT<FF8H*yAeXTHhp&kiyMjNi!AJ|0ut+6MQ;r!Sm5N<Wioh?jk`k'',
   ''7&-kO%9Ip0_EPcOAgYwNZ#0G>E4W0$qo6h@}XzhVz%>`$wFA9=?CV`Df!>;QZI(dlTos3g0U@|3o}R*'',
   ''^TrtnT~BRfHTa+y>!4uuDY4-VYCL2?rQicauDZTkkT8;>jx?|E!3*@gG{vxjhBW(^j?7W>`&83CBBAx'',
   ''@Fld8^sg|YhE>Hqh}Tu{OGHx2TY+>6;E%1S-~zt~t)b~ael*ZREu|Pnqx+Z}^7YYqUIcCC0(h&(5R5;'',
   ''_3{4g?29snus^U3SNTCimF#Z~#75hF&326Go`3KDC2P9-}Uz3V9s~9QMXOwagYJm9``ezcr-V~6!q1{'',
   ''^x!<-*`hwWD&QKqGSOGSJUw`Wnm%ZvJ-?xPzF;1qX}$~C$nI6o;$*%mdl9M!t0za^lVj<xHNT1KsHvC'',
   ''UXrT9T$AyIrm@gJ?HXs~a)Ey~apEgywS|LqF9aUHLv_*G4`z1Fwo$o$R%XEJnAYST1%pzK(ma#E8Q;l'',
   ''@8w>+%^-9zmt1l4^^3e#BUbkck|bZ@t=S~4tVLM)i-IV&>D~G7r#~?8T2_^Ee0^vEYp{~uAi)3tV!tq'',
   ''0;;4|LOyS)mjg&q^-`+BYC$P=5J$0jDM^geq8(ao87Pm?h`un+A<o~Sd69U`Vw8<pjF;pJQh#Uacp*J'',
   ''O?EnK$QvQnM(`boO27uN)icc8PbpB4^b}fpIlc$)5x1?%(qM7m)G$GqkBGUqz+iKAThU^2my_Hfl@Zr'',
   ''7Mh*@>J!`)b)+^%G31!Hz-F14<J7E6I9OkUJ41^k0ERiz9YrkF~r(Wn4opQIp|qspbu+L?;R6zUOqA9'',
   ''htdIKKHa<h%R?kv5bOa`fV=)LAd;ur)PJ`>>sN3VARgh5+mu1h8KtjL^pudbd!+TU9Jfhn(m`E(LLoR'',
   '';G(&J?Fn0*aS=y{|c0kakY5GkQj$3UCY16Bxy$*M=LctxB=i>DS&xdTL6tRi&_GIp}BB<LghM^JwV6W'',
   ''itHh0fKI^Pa6X@>A*DAALJ9ZUqJG7UlkhQR6yOpgO^?AEd2A49Y~a||(VNYI(0XfM`=}Fr9}M<TpHmM'',
   ''(lh4cTg3)#fc~DvyD^jl9r}^*<qYF8b85L3|(<L=1oYfW?l`^P6Xlp7a^Vi6<+m9`Gd8$Ys>b&71=?R'',
   ''TA<n!XW;w`BriqV$rrOLjb^K4;Tx!x`$U7A_iO{e?60CA<sZ#NYe@g9|O0GU493`GuQ{*Cnzp9VS{Xt'',
   ''ZYwDG45pE7K_VTYU-lQ_^m1ngi0W17N?_V6~dWeK-#R;b`NgO*h2hEEoqolT6pf>KbJ%o}=qug^C3a='',
   ''SFB>`Pv9lQ#!h87t(?YbqVfCTB1dmD#w)xLl>A``8Shapp(o#{8D*yK;8P0N>MBCLkUlQf&$Y@fX&iH'',
   ''>EMh6b+I)y{Iy!p42AE*dXzC*(ej(Sif$&eE-CzP;yz@Qj5a>J5D0C#N8YWW;#W8c_oS*p47hx$L1zz'',
   ''C`4E1HZAP-LPG|1I>|z?rU#sqZ=+c(bJhYh;(4lW1mIZo%@H^#7k&1(=GFHm~6TE}=jY5A}NKcGtQ<='',
   ''>-=$+!P);skLtlipk3D(4Y$cY$!l)4)O<ZuW8o~Cg%GF{<YO)XRm@Q3(Oa&Q}MInI~XBe90Bzg2M77<'',
   ''JO(#r_&vygYQB%fVc`)WOuj->dM)-t1sT!CwvhNsu-~75d^9ZP!(>lJ}1f(T$Z#55!T!0hgNlhlCvjn'',
   ''$V$cj`A*^v%1LP<G4iv8OG7AOx@'' @ ''{R(~yJcvzLD{dFH<f_3}5457Emv9oIDF+M#vRgMwjt`7#}Bb`p%d'',
   ''f9$*H<yB<EEtk`}dk2PS-KUNvOYS^&S*^S3ctY#mf6K5t7Cdh9RF%Ge?b=Q;FkleUdz)}K#vo*(6WsV'',
   ''-N11^i?K6^lt8iyjj+1qmr^X&di_A3`c4=433~tiEd<6dICZXl}Uhyyl*R(;GK$7Au9^yEr4}=lDw<*'',
   ''4Vh4}vAu_5?owZ4(hj}FDR|5AK^d{hH#OM;Of9sO?jPOZ8G-+<}A=+2IyS@VMxe+z!k9!=o4u4)*5=~'',
   '')CnaVN`<RX4EYfqhgf?$d6zky26HE;kRkU_fS?=TNii>Eb4<NhpvVIVJfizZ}EomQ2Q1cF7ccrIj#_#'',
   ''|%OW=^9P#Xb+ef?}IBHy04TilrV^IO=ajEOt3;C173QoT+Pa1PqCHH5<`~Y%Xorqk2ZYS9Hyc0db4&f'',
   ''23;9kY~YxXW(&o>#$KOK5iH_r7B@p<oixIrS%1ovmMXb!wX}3Kh?e3xmJ8tal&_#h-g2wBrkI5l%F=u'',
   ''e%isLD%*b2Tlsv#NAt60lz6Q-Ylr1F>CBE_YEamQ!hZEm8zDixmFB9MBF|RBw2`0Yr7)F^_@?hc{H*1'',
   ''w^OMa2~ZpH73CA*FKcM!j`OJ2n9H2B7?M|Hy*AFCd#k+!T+(y)We@S|?^N_yZ_8xc#kp|vdF+Bz2<G-'',
   ''shxpvQ(g1bIk<xc5D`gf}d5lR0Bx?1Ox&p*7VX5>ETfi#(+0B(;I6kxI}d5Gejlt%NGY<|b*7p=n-8O'',
   ''>l*QpW-uA5#veR`M~WMe!jcPMb@uK7$hzNam94DX&xgSQfUEX!7D)PQ!&Vh-(#XFO%pZCR3NOCtLh@^'',
   ''EUb`>r%)KA+_5uZM#;RLup3<_S6ZuVA-9w!e<fF2qPVGx&c%E>&ORq=mPSd={-$|T1U!Ir_P;QNdn8n'',
   ''j2helXw7@Z*ZB1=4E|97%trNMIBCc|>ZiQw}JW5SNV_;zWm6q02)oE!lltTqjo&O|%19iB5rs+aHpVD'',
   ''+8UHA=@WNuraGB^dHo18xe&1g-Xo6no)rVFX%%GssL-)I8v)6+etbi9!R8)#Jxwv!9dxvadjY2K~;Ic'',
   '')7!coH><-g#gNmK&PpOcBg-w~~c6@6ZkC1oYu(43wdfH`2<Dw=RGV9Tv`DUtk3JYT8B?ny`3oI=?7zk'',
   ''}u)*hg<-BC6PT^C$m~pp?g~A)U?5#Dp|y<gP0%zlBzA`F*h&`$ez|_WDsMR!5Yh^ew=LGN`wXOr5c7f'',
   ''&f8A9J;f7{1c3q{C{EbUc8o#W*_H{NW6^477g~*>+p08cE{wE2!lyys=Hv+`N$8iW`*AD1sw&vnLo(<'',
   ''ca%f3cf=AfvZ^E7VbL#p9ay<N*F=*!O;fC2RGOHbLpsTT;1u;R(ZW{2ov4F!D69rW4K$ljDy0_Xwib*'',
   ''@59ny5Sn)@ofp3T;4|B!A_Zmci1@m7#2LADg)`n%gBm+VE$CbzpV;yxO8xT@T4$=Rd6hbEtG{2Ukg-F'',
   ''uV|_ruq8w_6qBE>-9ODD^$OpbIaho3&TFBce*peG%&f>P*+ei9115_ukMK4rV_-Jl|><zp9Qx9YUx>{'',
   ''|E|g<TpXl5j8giFKT<>R%h|3`s5x=+<P}poz*oqVRS2ZCjk!OXIoul`?^$ZpKvtjU_D7ls3;3l)a|^U'',
   ''o(-$(Td3w`(E?&$zK`bk-o3a=&U{l<y?K96I61(Q6D_}WQ>TM&x1#OVmK<rzy0-iAP-|h^{fki%i<Wy'',
   ''sP>?T+{N;m$YySqXntKEaNUUu0kcV5yiwGb!_Tx=z<!jM$YCGC+Kv><dmW=;CP<SFoF0Qtx-++Y>s>O'',
   ''5XEb_$rXp05KJo0|R98QxC)LGa=5F`#_)*}>MOTBm$=`)avf1$)z6X@lC;MO43S=~eM1H+N$18q4@?V'',
   ''Z)!cErt6GwA(Fx|>XY31V%%P}92*zX~ypUK?9+mSH{U2mZ$+co+sLfW{6)<L8GVmAcFO<J5$p0GB`)`'',
   ''Ri^3ET5r$y`z22)V{*n*Ie!E1?|hBeLbyxm1$r9rhQdtUy}B9YY7e$Mr^_eK-Z%8_0f>Gc=4Va=)x&Y'',
   ''sN$Mc95Fu4Ll*BIV*KXOMk)J!EsknQTh>C}D?KC|UC8Yv)Z`|oS#@Q>+ak_q1SmwFJ!Ie}GPw0{_C>U'',
   ''}n+|wDa;C%g;d^w{AZ#JWw6N+KN^E%TR63b?k)B~iU~NRd8t*Lt;89O_EAYL8;J}^m&ZQq++Q&@#L5K'',
   ''8&Sb`9YJPW7A4x9%3Xt4wV84yxRx@iC}ek$0GGm93n9cM!{1v8f42C4z2jvd+*!U?%UpE;aAj4M2yhA'',
   ''#C4ZXNAHDxLinS}<dFdDbTCoua|$jn$}4Z>%;o^~TaV$kY>bW9D|b1nJS6b~_R@&HA2tWJh9FmnG==n'',
   ''&U}&E*ehH?@?MFhqOGS|594UODogJdsI}cTQ%s=jt3y(9dWu)R(W1q`l;iUSMUyJkjAqD5k9@|$PV<V'',
   ''SMG2l-&S+GC|l^a32`--AV2KZYQc9WedDEVYHkPRn>{vXx2@aWC#3Da8A?{HfwO`|Zp#|6h+)DV*352'',
   ''+Ix_a1kY-^m)C5VKx(-jj5>1>5i&n4G+T@nIrP@<1wF6RZJnDQ)GvYkLr%Sc(wmDU+k`Z;jOSf=qLAg'',
   ''Bz^GUOc;{qS1;(gRjAlo~w!pJ_Sm2spo=;(8bH#b$PO|sJ}c9;qyFGJ=KZWK513oH0(6?{JFcpa@l#B'',
   ''7yBUQZki-uXHn4aPpC=gd9IIA|LPH&`qK#dc{vjSj^mRrkow9G|tOFwB1+{-(p<1o*Rx#34LgT-`%Oh'',
   ''Aw4d)Y*l07)mY#aBE4iK!9%Un50^e;;nyzf|)B1yo{zhp4U(+vxm3Z_-U{(7r-!GQG$Ch{4FJT1GjKZ'',
   '')JbS5w?F`IXjT?OfL5@egh>IwnI#Nh1hO9BuO<Tr6FvO+V4{bCgV;m5%tf8rEgfkPpzOeDjXJw=J1-F'',
   ''BN6T5`VYTi%dSzvv|L~?X{my`$4t`{FWjBP(&6Pdq?Jib!nV+FYd8YKn?w$F3x|Yr=nLDj~n)YEO|Bj'',
   ''CGZvw5_Bf?~|<{(wRq={tFK~$FTnm{rao5sXeYch^p(oG$fRiQgdg;iA`LFZeroOi*Bj<%by=yyPA>p'',
   ''(6+PodD2hwO)hLKrdwKehRe9^9g**&!F?{bt7R%d;=1&krQ5Bi@c6tNU#PTLv;ltlo?b=}0(92xb4Y4'',
   ''0Qi%iBMm`4qfx@75+$Wj$pshAy|1*^RTE?lO7h8DvQvw$&7_CEUEGlJnl<gQG`}uHLXD0hYc-DjOK5o'',
   ''LvpapSkRQ;)KYn|>5hvPEtRUUwKv?v`F8^K0D_GCI-ju$%0Kai?kr)yAdDez9{`ne4r*Gw3lfdpsv1+'',
   ''N`9V8_ra0{wd-#32r2u^&TQ4@Yj}=DA(Z`l!$}3AW_kak0fLcV&CL6z?un@DW*QrAN)1dy>aEiW6Z@g'',
   ''%<3Y_dbb!AjYNw2gjrgWzji15m&J<OMtAaU_mm*Caq{FD;BcY%HxwJ$S6HCr<yOl)%w7?eB^kN4uG8<'',
   ''Yw%AkL_m;mPQem-GJtZ$MR{9S*6nlM6hd*|Si_aAmjz=e5T2ODLDP#~$Va_v&s&QSSb`@dA&yaYMEkH'',
   ''*Y8u<0)KVB_2cVcMjOp3eG<fPi?rsA_LlgcB%uw&W*8==mlr=cmNgC>3wz9%me&e9vU%bs%}zik8u76'',
   ''0Lwm8(AkN2yt7@$8t30Ytw4;t59opmpvypWW9OHzyv7JCu-7r|o@3g;Khx6_BX|Fg(62Xc=6>$c?zYC'',
   ''t{!pOT&iT>9L2JRkX^~eRfSLlR-^S9Y$lo~?Z}ut~fQK*^;Ld-JbKut@orOq3JhlotR)U=r#(8{3fC+'',
   ''Xb+k61`g%SPpXf5lt6y@ImE!c9OX{8(~jJkqlCA7D1=V}HPxCH+kvYO)dkGB35SOw5E-f$*c=mEEO(O'',
   ''Iy}P|(WWP&v@_@zx^tau8^IW(~)zp^wv=KG~Y_MpNTOriB$IQ*J&Eb7{xtdPXgmxrxmm#!0qNPO>REZ'',
   ''4<o2XF^s2q%##c486=V7g-f>l%!GBzrCiam#qgl!)$UKU3O#J@yg!W^4mjtK{<$I&IZjXR()PosUsoT'',
   ''ydQLMUyheO0}|+6ujy_ucyCjleif@Qid@*A;PSuOPfc8EfcJwU-pJ~gwH7yy=V8L-Ox=nH9PQ&m4*m_'',
   ''0*oT_KBMr)J<kq-;VP3~jnOz3H83n}?R+Jg9QRyA(FK+DQrxiDLXqZjjNvHQ`u*W}fB)7Y$KkLw2A;@'',
   ''HPs1ZKMF1ApW2TiK{c(09I%LYygW69Y4Nh^ze`&5-$B+(mfs9`eyksFVfD!a+Q9;H72;-(x%C@uVm+h'',
   ''ewi@zRDYG5*7itQgAY_H-*oxtrUQhS8ZAol2uaV$`TsTKTeikih2G+q?OQG6!WIZjT9s@0;*;o^I_Mg'',
   ''mLdpbONFM8qEgz`3%gNf;kUyd*J`J!f;b#KU2qp{vH=^TX%8L5WB=R4&A?ndvUJ>dWu_Gnz8Z~q-bBV'',
   ''r^jE_d#c<nS6Tvx`A-VZK##I7>CqAB(GhNs;Tt^)(;h*)j$ylw@DbXs1BGE_l#dy7gAnOfv31Z=$I75'',
   ''04xhLW!(th^P(0q=omFo)3M>>X9xy7OLL|2*qcB`M>^=*~qTkbH;I(2(=bFOJbLjP4U)ql87j#wRagQ'',
   ''934-B)QN^Wpg%r!wvOLMB++@5<<ZO1&pG8S*^90$WKS6J-l8q(zztm%FGg@%j;VrZKEL<6BJ{BVOTjp'',
   ''PQr(_rpscX@0FyfQAaiygecBW`=$mAtJ(x`P1OW5|nFijnD*I`N{4TcBOn&}+uD6c<flA>{|MqaaKs^'',
   ''}$+fNZhzJ<jxQ6QVe==m+e?HUS1ZWJ;!^yba3>_zBB{2U%PFg8rM|sukLYBv$VI|3{#sZ^wRqwZlG6J'',
   ''RP@^pk*wd*`ys5dYua+zRj{1o;4*QL{l@hWc<Du1fwkHNh<fs#OYgeC`{d0UZUAZ;-gSYuT&VmH#LWd'',
   ''WR6f<t7tGjjO>pK0+46$4q`-pLTx@;;R_80UdoIdeV9AY)9$1A^&mL^H-dp{m3tMQ7Ouw7&HDenDtGv'',
   ''u2FSisgV}%sjwMf;nSDHX6QZn^`jCCz$rG;kcE=%<?*NU3jnw6lHsz*>?uRv~D@+aV4Q$d!I9h+dBM$'',
   ''<ivBT5=5O+%1R?2GWaJAjRN_cS>4U7H>KpnDB^Ni#5EcbM_P;=?kobjbC+a#jxLs_tT!8F=iOyLv4qm'',
   ''?I&Jy{)0^uEQ2nC0l0?uTQ~bdYiO53(L^<De(3LFShmJmy-^T?est+bL(P0SC06MsA)`rKNkKVEG#7N'',
   ''Q`rpw@lYMNmv6z{K5XK4d??lG##`m%+QoLkb+A|}%jAeiIQ|Bar1Fz1_>ts|y-6<fV+blQ@5eT6$A>a'',
   ''{KX!CGK9r38*wyX$fK?m^!lgAF)(2ZiZ0s;_{u6X7xI;+unTQh>hhk?ZZdm;K5N@&H{;7C@<ujm1e2R'',
   ''F%ER2(HUM*F=D=k_L@xna$<~35~k?5i|+mIX}W`>-_0y?G2Q*xFC0w(%dTzRT-j9hsN5Gs3amC8o2s`'',
   ''HfcSMsl2)Rbe$QiWwqQa7%tQmZ>^lrexzxv?Fu#^YHZL#~VB76nZk-mDR_Gts70*?B}-w8j=9j=hNs8'',
   ''tBbY!$y5a-r(o5Dz|22;Yr*-q1`@#_gVC-C-4FQ?mo)p2MR9)7nwmyYY?hP4zNVI9lmSq?dvP{QeXG>'',
   ''^+q{jir6C!oC`NCS4Z^gJ4Oc=g2dP`kH+4l$MV;ORii67bFWUdv~mGdD7s_u9{wtV*{!~}gEq#=YR6~'',
   ''VMyJp0%O@`#pl+Gn?jiXpFswx>zPuH65%DSpZ_oBwye&wlv6s-D63+|tyFU9bbJu6e9zY!-e@Y+_VIh'',
   ''hNAARjL6}6h<tE%pKh;Ddd_0rEVEJn?uI<4W;Rdtu%$3*#Em|j?2&}tCF27icOsznH2(u;F~PZbP#$%'',
   ''a4CyQq(d-Ky<?7zT9}uc9V$X+Pw=!QaUjJOf%C!;g9f)lA-~{5e>vVl9Q?NU(Gu8M>GZ_3I&BS}7PbH'',
   ''N{^YfmtCtEp89sgY?HV^KG$YJg)YVlL(F8gLGf4hwgX>PI7)Lvd9v;BewVN_=6em;r<hKP@<boF7<?W'',
   ''CnoH`Le%&0`w{w`pZwlLzY7xIJ7$cdKbK<luGUJ#xM?_x@gY|djZ#6=T2!2cu>5=%(klk#INqEB0@aM'',
   ''bNq!nOh948GJhjYc0pV(y&)`yz<9#~4&bUDUZQqJN52e_)V_WP_!e34I&-f|o5y{zwdAAqnDV&zVqAH'',
   ''Gw>MYtHjI&Znq!XoWOhgh*9{E@NM!SM6aS%P|ik3^#UQEcmzkfm7*#MHl>wWMz5)HlnDxatqf57mmAg'',
   ''tUh^gypZD?EyVjAYIL5eDTM)6K#c`0EP70mwjhzc6Ut{j4_4tMO{_9Jl5dcTBJrS5v<@Drw*ujn<e^<'',
   ''fktr8Z(hLM)@n`pzSa!M~1Y@sJts55HElPEPsW<95yCfZ_M|gG0GJAOyO7D9!qMy#Nycp-d1!oZ(1xU'']"

definition DATA_19 :: "string list" where
  "DATA_19 = [
   ''c!>jgzOexn^iwJ|U_n+84SlY9sqChK6|prc+PE2s@_e!<F`uem_ep=}KrdAIy3olUjaSrO2D#5ZpXkr'',
   ''h=ab0A%anu^MD0iNiNYiJGYNQ4zt+kmD&Iv^`UV@IygGQz)24~yIpY?Kc+Mo`Y{v^>Ya{d}WoaMehUb'',
   ''&((qEoS822aa$AwH(7-GK$hEp3sQ*vNZS;$vz{WV=`luD0ML~n_55Br&hcw!qm@zVzmH_3cOyNF<dIM'',
   ''A`-O*gslCscJ`cy7@B9J@?@`y6h|CX~D7&mpf%RX!oD!{UFS#miCU4cgefonz7Eeg05ObmR+&Wmx0`G'',
   ''yjfec5~>n2%g1_R(gj1U#WP~E=(fxo<ko=Qt(_78_`{wTb-PmFqIgn3Xa!I6-?T1Aha%-Q(!!N<ec<G'',
   ''0hHMioDa{Yb4EU;>6}6M9uQ&QQ9SLOKst751`x0BN*3>hU~B@E-CH)toX>N3#S`v0|2T&#I&Lz4w0<+'',
   ''>V`%hf>Mct%H*x-L@IfM<qJ*{9cDT4ACm6_wTDeEUF4?5cOq0*3xy(_#_X{s<Sq;$kGrVOEZ5roy;qA'',
   ''=1{Wv;LP?XTjATk7IAW}dxy8p@)v`2IN9WD1TlRv}-?gXCMnknxtpukP%GH}Z^F#hkTc$=c)ra26s+v'',
   ''=LxQr**1`L(!u4uft&JuYQ2w?FJ6Z%)w;Tz?=3vChIbO_iW>I_!tI`=6$pHo-vI-_hie+&pD)f8rNrh'',
   ''FPf6hA88FhAIunMGA+&pi3a0ocmIOl|8^LgF%E@=2CZKxAfd<?q2=qkMozH4<Qqzy>+><jdB1xB{P6J'',
   ''?YbYtcm~?%(#&!Ysl^nQ0!TZ>yD=lTt=EK>Uf6$z^W$bvvP|5%8!WWV*^@P_;OA&Ygfwv5cEN`l!17g'',
   ''EdJK01=Yk41*C<Tp_SkHP#R0%{7<FFS7^Acs`zHmlW*u<3O5@1Jxq#$)J4F%~xDo52g&OsC@>lz^R=6'',
   ''aZPHq|oJf5~=4s8dv2DnZ!t&h9!+(l>>i*Ab9t)n!UmRq=)a<){)&53<!#EZR=H0K~`ZimmNeMmEm6x'',
   ''52|iOVXbv|>=%@4twY{HCq9kP<>LPytVSrFH#Pt)mu}N>AXRHJ#4@rbFA&#$-9lTda=q<^gpS!!-Ow?'',
   ''$)vtb|b#0X=6xZzI_-MVs#YGK$~uF<F?r`E>cJtf*sw+)}r&k)MV3*T;R{c8(o3M(@!HlpzT`Akz}#j'',
   ''I&AzxZqF#who-l+_KVQ|v4-8)eqYwgdMQt)(WW-TZY)B3)=O4XTk}2)4q(sr{!e@MBf~d)cAMdno-M+'',
   ''jEvAs#T%VEXl0eNq@l)^EkZzsRyJeRjrNq8xq=8bs>22&<w$`c3c4sFrw1$wa*X{OJgL)YZb}KL;gF!'',
   ''5|FiZ{EU2@pv)_o-D%xt%R$oc<GpGCCq(2X`%&_4?^e;WdLi)l9k+CSX-rlS9jokrRabE`}{TBvt=P6'',
   ''8d7Xo@)>+JZUJMOWR85bDf1$zpRgoQhAEQ6i>!hnFwXHG~n?iu))Ge~mAtu9!|iA%}eWY|_5%i)YcbP'',
   ''?@h!&#&OKM!7!G7i8uRP+e&oo92wAW*7zJcQil#-YEI6XEm$AL(l-3Hl&bFij~@3v32A(kJ8)7tlpid'',
   ''BpiHph*e&LmX~;*{fAbNi*>M~!B!uC=DS(ttt-5o73AIVAy$wlo=KMc;WL-Df~<TtVWqdXklxc{^&Y}'',
   ''Lbw88r(<mZ8Gqf+;hxcV9Svy!0hkf|qvVBOUeR#Wy{9*c#KBPh)uCF53P1lSj%}42pQ>H%j&>6FMM<+'',
   ''vd+A(A#HmtH!V#(J#|B?A2|4gD|A5Bm0$1dw#XmPmZZW(QX_$={fAZ4Y2sA5P}=84~<_cU%P0>QDBQ7'',
   ''bL-n`8}Me(7Yzd8&{t&Yv!D@|(Nnlck5~@4+xz|AM9iDYCO)N=sb%@f|$!{&4Y9kG!21|B*)?_2APy@'',
   ''_q+m9J%<P`2F}r-6QXd|4fQC5C10`7Vk|M7Qc9L&?E1*As%^;zy5#GBd-@3itdp|?Wd*Pnti?IAcywV'',
   ''gMN9>XHXxAp<a2?aId_VnnHh1dgaMMEaa|GI`@*F?SOb68z$yD&1n(Xu>VUuUP`MO;;C2l5L!DWeD$a'',
   ''wUjn0thTyn6iR0L3gT8td=&Lugu#Ng!<xuB~!;qRzUHkqId+LFjBmIv(^~9&CGfK>Mc~?CwH)n{e9(#'',
   ''FLz0WV>s`r=Su6k{kch&p-5Ldn53~|-_<#%w^`^i6b)vMH9^_;q^UWx9iH%oWbyGD1_o2t9&O~4jBO}'',
   ''#C|r>P@CkQ&=-&U*J=@eiE!?mBphv)-eZI_upC5V2Q=IP2}9&U)4V#941=!dY+I#bM5RRsY{O>s|N`&'',
   ''U%Lv&U)jAIP1NjJL{4ErL*3XGln?pJ$3QBI_us04QIW%nzP=l@8qmE6T6}feQesL-g-}<n|EwP!dq`P'',
   ''_12q`@Ycg$d8XcaFEE<7-X`?cn@+v;{&uOip2p+;iKpIyQJSaTP5<0eFM*)%?y2`z05=WDi{i4UKbC%'',
   ''}r=IS#_AL&3=rQwu%vEpXABVW=J$Z4ss~*<$-CgzQJXNWm?KfTZes%GG>Z(VJ`$w*N34nj@s&|m~hPE'',
   ''e&3%Bm3$Lnr-D-&*d`-iycA>3u$^kz{vJp{PCo8E{aZhBYz@7?sq1&(dKg1YIA=xY~`G5^?4PsiT>&`'',
   ''~e&ogMX-j?^9XG{Q(a>LDurxuf3ggN}MDzTv3nxUpWG!z4WQzWU#L>ft>6zv!v=tBe1@Q;+PsjHez-e'',
   ''&6P)H}>lUU%Av%59=B3sV84j_&@U0L$5pPsYjjj5}tbKL`yyO+O8VnsfV%Xsn>F8O9wsm)>B_PEbE(|'',
   ''dXHbc)Kkw%FVg%rPd(bHZ(!~DSHIz@hm44N>S2IPl2FH_ao_aR<FpBD>uo&}Tl00&R}(Y^8c5>;!Jcm'',
   ''wu`lu6+xm0V4}&){Cx7l>+5-+I<9-KI4}Z_Y-+uTrL;UO(-Ft7@GJUsHa>iw+)#C=eflQtNXnjYmu}6'',
   ''gwB;)afsv}3`_mrEc`A7dUYV}VY`p_*PDvU~82E?bkNdJGJ*89%oJ^7%rYH06aymgkK&WAbBbP?~3@1'',
   ''VczIv|WE+y6t;RPX<fWE&##aZL*hffkseYqa<3aCJ#IVt}A>l-kM!=Tc=s?$)(I5bl>;Zx%lWjn+keJ'',
   ''^m7ncKq-kwbU#&B<Crqx<eU5`u{yygITLoYw~av@RVHLLGFfh`r~sSj87_o+7&SLhZ@N0-=W=kB`cMp'',
   ''X+xHHqlJx@(p%+}5%6ISmgYbbL?IuROIh(YGb0&>{`l>Hz>&L>4Z;KOAy^qnT!U>r`xs#3!*AM3fnIC'',
   ''?z1UG3x#lSlEchuRG4of5B#XCH@FrU*veyhUN@VXy`ZTlnM5%?ID9YW`?!cx7%g1|M<VSmPlbG9cNDf'',
   ''O|%y?1F7EAbJYi2mO#rpf-|NdpPm=_OP0J!k&*Dzyij-kcsxLN26-ammJtJ63Z;+6`1tLhR;?f8^oO0'',
   ''6dtAm?$aZZNC4Ea>ahpcjRkeu{(^e+mwT!yawuX$^b<pltz+$cH&r6nx@Kh~Qp2#Jyy)AKEy&Fzj#zA'',
   ''IZXWU;c9PyFGLhqjjMHbO3)yIN@W|4VGY_AMeWBV0J;>2<oE01<*1be-Ww*;vp7hpeLE^flO7zel;?u'',
   ''G993QC;*jGDbQ#NRDgKf=EQ1{pJz8MNu6MA-IjvIDkG4o=VDYoMnOR>+for>N?Oa~G=P15O<As?F&gN'',
   ''EVtzw!sJWVk<wx-u^k-wT=}7R0`Qn8!8#9`gWKXaLm*p#2;`uQfE%=!qT-MQIRZMLRQ)+*wp)K+IM1>'',
   '';VbFz5Zuh1UnS9n3s+h`fFo!$((XdMVVTh}uD74k+eb?L|_AN-oSbP(^a@E+hSa{fOP&J-KHlF(_NMX'',
   ''wi~9q8r9x`+5x3}}88ZgN({%eE0nTI7`}G-PuR_llvW)ep!*CsYvn-QX`Ec3G=nWY9{j8@J;o6pcei+'',
   ''5ur=GzEjy(mB@(v@@r+pLgm;W6E4{;G!^cD2N3>l#}8>zc3Pi-o{}bOjHhH-Zb>RLLS^U=xLSz%^esI'',
   ''S)=`)L$B1x+6RPeIYR!_kJBZFzbywHvxSQHc4y!(c%TC#UPc}&DnYC6hR>Q+auKC99w3|57!7+-;oB1'',
   ''h4xDpT+ZlF43|`dc(Iy2(eIKIe3=J+E?{<;HFG7XK7T_k`&&<+#OK~;f?#DUP)c6Gyc^vg0;mg)+|6$'',
   ''JGhVtP{<uFqY$MC>@NHO=lNH@Wtn7a-aNkT{PIVO{ijZ)ZJj%ET^b1%)q+oJ$w9j#4W&?&aeJ^@NIEV'',
   ''9QpoR%9|Sh~@3@(2u^>g*8PSh2Cg3?($g<S4W)x)5*QWyp^%z^qJ_7FvP}twE^=3i@Hae0{xCgjR7O<'',
   ''4yk$dv5|zW%2co51U+<1XB~2@}{^Hsh54ZAQxE_0!2~KTnObND4TFEYAK*sRJ>yP%@#}3T*}J&nz^*8'',
   ''pypEUmYG_qsa?d<(gc&7|M|@GJeLciS#R(A{(k@8_knX~o>|YCIWu!+&O9^5U(DCU2N{(ci5rSz9UgY'',
   ''nX)6kDAo)VbP8vvo;g5WD8$_y9x@hA~bGW0W6-A*`OA}O84yE}jxzCcis%OzvRlOPLi+Xk`8G2jj0<D'',
   ''8<mtxTn+NAeHL+Jkk`No~$7LPBaZ9=ClxbVxIoKAIanFI+YQl$-dbeWZes!&6PH(>?Zh1ii0MUEfg3O'',
   ''#BP=3Cd+n7T6DQ)j`zK4L^^<QaT?Q7bkqo)#a3$*rW7IVwFwYA5lQFN!ha8Izu14mm6~qTGnewRb7G1'',
   ''c~1Xt<%n><Xfz<KVX@>T4{pej;nOogAlG-6(P(Ps|Iw$XM?50cr{MbUDM35;jU?=Eh2r$SyyEdJ|SR&'',
   ''=?~0{b?Y>D?im$4DkTrJi0RZ}xuJ)dJJ-?_eiylDwN|uSi`HyK{6T^E!*EOBUn?zIe0iZEWPe$S=3Lb'',
   ''cX9}oi+>&A?SWXu~d0g<k^*}sFll~0$%vw0PS-%c`aKay!L~NJY<22v;9j^6AeqWRnu0T%W$IWxr3u('',
   ''gO5RaD+ZC^IpzLeL!lqJXSiBw_AI^)@z^Hj!$re+7(&-839q_c2G<$b3sk5d^bfiEe%(?+qc>v-MKxj'',
   ''+L~nL`H%)J}`7P5(=1jTvd)lRVn?>VnxgliB-Jl6I#dCu9J=T}wC525RImCeY3JlzH}t(px)vYaMUV7'',
   ''E(2CMl8!5TmwA9JbPok03GTA{Lvi&_-64Dn0=jl^>ndSYIeC4F@hrM%(HjVTQ4-_c*}7LV4jU#%iA&C'',
   ''_Sh3|*(sb3%Ws>eBQeCcyggk=aOT+{G{k~p=@|GjZ~`_CU8%R-3@^(Jk!x9@wGfM>LTqJrCM22@62!H'',
   ''m5GXLY*6^UYzhj+qB%DoqM49eMwD{q*UL9lWv{sy}Xz)oiYqZsdo=K$vmI-L;*ln9=`5EGTUp4}Rp!h'',
   ''hD2Elx=uzAlIv6)QV126#n&Y^|WQnu{Iz6famj>;v;t&j%bPL>sL&droZ;h`@'' @ ''{qwu+f7=>F{3@elmOn'',
   ''vboqG@+#qGbe^x|{R$+Tb<{owXdXjpyrs>}I{Es09}FlUz#t!~)EYcPa2E%F2H4M9cf{in|<c8@eP~)'',
   ''{x!y?By5ez3%MgDtq(Jc{+FZqF{TMSr&%W4DZT!L{LKMHVKVtkWlPh60&odwOl0RVUtj2n}k|7NXX%i'',
   ''gl^~@iw&d2cKz!UoUm~@-ZIQhSxR&kSF=}*_U3`puNG?fK*uQ$nw!jv4Y@v7Wo{`S3Eh(9>yYa-Xga;'',
   ''F938&5zjpf7X@}FWMNn;ua=bm|0dq_27b>+gHL<UH0Qb66gy?Rf?I`2U+fy;_NZ%Unwe#K==oE|bX>o'',
   ''<QqE6&NmEh25L)*a7t_IhDM<BJRh)Jc*Oy1?#jwtWmKk>TQy&pKdjqwpFP!pHUEh&_(RD(|*zYsg|H#'',
   ''dp5p#6!BkkcUx&Bcc@rki$!-2&rWr>VV<298#_ys%>kmDk|J2~ByfqjVB(NjZha)+tx5h?1uc7-MJXX'',
   ''fDPJW#%#~P3+<pB3R{9;J=s4l;e7Bk%1;jEB0cEoXT+)FC{&}u6}MVB|(_be=OhXRX3CSN}9>lef>c0'',
   ''D2anBFd>Lknd7dSOYvE@%NED5ZdlpGHwD&D3ij=^rl=CPbKx58y8V)g*bd&j+}P6`D{eJx;eE9F7xM}'',
   ''104MXRd1rMhx$iaahUsvmsz2FBkqeG7r7%Y-kDNMk>Bx!Z`;6DCubHn>s5TTL!ris{qQjBAmRbroS(W'',
   ''FarLYA}2YQf4$D!_Ryibu$MYa~zC#z4GPBQc7=40k>kk6PMuF?$uhEAOCIYq?`9mM&?eZ;4&AAx<-v='',
   ''v4tQ%gR2CvP(PPt}y+iki}wIL2iQ^px==$i9f}`H?DnQ(sP<7gUw56GF+oP~7DLUFG4%bd^&a8|W(A$'',
   ''ht~ww42_dtZXC1v`t^)ciDOTmaG%MHRAV#_`NQEPmAC6;`cE9T7IX=hh?x?=qhi?y2^fLtFH3GJS?P?'',
   ''-;x(nKD||^tNaPq(%;bDHXL%<(ynxqMc{B*{O%IJYw`QS8Tw7r9(S3wx*0Yyjc~YGx^=}ZasJ#bXcDJ'',
   ''Ln#43y4RncH8tM{7T9PhNW2;MqGjxfA#OGzsE^{7`G>PVQk|q)4V(rd`-V-(@P-88D$}`X;ZfT%N^r('',
   ''<EiJOHc5y30B2>l$aj+O6N?RJ&Rg(eYpp-Ehb7~-|Egsf?%-yb)6m>o<z9hJ%fBGmj!)9MneUIxd?p+'',
   ''fC<;+CZL+ajy|gjb+YB!Vnf*-J^cTfKCz%jvch>53Alv==E}Z;&G1D}Pi;gx5qH2AgWq4LVazroqirG'',
   ''ufqNze*uV=(V=0kY8w~v6aJ3+1Ztx-%u&|yH>tpwW})^h=iR@HGanSX{I83ALE0jJ&tljDx=CQ1g`Ox'',
   ''e7z*!HSmQRv2u{`l@I$g)yOJDsB~ue2#e8WmWQxRahcUcScbdIYA@7?U<;xbO<_ox;IKWSmc=Zo9h!6'',
   ''HRcD#(RF~&Gg*Iusq7B4-=eXlM%-~84@Ram@gG<R-nmn7J4SZQnN#bg=C}N3dUD?*!TZ+<V>s3)5XbU'',
   ''C#TuK+%W2pgQAuCmWCv=F2B<T?MvAUAm%543N&a%6CtH_CSqtkYwJ>2PdLxfUGRc{_yTe=LHy3D!>)!'',
   ''`}Y`Z*j;Yc7jY*@PDopck}q!ud4NmpVIP0}{FqnuZRJw>1A<-obAd6~zSsfm`uA?QrF3Mc?>6;SXKo3'',
   ''&7jr>@w^6ZERd}Df!qD1q+7sz7eJ1x9PA=ueACW?sc16viBBNj*)G=Ss1%Z_5nq{ew|P)!au&O1SJ}8'',
   ''=`Xg+kRUPDrF0Woa+Pyhsqm9RNJL6qPo*C;k#%iCY^fBQNN=fFt(r*0F+8}$V@Dl-RQ>{G;+n&viQ%Y'',
   ''En=*{Iw8g<2m4_W<J>&(UM?PRD>mj!(ddMFko7Q9)vZ04`7kbE*LJukWhtf@89K%?-EkFaAXhoK4(Gp'',
   ''QDn((YCLi;F+P-q{)$!Vny&_0Te)?tt6)CAhqjtT?m_LLy~W>zkew2n)#nDw1GyvCeRTltk8CVkX<j5'',
   ''j7pTq)LQp49FwR7o9!dGCyyLT~6__P(SsJhKo>V@P^LY027KipH?6+|4!67$UOJ7&^!r!=04kLU@PQm'',
   ''X<88t8~5zElFq$uUpxJTrZ0th>>KgF<b^xpfUVG(HM$u5DGz&T#~KEFwL|Th(cv}$~J_J$}m)@3`O}6'',
   ''dHtpKnpD~THpsay`V5Sp&L|gmp*DQBR<QW2rHb0{pjbXcC`n-`YF8?KNntn*>!h0D#HssH03xWVd@#K'',
   ''qyd|z;2e&3cV_2f}r!FOUuWQ?ePLf3@l@GLs;X->DUc02Ko$N<Nt7s5KDA~DDEuuoPoMk;Nq9{>l5v?'',
   ''52!6dq5MT-b`Xb}a6$XY}YQMT!p(9wzErc4@w>J*765J{2fbc1MvB60q$dWu98jHE~`K|(^8s5B0#4='',
   ''oiPmtl<1CGIW`&=?Z9XuoE`fl@!Un`x?oMaP$FZM2eqT?4ObI!I_7n>bXIa2yQ^?;|x*E~c$$P*e$P#'',
   ''dc7juvTaAcuOb|9VhgvYPr^qOpmH2YwZnfCa6cGm6q)n$)A>!H*dv2?IAi$kF7$^5UjYih0(q05ou7G'',
   ''pq56ZL6&(!aRoacA#`Bh@lA+h-U>O)yzEQS7WPX$A%a=v{H9bdG>3g8tD~{IS>#gHVS+|V+q`p-<%x!'',
   ''=pEGS09h-5Yd6^iPP8Ft@1>@K2h?O3AwP=G+T0Z|(QtFh<7ZqFR&Nr<VB`eSq*;&f3bMCMe0Y;RZDq3'',
   ''IF+f*hpuIeVWXo(^&YEhv}MBFTE4e`RJdCLSD9+wHaqsWr3H!L#KR`f<fZ3v6Sl8NC?xQ#FiG1Dws1x'',
   ''X{`H%dz+S#&qC(c#KTzd;6tya2r+OlOx8yWbiWcco6(I>qciQPvxFS*>GTR_fSLf`1d-B5+=%V{rr#t'',
   ''7W|*t`|!xDW5Vz(l+G}mQD${DsCW>)NL*m7n_)ZTXLhXd_yi)!;O!aEX?4F9ZAO42@|eYsS+mqR^^Z|'',
   '';RbK(c7zglF74FByL@ETLzYEFR`u1AB4tyo^$t;UoJt(Vru|~tNbLgxhXiv4^o_qXxCKd4>-m|2HQb<'',
   ''4F6({R;|qgpv_Tbp7c5LIn$S$Ms;#AY9Tu&N#8EG{7hlP0I5$gmp`?L4U1+miwVpn%gXNeU=0j^3%Sf'',
   ''_TeRbyv3pXNEg!2Kjqe`s$q+`|R8wzWlt`Zm7iYsmFZnKp?81+6CI7VgkozToOe*s3d(Y1JQf5%0#Mu'',
   ''*bT=XsP$S@6*?T={g~@UTc*`ou+6+m=NHAYQyUjOe`Ol|r0IaEj2NOa_+OUhUZEK@5m1-C?<Z{{*-6x'',
   ''uByJiXra2_y+g%gyxn<%H&HR#a>Z-7}DIbzf3yk4408}olBV(-Ivc+B#h5FaG*%3@r>C~xHyTgIj_2y'',
   ''Uc{&s<!EOdX)2^?YXISBLPFlB!l^8TTgN*K!>M%i=_&_Y^{cOCmY%4(>8F{oUD=ox2@>T<)6g+NBE_^'',
   ''@S7kC!KVdeWq4Z<sqYOlZi@PZpO{P60JS%QDq2fH_<Z!jrc;19-Ca3nVd;-UX;Ev?AbFFLqhLo}vB1W'',
   ''m5d|$G;)r=j2rXBh1cIzCONyT^ToSNY@OjEgzB2|4`@uO4e^z#xg95S8lTya*ZvE5*uB+KqUq*8UX-J'',
   ''q;|F?wtomIIqx=9_`N{QY|p){o3_uHdl>^AU&L+S>&xZH>#!6;M3ggp`ukNx502byA|~M;FsY7wzpa$'',
   ''wsHj2injGyhnT<+NPq?-gM5vbW@f0*tIp>{e`RV6Z7o(7@np|$GjG%GY$@WX;$k<?%chMZP2lWWX_`3'',
   ''g>C3ZN03U;^~k&?bDif!+0E^5H!sSblAYV%-n84nv_~Yq-<mjeTGp^4l$~iej*CF3H>{x+N?}a95e65'',
   ''#knddEG=3!GOM?9by9hod*hsLBU^QrnSa7~H;<@u=TFA7Jd6~@1WL_onDw)^GyiR5fnKfkAl382kh=W'',
   ''d<!&QeGr8GE*RuQxz=(z!nOEo5W-_C`=(AF+dFS`(q^-6?_LkU}E@T@JH7Fa9SfqPvYJn+Z0HMNxQ{1'',
   ''1?C^*2<~!5;{El{&d8)rkk{WZ?!;CkVW71=)8ITqc+o<<RxW-2M)xpGE0i5v8}mCTZX%hpDTppDCoMg'',
   ''}F8%7utlQKy`KYvxDghP<EM#b2;m$ts`RqK|H~5f~N`6333TcABei?L}lHHOgA#!$ZSJq8!}zVbS1L|'',
   ''nJvgvk*Olnkxa+>bt9G0Qu<v@u#sTz2R3yR<v>{5)P;DjUk|o!_3AFo<x2VB1Y8B`LanmMyu);^sKVl'',
   ''G@RvWJPID=;BM5WFj~YK3{OIr#kDsUUlUr7bb~wOzxa6q8-@K#3;%IQGav)?7zbx8yfboXuoQt88d58'',
   ''C@ic9teRcZUOXvY|14OOtA$=vo~1B}0q9KO?hqWY9+r>n;?@A4t$W5g-sXBQS@'' @ ''{Jo+IaVRCnCyg~vRS'',
   ''rXc)r`08M1$fgw0uR2R=3`qWS;J-y=H8sy;bmlw32LJ>PAE7v(k$Lbzb6r&Z2_WmTi-jZ(YYu7T@kBa'',
   ''-$m-VWZ8;a<oecjwVhsN4EJ07n-JND+>Iy*9<O{eDkD)M2o|VVvB|)f3mVjY)MC2@>;Qc{tH&RDOPvw'',
   ''t;uT30OZ;Qxn3^d9N|jjHRVct+&j04yZ|m8fhN|ZgSm99D#8dYa$JkS2}y|)?8@TW3{EH=-9oH5e<)5'',
   ''QGPDUC-NL0reEb`y(tcssT54DIk+dDkRP&5W3C=IkUUQk15A&AG?1?xXibx4~L6A~8Qu%DS!KJy+ixu'',
   ''lOil{LR5|_<~(31+3!fab03e#KqY}j$GebqVhuO3(Dspht5qMIc?7`{ePTJ5%H7HvV@=fb<CPjBlM#8'',
   ''s$^t)*f?oQ8ty^M<vVHPr55654Pz*Ms$z$h$_m%BQzGc$e!MT`PAKtK}1z<rQ9k?cFUQ5tqW+B|zU@D'',
   ''lTlZWPJm5xkVh;RXXf4bR{EjF)m7C@Hd#icl{g(0o~+=Fbq`FT|KUL{M}_Pwki~<sC<R0Qe32!FhRxJ'',
   ''x*x$e{cU5#4z*fbVr>aETCbS&F@k3VpQK|w0lBobgMy<pvZjPjYgXi_y_V-_-dSaD-i>o0#AWq6MTG%'',
   ''1za_|hN|T~vB{z(R%*LzSSc4!(gp!29<4jr^g#kF#@szl_&~nItYgV0%%`F=Y%HedTgS^yuy=trWR?('',
   ''zslx_aRggPcjJi)ngE3nI~2(%<}Eh3Q~-z%vp2kDrH0ZU3FuXf#0I_x?$=8stttjSwO8tT5FE^R`%b~'',
   ''Ro%-KNxVa(#k0vd@A<tG>3)>KkztUL_1kA1v=>5u5tT+DP(sGg%BhI4{iIzC6ig^HfKdZROG?=p!{VZ'',
   ''izeR<H;lkLq9Tc-duN>_RR1IOh;x6DUNn5Ha9Da^>m-ts`%WD;?M2owyNq;-*sm3=k`^W;uOcCst4+P'',
   ''iXSa5fjDk-76(+0-igBK#>yE9g*s+)gowD$E;Qe&0yvk4#xtA(JTR&wiC!vke3JO09EuUs<u+-7kt*q'',
   ''W>4Zd~D!Oc0H5;eWUN#SG<9$l|g|RKATQ*>On(1cy$&P8#Nl;Z!eu!RVf*qpgKZ0WQN)wV86ni5KPnZ'',
   ''`#ZSAtz(XL8eHmr6Cbt%JCL*fTp4mKBO^hf~>j`Uj_FuDe9>N?sKIMwpRM`D#qHQ^ykZ?cZK;pEdYjM'',
   ''*DnO|VOE%b0G0gJnUk;8C)<PgRZ-m-NmLnk=dr0pEU$CD?e&^JB!f{dHgbx3#GAti`i)l6)dSy|4Rw9'',
   ''uc?E+gtvaVwL;{n?lwT4!4a?mc`VvUdIbKP|}a?+lh-&Yw?M8oN6#J>=R;dlHnZmpZjd|XM@Xd*vDSt'',
   ''<ilO}ns;?$SE;Yuo7c=-F=DZql{&ib?1h$H!m29oR7RVJxk+=uV}+e*;4pt49pGkA>8OfsnD%k=4v&f'',
   ''f+8xvFNOE>79bFSR+TGY(ob8Y6sw3UazE6l_sRKv%L~rBf@<KV3q>i6SXYd%^`El&+xvIS-P7WAC&V}'',
   ''I<&UhakUR`afvCs1_iwISP;B3*!tu3iki{@Q4D0JGx_V345&Unkp(NtRG)N~I+>6^+`rIFWhHtF@i(b'',
   ''o;@lEjIbIHwIqwz*5^;+}z|?yI5FN=T3bhz{X6Hrwu$&e0XenU=)48Xhx8s^N%5j=;zom*-YVh<CD$D'',
   ''DL$%Pp{G5D(q*2ydRL)R!n}#@^&-wuhrf%r0;PC=B7QWst)m%3!@q$FI^=;0Yj<Jqb#o4<boqf5)uMO'',
   ''tBsBc2~|zFQ7x{lu1QJ&Wn#c23X&}PKg403*Da&|5CiRqGW~g+v=vwDeZaEyDeF-rb)!-b6MDX$Wsz5'',
   ''rlALbc;dX?m_yEJbv4LptU>ijv7)5YFCtEJ)RL2Esa6ucv1+H~m&<R{XEPxMoiwc8h@T<5z*~hl-)0^'',
   ''H|_iv26qxepgoHBe|<`^13fhAac%0zQT`G68|Kqpa*t%$n#1aa`;aH-T1gyvQ%tjpHIS~#MS!ulN&m('',
   ''g7mR)b=y5<*3%#)>IXK5=^-&IKrNwB$k?U!bz23$umgX<@orh6}TeC0>|rmH{yREMekRZ3z^nyTwzOJ'',
   ''uQz3^9jqN!qiyW3)9EaN|>E2O@$d?u@h#n<>m-rsN)4X%g@-GQV?OeD9izt?}Qm^IWEk2%Ryldwd@w='']"

lemma DATA_16_scan: "scan_lines (Some T0) DATA_16 = Some T0"
  unfolding DATA_16_def
  by (simp only: scan_rules cong: if_weak_cong scan_lines_cong)

lemma DATA_17_scan: "scan_lines (Some T0) DATA_17 = Some T0"
  unfolding DATA_17_def
  by (simp only: scan_rules cong: if_weak_cong scan_lines_cong)

lemma DATA_18_scan: "scan_lines (Some T0) DATA_18 = Some T0"
  unfolding DATA_18_def
  by (simp only: scan_rules cong: if_weak_cong scan_lines_cong)

lemma DATA_19_scan: "scan_lines (Some T0) DATA_19 = Some T0"
  unfolding DATA_19_def
  by (simp only: scan_rules cong: if_weak_cong scan_lines_cong)

end
