(* ===== verification/Pip_Archive.thy ===== *)
theory Pip_Archive
  imports Pip_Data_1 Pip_Data_2 Pip_Data_3 Pip_Data_4 Pip_Data_5
begin

text \<open>
  The first 3000 lines of the literal \<^verbatim>\<open>DATA\<close> of \<^verbatim>\<open>get-pip.py\<close>, assembled from their parts. The
  rest of the literal is a parameter of the statement.
\<close>

definition DATA_lines :: "string list" where
  "DATA_lines =
     DATA_0 @ DATA_1 @ DATA_2 @ DATA_3 @ DATA_4 @ DATA_5 @ DATA_6 @ DATA_7 @ DATA_8 @ DATA_9 @
     DATA_10 @ DATA_11 @ DATA_12 @ DATA_13 @ DATA_14 @ DATA_15 @ DATA_16 @ DATA_17 @ DATA_18 @ DATA_19"

lemma scan_lines_append:
  "scan_lines s ls = Some T0 \<Longrightarrow> scan_lines s (ls @ ls') = scan_lines (Some T0) ls'"
proof (induction s ls rule: scan_lines.induct)
  case (2 l ls)
  then show ?case by simp
qed simp_all

lemma DATA_lines_scan: "scan_lines (Some T0) DATA_lines = Some T0"
  unfolding DATA_lines_def
  by (simp only: scan_lines_append DATA_0_scan DATA_1_scan DATA_2_scan DATA_3_scan DATA_4_scan DATA_5_scan
      DATA_6_scan DATA_7_scan DATA_8_scan DATA_9_scan DATA_10_scan DATA_11_scan DATA_12_scan DATA_13_scan
      DATA_14_scan DATA_15_scan DATA_16_scan DATA_17_scan DATA_18_scan DATA_19_scan)

lemma DATA_start: "\<exists>rest. concat DATA_lines = ''P)h>@'' @ rest"
  unfolding DATA_lines_def DATA_0_def by (simp only: append_Cons append_Nil concat.simps) blast

lemma b85decode_first_chunk:
  assumes "length k = 5" "b85decode (k @ s) = Inr r" "5 dvd length (k @ s)"
  shows "\<exists>x y. decode_chunk 0 k = Inr x \<and> r = x @ y"
proof -
  have "padding (k @ s) = 0" "padded (k @ s) = k @ s"
    using padding_0 [OF assms(3)] by (simp_all add: padded_def)
  then have "decode_blocks 0 (blocks 5 (k @ s)) = Inr r"
    using assms(2) by (auto simp: b85decode_blocks bind_res_eq_Inr)
  then show ?thesis
    using assms(1) by (auto simp: blocks_Cons_block bind_res_eq_Inr)
qed



end
