(* ===== verification/Spec2Isabelle.thy ===== *)
theory Spec2Isabelle
  imports Gateway Bignum_Check Hex_Image Pip_Bootstrap Pip_Archive
begin

text \<open>
  A verification of the Python programs in the EPOS repository: the gateway between a wireless sensor network
  and the web (\<^verbatim>\<open>tools/eposiotgw\<close>), the installer that comes with it (\<^verbatim>\<open>get-pip.py\<close>), the checker of
  the big-number test (\<^verbatim>\<open>tools/epossectst\<close>) and the programmer of the EPOSMote III
  (\<^verbatim>\<open>tools/eposflash/eposflash-emote3\<close>).

  \<^bold>\<open>The language.\<close> \<open>Py_Prelude\<close> has the exceptions as values of a sum type, slices, indexing and \<^verbatim>\<open>range\<close>;
  \<open>Py_Text\<close> has \<^verbatim>\<open>int(s, base)\<close>, \<^verbatim>\<open>hex\<close>, \<^verbatim>\<open>str\<close>, formatting, \<^verbatim>\<open>split\<close>, \<^verbatim>\<open>join\<close> and \<^verbatim>\<open>find\<close>;
  \<open>Py_Struct\<close> has \<^verbatim>\<open>struct.pack\<close> and \<^verbatim>\<open>int.from_bytes\<close>; \<open>Py_Utf8\<close> has encoding and decoding in UTF-8, with their round
  trip; \<open>Hex_Text\<close> has the lemmas on pairs of hexadecimal digits; \<open>Py_Float\<close> has \<^verbatim>\<open>float(s)\<close> as a binary64 value
  rounded half to even; \<open>Py_Json\<close> has \<^verbatim>\<open>json.loads\<close> by recursive descent, with fuel equal to the length of
  the text plus one, which a lemma shows to be enough. Integers are unbounded, as in Python; a text is a list of characters
  below 256. The behaviour is that of CPython 3.6 and 3.7 (underscores in numbers, no negative
  exponents for a three-argument \<^verbatim>\<open>pow\<close>).

  \<^bold>\<open>Interfaces.\<close> The locale \<open>cancelling_checksum\<close> in \<open>Checksum\<close> states what a check byte promises;
  \<open>Modbus\<close> and \<open>Emote3_Records\<close> interpret it on the three checksum expressions of the programs. The locale
  \<open>guarded_system\<close> in \<open>Guarded_System\<close> states what a lock promises; \<open>Mote\<close> interprets it on the steps of the
  class \<^verbatim>\<open>Mote\<close>.

  \<^bold>\<open>The gateway.\<close> \<open>Modbus\<close> models \<^verbatim>\<open>gateway_daemon/modbus\<close> (\<open>parse\<close>, \<open>build\<close>, \<open>chunks\<close> and the package's
  tests). Shown: the frames that \<open>build\<close> makes, what \<open>parse\<close> accepts and returns, exactly which exceptions it raises,
  that it detects a changed byte, and the outcome of the package's tests. \<open>Serial_Client\<close> models \<^verbatim>\<open>serial.py\<close>, from a line
  of the port to a data point, with the loop of the thread and the exceptions that end it: line ends, the data point that a line is meant to
  become, and that nothing is ever posted because of a misspelt method. \<open>Http_Server\<close> models \<^verbatim>\<open>http.py\<close>, from
  the parameters of a request to frames, and the server around the handler: names, values and the order and partial effect of the handler,
  with a port that may fail at any message. \<open>Mote\<close> models \<^verbatim>\<open>mote/__init__.py\<close> as a state
  machine over any number of threads, one step per statement that touches the lock, the port or the clock: mutual exclusion,
  spacing of the writes, progress, and that an exception of the port in \<^verbatim>\<open>put\<close> or in the constructor leaves the
  lock taken for ever. \<open>Gateway\<close> has the threads of \<^verbatim>\<open>__main__.py\<close> and the composition: the messages of the
  server's requests reach the port, and what the reading side makes of them.

  \<^bold>\<open>The tools.\<close> \<open>Bignum_Check\<close> models \<^verbatim>\<open>eposbignumtst.py\<close>: reading numbers, the
  expected results (for division by Fermat's little theorem), the count of errors over a whole output file, the report, and that it ends on every file with a digit size other
  than zero. Four theories are about \<^verbatim>\<open>eposflash-emote3\<close>: \<open>Emote3_Records\<close> has \<^verbatim>\<open>hex_to_msg\<close> and the checksums, \<open>Intel_Hex\<close>
  shows what well-formed, short and damaged records become, and \<open>Emote3_Flash\<close> has the script around it: the wait for the device, the text of option
  \<^verbatim>\<open>-s\<close>, the handshake and resending until the echo, with the exceptions of the port on the way, and a
  line that raises, after which the mote is left half programmed. \<open>Hex_Image\<close> relates the whole run to the file format: for a file of whole words that lie one
  behind the other above address 0, the write messages never name a byte that the file does not have, and those of a
  finished run name exactly the memory image of the file. What the boot loader of the mote does with a message is not in the repository.
  Loops that wait for the port consume a list of what successive reads return; not having returned is a
  value of its own, and completion is shown for every stream that answers at last.

  \<^bold>\<open>The installer.\<close> \<open>Get_Pip\<close> models the base-85 decoder of \<^verbatim>\<open>get-pip.py\<close>: when it succeeds, its two errors
  with their positions; \<open>Base85\<close> shows that it inverts base-85 encoding for every length. \<open>Pip_Bootstrap\<close> models the rest of
  the script, with the operating system and pip as a record of answers: the arguments of pip, the order of the steps
  and the removal of the temporary directory on every path. The file also holds an encoded archive in
  the literal \<^verbatim>\<open>DATA\<close>, 17585 lines. \<open>Pip_Data_1\<close> to \<open>Pip_Data_5\<close> transcribe its first 3000 lines (lines 170 to
  3169), and \<open>Pip_Archive\<close> shows with the scanner of \<open>Pip_Scan\<close> that they decode without an error and start like a
  zip file; the remaining lines are a parameter of that statement. These definitions are data: they say
  nothing about the packages in the archive, and the bytes are not unpacked.

  \<^bold>\<open>Parameters.\<close> The HTTP client is the argument \<open>http_post\<close>, the attributes of Python's \<^verbatim>\<open>int\<close> are the argument \<open>attr\<close>
  (instantiated by \<open>int_methods\<close>), the serial port, the clock and the scheduler of \<open>Mote\<close> are events, the port of the handler is
  the record \<open>port\<close>, listening and the arriving requests are arguments of \<open>run_server\<close>, the operating system and pip are fields of the record
  \<open>host\<close>, and what the programmer finds (options, files, device) is the record \<open>flash_host\<close>.

  \<^bold>\<open>Not modelled.\<close> \<^verbatim>\<open>setup.py\<close> (a declaration for setuptools), \<^verbatim>\<open>wsn.py\<close> and the package's \<^verbatim>\<open>__init__.py\<close> (empty),
  the parsing of options by \<^verbatim>\<open>argparse\<close>, output on the terminal except
  the failure report of the checker, the choice between the standard library's \<^verbatim>\<open>b85decode\<close> and the script's own, the lines
  of \<^verbatim>\<open>DATA\<close> after 3169, and the operating system itself (C++).
\<close>

end
